(* ===== verification/Prelude.thy ===== *)
theory Prelude
  imports Complex_Main "HOL-Library.Word"
begin

text \<open>
  Shared vocabulary of the development.  Texts of the program (Go strings and JavaScript
  strings) are \<open>string\<close>s holding their UTF-8 bytes; binary buffers are lists of \<open>8 word\<close>.
  The theory also defines the operations of the two standard libraries which several
  components use (prefix and substring tests, splitting, case folding, decimal printing
  and reading, JSON values, instants and durations) with the lemmas about them.
\<close>

named_theorems text_simps \<open>evaluation rules for the text operations\<close>
named_theorems guard_simps \<open>definitions of guards and small predicates\<close>

section \<open>Bytes and texts\<close>

type_synonym byte = "8 word"
type_synonym bytes = "byte list"

definition str_bytes :: "string \<Rightarrow> bytes" where
  "str_bytes s = map of_char s"

definition bytes_str :: "bytes \<Rightarrow> string" where
  "bytes_str bs = map (\<lambda>b. char_of (uint b)) bs"

lemma uint_of_char [simp]: "uint (of_char c :: byte) = of_char c"
proof -
  have "uint (of_char c :: byte) = uint (of_int (of_char c) :: byte)"
    by (simp only: of_int_of_char)
  also have "\<dots> = of_char c mod 2 ^ 8"
    by (simp only: uint_word_of_int) simp
  also have "\<dots> = of_char c"
    by simp
  finally show ?thesis .
qed

lemma bytes_str_inverse [simp]: "bytes_str (str_bytes s) = s"
  by (simp add: bytes_str_def str_bytes_def comp_def)

lemma str_bytes_inject [simp]: "str_bytes s = str_bytes t \<longleftrightarrow> s = t"
  by (metis bytes_str_inverse)

lemma length_str_bytes [simp]: "length (str_bytes s) = length s"
  by (simp add: str_bytes_def)

lemma uint_byte [simp]: "0 \<le> uint (b :: byte)" "uint (b :: byte) < 256"
  using uint_lt2p [of b] by simp_all

section \<open>Text operations\<close>

text \<open>\<open>strings.HasPrefix\<close> of Go, \<open>startsWith\<close> of JavaScript.\<close>

fun starts_with :: "string \<Rightarrow> string \<Rightarrow> bool" where
  "starts_with s [] = True"
| "starts_with [] (p # ps) = False"
| "starts_with (c # s) (p # ps) = (c = p \<and> starts_with s ps)"

text \<open>\<open>str_includes\<close> of JavaScript.\<close>

fun str_includes :: "string \<Rightarrow> string \<Rightarrow> bool" where
  "str_includes [] p = (p = [])"
| "str_includes (c # s) p = (starts_with (c # s) p \<or> str_includes s p)"

text \<open>\<open>strings.Index\<close> of Go (\<open>None\<close> for \<open>-1\<close>).\<close>

fun index_of :: "string \<Rightarrow> string \<Rightarrow> nat option" where
  "index_of [] p = (if p = [] then Some 0 else None)"
| "index_of (c # s) p =
     (if starts_with (c # s) p then Some 0 else map_option Suc (index_of s p))"

text \<open>\<open>strings.Split\<close> and \<open>split\<close> with a one-character separator.\<close>

fun split_on :: "char \<Rightarrow> string \<Rightarrow> string list" where
  "split_on d [] = [[]]"
| "split_on d (c # s) =
     (if c = d then [] # split_on d s
      else (case split_on d s of [] \<Rightarrow> [[c]] | w # ws \<Rightarrow> (c # w) # ws))"

text \<open>\<open>toUpperCase\<close> on the ASCII letters; every other byte is kept.\<close>

definition upper_char :: "char \<Rightarrow> char" where
  "upper_char c = (let n = of_char c :: nat in
     if 97 \<le> n \<and> n \<le> 122 then char_of (n - 32) else c)"

definition lower_char :: "char \<Rightarrow> char" where
  "lower_char c = (let n = of_char c :: nat in
     if 65 \<le> n \<and> n \<le> 90 then char_of (n + 32) else c)"

definition to_upper :: "string \<Rightarrow> string" where
  "to_upper s = map upper_char s"

text \<open>
  \<open>strings.EqualFold\<close>: simple case folding.  The ASCII letters fold to lower case, and the
  two other characters whose folding is an ASCII letter do too: the Kelvin sign (UTF-8
  \<open>E2 84 AA\<close>) folds to \<open>k\<close> and the long s (\<open>C5 BF\<close>) to \<open>s\<close>.  Foldings between two
  non-ASCII characters are not modelled; the code compares with ASCII texts.
\<close>

fun fold_case :: "string \<Rightarrow> string" where
  "fold_case [] = []"
| "fold_case (c # s) =
     (if starts_with (c # s) [CHR 0xE2, CHR 0x84, CHR 0xAA] then CHR ''k'' # fold_case (drop 2 s)
      else if starts_with (c # s) [CHR 0xC5, CHR 0xBF] then CHR ''s'' # fold_case (drop 1 s)
      else lower_char c # fold_case s)"

definition equal_fold :: "string \<Rightarrow> string \<Rightarrow> bool" where
  "equal_fold s t = (fold_case s = fold_case t)"

text \<open>\<open>trim\<close> of JavaScript and \<open>strings.TrimSpace\<close> of Go on the ASCII white space.\<close>

definition is_space :: "char \<Rightarrow> bool" where
  "is_space c = (c \<in> {CHR 0x20, CHR 0x09, CHR 0x0A, CHR 0x0B, CHR 0x0C, CHR 0x0D})"

definition trim :: "string \<Rightarrow> string" where
  "trim s = rev (dropWhile is_space (rev (dropWhile is_space s)))"

lemma trim_Cons: "\<not> is_space c \<Longrightarrow> trim (c # s) = c # rev (dropWhile is_space (rev s))"
  by (simp add: trim_def dropWhile_append3)

lemma starts_with_append [simp]: "starts_with (p @ s) p"
  by (induction p) auto

lemma starts_with_iff: "starts_with s p \<longleftrightarrow> (\<exists>t. s = p @ t)"
  by (induction s p rule: starts_with.induct) auto

lemma starts_with_append_iff [simp]: "starts_with (p @ s) (p @ q) = starts_with s q"
  by (induction p) auto

lemma includes_empty [simp]: "str_includes s []"
  by (cases s) auto

lemma includes_iff: "str_includes s p \<longleftrightarrow> (\<exists>a b. s = a @ p @ b)"
proof (induction s p rule: str_includes.induct)
  case (1 p)
  then show ?case by auto
next
  case (2 c s p)
  show ?case
  proof
    assume "str_includes (c # s) p"
    then consider "starts_with (c # s) p" | "str_includes s p" by auto
    then show "\<exists>a b. c # s = a @ p @ b"
    proof cases
      case 1
      then show ?thesis by (metis append_Nil starts_with_iff)
    next
      case 2
      with "2.IH" show ?thesis by (metis append_Cons)
    qed
  next
    assume "\<exists>a b. c # s = a @ p @ b"
    then obtain a b where ab: "c # s = a @ p @ b" by blast
    show "str_includes (c # s) p"
    proof (cases a)
      case Nil
      with ab show ?thesis by (metis append_Nil str_includes.simps(2) starts_with_iff)
    next
      case (Cons x xs)
      with ab "2.IH" show ?thesis by auto
    qed
  qed
qed

lemma includes_append_left: "str_includes s p \<Longrightarrow> str_includes (a @ s) p"
  by (metis append.assoc includes_iff)

lemma includes_append_right: "str_includes s p \<Longrightarrow> str_includes (s @ b) p"
  by (metis append.assoc includes_iff)

lemma split_on_nonempty [simp]: "split_on d s \<noteq> []"
  by (cases s) (auto split: list.splits)

lemma split_on_absent: "d \<notin> set s \<Longrightarrow> split_on d s = [s]"
  by (induction s) auto

lemma split_on_line: "d \<notin> set w \<Longrightarrow> split_on d (w @ d # s) = w # split_on d s"
  by (induction w) auto

lemma equal_fold_refl [simp]: "equal_fold s s"
  by (simp add: equal_fold_def)

lemma equal_fold_sym: "equal_fold s t \<longleftrightarrow> equal_fold t s"
  by (auto simp: equal_fold_def)

section \<open>Decimal numbers\<close>

definition digit_char :: "nat \<Rightarrow> char" where
  "digit_char d = char_of (48 + d)"

definition is_digit :: "char \<Rightarrow> bool" where
  "is_digit c = (48 \<le> (of_char c :: nat) \<and> (of_char c :: nat) \<le> 57)"

definition digit_val :: "char \<Rightarrow> nat" where
  "digit_val c = of_char c - 48"

fun show_nat :: "nat \<Rightarrow> string" where
  "show_nat n = (if n < 10 then [digit_char n] else show_nat (n div 10) @ [digit_char (n mod 10)])"

declare show_nat.simps [simp del]

text \<open>\<open>%d\<close> of Go's fmt and the printing of integers by JavaScript.\<close>

definition show_int :: "int \<Rightarrow> string" where
  "show_int i = (if i < 0 then CHR ''-'' # show_nat (nat (- i)) else show_nat (nat i))"

text \<open>The value of a run of digits, as \<open>parseInt\<close> with radix 10 and \<open>Sscanf\<close> read it.\<close>

definition read_nat :: "string \<Rightarrow> nat" where
  "read_nat ds = foldl (\<lambda>n c. n * 10 + digit_val c) 0 ds"

lemma digit_char_facts:
  assumes "d < 10"
  shows "is_digit (digit_char d)" "digit_val (digit_char d) = d"
proof -
  have "of_char (digit_char d) = (48 + d) mod (256 :: nat)"
    by (simp only: digit_char_def of_char_of)
  also have "\<dots> = 48 + d" using assms by simp
  finally have "(of_char (digit_char d) :: nat) = 48 + d" .
  then show "is_digit (digit_char d)" "digit_val (digit_char d) = d"
    using assms by (simp_all add: is_digit_def digit_val_def)
qed

lemma show_nat_digits: "\<forall>c \<in> set (show_nat n). is_digit c"
proof (induction n rule: show_nat.induct)
  case (1 n)
  then show ?case
    by (cases "n < 10") (auto simp: show_nat.simps [of n] digit_char_facts)
qed

lemma show_nat_nonempty [simp]: "show_nat n \<noteq> []"
  by (simp add: show_nat.simps [of n])

lemma read_show_nat [simp]: "read_nat (show_nat n) = n"
proof (induction n rule: show_nat.induct)
  case (1 n)
  then show ?case
    by (cases "n < 10")
       (auto simp: show_nat.simps [of n] read_nat_def digit_char_facts)
qed

lemma show_nat_inject [simp]: "show_nat m = show_nat n \<longleftrightarrow> m = n"
  by (metis read_show_nat)

lemma not_digit [simp]:
  "\<not> is_digit CHR 0x0A" "\<not> is_digit CHR ''\"''" "\<not> is_digit CHR '':''" "\<not> is_digit CHR ''-''"
  by (simp_all add: is_digit_def)

lemma show_nat_no:
  "\<not> is_digit c \<Longrightarrow> c \<notin> set (show_nat n)"
  using show_nat_digits [of n] by blast

section \<open>JSON values\<close>

text \<open>
  Decoded JSON documents.  Numbers are exact rationals; an object is the list of its members
  in order, looked up with the last one winning, as both \<open>encoding/json\<close> and \<open>JSON.parse\<close> do.
\<close>

datatype json =
    JNull
  | JBool bool
  | JNum rat
  | JStr string
  | JArr "json list"
  | JObj "(string \<times> json) list"

definition member :: "(string \<times> json) list \<Rightarrow> string \<Rightarrow> json option" where
  "member ms k = map_of (rev ms) k"

text \<open>Go's \<open>s, _ := v.(string)\<close> on a map entry: the empty text unless a text is there.\<close>

definition str_of :: "json option \<Rightarrow> string" where
  "str_of v = (case v of Some (JStr s) \<Rightarrow> s | _ \<Rightarrow> [])"

lemma str_of_simps [simp]:
  "str_of None = []" "str_of (Some (JStr s)) = s" "str_of (Some JNull) = []"
  "str_of (Some (JNum q)) = []" "str_of (Some (JBool b)) = []"
  "str_of (Some (JArr xs)) = []" "str_of (Some (JObj ms)) = []"
  by (simp_all add: str_of_def)

section \<open>Instants, durations, error results\<close>

text \<open>
  Instants are nanoseconds since the epoch, durations nanoseconds; Go's \<open>time.Since\<close> saturates
  at the ends of 64 bits, which no comparison made by the program can observe.
\<close>

type_synonym instant = int
type_synonym duration = int

definition second :: duration where "second = 1000000000"
definition minute :: duration where "minute = 60 * second"

definition unix :: "int \<Rightarrow> instant" where
  "unix s = s * second"

text \<open>Go's conversion \<open>int64(f)\<close> of a float truncates towards zero.\<close>

definition trunc_rat :: "rat \<Rightarrow> int" where
  "trunc_rat q = (if q < 0 then - \<lfloor>- q\<rfloor> else \<lfloor>q\<rfloor>)"

lemma trunc_rat_of_int [simp]: "trunc_rat (of_int i) = i"
  by (simp add: trunc_rat_def)

lemma second_pos [simp]: "0 < second"
  by (simp add: second_def)

section \<open>HTTP status codes\<close>

abbreviation "StatusOK \<equiv> (200 :: nat)"
abbreviation "StatusCreated \<equiv> (201 :: nat)"
abbreviation "StatusFound \<equiv> (302 :: nat)"
abbreviation "StatusBadRequest \<equiv> (400 :: nat)"
abbreviation "StatusUnauthorized \<equiv> (401 :: nat)"
abbreviation "StatusForbidden \<equiv> (403 :: nat)"
abbreviation "StatusMethodNotAllowed \<equiv> (405 :: nat)"
abbreviation "StatusInternalServerError \<equiv> (500 :: nat)"
abbreviation "StatusServiceUnavailable \<equiv> (503 :: nat)"

end
