(* ===== verification/Sha256.thy ===== *)
theory Sha256
  imports Prelude
begin

text \<open>
  SHA-256 (FIPS 180-4), the hash of Go's \<open>crypto/sha256\<close> and of Node's
  \<open>createHash("sha256")\<close>, on 32-bit words.  The digest is always 32 bytes.
\<close>

unbundle bit_operations_syntax

type_synonym u32 = "32 word"

definition sha_K :: "u32 list" where
  "sha_K = [
  1116352408, 1899447441, 3049323471, 3921009573, 961987163, 1508970993, 2453635748, 2870763221,
  3624381080, 310598401, 607225278, 1426881987, 1925078388, 2162078206, 2614888103, 3248222580,
  3835390401, 4022224774, 264347078, 604807628, 770255983, 1249150122, 1555081692, 1996064986,
  2554220882, 2821834349, 2952996808, 3210313671, 3336571891, 3584528711, 113926993, 338241895,
  666307205, 773529912, 1294757372, 1396182291, 1695183700, 1986661051, 2177026350, 2456956037,
  2730485921, 2820302411, 3259730800, 3345764771, 3516065817, 3600352804, 4094571909, 275423344,
  430227734, 506948616, 659060556, 883997877, 958139571, 1322822218, 1537002063, 1747873779,
  1955562222, 2024104815, 2227730452, 2361852424, 2428436474, 2756734187, 3204031479, 3329325298]"

type_synonym sha_state = "u32 \<times> u32 \<times> u32 \<times> u32 \<times> u32 \<times> u32 \<times> u32 \<times> u32"

definition sha_H0 :: sha_state where
  "sha_H0 = (1779033703, 3144134277, 1013904242, 2773480762, 1359893119, 2600822924, 528734635, 1541459225)"

definition sha_s0 :: "u32 \<Rightarrow> u32" where
  "sha_s0 x = word_rotr 7 x XOR word_rotr 18 x XOR drop_bit 3 x"
definition sha_s1 :: "u32 \<Rightarrow> u32" where
  "sha_s1 x = word_rotr 17 x XOR word_rotr 19 x XOR drop_bit 10 x"
definition sha_S0 :: "u32 \<Rightarrow> u32" where
  "sha_S0 x = word_rotr 2 x XOR word_rotr 13 x XOR word_rotr 22 x"
definition sha_S1 :: "u32 \<Rightarrow> u32" where
  "sha_S1 x = word_rotr 6 x XOR word_rotr 11 x XOR word_rotr 25 x"
definition sha_ch :: "u32 \<Rightarrow> u32 \<Rightarrow> u32 \<Rightarrow> u32" where
  "sha_ch x y z = (x AND y) XOR (NOT x AND z)"
definition sha_maj :: "u32 \<Rightarrow> u32 \<Rightarrow> u32 \<Rightarrow> u32" where
  "sha_maj x y z = (x AND y) XOR (x AND z) XOR (y AND z)"

text \<open>The message schedule is kept newest word first, so that word \<open>t - k\<close> is entry \<open>k - 1\<close>.\<close>

fun sha_extend :: "nat \<Rightarrow> u32 list \<Rightarrow> u32 list" where
  "sha_extend 0 ws = ws"
| "sha_extend (Suc n) ws =
     sha_extend n ((sha_s1 (ws ! 1) + ws ! 6 + sha_s0 (ws ! 14) + ws ! 15) # ws)"

fun sha_round :: "sha_state \<Rightarrow> (u32 \<times> u32) \<Rightarrow> sha_state" where
  "sha_round (a, b, c, d, e, f, g, h) (k, w) =
     (let t1 = h + sha_S1 e + sha_ch e f g + k + w;
          t2 = sha_S0 a + sha_maj a b c
      in (t1 + t2, a, b, c, d + t1, e, f, g))"

fun sha_add :: "sha_state \<Rightarrow> sha_state \<Rightarrow> sha_state" where
  "sha_add (a, b, c, d, e, f, g, h) (a', b', c', d', e', f', g', h') =
     (a + a', b + b', c + c', d + d', e + e', f + f', g + g', h + h')"

fun be_words :: "bytes \<Rightarrow> u32 list" where
  "be_words (a # b # c # d # r) =
     (push_bit 24 (ucast a) OR push_bit 16 (ucast b) OR push_bit 8 (ucast c) OR ucast d) # be_words r"
| "be_words _ = []"

definition sha_block :: "sha_state \<Rightarrow> bytes \<Rightarrow> sha_state" where
  "sha_block H blk =
     sha_add H (foldl sha_round H (zip sha_K (rev (sha_extend 48 (rev (be_words blk))))))"

function sha_blocks :: "sha_state \<Rightarrow> bytes \<Rightarrow> sha_state" where
  "sha_blocks H m = (if m = [] then H else sha_blocks (sha_block H (take 64 m)) (drop 64 m))"
  by pat_completeness auto
termination
  by (relation "measure (\<lambda>(H, m). length m)") auto

declare sha_blocks.simps [simp del]

definition word_bytes :: "u32 \<Rightarrow> bytes" where
  "word_bytes w = [ucast (drop_bit 24 w), ucast (drop_bit 16 w), ucast (drop_bit 8 w), ucast w]"

fun sha_bytes :: "sha_state \<Rightarrow> bytes" where
  "sha_bytes (a, b, c, d, e, f, g, h) = concat (map word_bytes [a, b, c, d, e, f, g, h])"

text \<open>The \<open>k\<close> low bytes of an integer, most significant byte first.\<close>

fun be_bytes :: "nat \<Rightarrow> int \<Rightarrow> bytes" where
  "be_bytes 0 n = []"
| "be_bytes (Suc k) n = be_bytes k (n div 256) @ [word_of_int n]"

definition sha_pad :: "bytes \<Rightarrow> bytes" where
  "sha_pad m = m @ [0x80] @ replicate ((119 - length m mod 64) mod 64) 0 @ be_bytes 8 (8 * int (length m))"

definition sha256 :: "bytes \<Rightarrow> bytes" where
  "sha256 m = sha_bytes (sha_blocks sha_H0 (sha_pad m))"

lemma length_sha256 [simp]: "length (sha256 m) = 32"
  by (cases "sha_blocks sha_H0 (sha_pad m)" rule: sha_bytes.cases)
     (simp add: sha256_def word_bytes_def)

lemma length_be_bytes [simp]: "length (be_bytes k n) = k"
  by (induction k arbitrary: n) auto

lemma length_sha_pad: "64 dvd length (sha_pad m)"
proof -
  define k where "k = length m mod 64"
  have k: "k < 64" and m: "length m = 64 * (length m div 64) + k"
    by (simp_all add: k_def)
  have "k + 9 + (119 - k) mod 64 = (if k \<le> 55 then 64 else 128)"
    using k by (cases "k \<le> 55") (auto simp: mod_if [of "119 - k"])
  then have "length (sha_pad m) = 64 * (length m div 64) + (if k \<le> 55 then 64 else 128)"
    using m by (simp add: sha_pad_def k_def [symmetric])
  then show ?thesis by (simp split: if_splits)
qed

end
