(* ===== verification/Encoding.thy ===== *)
theory Encoding
  imports Sha256
begin

text \<open>
  The text encodings both sides of the system share: unpadded base64url
  (\<open>base64.RawURLEncoding\<close> in Go, \<open>toString("base64url")\<close> in Node), lower-case hexadecimal,
  and fixed-width big-endian integers (\<open>big.Int\<close> and its \<open>Bytes\<close>, with the padding to 32
  bytes the code writes by hand).  The interface \<open>codec\<close> states what an encoder and its
  decoder promise; it is interpreted for base64url and for P-256 coordinates.
\<close>

section \<open>What an encoder promises\<close>

locale codec =
  fixes ok :: "'a \<Rightarrow> bool"
    and enc :: "'a \<Rightarrow> 'b"
    and dec :: "'b \<Rightarrow> 'a option"
  assumes dec_enc: "ok x \<Longrightarrow> dec (enc x) = Some x"
begin

lemma enc_inject: "ok x \<Longrightarrow> ok y \<Longrightarrow> enc x = enc y \<longleftrightarrow> x = y"
  by (metis dec_enc option.inject)

lemma dec_total: "ok x \<Longrightarrow> dec (enc x) \<noteq> None"
  by (simp add: dec_enc)

end

section \<open>Unpadded base64url\<close>

definition b64_char :: "int \<Rightarrow> char" where
  "b64_char v = (if v < 26 then char_of (65 + v) else if v < 52 then char_of (71 + v)
     else if v < 62 then char_of (v - 4) else if v = 62 then CHR ''-'' else CHR ''_'')"

definition b64_val :: "char \<Rightarrow> int option" where
  "b64_val c = (let n = of_char c in
     if 65 \<le> n \<and> n \<le> 90 then Some (n - 65) else if 97 \<le> n \<and> n \<le> 122 then Some (n - 71)
     else if 48 \<le> n \<and> n \<le> 57 then Some (n + 4)
     else if n = 45 then Some 62 else if n = 95 then Some 63 else None)"

fun b64_sextets :: "int list \<Rightarrow> int list" where
  "b64_sextets [] = []"
| "b64_sextets [a] = [a div 4, (a mod 4) * 16]"
| "b64_sextets [a, b] = [a div 4, (a mod 4) * 16 + b div 16, (b mod 16) * 4]"
| "b64_sextets (a # b # c # r) =
     (a div 4) # ((a mod 4) * 16 + b div 16) # ((b mod 16) * 4 + c div 64) # (c mod 64) #
     b64_sextets r"

text \<open>The decoder: a final group of one character is refused; the unused bits of a final
  group of two or three are dropped, as Go's non-strict decoder does.\<close>

fun b64_octets :: "int list \<Rightarrow> int list option" where
  "b64_octets [] = Some []"
| "b64_octets [v] = None"
| "b64_octets [v, w] = Some [v * 4 + w div 16]"
| "b64_octets [v, w, x] = Some [v * 4 + w div 16, (w mod 16) * 16 + x div 4]"
| "b64_octets (v # w # x # y # r) =
     map_option (\<lambda>t. (v * 4 + w div 16) # ((w mod 16) * 16 + x div 4) # ((x mod 4) * 64 + y) # t)
       (b64_octets r)"

definition b64_encode :: "bytes \<Rightarrow> string" where
  "b64_encode bs = map b64_char (b64_sextets (map uint bs))"

text \<open>Go's decoder skips line breaks before it decodes.\<close>

definition b64_decode :: "string \<Rightarrow> bytes option" where
  "b64_decode s =
     (case those (map b64_val (filter (\<lambda>c. c \<noteq> CHR 0x0A \<and> c \<noteq> CHR 0x0D) s)) of
        None \<Rightarrow> None
      | Some vs \<Rightarrow> map_option (map word_of_int) (b64_octets vs))"

lemma b64_char_facts:
  assumes "0 \<le> v" "v < 64"
  shows "b64_val (b64_char v) = Some v" "b64_char v \<noteq> CHR 0x0A" "b64_char v \<noteq> CHR 0x0D"
proof -
  have "\<forall>v \<in> {0..<64::int}. b64_val (b64_char v) = Some v \<and> b64_char v \<noteq> CHR 0x0A \<and> b64_char v \<noteq> CHR 0x0D"
    by code_simp
  then show "b64_val (b64_char v) = Some v" "b64_char v \<noteq> CHR 0x0A" "b64_char v \<noteq> CHR 0x0D"
    using assms by auto
qed

definition octet :: "int \<Rightarrow> bool" where "octet a \<longleftrightarrow> 0 \<le> a \<and> a < 256"
definition sextet :: "int \<Rightarrow> bool" where "sextet a \<longleftrightarrow> 0 \<le> a \<and> a < 64"

lemma b64_sextets_range: "list_all octet as \<Longrightarrow> list_all sextet (b64_sextets as)"
  by (induction "as" rule: b64_sextets.induct) (auto simp: octet_def sextet_def)

lemma b64_octets_sextets: "list_all octet as \<Longrightarrow> b64_octets (b64_sextets as) = Some as"
  by (induction "as" rule: b64_sextets.induct) (auto simp: octet_def)

lemma octets_uint: "list_all octet (map uint (bs :: bytes))"
  by (induction bs) (auto simp: octet_def)

lemma b64_chars_back:
  "list_all sextet vs \<Longrightarrow> those (map b64_val (map b64_char vs)) = Some vs"
  "list_all sextet vs \<Longrightarrow>
     filter (\<lambda>c. c \<noteq> CHR 0x0A \<and> c \<noteq> CHR 0x0D) (map b64_char vs) = map b64_char vs"
  by (induction vs) (auto simp: sextet_def b64_char_facts)

lemma bytes_of_ints: "map word_of_int (map uint bs) = (bs :: bytes)"
  by (induction bs) auto

lemma b64_roundtrip [simp]: "b64_decode (b64_encode bs) = Some bs"
  by (simp add: b64_decode_def b64_encode_def b64_chars_back b64_sextets_range
        b64_octets_sextets octets_uint bytes_of_ints comp_def del: map_map)

interpretation b64: codec "\<lambda>_. True" b64_encode b64_decode
  by unfold_locales simp

lemma b64_encode_inject [simp]: "b64_encode a = b64_encode b \<longleftrightarrow> a = b"
  by (simp add: b64.enc_inject)

lemma length_b64_sextets: "length (b64_sextets as) = (4 * length as + 2) div 3"
  by (induction "as" rule: b64_sextets.induct) auto

lemma length_b64_encode: "length (b64_encode bs) = (4 * length bs + 2) div 3"
  by (simp add: b64_encode_def length_b64_sextets)

lemma b64_encode_empty_iff [simp]: "b64_encode bs = [] \<longleftrightarrow> bs = []"
proof -
  have "b64_encode bs = [] \<longleftrightarrow> b64_encode bs = b64_encode []"
    by (simp add: b64_encode_def)
  then show ?thesis by simp
qed

definition b64_alphabet :: "char \<Rightarrow> bool" where
  "b64_alphabet c \<longleftrightarrow> b64_val c \<noteq> None"

lemma b64_encode_alphabet: "list_all b64_alphabet (b64_encode bs)"
proof -
  have "list_all sextet vs \<Longrightarrow> list_all b64_alphabet (map b64_char vs)" for vs
    by (induction vs) (auto simp: sextet_def b64_alphabet_def b64_char_facts)
  then show ?thesis
    by (simp add: b64_encode_def b64_sextets_range octets_uint)
qed

section \<open>Hexadecimal\<close>

definition hex_char :: "int \<Rightarrow> char" where
  "hex_char v = (if v < 10 then char_of (48 + v) else char_of (87 + v))"

definition hex_encode :: "bytes \<Rightarrow> string" where
  "hex_encode bs = concat (map (\<lambda>b. [hex_char (uint b div 16), hex_char (uint b mod 16)]) bs)"

lemma length_hex_encode [simp]: "length (hex_encode bs) = 2 * length bs"
  by (induction bs) (auto simp: hex_encode_def)

section \<open>Big-endian integers\<close>

text \<open>\<open>big.Int.SetBytes\<close>, and \<open>big.Int.Bytes\<close>, which has no leading zero byte.\<close>

definition be_nat :: "bytes \<Rightarrow> int" where
  "be_nat bs = foldl (\<lambda>n b. n * 256 + uint b) 0 bs"

function min_bytes :: "int \<Rightarrow> bytes" where
  "min_bytes n = (if n \<le> 0 then [] else min_bytes (n div 256) @ [word_of_int n])"
  by pat_completeness auto
termination
  by (relation "measure nat") auto

declare min_bytes.simps [simp del]

text \<open>
  The hand-written padding of a coordinate: \<open>copy(pad[32-len(b):], b)\<close> into 32 zero bytes.
  A longer \<open>b\<close> makes the slice bounds negative, which panics in Go and throws in Node.
\<close>

definition pad32 :: "bytes \<Rightarrow> bytes option" where
  "pad32 b = (if length b \<le> 32 then Some (replicate (32 - length b) 0 @ b) else None)"

lemma be_nat_snoc [simp]: "be_nat (bs @ [b]) = be_nat bs * 256 + uint b"
  by (simp add: be_nat_def)

lemma be_nat_Nil [simp]: "be_nat [] = 0"
  by (simp add: be_nat_def)

lemma be_nat_nonneg [simp]: "0 \<le> be_nat bs"
  by (induction bs rule: rev_induct) auto

lemma be_nat_bound: "be_nat bs < 256 ^ length bs"
proof (induction bs rule: rev_induct)
  case (snoc b bs)
  then have "be_nat bs + 1 \<le> 256 ^ length bs" by simp
  moreover have "uint b < 256" by simp
  ultimately show ?case by (simp del: uint_byte)
qed simp

lemma uint_word_of_int_byte: "uint (word_of_int n :: byte) = n mod 256"
  by (simp add: uint_word_of_int)

lemma be_nat_be_bytes: "0 \<le> n \<Longrightarrow> be_nat (be_bytes k n) = n mod 256 ^ k"
proof (induction k arbitrary: n)
  case (Suc k)
  then have "be_nat (be_bytes k (n div 256)) = (n div 256) mod 256 ^ k"
    by simp
  then show ?case
    by (simp add: uint_word_of_int_byte zmod_zmult2_eq)
qed simp

lemma be_bytes_be_nat: "be_bytes (length bs) (be_nat bs) = bs"
proof (induction bs rule: rev_induct)
  case (snoc b bs)
  have "(be_nat bs * 256 + uint b) div 256 = be_nat bs"
    by (simp add: div_add1_eq)
  moreover have "word_of_int (be_nat bs * 256 + uint b) = b"
    by (rule word_uint_eq_iff [THEN iffD2])
       (simp add: uint_word_of_int_byte del: of_int_add of_int_mult)
  ultimately show ?case using snoc by simp
qed simp

lemma be_bytes_zero: "be_bytes k 0 = replicate k 0"
  by (induction k) (auto simp: replicate_append_same)

lemma length_min_bytes: "n < 256 ^ k \<Longrightarrow> length (min_bytes n) \<le> k"
proof (induction k arbitrary: n)
  case 0
  then show ?case by (simp add: min_bytes.simps [of n])
next
  case (Suc k)
  then have "n div 256 < 256 ^ k" by auto
  with Suc.IH show ?case by (simp add: min_bytes.simps [of n])
qed

lemma pad_min_bytes: "0 \<le> n \<Longrightarrow> n < 256 ^ k \<Longrightarrow> replicate (k - length (min_bytes n)) 0 @ min_bytes n = be_bytes k n"
proof (induction k arbitrary: n)
  case 0
  then show ?case by (simp add: min_bytes.simps [of n])
next
  case (Suc k)
  show ?case
  proof (cases "n = 0")
    case True
    then show ?thesis by (simp add: min_bytes.simps [of 0] be_bytes_zero del: be_bytes.simps)
  next
    case False
    with Suc.prems have "0 \<le> n div 256" "n div 256 < 256 ^ k" by auto
    from Suc.IH [OF this] show ?thesis
      using False Suc.prems by (simp add: min_bytes.simps [of n])
  qed
qed

lemma pad32_min_bytes: "0 \<le> n \<Longrightarrow> n < 256 ^ 32 \<Longrightarrow> pad32 (min_bytes n) = Some (be_bytes 32 n)"
  using length_min_bytes [of n 32] pad_min_bytes [of n 32] by (simp add: pad32_def del: be_bytes.simps)

lemma min_bytes_nonempty: "0 < n \<Longrightarrow> min_bytes n \<noteq> []"
  by (simp add: min_bytes.simps [of n])

lemma be_nat_min_bytes: "0 \<le> n \<Longrightarrow> be_nat (min_bytes n) = n"
proof (induction n rule: min_bytes.induct)
  case (1 n)
  show ?case
  proof (cases "n = 0")
    case True
    then show ?thesis by (simp add: min_bytes.simps [of 0])
  next
    case False
    with "1" show ?thesis
      by (simp add: min_bytes.simps [of n] uint_word_of_int_byte)
  qed
qed

section \<open>P-256 coordinates as texts\<close>

type_synonym point = "int \<times> int"

definition coord_ok :: "int \<Rightarrow> bool" where
  "coord_ok n \<longleftrightarrow> 0 \<le> n \<and> n < 256 ^ 32"

definition coord_enc :: "int \<Rightarrow> string" where
  "coord_enc n = (case pad32 (min_bytes n) of Some b \<Rightarrow> b64_encode b | None \<Rightarrow> [])"

definition coord_dec :: "string \<Rightarrow> int option" where
  "coord_dec s = map_option be_nat (b64_decode s)"

lemma coord_enc_ok: "coord_ok n \<Longrightarrow> coord_enc n = b64_encode (be_bytes 32 n)"
  by (simp add: coord_ok_def coord_enc_def pad32_min_bytes del: be_bytes.simps)

interpretation coord: codec coord_ok coord_enc coord_dec
  by unfold_locales
     (simp add: coord_enc_ok coord_dec_def be_nat_be_bytes coord_ok_def del: be_bytes.simps)

lemma coord_enc_nonempty: "coord_ok n \<Longrightarrow> coord_enc n \<noteq> []"
  by (simp add: coord_enc_ok) (metis length_be_bytes list.size(3) numeral_eq_Suc nat.distinct(1))

end
