(* ===== verification/Web.thy ===== *)
theory Web
  imports Encoding "HOL-Library.Char_ord" "HOL-Library.List_Lexorder"
begin

text \<open>
  What the services use of Go's \<open>net/http\<close>, of \<open>encoding/json\<close> and of the JWT library
  \<^verbatim>\<open>golang-jwt/jwt/v5\<close>.  Requests and responses are records; a response is built by
  setting headers and then writing a status and a body.  The JWT library is not part of the
  repository: it is a parameter (\<open>jwt_lib\<close>), and \<open>jwt_lawful\<close> states its documented contract.
\<close>

section \<open>Requests and responses\<close>

text \<open>A connection, as \<open>GetZitiIdentity\<close> sees it: the result of its \<open>SourceIdentifier\<close> method,
  if its type has that method.\<close>

record conn =
  source_identifier :: "string option"

record request =
  rq_method :: string
  rq_host :: string
  rq_path :: string
  rq_tls :: bool
  rq_remote :: string
  rq_header :: "string \<Rightarrow> string"             \<comment> \<open>\<open>Header.Get\<close>, the empty text if absent\<close>
  rq_query :: "string \<Rightarrow> string"              \<comment> \<open>\<open>URL.Query().Get\<close>\<close>
  rq_form :: "string + (string \<Rightarrow> string)"    \<comment> \<open>\<open>ParseForm\<close>, then \<open>Form.Get\<close>\<close>
  rq_body :: "string + json"
  rq_conn :: "conn option"

datatype body = Text string | Json json

type_synonym headers = "(string \<times> string) list"

record response =
  rs_status :: nat
  rs_headers :: headers
  rs_body :: body

definition set_header :: "string \<Rightarrow> string \<Rightarrow> headers \<Rightarrow> headers" where
  "set_header k v hs = (k, v) # filter (\<lambda>h. fst h \<noteq> k) hs"

definition http_error :: "headers \<Rightarrow> string \<Rightarrow> nat \<Rightarrow> response" where
  "http_error hs msg code = \<lparr>rs_status = code,
     rs_headers = set_header ''X-Content-Type-Options'' ''nosniff''
       (set_header ''Content-Type'' ''text/plain; charset=utf-8'' hs),
     rs_body = Text (msg @ [CHR 0x0A])\<rparr>"

definition write_json :: "headers \<Rightarrow> nat \<Rightarrow> json \<Rightarrow> response" where
  "write_json hs code v = \<lparr>rs_status = code, rs_headers = hs, rs_body = Json v\<rparr>"

lemma response_status [simp]:
  "rs_status (http_error hs msg code) = code" "rs_status (write_json hs code v) = code"
  by (simp_all add: http_error_def write_json_def)

lemma response_body [simp]:
  "rs_body (http_error hs msg code) = Text (msg @ [CHR 0x0A])" "rs_body (write_json hs code v) = Json v"
  by (simp_all add: http_error_def write_json_def)

section \<open>JSON texts of strings and maps\<close>

text \<open>
  \<open>json.Marshal\<close> of a string, with Go's default HTML escaping.  Bytes above the ASCII range
  are copied, which is right for well-formed UTF-8 without the two line separators.
\<close>

definition hex4 :: "char \<Rightarrow> string" where
  "hex4 c = CHR 0x5C # ''u00'' @ [hex_char (of_char c div 16), hex_char (of_char c mod 16)]"

definition json_char :: "char \<Rightarrow> string" where
  "json_char c =
     (if c = CHR 0x22 \<or> c = CHR 0x5C then [CHR 0x5C, c]
      else if c = CHR 0x08 then [CHR 0x5C, CHR ''b''] else if c = CHR 0x0C then [CHR 0x5C, CHR ''f'']
      else if c = CHR 0x0A then [CHR 0x5C, CHR ''n''] else if c = CHR 0x0D then [CHR 0x5C, CHR ''r'']
      else if c = CHR 0x09 then [CHR 0x5C, CHR ''t'']
      else if (of_char c :: nat) < 32 \<or> c = CHR ''<'' \<or> c = CHR ''>'' \<or> c = CHR ''&'' then hex4 c
      else [c])"

definition json_string :: "string \<Rightarrow> string" where
  "json_string s = CHR 0x22 # concat (map json_char s) @ [CHR 0x22]"

lemma b64_alphabet_plain: "b64_alphabet c \<Longrightarrow> json_char c = [c]"
proof -
  assume c: "b64_alphabet c"
  have "\<not> b64_alphabet x" if "x \<in> {CHR 0x22, CHR 0x5C, CHR 0x08, CHR 0x0C, CHR 0x0A, CHR 0x0D, CHR 0x09, CHR ''<'', CHR ''>'', CHR ''&''}" for x
    using that by (auto simp: b64_alphabet_def b64_val_def)
  with c have "c \<notin> {CHR 0x22, CHR 0x5C, CHR 0x08, CHR 0x0C, CHR 0x0A, CHR 0x0D, CHR 0x09, CHR ''<'', CHR ''>'', CHR ''&''}"
    by blast
  moreover have "(45 :: int) \<le> of_char c"
    using c by (simp add: b64_alphabet_def b64_val_def Let_def split: if_splits)
  with of_nat_of_char [of c, where 'a = int] have "\<not> (of_char c :: nat) < 32" by linarith
  ultimately show ?thesis unfolding json_char_def by (simp only: insert_iff empty_iff de_Morgan_disj if_False simp_thms)
qed

lemma json_string_plain: "list_all b64_alphabet s \<Longrightarrow> json_string s = CHR 0x22 # s @ [CHR 0x22]"
  by (induction s) (auto simp: json_string_def b64_alphabet_plain)

text \<open>The entries of a decoded object in the order in which Go marshals a map.\<close>

definition map_entries :: "(string \<times> json) list \<Rightarrow> (string \<times> json) list" where
  "map_entries ms = map (\<lambda>k. (k, the (member ms k))) (sort (remdups (map fst ms)))"

section \<open>JSON Web Tokens\<close>

type_synonym members = "(string \<times> json) list"

record 'c jwt_token =
  tk_alg :: string
  tk_header :: members
  tk_claims :: 'c

text \<open>\<open>Parse\<close> meets the clock, for the expiry of the token, the text, and the caller's key
  function; a public key is a point of the curve.\<close>

type_synonym 'c keyfunc = "'c jwt_token \<Rightarrow> string + point"

record 'c jwt_lib =
  jwt_parse :: "instant \<Rightarrow> string \<Rightarrow> 'c keyfunc \<Rightarrow> string + 'c jwt_token"
  jwt_decode :: "string \<Rightarrow> 'c jwt_token option"
  jwt_verify :: "string \<Rightarrow> point \<Rightarrow> bool"
  jwt_fresh :: "instant \<Rightarrow> 'c \<Rightarrow> bool"

definition jwt_lawful :: "'c jwt_lib \<Rightarrow> bool" where
  "jwt_lawful lib \<longleftrightarrow> (\<forall>now s kf t. jwt_parse lib now s kf = Inr t \<longleftrightarrow>
     jwt_decode lib s = Some t \<and> (\<exists>k. kf t = Inr k \<and> jwt_verify lib s k) \<and> jwt_fresh lib now (tk_claims t))"

lemma jwt_parse_ok:
  assumes "jwt_lawful lib"
  shows "jwt_parse lib now s kf = Inr t \<longleftrightarrow> jwt_decode lib s = Some t \<and>
    (\<exists>k. kf t = Inr k \<and> jwt_verify lib s k) \<and> jwt_fresh lib now (tk_claims t)"
  using assms by (simp add: jwt_lawful_def)

text \<open>A library that keeps the contract, given how it decodes, verifies and checks expiry.\<close>

definition simple_jwt ::
  "(string \<Rightarrow> 'c jwt_token option) \<Rightarrow> (string \<Rightarrow> point \<Rightarrow> bool) \<Rightarrow> (instant \<Rightarrow> 'c \<Rightarrow> bool) \<Rightarrow> 'c jwt_lib" where
  "simple_jwt dec ver fr = \<lparr>jwt_parse = (\<lambda>now s kf. case dec s of
       None \<Rightarrow> Inl ''token is malformed''
     | Some t \<Rightarrow> (case kf t of
         Inl e \<Rightarrow> Inl (''token is unverifiable: error while executing keyfunc: '' @ e)
       | Inr k \<Rightarrow> if \<not> ver s k then Inl ''token signature is invalid''
           else if \<not> fr now (tk_claims t) then Inl ''token has invalid claims: token is expired''
           else Inr t)),
     jwt_decode = dec, jwt_verify = ver, jwt_fresh = fr\<rparr>"

lemma simple_jwt_lawful: "jwt_lawful (simple_jwt dec ver fr)"
  by (auto simp: jwt_lawful_def simple_jwt_def split: option.splits sum.splits)

text \<open>Signing: the header and the claims of a new token, and the signer's key (the private
  scalar together with its public point).\<close>

type_synonym private_key = "int \<times> point"

definition public_key :: "private_key \<Rightarrow> point" where
  "public_key k = snd k"

type_synonym jwt_signer = "members \<Rightarrow> members \<Rightarrow> private_key \<Rightarrow> string + string"

end
