(* ===== verification/Js.thy ===== *)
theory Js
  imports Web
begin

text \<open>
  What the dashboard uses of JavaScript and of \<open>fetch\<close>: requests and responses as the routes
  and the page see them, \<open>JSON.stringify\<close>, property access on decoded JSON, \<open>toFixed\<close>, and
  texts outside ASCII.  Numbers are exact rationals where the program has doubles.
\<close>

section \<open>Texts\<close>

text \<open>The UTF-8 bytes of a code point below \<open>0x10000\<close>.\<close>

definition utf8_char :: "nat \<Rightarrow> string" where
  "utf8_char n =
     (if n < 0x80 then [char_of n]
      else if n < 0x800 then [char_of (0xC0 + n div 64), char_of (0x80 + n mod 64)]
      else [char_of (0xE0 + n div 4096), char_of (0x80 + n div 64 mod 64), char_of (0x80 + n mod 64)])"

definition cps :: "nat list \<Rightarrow> string" where
  "cps ns = concat (map utf8_char ns)"

section \<open>JSON\<close>

definition js_char :: "char \<Rightarrow> string" where
  "js_char c =
     (if c = CHR 0x22 \<or> c = CHR 0x5C then [CHR 0x5C, c]
      else if c = CHR 0x08 then [CHR 0x5C, CHR ''b''] else if c = CHR 0x0C then [CHR 0x5C, CHR ''f'']
      else if c = CHR 0x0A then [CHR 0x5C, CHR ''n''] else if c = CHR 0x0D then [CHR 0x5C, CHR ''r'']
      else if c = CHR 0x09 then [CHR 0x5C, CHR ''t'']
      else if (of_char c :: nat) < 32 then hex4 c else [c])"

definition js_string :: "string \<Rightarrow> string" where
  "js_string s = CHR 0x22 # concat (map js_char s) @ [CHR 0x22]"

definition join_with :: "string \<Rightarrow> string list \<Rightarrow> string" where
  "join_with sep ws = (case ws of [] \<Rightarrow> [] | w # rest \<Rightarrow> w @ concat (map (\<lambda>v. sep @ v) rest))"

text \<open>The text of a number below \<open>10\<^sup>2\<^sup>1\<close>, to twenty decimals.\<close>

fun decimals :: "nat \<Rightarrow> rat \<Rightarrow> string" where
  "decimals 0 q = []"
| "decimals (Suc n) q = (if q = 0 then [] else show_int \<lfloor>q * 10\<rfloor> @ decimals n (q * 10 - of_int \<lfloor>q * 10\<rfloor>))"

definition num_text :: "rat \<Rightarrow> string" where
  "num_text q = (if q < 0 then ''-'' else []) @ show_int \<lfloor>\<bar>q\<bar>\<rfloor>
     @ (let f = \<bar>q\<bar> - of_int \<lfloor>\<bar>q\<bar>\<rfloor> in if f = 0 then [] else ''.'' @ decimals 20 f)"

text \<open>\<open>JSON.stringify\<close>.\<close>

fun stringify :: "json \<Rightarrow> string" where
  "stringify JNull = ''null''"
| "stringify (JBool b) = (if b then ''true'' else ''false'')"
| "stringify (JNum q) = num_text q"
| "stringify (JStr s) = js_string s"
| "stringify (JArr vs) = ''['' @ join_with '','' (map stringify vs) @ '']''"
| "stringify (JObj ms) = ''{'' @ join_with '','' (map (\<lambda>(k, v). js_string k @ '':'' @ stringify v) ms) @ ''}''"

text \<open>\<open>String(v)\<close>, which templates and \<open>URLSearchParams\<close> apply; \<open>None\<close> is undefined.\<close>

fun value_text :: "json \<Rightarrow> string" where
  "value_text (JStr s) = s"
| "value_text (JArr vs) = join_with '','' (map (\<lambda>v. if v = JNull then [] else value_text v) vs)"
| "value_text (JObj ms) = ''[object Object]''"
| "value_text v = stringify v"

definition js_text :: "json option \<Rightarrow> string" where
  "js_text v = (case v of None \<Rightarrow> ''undefined'' | Some w \<Rightarrow> value_text w)"

fun truthy :: "json option \<Rightarrow> bool" where
  "truthy None = False"
| "truthy (Some JNull) = False"
| "truthy (Some (JBool b)) = b"
| "truthy (Some (JNum q)) = (q \<noteq> 0)"
| "truthy (Some (JStr s)) = (s \<noteq> [])"
| "truthy (Some v) = True"

text \<open>\<open>v.name\<close> on a decoded value: \<open>Inl\<close> is the TypeError on null, \<open>None\<close> is undefined.\<close>

definition get_prop :: "json \<Rightarrow> string \<Rightarrow> string + json option" where
  "get_prop v k = (case v of
     JNull \<Rightarrow> Inl (''Cannot read properties of null (reading '' @ CHR 0x27 # k @ CHR 0x27 # '')'')
   | JObj ms \<Rightarrow> Inr (member ms k) | _ \<Rightarrow> Inr None)"

text \<open>The first exception of a series of computations, or all their results.\<close>

fun all_results :: "('e + 'a) list \<Rightarrow> 'e + 'a list" where
  "all_results [] = Inr []"
| "all_results (Inl e # rs) = Inl e"
| "all_results (Inr x # rs) = map_sum id (\<lambda>xs. x # xs) (all_results rs)"

section \<open>Fetch\<close>

record http_request =
  hr_url :: string
  hr_method :: string
  hr_headers :: headers
  hr_body :: string

record http_response =
  hp_status :: nat
  hp_statusText :: string
  hp_text :: string
  hp_json :: "string + json"     \<comment> \<open>\<open>json()\<close>, \<open>Inl\<close> the parse error\<close>

definition res_ok :: "http_response \<Rightarrow> bool" where
  "res_ok res \<longleftrightarrow> 200 \<le> hp_status res \<and> hp_status res \<le> 299"

text \<open>The outside world as \<open>fetch\<close> meets it: a request changes it and is answered, or throws.\<close>

type_synonym 'w fetcher = "http_request \<Rightarrow> 'w \<Rightarrow> (string + http_response) \<times> 'w"

section \<open>Numbers\<close>

text \<open>\<open>parseFloat(x.toFixed(k))\<close> for \<open>x \<ge> 0\<close>.\<close>

definition to_fixed :: "nat \<Rightarrow> rat \<Rightarrow> rat" where
  "to_fixed k q = of_int \<lfloor>q * 10 ^ k + 1 / 2\<rfloor> / 10 ^ k"

lemma to_fixed_mono: "p \<le> q \<Longrightarrow> to_fixed k p \<le> to_fixed k q"
  by (simp add: to_fixed_def divide_right_mono floor_mono mult_right_mono)

lemma to_fixed_nonneg: "0 \<le> q \<Longrightarrow> 0 \<le> to_fixed k q"
  by (simp add: to_fixed_def)

lemma to_fixed_of_int [simp]: "to_fixed k (of_int i) = of_int i"
proof -
  have "\<lfloor>of_int i * 10 ^ k + 1 / 2 :: rat\<rfloor> = i * 10 ^ k"
    by (rule floor_unique) simp_all
  then show ?thesis by (simp add: to_fixed_def)
qed

end
