(* ===== verification/UrlCode.thy ===== *)
theory UrlCode
  imports Js
begin

text \<open>
  The text of forms and URL queries: percent-encoding as Go's \<open>url.QueryEscape\<close> and JavaScript's
  \<open>URLSearchParams\<close> write it and as Go's \<open>url.ParseQuery\<close> reads it.  The two writers differ in
  the characters they keep; the reader restores what either has written.
\<close>

section \<open>Percent-encoding\<close>

definition alphanumeric :: "char \<Rightarrow> bool" where
  "alphanumeric c = (let n = of_char c :: nat in 48 \<le> n \<and> n \<le> 57 \<or> 65 \<le> n \<and> n \<le> 90 \<or> 97 \<le> n \<and> n \<le> 122)"

definition go_kept :: "char \<Rightarrow> bool" where
  "go_kept c \<longleftrightarrow> alphanumeric c \<or> c \<in> set ''-_.~''"

definition js_kept :: "char \<Rightarrow> bool" where
  "js_kept c \<longleftrightarrow> alphanumeric c \<or> c \<in> set ''*-._''"

definition upper_hex :: "nat \<Rightarrow> char" where
  "upper_hex v = (if v < 10 then char_of (48 + v) else char_of (55 + v))"

definition hex_digit :: "char \<Rightarrow> nat option" where
  "hex_digit c = (let n = of_char c in
     if 48 \<le> n \<and> n \<le> 57 then Some (n - 48) else if 65 \<le> n \<and> n \<le> 70 then Some (n - 55)
     else if 97 \<le> n \<and> n \<le> 102 then Some (n - 87) else None)"

definition percent :: "char \<Rightarrow> string" where
  "percent c = [CHR ''%'', upper_hex (of_char c div 16), upper_hex (of_char c mod 16)]"

definition escape_char :: "(char \<Rightarrow> bool) \<Rightarrow> char \<Rightarrow> string" where
  "escape_char kept c = (if c = CHR '' '' then ''+'' else if kept c then [c] else percent c)"

definition query_escape :: "(char \<Rightarrow> bool) \<Rightarrow> string \<Rightarrow> string" where
  "query_escape kept s = concat (map (escape_char kept) s)"

text \<open>\<open>url.QueryUnescape\<close>; \<open>None\<close> is its error, for a percent sign without two hexadecimal digits.\<close>

fun query_unescape :: "string \<Rightarrow> string option" where
  "query_unescape [] = Some []"
| "query_unescape (c # s) =
     (if c = CHR ''%''
      then (case s of
          a # b # r \<Rightarrow> (case (hex_digit a, hex_digit b) of
              (Some x, Some y) \<Rightarrow> map_option (Cons (char_of (16 * x + y))) (query_unescape r)
            | _ \<Rightarrow> None)
        | _ \<Rightarrow> None)
      else map_option (Cons (if c = CHR ''+'' then CHR '' '' else c)) (query_unescape s))"

text \<open>What a writer may keep: none of the characters that have a meaning.\<close>

definition keeps_plain :: "(char \<Rightarrow> bool) \<Rightarrow> bool" where
  "keeps_plain kept \<longleftrightarrow> (\<forall>c \<in> set ''%+&=;''. \<not> kept c)"

lemma both_plain [simp]: "keeps_plain go_kept" "keeps_plain js_kept"
  by (simp_all add: keeps_plain_def go_kept_def js_kept_def alphanumeric_def)

lemma of_char_nat: "(of_char c :: nat) < 256"
proof -
  have "(of_char c :: nat) = of_char c mod 256" by (metis char_of_char of_char_of)
  then show ?thesis by (metis mod_less_divisor zero_less_numeral)
qed

lemma of_upper_hex: "v < 16 \<Longrightarrow> of_char (upper_hex v) = (if v < 10 then 48 + v else 55 + v)"
  by (simp add: upper_hex_def)

lemma upper_hex_facts:
  assumes "v < 16"
  shows "hex_digit (upper_hex v) = Some v" "upper_hex v \<notin> set ''%+&=;''"
proof -
  show "hex_digit (upper_hex v) = Some v" using assms by (simp add: hex_digit_def of_upper_hex)
  show "upper_hex v \<notin> set ''%+&=;''"
    using of_upper_hex [OF assms] by (auto split: if_splits)
qed

lemma percent_digits: "(of_char c :: nat) div 16 < 16" "(of_char c :: nat) mod 16 < 16"
  using of_char_nat [of c] by (simp_all add: div_less_iff_less_mult)

lemma unescape_char:
  assumes "keeps_plain kept"
  shows "query_unescape (escape_char kept c @ s) = map_option (Cons c) (query_unescape s)"
proof -
  have "16 * ((of_char c :: nat) div 16) + of_char c mod 16 = of_char c" by simp
  moreover have "kept c \<Longrightarrow> c \<noteq> CHR ''%'' \<and> c \<noteq> CHR ''+''"
    using assms by (auto simp: keeps_plain_def)
  ultimately show ?thesis
    by (auto simp: escape_char_def percent_def upper_hex_facts(1) percent_digits)
qed

lemma unescape_escape: "keeps_plain kept \<Longrightarrow> query_unescape (query_escape kept s) = Some s"
  by (induction s) (simp_all add: query_escape_def unescape_char)

lemma escaped_plain:
  assumes "keeps_plain kept" "c \<in> set (query_escape kept s)"
  shows "c \<notin> set ''&=;''"
proof -
  from assms(2) obtain a where "c \<in> set (escape_char kept a)" by (auto simp: query_escape_def)
  moreover have "kept a \<Longrightarrow> a \<notin> set ''&=;''" using assms(1) by (auto simp: keeps_plain_def)
  moreover have "upper_hex (of_char a div 16) \<notin> set ''&=;''" "upper_hex (of_char a mod 16) \<notin> set ''&=;''"
    using upper_hex_facts(2) [OF percent_digits(1)] upper_hex_facts(2) [OF percent_digits(2)] by auto
  ultimately show ?thesis by (auto simp: escape_char_def percent_def split: if_splits)
qed

text \<open>A text of kept characters is its own escape.\<close>

lemma escape_kept: "list_all kept s \<Longrightarrow> CHR '' '' \<notin> set s \<Longrightarrow> query_escape kept s = s"
  by (induction s) (auto simp: query_escape_def escape_char_def)

section \<open>Pairs\<close>

definition pair_text :: "(char \<Rightarrow> bool) \<Rightarrow> string \<times> string \<Rightarrow> string" where
  "pair_text kept p = query_escape kept (fst p) @ ''='' @ query_escape kept (snd p)"

definition form_encode :: "(char \<Rightarrow> bool) \<Rightarrow> (string \<times> string) list \<Rightarrow> string" where
  "form_encode kept ps = join_with ''&'' (map (pair_text kept) ps)"

text \<open>A piece with a semicolon is an error; the key ends at the first equals sign.\<close>

definition parse_pair :: "string \<Rightarrow> (string \<times> string) option" where
  "parse_pair s =
     (if CHR '';'' \<in> set s then None
      else (case (query_unescape (takeWhile (\<lambda>c. c \<noteq> CHR ''='') s), query_unescape (drop 1 (dropWhile (\<lambda>c. c \<noteq> CHR ''='') s))) of
          (Some k, Some v) \<Rightarrow> Some (k, v)
        | _ \<Rightarrow> None))"

text \<open>\<open>url.ParseQuery\<close>: empty pieces are skipped; malformed ones are skipped too, but reported.\<close>

definition query_pieces :: "string \<Rightarrow> string list" where
  "query_pieces s = filter (\<lambda>w. w \<noteq> []) (split_on CHR ''&'' s)"

definition parse_query :: "string \<Rightarrow> (string \<times> string) list" where
  "parse_query s = map the (filter (\<lambda>p. p \<noteq> None) (map parse_pair (query_pieces s)))"

definition query_malformed :: "string \<Rightarrow> bool" where
  "query_malformed s = list_ex (\<lambda>w. parse_pair w = None) (query_pieces s)"

definition form_decode :: "string \<Rightarrow> (string \<times> string) list option" where
  "form_decode s = (if query_malformed s then None else Some (parse_query s))"

lemma until_equals: "CHR ''='' \<notin> set k \<Longrightarrow>
    takeWhile (\<lambda>c. c \<noteq> CHR ''='') (k @ CHR ''='' # v) = k \<and> dropWhile (\<lambda>c. c \<noteq> CHR ''='') (k @ CHR ''='' # v) = CHR ''='' # v"
  by (induction k) auto

lemma parse_pair_text:
  assumes "keeps_plain kept"
  shows "parse_pair (pair_text kept p) = Some p"
proof -
  have "CHR ''='' \<notin> set (query_escape kept (fst p))" "CHR '';'' \<notin> set (pair_text kept p)"
    using escaped_plain [OF assms] by (auto simp: pair_text_def)
  then show ?thesis
    using until_equals [of "query_escape kept (fst p)" "query_escape kept (snd p)"] unescape_escape [OF assms]
    by (simp add: parse_pair_def pair_text_def)
qed

lemma split_joined:
  "\<forall>w \<in> set ws. d \<notin> set w \<Longrightarrow> split_on d (join_with [d] ws) = (if ws = [] then [[]] else ws)"
proof (induction ws)
  case (Cons w ws)
  then show ?case
    by (cases ws) (auto simp: join_with_def split_on_absent split_on_line)
qed (simp add: join_with_def)

lemma pieces_joined:
  assumes "\<forall>w \<in> set ws. w \<noteq> [] \<and> CHR ''&'' \<notin> set w"
  shows "query_pieces (join_with ''&'' ws) = ws"
proof -
  have "split_on CHR ''&'' (join_with ''&'' ws) = (if ws = [] then [[]] else ws)"
    using assms by (intro split_joined) auto
  with assms show ?thesis by (auto simp: query_pieces_def filter_id_conv)
qed

lemma parsed_pieces:
  assumes "query_pieces s = ws" "map parse_pair ws = map Some ps"
  shows "parse_query s = ps" "\<not> query_malformed s"
proof -
  show "parse_query s = ps" using assms by (simp add: parse_query_def comp_def)
  have "None \<notin> set (map parse_pair ws)" unfolding assms(2) by auto
  then show "\<not> query_malformed s" using assms(1) by (force simp: query_malformed_def list_ex_iff image_iff simp del: not_None_eq not_Some_eq)
qed

lemma form_roundtrip: "keeps_plain kept \<Longrightarrow> form_decode (form_encode kept ps) = Some ps"
proof -
  assume kept: "keeps_plain kept"
  have "query_pieces (form_encode kept ps) = map (pair_text kept) ps"
    using escaped_plain [OF kept, of "CHR ''&''"] by (auto simp: form_encode_def pair_text_def intro!: pieces_joined)
  from parsed_pieces [OF this] kept show ?thesis
    by (simp add: form_decode_def parse_pair_text comp_def)
qed

lemma form_parsed:
  assumes "keeps_plain kept"
  shows "parse_query (form_encode kept ps) = ps" "\<not> query_malformed (form_encode kept ps)"
  using form_roundtrip [OF assms, of ps] by (auto simp: form_decode_def split: if_splits)

lemma empty_query [simp]: "parse_query [] = []" "\<not> query_malformed []"
  by (simp_all add: parse_query_def query_malformed_def query_pieces_def)

text \<open>Pairs written without escaping, as into the URL of the authorization request.\<close>

definition plain_text :: "string \<Rightarrow> bool" where
  "plain_text s \<longleftrightarrow> (\<forall>c \<in> set ''%+&;''. c \<notin> set s)"

lemma unescape_plain: "plain_text s \<Longrightarrow> query_unescape s = Some s"
  by (induction s) (auto simp: plain_text_def)

lemma parse_pair_plain:
  assumes "plain_text k" "plain_text v" "CHR ''='' \<notin> set k"
  shows "parse_pair (k @ CHR ''='' # v) = Some (k, v)"
  using until_equals [OF assms(3), of v] unescape_plain [OF assms(1)] unescape_plain [OF assms(2)] assms(1,2)
  by (auto simp: parse_pair_def plain_text_def)

lemma plain_query:
  assumes "\<forall>(k, v) \<in> set ps. plain_text k \<and> plain_text v \<and> CHR ''='' \<notin> set k"
  shows "parse_query (join_with ''&'' (map (\<lambda>(k, v). k @ CHR ''='' # v) ps)) = ps"
    and "\<not> query_malformed (join_with ''&'' (map (\<lambda>(k, v). k @ CHR ''='' # v) ps))"
proof -
  have "query_pieces (join_with ''&'' (map (\<lambda>(k, v). k @ CHR ''='' # v) ps)) = map (\<lambda>(k, v). k @ CHR ''='' # v) ps"
    using assms by (intro pieces_joined) (auto simp: plain_text_def)
  moreover have "map parse_pair (map (\<lambda>(k, v). k @ CHR ''='' # v) ps) = map Some ps"
    using assms by (auto simp: parse_pair_plain)
  ultimately show "parse_query (join_with ''&'' (map (\<lambda>(k, v). k @ CHR ''='' # v) ps)) = ps"
    "\<not> query_malformed (join_with ''&'' (map (\<lambda>(k, v). k @ CHR ''='' # v) ps))"
    using parsed_pieces by blast+
qed

interpretation go_form: codec "\<lambda>_. True" "form_encode go_kept" form_decode
  by unfold_locales (simp add: form_roundtrip)

interpretation js_form: codec "\<lambda>_. True" "form_encode js_kept" form_decode
  by unfold_locales (simp add: form_roundtrip)

end
