(* ===== verification/DerJose.thy ===== *)
theory DerJose
  imports Encoding
begin

text \<open>
  The two conversions of an ECDSA signature from DER, the form Node's \<open>crypto.sign\<close> returns,
  to the 64 raw bytes a JWT carries: \<open>derToJose\<close> of
  \<^verbatim>\<open>dashboard/src/app/api/benchmark/route.ts\<close> and the in-line conversion of
  \<^verbatim>\<open>dashboard/src/app/api/attack/route.ts\<close>.  JavaScript numbers that may be \<open>undefined\<close> or
  \<open>NaN\<close> are \<open>nat option\<close>.
\<close>

section \<open>Buffer operations\<close>

text \<open>\<open>buf[i]\<close>: \<open>undefined\<close> out of range.\<close>

definition buf_get :: "bytes \<Rightarrow> nat option \<Rightarrow> nat option" where
  "buf_get b i = (case i of None \<Rightarrow> None
     | Some k \<Rightarrow> if k < length b then Some (nat (uint (b ! k))) else None)"

definition js_plus :: "nat option \<Rightarrow> nat option \<Rightarrow> nat option" where
  "js_plus a b = (case (a, b) of (Some x, Some y) \<Rightarrow> Some (x + y) | _ \<Rightarrow> None)"

text \<open>\<open>subarray(start, end)\<close> and \<open>slice(start, end)\<close>: bounds are clamped, \<open>NaN\<close> counts as 0.\<close>

definition subarray :: "bytes \<Rightarrow> nat option \<Rightarrow> nat option \<Rightarrow> bytes" where
  "subarray b s e =
     (let i = min (case s of None \<Rightarrow> 0 | Some k \<Rightarrow> k) (length b);
          j = min (case e of None \<Rightarrow> 0 | Some k \<Rightarrow> k) (length b)
      in take (j - i) (drop i b))"

section \<open>The conversion of the benchmark route\<close>

definition strip_sign :: "bytes \<Rightarrow> bytes" where
  "strip_sign x = (if length x = 33 \<and> x ! 0 = 0 then subarray x (Some 1) (Some (length x)) else x)"

definition derToJose :: "bytes \<Rightarrow> string option" where
  "derToJose signature =
     (let rLen = buf_get signature (Some 3);
          r = strip_sign (subarray signature (Some 4) (js_plus (Some 4) rLen));
          sTagPos = js_plus (Some 4) rLen;
          sLen = buf_get signature (js_plus sTagPos (Some 1));
          s = strip_sign (subarray signature (js_plus sTagPos (Some 2))
                            (js_plus (js_plus sTagPos (Some 2)) sLen))
      in case (pad32 r, pad32 s) of
           (Some rPad, Some sPad) \<Rightarrow> Some (b64_encode (rPad @ sPad))
         | _ \<Rightarrow> None)"

section \<open>The conversion of the attack route\<close>

definition strip_33 :: "bytes \<Rightarrow> bytes" where
  "strip_33 x = (if length x = 33 then subarray x (Some 1) (Some (length x)) else x)"

definition attack_joseSig :: "bytes \<Rightarrow> string" where
  "attack_joseSig signature =
     (let rLen = buf_get signature (Some 3);
          r = strip_33 (subarray signature (Some 3) (js_plus (Some 3) rLen));
          sPos = js_plus (Some 5) rLen;
          s = strip_33 (subarray signature sPos (js_plus sPos (buf_get signature sPos)))
      in b64_encode (r @ s))"

section \<open>DER signatures\<close>

text \<open>
  The DER form of a signature \<open>(r, s)\<close>: a sequence of two integers, each with the fewest
  bytes that keep it positive.  For 32-byte values all lengths fit in one byte.
\<close>

definition der_int :: "int \<Rightarrow> bytes" where
  "der_int n = (let b = min_bytes n in
     if b = [] \<or> 128 \<le> uint (hd b) then 0 # b else b)"

definition der_sig :: "int \<Rightarrow> int \<Rightarrow> bytes" where
  "der_sig r s =
     (let a = der_int r; b = der_int s
      in [0x30, word_of_int (int (4 + length a + length b)), 0x02, word_of_int (int (length a))] @ a
         @ [0x02, word_of_int (int (length b))] @ b)"

lemma length_der_int: "n < 256 ^ 32 \<Longrightarrow> length (der_int n) \<le> 33" "der_int n \<noteq> []"
  using length_min_bytes [of n 32] by (auto simp: der_int_def Let_def)

lemma length_word [simp]: "n < 256 \<Longrightarrow> unat (word_of_nat n :: byte) = n"
  by (simp add: unat_of_nat)

lemma der_int_33: "length (der_int n) = 33 \<Longrightarrow> n < 256 ^ 32 \<Longrightarrow>
    der_int n = 0 # min_bytes n \<and> length (min_bytes n) = 32 \<and> 128 \<le> uint (hd (min_bytes n))"
  using length_min_bytes [of n 32] by (auto simp: der_int_def Let_def split: if_splits)

lemma pad_strip_der_int:
  assumes "0 \<le> n" "n < 256 ^ 32"
  shows "pad32 (strip_sign (der_int n)) = Some (be_bytes 32 n)"
proof (cases "length (der_int n) = 33")
  case True
  with assms have "strip_sign (der_int n) = min_bytes n"
    using der_int_33 [of n] by (auto simp: strip_sign_def subarray_def)
  with assms show ?thesis by (simp add: pad32_min_bytes del: be_bytes.simps)
next
  case False
  then have l: "length (der_int n) \<le> 32" using length_der_int(1) [OF assms(2)] by simp
  have "replicate (32 - length (der_int n)) 0 @ der_int n
      = replicate (32 - length (min_bytes n)) 0 @ min_bytes n"
  proof (cases "length (der_int n) = length (min_bytes n)")
    case True
    then show ?thesis by (auto simp: der_int_def Let_def split: if_splits)
  next
    case False
    then have d: "der_int n = 0 # min_bytes n" by (auto simp: der_int_def Let_def split: if_splits)
    with l have "32 - length (min_bytes n) = Suc (32 - length (der_int n))" by simp
    with d show ?thesis by (simp add: replicate_app_Cons_same)
  qed
  with l assms False show ?thesis
    by (simp add: pad32_def strip_sign_def pad_min_bytes del: be_bytes.simps)
qed

text \<open>What both routes read at their offsets in a DER signature.\<close>

lemma js_plus_Some [simp]: "js_plus (Some m) (Some n) = Some (m + n)"
  by (simp add: js_plus_def)

lemma take_butlast: "a \<noteq> [] \<Longrightarrow> take (length a) (c # a @ x) = c # butlast a"
  by (cases a rule: rev_cases) simp_all

lemma der_reads:
  assumes "r < 256 ^ 32" "s < 256 ^ 32"
  defines "a \<equiv> der_int r" and "b \<equiv> der_int s" and "d \<equiv> der_sig r s"
  shows "buf_get d (Some 3) = Some (length a)"
    and "buf_get d (Some (4 + length a + 1)) = Some (length b)"
    and "subarray d (Some 4) (Some (4 + length a)) = a"
    and "subarray d (Some (4 + length a + 2)) (Some (4 + length a + 2 + length b)) = b"
    and "subarray d (Some 3) (Some (3 + length a)) = word_of_nat (length a) # butlast a"
    and "subarray d (Some (5 + length a)) (Some (5 + length a + length b))
           = word_of_nat (length b) # butlast b"
proof -
  have l: "length a \<le> 33" "length b \<le> 33" "a \<noteq> []" "b \<noteq> []"
    unfolding a_def b_def using assms(1,2) length_der_int by auto
  have d: "d = [0x30, word_of_nat (4 + length a + length b), 0x02, word_of_nat (length a)]
     @ a @ [0x02, word_of_nat (length b)] @ b"
    by (simp add: d_def der_sig_def a_def b_def Let_def)
  have d5: "drop (5 + length a) d = word_of_nat (length b) # b"
    and d6: "drop (6 + length a) d = b"
    and d3: "drop 3 d = word_of_nat (length a) # a @ [0x02, word_of_nat (length b)] @ b"
    and ld: "length d = 6 + length a + length b"
    by (simp_all add: d drop_Cons')
  show "buf_get d (Some 3) = Some (length a)"
    using l by (simp add: d buf_get_def)
  show "buf_get d (Some (4 + length a + 1)) = Some (length b)"
    using l by (simp add: d buf_get_def nth_append)
  show "subarray d (Some 4) (Some (4 + length a)) = a"
    by (simp add: d subarray_def)
  show "subarray d (Some (4 + length a + 2)) (Some (4 + length a + 2 + length b)) = b"
    using d6 ld by (simp add: subarray_def)
  show "subarray d (Some 3) (Some (3 + length a)) = word_of_nat (length a) # butlast a"
    using l(3) d3 ld by (simp add: subarray_def take_butlast)
  show "subarray d (Some (5 + length a)) (Some (5 + length a + length b))
      = word_of_nat (length b) # butlast b"
    using l(4) d5 ld take_butlast [of b _ "[]"] by (simp add: subarray_def)
qed

lemma derToJose_der_sig:
  assumes "0 \<le> r" "r < 256 ^ 32" "0 \<le> s" "s < 256 ^ 32"
  shows "derToJose (der_sig r s) = Some (b64_encode (be_bytes 32 r @ be_bytes 32 s))"
  using der_reads [OF assms(2,4)] pad_strip_der_int [OF assms(1,2)] pad_strip_der_int [OF assms(3,4)]
  by (simp add: derToJose_def Let_def del: be_bytes.simps)

text \<open>C7: for every signature \<open>(r, s)\<close> whose values fit in 32 bytes, \<open>derToJose\<close> turns its DER
  form into exactly the 64 bytes \<open>r\<close> and \<open>s\<close>, each padded to 32 bytes, and never throws.\<close>

theorem derToJose_correct:
  assumes "0 \<le> r" "r < 256 ^ 32" "0 \<le> s" "s < 256 ^ 32"
  shows "derToJose (der_sig r s) = Some (b64_encode (be_bytes 32 r @ be_bytes 32 s))"
  using assms by (rule derToJose_der_sig)

theorem derToJose_correct_witness:
  "derToJose (der_sig (2 ^ 255 + 7) 1)
     = Some (b64_encode (be_bytes 32 (2 ^ 255 + 7) @ be_bytes 32 1))"
  by (rule derToJose_correct) simp_all

text \<open>
  The in-line conversion starts one byte early: it takes the length byte of each integer and
  drops the last byte of its value.
\<close>

lemma Cons_butlast_fix: "d \<noteq> [] \<Longrightarrow> c # butlast d = d \<longleftrightarrow> d = replicate (length d) c"
proof (induction d)
  case (Cons y ys)
  then show ?case by (cases "ys = []") auto
qed simp

lemma strip_33_shifted:
  assumes n: "0 \<le> n" "n < 256 ^ 32"
  defines "x \<equiv> strip_33 (word_of_nat (length (der_int n)) # butlast (der_int n))"
  shows "length x \<le> 32"
    and "x = be_bytes 32 n \<longleftrightarrow> be_bytes 32 n = replicate 32 32"
proof -
  have l: "length (der_int n) \<le> 33" "der_int n \<noteq> []" using length_der_int n by auto
  show "length x \<le> 32"
    using l by (auto simp: x_def strip_33_def subarray_def)
  have be: "pad32 (strip_sign (der_int n)) = Some (be_bytes 32 n)"
    using n by (rule pad_strip_der_int)
  consider "length (der_int n) = 33" | "length (der_int n) = 32" | "length (der_int n) < 32"
    using l by linarith
  then show "x = be_bytes 32 n \<longleftrightarrow> be_bytes 32 n = replicate 32 32"
  proof cases
    case 1
    note m = der_int_33 [OF 1 n(2)]
    with be have b: "be_bytes 32 n = min_bytes n"
      by (simp add: strip_sign_def subarray_def pad32_def del: be_bytes.simps)
    have "x = 0 # butlast (min_bytes n)"
      using m by (auto simp: x_def strip_33_def subarray_def)
    then have "hd x = 0" by simp
    moreover have "128 \<le> uint (hd (be_bytes 32 n))" using m b by simp
    ultimately have "x \<noteq> be_bytes 32 n" "hd (be_bytes 32 n) \<noteq> 32" by auto
    then show ?thesis by (metis hd_replicate zero_neq_numeral)
  next
    case 2
    with be have "be_bytes 32 n = der_int n"
      by (simp add: strip_sign_def pad32_def del: be_bytes.simps)
    moreover have "x = 32 # butlast (der_int n)"
      using 2 by (simp add: x_def strip_33_def)
    ultimately show ?thesis using 2 l by (simp add: Cons_butlast_fix del: be_bytes.simps)
  next
    case 3
    with be have "be_bytes 32 n = replicate (32 - length (der_int n)) 0 @ der_int n"
      by (simp add: strip_sign_def pad32_def del: be_bytes.simps)
    moreover have "length x < 32" using 3 l by (simp add: x_def strip_33_def)
    ultimately have "hd (be_bytes 32 n) = 0" "x \<noteq> be_bytes 32 n"
      using 3 by (auto simp: hd_append simp del: be_bytes.simps)
    moreover have "(0 :: byte) \<noteq> 32" by simp
    ultimately show ?thesis by (metis hd_replicate zero_neq_numeral)
  qed
qed

text \<open>The conversion of the attack route yields the right 64 bytes for one signature only,
  the one whose 64 bytes all are \<open>32\<close>; for every other signature the proof it sends carries
  a wrong signature.\<close>

theorem attack_joseSig_wrong:
  assumes "0 \<le> r" "r < 256 ^ 32" "0 \<le> s" "s < 256 ^ 32"
  shows "attack_joseSig (der_sig r s) = b64_encode (be_bytes 32 r @ be_bytes 32 s)
     \<longleftrightarrow> be_bytes 32 r @ be_bytes 32 s = replicate 64 32"
proof -
  let ?x = "\<lambda>n. strip_33 (word_of_nat (length (der_int n)) # butlast (der_int n))"
  have eq: "attack_joseSig (der_sig r s) = b64_encode (?x r @ ?x s)"
    using der_reads [OF assms(2,4)] by (simp add: attack_joseSig_def Let_def numeral_eq_Suc)
  note x = strip_33_shifted [OF assms(1,2)] strip_33_shifted [OF assms(3,4)]
  have "?x r @ ?x s = be_bytes 32 r @ be_bytes 32 s \<longleftrightarrow> ?x r = be_bytes 32 r \<and> ?x s = be_bytes 32 s"
  proof
    assume e: "?x r @ ?x s = be_bytes 32 r @ be_bytes 32 s"
    then have "length (?x r) + length (?x s) = 64"
      by (metis length_append length_be_bytes numeral_Bit0)
    with x(1,3) have "length (?x r) = length (be_bytes 32 r)" by simp
    with e show "?x r = be_bytes 32 r \<and> ?x s = be_bytes 32 s" by simp
  qed simp
  also have "\<dots> \<longleftrightarrow> be_bytes 32 r @ be_bytes 32 s = replicate 32 32 @ replicate 32 32"
    using x by (simp del: be_bytes.simps)
  finally show ?thesis
    using eq by (simp add: replicate_add [symmetric] del: be_bytes.simps)
qed

theorem attack_joseSig_wrong_witness:
  "attack_joseSig (der_sig 5 6) \<noteq> b64_encode (be_bytes 32 5 @ be_bytes 32 6)"
proof -
  have "be_bytes 32 5 @ be_bytes 32 6 \<noteq> replicate 64 32" by code_simp
  then show ?thesis using attack_joseSig_wrong [of 5 6] by (simp del: be_bytes.simps)
qed

end
