(* ===== verification/Machine.thy ===== *)
theory Machine
  imports Prelude
begin

text \<open>
  The contract of a stateful component whose operations run one after the other: an invariant
  every operation keeps, and, for the components with a log, the promise that a step only
  appends to it.  The components interpret these locales on their own operations, so a whole
  run (\<open>fold step es s\<close>) needs no induction of its own.
\<close>

locale machine =
  fixes step :: "'e \<Rightarrow> 's \<Rightarrow> 's"
    and inv :: "'s \<Rightarrow> bool"
    and good :: "'e \<Rightarrow> bool"
  assumes step_inv: "inv s \<Longrightarrow> good e \<Longrightarrow> inv (step e s)"
begin

lemma run_inv: "inv s \<Longrightarrow> list_all good es \<Longrightarrow> inv (fold step es s)"
  by (induction es arbitrary: s) (auto intro: step_inv)

lemma run_inv_all:
  assumes "inv s" "list_all good es"
  shows "\<forall>n. inv (fold step (take n es) s)"
  using assms by (metis append_take_drop_id list_all_append run_inv)

end

locale logged_machine = machine +
  fixes log :: "'s \<Rightarrow> 'r list"
  assumes step_log: "inv s \<Longrightarrow> good e \<Longrightarrow> \<exists>new. log (step e s) = log s @ new"
begin

lemma run_log: "inv s \<Longrightarrow> list_all good es \<Longrightarrow> \<exists>new. log (fold step es s) = log s @ new"
proof (induction es arbitrary: s)
  case (Cons e es)
  then have "inv (step e s)" by (auto intro: step_inv)
  with Cons obtain new1 where "log (fold step es (step e s)) = log (step e s) @ new1"
    by (auto dest: Cons.IH)
  moreover obtain new2 where "log (step e s) = log s @ new2"
    using Cons.prems step_log [of s e] by auto
  ultimately show ?case by simp
qed simp

lemma run_log_prefix:
  assumes "inv s" "list_all good es" "n \<le> m"
  shows "\<exists>new. log (fold step (take m es) s) = log (fold step (take n es) s) @ new"
proof -
  have "take m es = take n es @ drop n (take m es)"
    using assms(3) by (metis append_take_drop_id min.absorb1 take_take)
  then have "fold step (take m es) s = fold step (drop n (take m es)) (fold step (take n es) s)"
    by (metis comp_apply fold_append)
  moreover have "inv (fold step (take n es) s)" "list_all good (drop n (take m es))"
    using assms run_inv_all [OF assms(1,2)] append_take_drop_id list_all_append by metis+
  ultimately show ?thesis using run_log by metis
qed

end

text \<open>One concern of a component with several: the part of the state it shows, and the events that
  are its own.  Events of the others do not show, and its own depend on nothing else; so in any
  interleaving the part is what its own events alone make of it.\<close>

locale concern =
  fixes step :: "'e \<Rightarrow> 's \<Rightarrow> 's"
    and view :: "'s \<Rightarrow> 'v"
    and own :: "'e \<Rightarrow> bool"
  assumes silent: "\<not> own e \<Longrightarrow> view (step e s) = view s"
    and local: "own e \<Longrightarrow> view s = view t \<Longrightarrow> view (step e s) = view (step e t)"
begin

lemma run_local: "list_all own es \<Longrightarrow> view s = view t \<Longrightarrow> view (fold step es s) = view (fold step es t)"
proof (induction es arbitrary: s t)
  case (Cons e es)
  then have "own e" "view s = view t" "list_all own es" by simp_all
  from Cons.IH [OF this(3) local [OF this(1,2)]] show ?case by simp
qed simp

lemma run_view: "view (fold step es s) = view (fold step (filter own es) s)"
proof (induction es arbitrary: s)
  case (Cons e es)
  show ?case
  proof (cases "own e")
    case True
    then show ?thesis using Cons.IH [of "step e s"] by simp
  next
    case False
    have "view (fold step (filter own es) (step e s)) = view (fold step (filter own es) s)"
      by (rule run_local [OF _ silent [OF False]]) (simp add: list_all_iff)
    with Cons.IH [of "step e s"] False show ?thesis by simp
  qed
qed simp

end

end
