(* ===== verification/Ledger.thy ===== *)
theory Ledger
  imports Machine
begin

text \<open>
  The database of \<^verbatim>\<open>docker/postgres/init.sql\<close> and the client of
  \<^verbatim>\<open>gateway/internal/audit/db.go\<close>: the tables \<open>transactions\<close> and \<open>audit_logs\<close>, the
  row-level-security policies, the two triggers (hash chain, no update or delete), and the
  three operations of \<open>DBClient\<close>, each a database transaction of its own.
  PostgreSQL's input and output functions, its clock and pgcrypto's HMAC are parameters.
\<close>

section \<open>Tables\<close>

record tx_row =
  tr_id :: string
  tr_tenant :: string
  tr_cents :: int            \<comment> \<open>DECIMAL(15, 2), in hundredths\<close>
  tr_description :: string
  tr_created_at :: instant

record audit_row =
  al_id :: int
  al_timestamp :: instant
  al_actor :: string
  al_tenant :: string
  al_action :: string
  al_resource :: string
  al_details :: json
  al_prev_hash :: string
  al_block_hash :: string

record db =
  transactions :: "tx_row list"
  audit_logs :: "audit_row list"
  audit_seq :: int           \<comment> \<open>the next value of \<open>audit_logs_id_seq\<close>\<close>

definition empty_db :: db where
  "empty_db = \<lparr>transactions = [], audit_logs = [], audit_seq = 1\<rparr>"

text \<open>What the server provides: \<open>uuid_in\<close> reads a uuid (\<open>None\<close> is the cast error),
  \<open>ts_out\<close> and \<open>jsonb_out\<close> print a timestamp and a jsonb value, \<open>hmac_hex text key\<close> is
  \<open>encode(hmac(text, key, 'sha256'), 'hex')\<close>.\<close>

record pg =
  uuid_in :: "string \<Rightarrow> string option"
  ts_out :: "instant \<Rightarrow> string"
  jsonb_out :: "json \<Rightarrow> string"
  hmac_hex :: "string \<Rightarrow> string \<Rightarrow> string"

section \<open>An open transaction\<close>

record open_tx =
  app_tenant_id :: string    \<comment> \<open>\<open>set_config('app.tenant_id', v, true)\<close>, \<open>''\<close> when not set\<close>
  app_audit_secret :: string
  tx_now :: instant
  pend_tx :: "tx_row list"
  pend_audit :: "audit_row list"

definition tx_begin :: "instant \<Rightarrow> open_tx" where
  "tx_begin t = \<lparr>app_tenant_id = [], app_audit_secret = [], tx_now = t, pend_tx = [], pend_audit = []\<rparr>"

definition tx_commit :: "open_tx \<Rightarrow> db \<Rightarrow> db" where
  "tx_commit t d = d\<lparr>transactions := transactions d @ pend_tx t, audit_logs := audit_logs d @ pend_audit t\<rparr>"

text \<open>
  The policies' test \<open>tenant_id = NULLIF(current_setting('app.tenant_id', true), '')::uuid\<close>:
  with no tenant set the right side is NULL and no row passes; a malformed one is an error.
\<close>

definition rls_tenant :: "pg \<Rightarrow> open_tx \<Rightarrow> string + string option" where
  "rls_tenant p t =
     (if app_tenant_id t = [] then Inr None
      else case uuid_in p (app_tenant_id t) of
             None \<Rightarrow> Inl ''invalid input syntax for type uuid''
           | Some u \<Rightarrow> Inr (Some u))"

definition visible_logs :: "string option \<Rightarrow> open_tx \<Rightarrow> db \<Rightarrow> audit_row list" where
  "visible_logs u t d = filter (\<lambda>r. Some (al_tenant r) = u) (audit_logs d @ pend_audit t)"

definition visible_tx :: "string option \<Rightarrow> open_tx \<Rightarrow> db \<Rightarrow> tx_row list" where
  "visible_tx u t d = filter (\<lambda>r. Some (tr_tenant r) = u) (transactions d @ pend_tx t)"

section \<open>The hash-chain trigger\<close>

definition zero_hash :: string where
  "zero_hash = replicate 64 (CHR ''0'')"

text \<open>\<open>ORDER BY id DESC LIMIT 1\<close>.\<close>

fun latest :: "audit_row list \<Rightarrow> audit_row option" where
  "latest [] = None"
| "latest (r # rs) = (case latest rs of
     None \<Rightarrow> Some r | Some q \<Rightarrow> if al_id r \<le> al_id q then Some q else Some r)"

definition bar :: "string list \<Rightarrow> string" where
  "bar ws = concat (map (\<lambda>w. w @ ''|'') (butlast ws)) @ last ws"

definition concat_text :: "pg \<Rightarrow> audit_row \<Rightarrow> string" where
  "concat_text p r = bar [ts_out p (al_timestamp r), al_actor r, al_tenant r, al_action r,
     al_resource r, jsonb_out p (al_details r), al_prev_hash r]"

definition hash_audit_record :: "pg \<Rightarrow> string \<Rightarrow> audit_row list \<Rightarrow> audit_row \<Rightarrow> string + audit_row" where
  "hash_audit_record p audit_secret seen new =
     (if audit_secret = [] then Inl ''Audit secret is missing or invalid. Integrity check failed.''
      else
        let last_block_hash = (case latest seen of None \<Rightarrow> zero_hash | Some q \<Rightarrow> al_block_hash q);
            new1 = new\<lparr>al_prev_hash := last_block_hash\<rparr>
        in Inr (new1\<lparr>al_block_hash := hmac_hex p (concat_text p new1) audit_secret\<rparr>))"

section \<open>The statements of the client\<close>

definition sql_insert_audit ::
  "pg \<Rightarrow> db \<Rightarrow> open_tx \<Rightarrow> string \<Rightarrow> string \<Rightarrow> string \<Rightarrow> string \<Rightarrow> json \<Rightarrow> (string + open_tx) \<times> db" where
  "sql_insert_audit p d t actor tenant action resource details =
     (case (uuid_in p actor, uuid_in p tenant) of
        (Some a, Some n) \<Rightarrow>
          (let d' = d\<lparr>audit_seq := audit_seq d + 1\<rparr>;
               row = \<lparr>al_id = audit_seq d, al_timestamp = tx_now t, al_actor = a, al_tenant = n,
                      al_action = action, al_resource = resource, al_details = details,
                      al_prev_hash = [], al_block_hash = []\<rparr>
           in case rls_tenant p t of
                Inl e \<Rightarrow> (Inl e, d')
              | Inr u \<Rightarrow>
                  (case hash_audit_record p (app_audit_secret t) (visible_logs u t d) row of
                     Inl e \<Rightarrow> (Inl e, d')
                   | Inr row' \<Rightarrow>
                       if Some n = u then (Inr (t\<lparr>pend_audit := pend_audit t @ [row']\<rparr>), d')
                       else (Inl ''new row violates row-level security policy'', d')))
      | _ \<Rightarrow> (Inl ''invalid input syntax for type uuid'', d))"

text \<open>A float becomes DECIMAL(15, 2): rounded to hundredths, half away from zero.\<close>

definition to_cents :: "rat \<Rightarrow> int" where
  "to_cents q = (if q < 0 then - \<lfloor>- q * 100 + 1 / 2\<rfloor> else \<lfloor>q * 100 + 1 / 2\<rfloor>)"

definition sql_insert_transaction ::
  "pg \<Rightarrow> open_tx \<Rightarrow> string \<Rightarrow> string \<Rightarrow> rat \<Rightarrow> string \<Rightarrow> string + (tx_row \<times> open_tx)" where
  "sql_insert_transaction p t new_id tenant amount description =
     (case uuid_in p tenant of
        None \<Rightarrow> Inl ''invalid input syntax for type uuid''
      | Some n \<Rightarrow>
          if 10 ^ 15 \<le> \<bar>to_cents amount\<bar> then Inl ''numeric field overflow''
          else case rls_tenant p t of
            Inl e \<Rightarrow> Inl e
          | Inr u \<Rightarrow>
              if Some n = u then
                (let row = \<lparr>tr_id = new_id, tr_tenant = n, tr_cents = to_cents amount,
                            tr_description = description, tr_created_at = tx_now t\<rparr>
                 in Inr (row, t\<lparr>pend_tx := pend_tx t @ [row]\<rparr>))
              else Inl ''new row violates row-level security policy'')"

definition sql_sum_amount :: "pg \<Rightarrow> db \<Rightarrow> open_tx \<Rightarrow> string + int" where
  "sql_sum_amount p d t =
     map_sum id (\<lambda>u. sum_list (map tr_cents (visible_tx u t d))) (rls_tenant p t)"

definition sql_select_logs :: "pg \<Rightarrow> db \<Rightarrow> open_tx \<Rightarrow> string + audit_row list" where
  "sql_select_logs p d t = map_sum id (\<lambda>u. sort_key al_id (visible_logs u t d)) (rls_tenant p t)"

text \<open>UPDATE and DELETE on the ledger: the trigger raises for the first row that qualifies.\<close>

definition worm_message :: string where
  "worm_message = ''Audit logs are immutable. UPDATE and DELETE operations are strictly prohibited.''"

definition sql_update_audit :: "(audit_row \<Rightarrow> bool) \<Rightarrow> (audit_row \<Rightarrow> audit_row) \<Rightarrow> db \<Rightarrow> string + db" where
  "sql_update_audit q f d =
     (if list_ex q (audit_logs d) then Inl worm_message
      else Inr (d\<lparr>audit_logs := map (\<lambda>r. if q r then f r else r) (audit_logs d)\<rparr>))"

definition sql_delete_audit :: "(audit_row \<Rightarrow> bool) \<Rightarrow> db \<Rightarrow> string + db" where
  "sql_delete_audit q d =
     (if list_ex q (audit_logs d) then Inl worm_message
      else Inr (d\<lparr>audit_logs := filter (\<lambda>r. \<not> q r) (audit_logs d)\<rparr>))"

section \<open>The operations of DBClient\<close>

text \<open>
  One call of the client meets the clock, a fresh uuid, the two measured latencies, and for
  each of its round trips the driver's error, if the server fails there.
\<close>

datatype db_call = Begin_Tx | Set_Tenant | Set_Secret | Insert_Transaction | Query_Balance
  | Query_Logs | Scan_Row | Insert_Audit | Commit_Tx

record db_env =
  de_now :: instant
  de_uuid :: string
  de_rls_us :: int
  de_exec_us :: int
  de_fault :: "db_call \<Rightarrow> string option"

record Transaction =
  t_ID :: string
  t_TenantID :: string
  t_Amount :: rat
  t_Description :: string
  t_CreatedAt :: instant

definition GetUserUUID :: "string \<Rightarrow> string" where
  "GetUserUUID sub =
     (if sub = ''client-alice'' then ''aaaaaaaa-aaaa-aaaa-aaaa-aaaaaaaaaaaa''
      else if sub = ''client-bob'' then ''bbbbbbbb-bbbb-bbbb-bbbb-bbbbbbbbbbbb''
      else if sub = ''client-evil'' then ''eeeeeeee-eeee-eeee-eeee-eeeeeeeeeeee''
      else ''00000000-0000-0000-0000-000000000000'')"

definition wrap_err :: "string \<Rightarrow> string \<Rightarrow> string" where
  "wrap_err what e = what @ '': '' @ e"

text \<open>The common opening of the three operations: begin, set tenant, set secret.\<close>

definition open_context :: "db_env \<Rightarrow> string \<Rightarrow> string \<Rightarrow> string + open_tx" where
  "open_context env secret tenantID =
     (case de_fault env Begin_Tx of Some e \<Rightarrow> Inl (wrap_err ''failed to start database transaction'' e)
      | None \<Rightarrow>
     (case de_fault env Set_Tenant of Some e \<Rightarrow> Inl (wrap_err ''failed to set RLS tenant context'' e)
      | None \<Rightarrow>
     (case de_fault env Set_Secret of Some e \<Rightarrow> Inl (wrap_err ''failed to set audit secret context'' e)
      | None \<Rightarrow> Inr ((tx_begin (de_now env))\<lparr>app_tenant_id := tenantID, app_audit_secret := secret\<rparr>))))"

definition faulty :: "db_env \<Rightarrow> db_call \<Rightarrow> string + 'a \<Rightarrow> string + 'a" where
  "faulty env c r = (case de_fault env c of Some e \<Rightarrow> Inl e | None \<Rightarrow> r)"

text \<open>Write the audit row and commit; a failure before the commit rolls back.\<close>

definition audit_and_commit ::
  "pg \<Rightarrow> db_env \<Rightarrow> db \<Rightarrow> open_tx \<Rightarrow> string \<Rightarrow> string \<Rightarrow> string \<Rightarrow> json \<Rightarrow> (string + unit) \<times> db" where
  "audit_and_commit p env d t actorSub tenantID action details =
     (case de_fault env Insert_Audit of
        Some e \<Rightarrow> (Inl (wrap_err ''failed to write audit log'' e), d)
      | None \<Rightarrow>
        (case sql_insert_audit p d t (GetUserUUID actorSub) tenantID action ''transactions'' details of
           (Inl e, d') \<Rightarrow> (Inl (wrap_err ''failed to write audit log'' e), d')
         | (Inr t', d') \<Rightarrow>
             (case de_fault env Commit_Tx of
                Some e \<Rightarrow> (Inl (wrap_err ''failed to commit transaction'' e), d')
              | None \<Rightarrow> (Inr (), tx_commit t' d'))))"

definition CreateTransaction ::
  "pg \<Rightarrow> db_env \<Rightarrow> string \<Rightarrow> string \<Rightarrow> rat \<Rightarrow> string \<Rightarrow> string \<Rightarrow> db
     \<Rightarrow> (string + Transaction \<times> int \<times> int) \<times> db" where
  "CreateTransaction p env auditSecret tenantID amount description actorSub d =
     (case open_context env auditSecret tenantID of
        Inl e \<Rightarrow> (Inl e, d)
      | Inr t \<Rightarrow>
        (case faulty env Insert_Transaction
                (sql_insert_transaction p t (de_uuid env) tenantID amount description) of
           Inl e \<Rightarrow> (Inl (wrap_err ''transaction insert blocked or failed'' e), d)
         | Inr (row, t1) \<Rightarrow>
           (case audit_and_commit p env d t1 actorSub tenantID ''CREATE_TRANSACTION''
                  (JObj [(''amount'', JNum amount), (''description'', JStr description),
                         (''tx_id'', JStr (tr_id row))]) of
              (Inl e, d') \<Rightarrow> (Inl e, d')
            | (Inr _, d') \<Rightarrow>
                (Inr (\<lparr>t_ID = tr_id row, t_TenantID = tenantID, t_Amount = amount,
                       t_Description = description, t_CreatedAt = tr_created_at row\<rparr>,
                      de_rls_us env, de_exec_us env), d'))))"

definition GetBalance ::
  "pg \<Rightarrow> db_env \<Rightarrow> string \<Rightarrow> string \<Rightarrow> string \<Rightarrow> db \<Rightarrow> (string + rat \<times> int \<times> int) \<times> db" where
  "GetBalance p env auditSecret tenantID actorSub d =
     (case open_context env auditSecret tenantID of
        Inl e \<Rightarrow> (Inl e, d)
      | Inr t \<Rightarrow>
        (case faulty env Query_Balance (sql_sum_amount p d t) of
           Inl e \<Rightarrow> (Inl (wrap_err ''failed to query balance'' e), d)
         | Inr cents \<Rightarrow>
           (case audit_and_commit p env d t actorSub tenantID ''GET_BALANCE'' (JObj []) of
              (Inl e, d') \<Rightarrow> (Inl e, d')
            | (Inr _, d') \<Rightarrow> (Inr (of_int cents / 100, de_rls_us env, de_exec_us env), d'))))"

definition GetAuditLogs ::
  "pg \<Rightarrow> db_env \<Rightarrow> string \<Rightarrow> string \<Rightarrow> db \<Rightarrow> (string + audit_row list \<times> int \<times> int) \<times> db" where
  "GetAuditLogs p env auditSecret tenantID d =
     (case open_context env auditSecret tenantID of
        Inl e \<Rightarrow> (Inl e, d)
      | Inr t \<Rightarrow>
        (case faulty env Query_Logs (sql_select_logs p d t) of
           Inl e \<Rightarrow> (Inl (wrap_err ''failed to query audit logs'' e), d)
         | Inr logs \<Rightarrow>
           (case (if logs = [] then None else de_fault env Scan_Row) of
              Some e \<Rightarrow> (Inl (wrap_err ''failed to scan audit log row'' e), d)
            | None \<Rightarrow>
           (case de_fault env Commit_Tx of
              Some e \<Rightarrow> (Inl (wrap_err ''failed to commit transaction'' e), d)
            | None \<Rightarrow> (Inr (logs, de_rls_us env, de_exec_us env), tx_commit t d)))))"

end
