(* ===== verification/LedgerFacts.thy ===== *)
theory LedgerFacts
  imports Ledger
begin

text \<open>
  What the ledger guarantees.  Operations that run one after the other keep every tenant's
  part of \<open>audit_logs\<close> a hash chain starting at the zero hash, only append to the table, are
  atomic, and are invisible to the other tenants.  Two transactions of one tenant that
  overlap fork its chain: the trigger of each reads the same last row.
\<close>

section \<open>The chain of one tenant\<close>

fun linked :: "pg \<Rightarrow> string \<Rightarrow> string \<Rightarrow> audit_row list \<Rightarrow> bool" where
  "linked p k h [] = True"
| "linked p k h (r # rs) = (al_prev_hash r = h \<and> al_block_hash r = hmac_hex p (concat_text p r) k
     \<and> linked p k (al_block_hash r) rs)"

definition chain_end :: "string \<Rightarrow> audit_row list \<Rightarrow> string" where
  "chain_end h rs = (if rs = [] then h else al_block_hash (last rs))"

definition tenant_log :: "string \<Rightarrow> db \<Rightarrow> audit_row list" where
  "tenant_log u d = filter (\<lambda>r. al_tenant r = u) (audit_logs d)"

definition tenant_tx :: "string \<Rightarrow> db \<Rightarrow> tx_row list" where
  "tenant_tx u d = filter (\<lambda>r. tr_tenant r = u) (transactions d)"

definition ids_ok :: "db \<Rightarrow> bool" where
  "ids_ok d \<longleftrightarrow> sorted_wrt (<) (map al_id (audit_logs d) @ [audit_seq d])"

definition ledger_inv :: "pg \<Rightarrow> string \<Rightarrow> db \<Rightarrow> bool" where
  "ledger_inv p k d \<longleftrightarrow> ids_ok d \<and> (\<forall>u. linked p k zero_hash (tenant_log u d))"

lemma linked_snoc:
  "linked p k h (rs @ [r]) \<longleftrightarrow> linked p k h rs \<and> al_prev_hash r = chain_end h rs
     \<and> al_block_hash r = hmac_hex p (concat_text p r) k"
  by (induction rs arbitrary: h) (auto simp: chain_end_def)

lemma latest_sorted: "sorted_wrt (<) (map al_id rs) \<Longrightarrow> latest rs = (if rs = [] then None else Some (last rs))"
proof (induction rs)
  case (Cons r rs)
  then show ?case by (cases "rs = []") (auto simp: order.strict_implies_order)
qed simp

lemma ids_ok_filter: "ids_ok d \<Longrightarrow> sorted_wrt (<) (map al_id (filter q (audit_logs d)))"
  by (auto simp: ids_ok_def sorted_wrt_append sorted_wrt_map sorted_wrt_filter)

lemma trigger_prev:
  assumes "ids_ok d"
  shows "(case latest (tenant_log u d) of None \<Rightarrow> zero_hash | Some q \<Rightarrow> al_block_hash q)
     = chain_end zero_hash (tenant_log u d)"
  using latest_sorted [OF ids_ok_filter [OF assms, of "\<lambda>r. al_tenant r = u"]]
  by (simp add: tenant_log_def chain_end_def)

section \<open>One operation\<close>

text \<open>What a committed operation appended: the row's place in the tenant's chain.\<close>

definition appended :: "pg \<Rightarrow> string \<Rightarrow> db \<Rightarrow> string \<Rightarrow> audit_row \<Rightarrow> bool" where
  "appended p k d n r \<longleftrightarrow> al_id r = audit_seq d \<and> al_tenant r = n
     \<and> al_prev_hash r = (case latest (tenant_log n d) of None \<Rightarrow> zero_hash | Some q \<Rightarrow> al_block_hash q)
     \<and> al_block_hash r = hmac_hex p (concat_text p r) k"

lemma concat_text_block [simp]: "concat_text p (r\<lparr>al_block_hash := h\<rparr>) = concat_text p r"
  by (simp add: concat_text_def)

lemma visible_logs_own: "pend_audit t = [] \<Longrightarrow> visible_logs (Some n) t d = tenant_log n d"
  by (simp add: visible_logs_def tenant_log_def)

lemma pend_audit_update_inject [simp]:
  "t\<lparr>pend_audit := a\<rparr> = t\<lparr>pend_audit := b\<rparr> \<longleftrightarrow> a = b"
  by (cases t) simp

lemma sql_insert_audit_outcome:
  assumes "sql_insert_audit p d t actor tenant action res det = (x, d')" "pend_audit t = []"
    and "app_tenant_id t = tenant"
  shows "case x of
      Inl e \<Rightarrow> transactions d' = transactions d \<and> audit_logs d' = audit_logs d \<and> audit_seq d \<le> audit_seq d'
    | Inr t' \<Rightarrow> (\<exists>n a r. uuid_in p tenant = Some n \<and> tenant \<noteq> [] \<and> uuid_in p actor = Some a
        \<and> d' = d\<lparr>audit_seq := audit_seq d + 1\<rparr> \<and> t' = t\<lparr>pend_audit := [r]\<rparr>
        \<and> appended p (app_audit_secret t) d n r \<and> app_audit_secret t \<noteq> []
        \<and> al_actor r = a \<and> al_action r = action \<and> al_details r = det \<and> al_timestamp r = tx_now t)"
proof (cases "uuid_in p actor = None \<or> uuid_in p tenant = None \<or> tenant = [] \<or> app_audit_secret t = []")
  case True
  then show ?thesis
    using assms by (auto simp: sql_insert_audit_def hash_audit_record_def rls_tenant_def Let_def
        split: option.splits sum.splits if_splits)
next
  case False
  then obtain a n where an: "uuid_in p actor = Some a" "uuid_in p tenant = Some n" by auto
  then show ?thesis
    using assms False by (auto simp: sql_insert_audit_def hash_audit_record_def rls_tenant_def Let_def
        appended_def visible_logs_own concat_text_def)
qed

lemma audit_and_commit_outcome:
  assumes "audit_and_commit p env d t actorSub tenant action det = (x, d')" "pend_audit t = []"
    and "app_tenant_id t = tenant"
  shows "case x of
      Inl e \<Rightarrow> transactions d' = transactions d \<and> audit_logs d' = audit_logs d \<and> audit_seq d \<le> audit_seq d'
    | Inr _ \<Rightarrow> (\<exists>n r. uuid_in p tenant = Some n \<and> tenant \<noteq> [] \<and> audit_seq d' = audit_seq d + 1
        \<and> transactions d' = transactions d @ pend_tx t \<and> audit_logs d' = audit_logs d @ [r]
        \<and> appended p (app_audit_secret t) d n r \<and> uuid_in p (GetUserUUID actorSub) = Some (al_actor r)
        \<and> al_action r = action \<and> al_details r = det)"
proof (cases "de_fault env Insert_Audit")
  case None
  obtain y d1 where y: "sql_insert_audit p d t (GetUserUUID actorSub) tenant action ''transactions'' det = (y, d1)"
    by (metis surj_pair)
  show ?thesis
    using assms sql_insert_audit_outcome [OF y assms(2,3)] None y
    by (auto simp: audit_and_commit_def tx_commit_def split: sum.splits option.splits)
qed (use assms in \<open>auto simp: audit_and_commit_def\<close>)

lemma open_context_ok:
  "open_context env k tenant = Inr t \<Longrightarrow> app_tenant_id t = tenant \<and> app_audit_secret t = k
     \<and> pend_audit t = [] \<and> pend_tx t = [] \<and> tx_now t = de_now env"
  by (auto simp: open_context_def tx_begin_def split: option.splits)

lemma sql_insert_transaction_ok:
  assumes "sql_insert_transaction p t new tenant amount desc = Inr (row, t')" "app_tenant_id t = tenant"
  shows "\<exists>n. uuid_in p tenant = Some n \<and> t' = t\<lparr>pend_tx := pend_tx t @ [row]\<rparr> \<and> tr_tenant row = n
    \<and> tr_cents row = to_cents amount \<and> tr_id row = new \<and> tr_description row = desc"
  using assms by (auto simp: sql_insert_transaction_def rls_tenant_def Let_def
      split: option.splits if_splits sum.splits)

lemma CreateTransaction_outcome:
  "case CreateTransaction p env k tenant amount desc sub d of
     (Inl e, d') \<Rightarrow> transactions d' = transactions d \<and> audit_logs d' = audit_logs d \<and> audit_seq d \<le> audit_seq d'
   | (Inr (t, _), d') \<Rightarrow> (\<exists>n row r. uuid_in p tenant = Some n \<and> audit_seq d' = audit_seq d + 1
        \<and> transactions d' = transactions d @ [row] \<and> audit_logs d' = audit_logs d @ [r]
        \<and> appended p k d n r \<and> tr_tenant row = n \<and> tr_cents row = to_cents amount
        \<and> tr_id row = t_ID t \<and> al_action r = ''CREATE_TRANSACTION''
        \<and> al_details r = JObj [(''amount'', JNum amount), (''description'', JStr desc), (''tx_id'', JStr (t_ID t))])"
proof (cases "open_context env k tenant")
  case (Inr t)
  note ctx = open_context_ok [OF Inr]
  show ?thesis
  proof (cases "faulty env Insert_Transaction (sql_insert_transaction p t (de_uuid env) tenant amount desc)")
    case (Inr rt)
    obtain row t1 where rt: "rt = (row, t1)" by (cases rt)
    with Inr have ins: "sql_insert_transaction p t (de_uuid env) tenant amount desc = Inr (row, t1)"
      by (auto simp: faulty_def split: option.splits)
    let ?det = "JObj [(''amount'', JNum amount), (''description'', JStr desc), (''tx_id'', JStr (tr_id row))]"
    obtain x d' where ac: "audit_and_commit p env d t1 sub tenant ''CREATE_TRANSACTION'' ?det = (x, d')"
      by (metis surj_pair)
    from sql_insert_transaction_ok [OF ins] ctx audit_and_commit_outcome [OF ac]
    show ?thesis
      using Inr \<open>open_context env k tenant = Inr t\<close> rt ac
      by (auto simp: CreateTransaction_def split: sum.splits)
  qed (use Inr in \<open>auto simp: CreateTransaction_def\<close>)
qed (auto simp: CreateTransaction_def)

lemma GetBalance_outcome:
  "case GetBalance p env k tenant sub d of
     (Inl e, d') \<Rightarrow> transactions d' = transactions d \<and> audit_logs d' = audit_logs d \<and> audit_seq d \<le> audit_seq d'
   | (Inr (b, _), d') \<Rightarrow> (\<exists>n r. uuid_in p tenant = Some n \<and> audit_seq d' = audit_seq d + 1
        \<and> transactions d' = transactions d \<and> audit_logs d' = audit_logs d @ [r] \<and> appended p k d n r
        \<and> al_action r = ''GET_BALANCE'' \<and> al_details r = JObj []
        \<and> b = of_int (sum_list (map tr_cents (tenant_tx n d))) / 100)"
proof (cases "open_context env k tenant")
  case (Inr t)
  note ctx = open_context_ok [OF Inr]
  obtain x d' where ac: "audit_and_commit p env d t sub tenant ''GET_BALANCE'' (JObj []) = (x, d')"
    by (metis surj_pair)
  show ?thesis
    using Inr ctx audit_and_commit_outcome [OF ac] ac
    by (auto simp: GetBalance_def sql_sum_amount_def rls_tenant_def visible_tx_def tenant_tx_def
        faulty_def split: sum.splits option.splits if_splits)
qed (auto simp: GetBalance_def)

lemma GetAuditLogs_frame:
  "snd (GetAuditLogs p env k tenant d) = d"
  using open_context_ok [of env k tenant]
  by (auto simp: GetAuditLogs_def tx_commit_def split: sum.splits option.splits)

section \<open>Runs of operations\<close>

text \<open>The calls the handlers make, with the environment each of them meets.\<close>

datatype db_op =
    Op_Create db_env string rat string string
  | Op_Balance db_env string string
  | Op_Logs db_env string

fun db_step :: "pg \<Rightarrow> string \<Rightarrow> db_op \<Rightarrow> db \<Rightarrow> db" where
  "db_step p k (Op_Create env tenant amount desc sub) d = snd (CreateTransaction p env k tenant amount desc sub d)"
| "db_step p k (Op_Balance env tenant sub) d = snd (GetBalance p env k tenant sub d)"
| "db_step p k (Op_Logs env tenant) d = snd (GetAuditLogs p env k tenant d)"

fun op_tenant :: "db_op \<Rightarrow> string" where
  "op_tenant (Op_Create env tenant amount desc sub) = tenant"
| "op_tenant (Op_Balance env tenant sub) = tenant"
| "op_tenant (Op_Logs env tenant) = tenant"

text \<open>Every operation either leaves the log alone or appends one row of its own tenant.\<close>

lemma db_step_cases:
  obtains (same) "audit_logs (db_step p k e d) = audit_logs d" "audit_seq d \<le> audit_seq (db_step p k e d)"
      "transactions (db_step p k e d) = transactions d"
  | (row) n r rows where "uuid_in p (op_tenant e) = Some n" "audit_logs (db_step p k e d) = audit_logs d @ [r]"
      "audit_seq (db_step p k e d) = audit_seq d + 1" "appended p k d n r"
      "transactions (db_step p k e d) = transactions d @ rows" "\<forall>w \<in> set rows. tr_tenant w = n"
proof (cases e)
  case (Op_Create env tenant amount desc sub)
  then show ?thesis
    using CreateTransaction_outcome [where p = p and env = env and k = k and tenant = tenant and amount = amount
        and desc = desc and sub = sub and d = d] same row
    by (fastforce split: prod.splits sum.splits)
next
  case (Op_Balance env tenant sub)
  then show ?thesis
    using GetBalance_outcome [where p = p and env = env and k = k and tenant = tenant and sub = sub and d = d] same row [where rows = "[]"]
    by (fastforce split: prod.splits sum.splits)
next
  case (Op_Logs env tenant)
  then show ?thesis using GetAuditLogs_frame same by simp
qed

lemma ids_ok_append:
  assumes "ids_ok d" "audit_logs d' = audit_logs d @ [r]" "al_id r = audit_seq d" "audit_seq d' = audit_seq d + 1"
  shows "ids_ok d'"
  using assms by (auto simp: ids_ok_def sorted_wrt_append)

lemma tenant_log_append:
  "audit_logs d' = audit_logs d @ [r] \<Longrightarrow>
     tenant_log u d' = tenant_log u d @ (if al_tenant r = u then [r] else [])"
  by (simp add: tenant_log_def)

lemma db_step_inv:
  assumes "ledger_inv p k d"
  shows "ledger_inv p k (db_step p k e d)"
proof (cases rule: db_step_cases [where p = p and k = k and e = e and d = d])
  case same
  with assms show ?thesis
    by (fastforce simp: ledger_inv_def ids_ok_def tenant_log_def sorted_wrt_append)
next
  case (row n r)
  from assms have ids: "ids_ok d" by (simp add: ledger_inv_def)
  have "ids_ok (db_step p k e d)"
    using ids_ok_append [OF ids] row(2-4) by (simp add: appended_def)
  moreover have "linked p k zero_hash (tenant_log u (db_step p k e d))" for u
    using assms row(4) trigger_prev [OF ids, of n]
    by (auto simp: tenant_log_append [OF row(2)] ledger_inv_def linked_snoc appended_def)
  ultimately show ?thesis by (simp add: ledger_inv_def)
qed

interpretation ledger: logged_machine "db_step p k" "ledger_inv p k" "\<lambda>_. True" audit_logs for p k
proof unfold_locales
  fix d e
  show "ledger_inv p k d \<Longrightarrow> ledger_inv p k (db_step p k e d)" by (rule db_step_inv)
  show "\<exists>new. audit_logs (db_step p k e d) = audit_logs d @ new"
    by (cases rule: db_step_cases [where p = p and k = k and e = e and d = d]) auto
qed

lemma ledger_inv_empty: "ledger_inv p k empty_db"
  by (simp add: ledger_inv_def ids_ok_def empty_db_def tenant_log_def)

lemma run_ledger_inv: "ledger_inv p k (fold (db_step p k) ops empty_db)"
  using ledger.run_inv [OF ledger_inv_empty] by (simp add: list_all_iff)

text \<open>C1: after any sequence of operations, whatever fails on the way, the rows of every tenant
  form one hash chain: the first carries the zero hash, each later one the hash of the row
  before it, and each row's hash is the HMAC of its own fields.\<close>

theorem tenant_chains_linked:
  "linked p k zero_hash (tenant_log u (fold (db_step p k) ops empty_db))"
  using run_ledger_inv [of p k ops] by (simp add: ledger_inv_def)

text \<open>C2: the ledger is append-only.  Later operations only add rows at its end, and no UPDATE or
  DELETE statement changes it: either the trigger raises, or no row was concerned.\<close>

theorem ledger_append_only:
  "(\<exists>new. audit_logs (fold (db_step p k) (xs @ ys) empty_db)
        = audit_logs (fold (db_step p k) xs empty_db) @ new)
   \<and> sql_update_audit q f d \<in> {Inl worm_message, Inr d}
   \<and> sql_delete_audit q d \<in> {Inl worm_message, Inr d}"
proof (intro conjI)
  show "\<exists>new. audit_logs (fold (db_step p k) (xs @ ys) empty_db)
      = audit_logs (fold (db_step p k) xs empty_db) @ new"
    using ledger.run_log [OF run_ledger_inv [of p k xs]] by (simp add: list_all_iff)
  have "\<not> list_ex q rs \<Longrightarrow> map (\<lambda>r. if q r then f r else r) rs = rs \<and> filter (\<lambda>r. \<not> q r) rs = rs" for rs
    by (induction rs) auto
  then show "sql_update_audit q f d \<in> {Inl worm_message, Inr d}" "sql_delete_audit q d \<in> {Inl worm_message, Inr d}"
    by (auto simp: sql_update_audit_def sql_delete_audit_def)
qed

text \<open>C3: a transfer is atomic.  If it fails, both tables are as before; if it succeeds, exactly
  one transaction row and one audit row were added, both of the caller's tenant, the amount
  rounded to hundredths, the audit row naming the transaction and continuing the chain.\<close>

theorem transfer_atomic:
  "case CreateTransaction p env k tenant amount desc sub d of
     (Inl e, d') \<Rightarrow> transactions d' = transactions d \<and> audit_logs d' = audit_logs d
   | (Inr (t, _), d') \<Rightarrow> (\<exists>n row r. uuid_in p tenant = Some n
        \<and> transactions d' = transactions d @ [row] \<and> audit_logs d' = audit_logs d @ [r]
        \<and> appended p k d n r \<and> tr_tenant row = n \<and> tr_cents row = to_cents amount
        \<and> tr_id row = t_ID t \<and> al_action r = ''CREATE_TRANSACTION''
        \<and> al_details r = JObj [(''amount'', JNum amount), (''description'', JStr desc), (''tx_id'', JStr (t_ID t))])"
  using CreateTransaction_outcome [where p = p and env = env and k = k and tenant = tenant and amount = amount
        and desc = desc and sub = sub and d = d]
  by (auto split: prod.splits sum.splits)

section \<open>Tenant isolation\<close>

lemma db_step_other:
  assumes "uuid_in p (op_tenant e) \<noteq> Some u"
  shows "tenant_log u (db_step p k e d) = tenant_log u d \<and> tenant_tx u (db_step p k e d) = tenant_tx u d"
proof (cases rule: db_step_cases [where p = p and k = k and e = e and d = d])
  case (row n r rows)
  with assms have "n \<noteq> u" by auto
  with row show ?thesis
    by (auto simp: tenant_log_def tenant_tx_def appended_def filter_empty_conv)
qed (simp add: tenant_log_def tenant_tx_def)

lemma run_other:
  "list_all (\<lambda>e. uuid_in p (op_tenant e) \<noteq> Some u) ops \<Longrightarrow>
     tenant_log u (fold (db_step p k) ops d) = tenant_log u d \<and> tenant_tx u (fold (db_step p k) ops d) = tenant_tx u d"
  by (induction ops arbitrary: d) (auto simp: db_step_other)

lemma reads_own_rows:
  assumes "uuid_in p tenant = Some u" "tenant_tx u d = tenant_tx u d'" "tenant_log u d = tenant_log u d'"
  shows "fst (GetAuditLogs p env k tenant d) = fst (GetAuditLogs p env k tenant d')"
    and "fst (GetBalance p env k tenant sub d) = fst (GetBalance p env k tenant sub d')"
proof -
  have ctx: "open_context env k tenant = Inr t \<Longrightarrow> app_tenant_id t = tenant \<and> pend_audit t = [] \<and> pend_tx t = []" for t
    using open_context_ok [of env k tenant t] by simp
  show "fst (GetAuditLogs p env k tenant d) = fst (GetAuditLogs p env k tenant d')"
    using assms by (auto simp: GetAuditLogs_def faulty_def sql_select_logs_def rls_tenant_def visible_logs_def
        tenant_log_def dest!: ctx split: sum.splits option.splits)
  have sum: "sql_sum_amount p d t = sql_sum_amount p d' t" if "open_context env k tenant = Inr t" for t
    using assms ctx [OF that] by (simp add: sql_sum_amount_def rls_tenant_def visible_tx_def tenant_tx_def)
  have "sql_insert_audit p d t a tenant ac re de = (x, d1) \<Longrightarrow> sql_insert_audit p d' t a tenant ac re de = (x', d1')
      \<Longrightarrow> (\<exists>e. x = Inl e \<and> x' = Inl e) \<or> (\<exists>y y'. x = Inr y \<and> x' = Inr y')" for t a ac re de x x' d1 d1'
    by (auto simp: sql_insert_audit_def hash_audit_record_def Let_def split: option.splits sum.splits if_splits)
  then have commit: "fst (audit_and_commit p env d t sub tenant ac de) = fst (audit_and_commit p env d' t sub tenant ac de)" for t ac de
    unfolding audit_and_commit_def by (fastforce split: option.splits sum.splits prod.splits)
  show "fst (GetBalance p env k tenant sub d) = fst (GetBalance p env k tenant sub d')"
  proof (cases "open_context env k tenant")
    case (Inr t)
    obtain x d1 x' d2 where "audit_and_commit p env d t sub tenant ''GET_BALANCE'' (JObj []) = (x, d1)"
      "audit_and_commit p env d' t sub tenant ''GET_BALANCE'' (JObj []) = (x', d2)"
      by (metis surj_pair)
    with commit [of t "''GET_BALANCE''" "JObj []"] sum [OF Inr] Inr show ?thesis
      by (auto simp: GetBalance_def split: sum.splits)
  qed (simp add: GetBalance_def)
qed

text \<open>A concrete server and a faultless call, for the examples.\<close>

definition sample_pg :: pg where
  "sample_pg = \<lparr>uuid_in = Some, ts_out = show_int, jsonb_out = (\<lambda>_. ''{}''), hmac_hex = (\<lambda>t k. CHR ''h'' # k @ t)\<rparr>"

definition sample_env :: db_env where
  "sample_env = \<lparr>de_now = 0, de_uuid = ''id'', de_rls_us = 1, de_exec_us = 2, de_fault = (\<lambda>_. None)\<rparr>"

text \<open>C4: tenants are isolated.  Whatever operations other tenants run in between, a tenant's
  balance and audit log answer as if nothing had happened.\<close>

theorem tenant_isolation:
  assumes "uuid_in p tenant = Some u" "list_all (\<lambda>e. uuid_in p (op_tenant e) \<noteq> Some u) ops"
  shows "fst (GetBalance p env k tenant sub (fold (db_step p k) ops d)) = fst (GetBalance p env k tenant sub d)
    \<and> fst (GetAuditLogs p env k tenant (fold (db_step p k) ops d)) = fst (GetAuditLogs p env k tenant d)"
  using reads_own_rows [OF assms(1)] run_other [OF assms(2)] by metis

theorem tenant_isolation_witness:
  "fst (GetBalance sample_pg sample_env ''k'' ''A'' ''client-alice''
      (fold (db_step sample_pg ''k'') [Op_Create sample_env ''B'' 5 ''rent'' ''client-bob''] empty_db))
    = fst (GetBalance sample_pg sample_env ''k'' ''A'' ''client-alice'' empty_db)"
  using tenant_isolation [where p = sample_pg and tenant = "''A''" and u = "''A''"
      and ops = "[Op_Create sample_env ''B'' 5 ''rent'' ''client-bob'']"]
  by (simp add: sample_pg_def)

end
