(* ===== verification/LedgerInterleaving.thy ===== *)
theory LedgerInterleaving
  imports LedgerFacts
begin

text \<open>
  The gateway serves requests concurrently, so several database transactions are open at
  once.  The steps of all of them interleave freely; a statement sees the committed rows and
  the rows of its own transaction (READ COMMITTED, the server's default).  The audit statement
  is the one of \<open>CreateTransaction\<close> and \<open>GetBalance\<close> in \<^verbatim>\<open>gateway/internal/audit/db.go\<close>.
\<close>

record world =
  w_db :: db
  w_open :: "nat \<Rightarrow> open_tx option"

definition idle :: "db \<Rightarrow> world" where
  "idle d = \<lparr>w_db = d, w_open = (\<lambda>_. None)\<rparr>"

inductive tx_step :: "pg \<Rightarrow> string \<Rightarrow> world \<Rightarrow> world \<Rightarrow> bool" for p k where
  start: "w_open w i = None \<Longrightarrow>
    tx_step p k w (w\<lparr>w_open := (w_open w)(i \<mapsto> (tx_begin now)\<lparr>app_tenant_id := tn, app_audit_secret := k\<rparr>)\<rparr>)"
| audit: "w_open w i = Some t \<Longrightarrow>
    sql_insert_audit p (w_db w) t actor (app_tenant_id t) action ''transactions'' det = (Inr t', d') \<Longrightarrow>
    tx_step p k w (w\<lparr>w_db := d', w_open := (w_open w)(i \<mapsto> t')\<rparr>)"
| audit_fail: "w_open w i = Some t \<Longrightarrow>
    sql_insert_audit p (w_db w) t actor (app_tenant_id t) action ''transactions'' det = (Inl e, d') \<Longrightarrow>
    tx_step p k w (w\<lparr>w_db := d', w_open := (w_open w)(i := None)\<rparr>)"
| commit: "w_open w i = Some t \<Longrightarrow>
    tx_step p k w (w\<lparr>w_db := tx_commit t (w_db w), w_open := (w_open w)(i := None)\<rparr>)"
| rollback: "w_open w i = Some t \<Longrightarrow> tx_step p k w (w\<lparr>w_open := (w_open w)(i := None)\<rparr>)"

inductive_cases tx_stepE: "tx_step p k w w'"

section \<open>What every interleaving keeps: a hash tree\<close>

text \<open>A row is rooted in a set of rows when it continues the zero hash or a row of the set
  with a smaller id and its own tenant.\<close>

definition rooted :: "audit_row list \<Rightarrow> audit_row \<Rightarrow> bool" where
  "rooted rs r \<longleftrightarrow> al_prev_hash r = zero_hash
     \<or> list_ex (\<lambda>q. al_tenant q = al_tenant r \<and> al_id q < al_id r \<and> al_block_hash q = al_prev_hash r) rs"

definition sealed :: "pg \<Rightarrow> string \<Rightarrow> audit_row \<Rightarrow> bool" where
  "sealed p k r \<longleftrightarrow> al_block_hash r = hmac_hex p (concat_text p r) k"

definition row_ok :: "pg \<Rightarrow> string \<Rightarrow> audit_row list \<Rightarrow> int \<Rightarrow> audit_row \<Rightarrow> bool" where
  "row_ok p k rs n r \<longleftrightarrow> sealed p k r \<and> rooted rs r \<and> al_id r < n"

definition world_inv :: "pg \<Rightarrow> string \<Rightarrow> world \<Rightarrow> bool" where
  "world_inv p k w \<longleftrightarrow>
     list_all (row_ok p k (audit_logs (w_db w)) (audit_seq (w_db w))) (audit_logs (w_db w))
   \<and> (\<forall>i t. w_open w i = Some t \<longrightarrow> app_audit_secret t = k \<and>
        list_all (row_ok p k (audit_logs (w_db w) @ pend_audit t) (audit_seq (w_db w))) (pend_audit t))"

lemma latest_in: "latest rs = Some q \<Longrightarrow> q \<in> set rs"
  by (induction rs arbitrary: q) (auto split: option.splits if_splits)

lemma rooted_mono: "rooted rs r \<Longrightarrow> set rs \<subseteq> set rs' \<Longrightarrow> rooted rs' r"
  by (auto simp: rooted_def list_ex_iff)

lemma sql_insert_audit_open:
  assumes "sql_insert_audit p d t actor tenant action res det = (x, d')"
  shows "audit_logs d' = audit_logs d \<and> transactions d' = transactions d \<and> audit_seq d \<le> audit_seq d' \<and>
    (case x of Inl e \<Rightarrow> True | Inr t' \<Rightarrow> (\<exists>r. t' = t\<lparr>pend_audit := pend_audit t @ [r]\<rparr>
       \<and> al_id r = audit_seq d \<and> al_id r < audit_seq d' \<and> sealed p (app_audit_secret t) r
       \<and> uuid_in p tenant = Some (al_tenant r)
       \<and> al_prev_hash r = (case latest (visible_logs (Some (al_tenant r)) t d) of None \<Rightarrow> zero_hash | Some q \<Rightarrow> al_block_hash q)))"
proof (cases "uuid_in p actor = None \<or> uuid_in p tenant = None \<or> app_audit_secret t = [] \<or> rls_tenant p t \<noteq> Inr (uuid_in p tenant)")
  case True
  then show ?thesis
    using assms by (auto simp: sql_insert_audit_def hash_audit_record_def Let_def
        split: option.splits sum.splits if_splits)
next
  case False
  then obtain a n where "uuid_in p actor = Some a" "uuid_in p tenant = Some n" by auto
  then show ?thesis
    using assms False by (auto simp: sql_insert_audit_def hash_audit_record_def Let_def sealed_def concat_text_def)
qed

lemma row_ok_mono:
  "list_all (row_ok p k rs n) xs \<Longrightarrow> set rs \<subseteq> set rs' \<Longrightarrow> n \<le> n' \<Longrightarrow> list_all (row_ok p k rs' n') xs"
  by (force simp: row_ok_def list_all_iff intro: rooted_mono)

lemma audit_row_ok:
  assumes "world_inv p k w" "w_open w i = Some t"
    and "sql_insert_audit p (w_db w) t actor tenant action res det = (Inr t', d')"
  shows "app_audit_secret t' = k
    \<and> list_all (row_ok p k (audit_logs d' @ pend_audit t') (audit_seq d')) (pend_audit t')"
proof -
  from sql_insert_audit_open [OF assms(3)] obtain r where
    same: "audit_logs d' = audit_logs (w_db w)" "audit_seq (w_db w) \<le> audit_seq d'"
    and t': "t' = t\<lparr>pend_audit := pend_audit t @ [r]\<rparr>"
    and r: "al_id r = audit_seq (w_db w)" "al_id r < audit_seq d'" "sealed p (app_audit_secret t) r"
      "al_prev_hash r = (case latest (visible_logs (Some (al_tenant r)) t (w_db w)) of
         None \<Rightarrow> zero_hash | Some q \<Rightarrow> al_block_hash q)"
    by auto
  have inv: "app_audit_secret t = k" "list_all (row_ok p k (audit_logs (w_db w)) (audit_seq (w_db w))) (audit_logs (w_db w))"
    "list_all (row_ok p k (audit_logs (w_db w) @ pend_audit t) (audit_seq (w_db w))) (pend_audit t)"
    using assms(1,2) by (auto simp: world_inv_def)
  have "rooted (audit_logs d' @ pend_audit t') r"
  proof (cases "latest (visible_logs (Some (al_tenant r)) t (w_db w))")
    case None
    with r show ?thesis by (simp add: rooted_def)
  next
    case (Some q)
    then have "q \<in> set (audit_logs (w_db w) @ pend_audit t)" "al_tenant q = al_tenant r"
      using latest_in by (fastforce simp: visible_logs_def)+
    moreover from this inv have "al_id q < al_id r" by (auto simp: r(1) list_all_iff row_ok_def)
    ultimately show ?thesis using Some r(4) same(1) by (auto simp: rooted_def t' list_ex_iff)
  qed
  then have "row_ok p k (audit_logs d' @ pend_audit t') (audit_seq d') r"
    using r inv(1) by (simp add: row_ok_def)
  moreover have "list_all (row_ok p k (audit_logs d' @ pend_audit t') (audit_seq d')) (pend_audit t)"
    using inv(3) by (rule row_ok_mono) (use same t' in auto)
  ultimately show ?thesis using inv(1) t' by simp
qed

text \<open>Steps that change neither the log nor any pending row of another transaction.\<close>

lemma world_inv_frame:
  assumes "world_inv p k w" "set (audit_logs (w_db w)) \<subseteq> set (audit_logs d')" "audit_seq (w_db w) \<le> audit_seq d'"
    and "list_all (row_ok p k (audit_logs d') (audit_seq d')) (audit_logs d')"
    and "\<And>t. x = Some t \<Longrightarrow> app_audit_secret t = k
       \<and> list_all (row_ok p k (audit_logs d' @ pend_audit t) (audit_seq d')) (pend_audit t)"
  shows "world_inv p k (w\<lparr>w_db := d', w_open := (w_open w)(i := x)\<rparr>)"
proof -
  have "list_all (row_ok p k (audit_logs d' @ pend_audit t) (audit_seq d')) (pend_audit t)"
    if "w_open w j = Some t" for j t
    using assms(1) that by (intro row_ok_mono [OF _ _ assms(3)]) (use assms(2) in \<open>auto simp: world_inv_def\<close>)
  with assms show ?thesis by (auto simp: world_inv_def)
qed

lemma tx_step_inv:
  assumes "tx_step p k w w'" "world_inv p k w"
  shows "world_inv p k w'"
proof -
  have logs: "list_all (row_ok p k (audit_logs (w_db w)) (audit_seq (w_db w))) (audit_logs (w_db w))"
    using assms(2) by (simp add: world_inv_def)
  from assms(1) show ?thesis
  proof (cases rule: tx_step.cases)
    case (start i now tn)
    then show ?thesis using assms(2) by (auto simp: world_inv_def tx_begin_def)
  next
    case (audit i t actor action det t' d')
    note o = sql_insert_audit_open [OF audit(3)]
    show ?thesis unfolding audit(1)
      by (rule world_inv_frame [OF assms(2)])
         (use o row_ok_mono [OF logs] audit_row_ok [OF assms(2) audit(2,3)] in auto)
  next
    case (audit_fail i t actor action det e d')
    note o = sql_insert_audit_open [OF audit_fail(3)]
    show ?thesis unfolding audit_fail(1)
      by (rule world_inv_frame [OF assms(2)]) (use o row_ok_mono [OF logs] in auto)
  next
    case (commit i t)
    have p: "list_all (row_ok p k (audit_logs (w_db w) @ pend_audit t) (audit_seq (w_db w))) (pend_audit t)"
      using assms(2) commit(2) by (simp add: world_inv_def)
    show ?thesis unfolding commit(1)
      by (rule world_inv_frame [OF assms(2)]) (use p row_ok_mono [OF logs] in \<open>auto simp: tx_commit_def\<close>)
  next
    case (rollback i t)
    then show ?thesis using assms(2) by (auto simp: world_inv_def)
  qed
qed

lemma tx_steps_inv: "(tx_step p k)\<^sup>*\<^sup>* w w' \<Longrightarrow> world_inv p k w \<Longrightarrow> world_inv p k w'"
  by (induction rule: rtranclp_induct) (auto intro: tx_step_inv)


section \<open>Overlapping transactions of one tenant fork its chain\<close>

lemma sql_insert_audit_succeeds:
  assumes "uuid_in p actor = Some a" "uuid_in p tenant = Some n" "tenant \<noteq> []" "app_tenant_id t = tenant"
    "app_audit_secret t \<noteq> []" "pend_audit t = []"
  obtains r where
    "sql_insert_audit p d t actor tenant action res det = (Inr (t\<lparr>pend_audit := [r]\<rparr>), d\<lparr>audit_seq := audit_seq d + 1\<rparr>)"
    "appended p (app_audit_secret t) d n r"
proof -
  obtain x d' where x: "sql_insert_audit p d t actor tenant action res det = (x, d')" by (metis surj_pair)
  have "\<exists>t'. x = Inr t'"
    using x assms by (auto simp: sql_insert_audit_def hash_audit_record_def rls_tenant_def Let_def)
  with sql_insert_audit_outcome [OF x assms(6,4)] x assms(2) that show ?thesis by auto
qed

lemma fork_schedule:
  assumes "uuid_in p actor = Some a" "uuid_in p tn = Some u" "tn \<noteq> []" "k \<noteq> []"
  shows "\<exists>w r1 r2. (tx_step p k)\<^sup>*\<^sup>* (idle d) w \<and> w_open w = (\<lambda>_. None)
    \<and> tenant_log u (w_db w) = tenant_log u d @ [r1, r2] \<and> al_prev_hash r1 = al_prev_hash r2
    \<and> (linked p k zero_hash (tenant_log u (w_db w)) \<longrightarrow> al_block_hash r1 = al_prev_hash r1)"
proof -
  define t where "t = (tx_begin 0)\<lparr>app_tenant_id := tn, app_audit_secret := k\<rparr>"
  define d1 where "d1 = d\<lparr>audit_seq := audit_seq d + 1\<rparr>"
  define d2 where "d2 = d1\<lparr>audit_seq := audit_seq d1 + 1\<rparr>"
  have t: "app_tenant_id t = tn" "app_audit_secret t \<noteq> []" "pend_audit t = []" and k: "app_audit_secret t = k"
    using assms(4) by (simp_all add: t_def tx_begin_def)
  obtain r1 where r1: "sql_insert_audit p d t actor tn [] ''transactions'' (JObj []) = (Inr (t\<lparr>pend_audit := [r1]\<rparr>), d1)"
    "appended p (app_audit_secret t) d u r1"
    unfolding d1_def by (rule sql_insert_audit_succeeds [OF assms(1,2,3) t])
  obtain r2 where r2: "sql_insert_audit p d1 t actor tn [] ''transactions'' (JObj []) = (Inr (t\<lparr>pend_audit := [r2]\<rparr>), d2)"
    "appended p (app_audit_secret t) d1 u r2"
    unfolding d2_def by (rule sql_insert_audit_succeeds [OF assms(1,2,3) t])
  let ?t1 = "t\<lparr>pend_audit := [r1]\<rparr>" and ?t2 = "t\<lparr>pend_audit := [r2]\<rparr>"
  let ?none = "\<lambda>_::nat. None :: open_tx option"
  let ?w1 = "\<lparr>w_db = d, w_open = ?none(0 \<mapsto> t)\<rparr>"
  let ?w2 = "\<lparr>w_db = d, w_open = ?none(0 \<mapsto> t, 1 \<mapsto> t)\<rparr>"
  let ?w3 = "\<lparr>w_db = d1, w_open = ?none(0 \<mapsto> ?t1, 1 \<mapsto> t)\<rparr>"
  let ?w4 = "\<lparr>w_db = d2, w_open = ?none(0 \<mapsto> ?t1, 1 \<mapsto> ?t2)\<rparr>"
  let ?w5 = "\<lparr>w_db = tx_commit ?t1 d2, w_open = ?none(1 \<mapsto> ?t2)\<rparr>"
  let ?w6 = "\<lparr>w_db = tx_commit ?t2 (tx_commit ?t1 d2), w_open = ?none\<rparr>"
  have "tx_step p k (idle d) ?w1" using tx_step.start [where w = "idle d" and i = 0 and p = p and k = k and now = 0 and tn = tn] by (simp add: idle_def t_def [symmetric])
  moreover have "tx_step p k ?w1 ?w2" using tx_step.start [where w = ?w1 and i = 1 and p = p and k = k and now = 0 and tn = tn] by (simp add: t_def [symmetric])
  moreover have "tx_step p k ?w2 ?w3"
    using tx_step.audit [where w = ?w2 and i = 0 and p = p and k = k and t = t and actor = actor and action = "[]"
      and det = "JObj []" and t' = ?t1 and d' = d1] r1(1) t(1) by (simp add: fun_upd_twist)
  moreover have "tx_step p k ?w3 ?w4"
    using tx_step.audit [where w = ?w3 and i = 1 and p = p and k = k and t = t and actor = actor and action = "[]"
      and det = "JObj []" and t' = ?t2 and d' = d2] r2(1) t(1) by simp
  moreover have "tx_step p k ?w4 ?w5"
    using tx_step.commit [where w = ?w4 and i = 0 and t = ?t1 and p = p and k = k] by (simp add: fun_upd_twist)
  moreover have "tx_step p k ?w5 ?w6" using tx_step.commit [where w = ?w5 and i = 1 and t = ?t2 and p = p and k = k] by simp
  ultimately have path: "(tx_step p k)\<^sup>*\<^sup>* (idle d) ?w6"
    by (meson converse_rtranclp_into_rtranclp rtranclp.rtrancl_refl)
  have log: "tenant_log u (w_db ?w6) = tenant_log u d @ [r1, r2]"
    using r1(2) r2(2) by (simp add: tenant_log_def tx_commit_def appended_def d1_def d2_def)
  have "tenant_log u d1 = tenant_log u d" by (simp add: tenant_log_def d1_def)
  then have prev: "al_prev_hash r1 = al_prev_hash r2" using r1(2) r2(2) by (simp add: appended_def)
  have "linked p k zero_hash (tenant_log u d @ [r1, r2]) \<longrightarrow> al_block_hash r1 = al_prev_hash r1"
    using linked_snoc [of p k zero_hash "tenant_log u d @ [r1]" r2] prev by (auto simp: chain_end_def)
  with path log prev show ?thesis by (metis world.select_convs(2))
qed

text \<open>A server that reads every text as a uuid and whose HMAC prefixes the key, for the
  instances below.\<close>

text \<open>C6: two transactions of the same tenant that overlap fork its chain.  From every state
  of the ledger there is a schedule after which the tenant's log ends in two rows with the
  same \<open>prev_hash\<close>; the log is then no chain, unless the HMAC maps a row to its own prev_hash.\<close>

theorem overlapping_transactions_fork:
  assumes "uuid_in p actor = Some a" "uuid_in p tn = Some u" "tn \<noteq> []" "k \<noteq> []"
  shows "\<exists>w r1 r2. (tx_step p k)\<^sup>*\<^sup>* (idle d) w \<and> w_open w = (\<lambda>_. None)
    \<and> tenant_log u (w_db w) = tenant_log u d @ [r1, r2] \<and> al_prev_hash r1 = al_prev_hash r2
    \<and> (linked p k zero_hash (tenant_log u (w_db w)) \<longrightarrow> al_block_hash r1 = al_prev_hash r1)"
  using assms by (rule fork_schedule)

theorem overlapping_transactions_fork_witness:
  "\<exists>w r1 r2. (tx_step sample_pg ''k'')\<^sup>*\<^sup>* (idle empty_db) w \<and> w_open w = (\<lambda>_. None)
    \<and> tenant_log ''t'' (w_db w) = tenant_log ''t'' empty_db @ [r1, r2] \<and> al_prev_hash r1 = al_prev_hash r2
    \<and> (linked sample_pg ''k'' zero_hash (tenant_log ''t'' (w_db w)) \<longrightarrow> al_block_hash r1 = al_prev_hash r1)"
  by (rule overlapping_transactions_fork [where actor = "''a''" and a = "''a''" and tn = "''t''"])
     (simp_all add: sample_pg_def)


end
