(* ===== verification/VerifyChain.thy ===== *)
theory VerifyChain
  imports LedgerInterleaving
begin

text \<open>
  The two dashboard routes that read the ledger as the database's superuser, for whom the
  row-level policies do not apply: \<^verbatim>\<open>dashboard/src/app/api/verify-chain/route.ts\<close> and
  \<^verbatim>\<open>dashboard/src/app/api/logs/route.ts\<close>, and what the verdict of the first says about a
  ledger the gateway wrote.
\<close>

section \<open>Route responses\<close>

text \<open>All routes answer \<open>{status: "success", data}\<close>, or \<open>{status: "error", message}\<close> with an
  HTTP status.\<close>

datatype 'a api_response = Api_Success 'a | Api_Error nat string

definition respond :: "string + 'a \<Rightarrow> 'a api_response" where
  "respond r = (case r of Inr x \<Rightarrow> Api_Success x | Inl message \<Rightarrow> Api_Error StatusInternalServerError message)"

section \<open>The verify-chain route\<close>

record chain_step =
  cs_blockId :: string
  cs_action :: string
  cs_resource :: string
  cs_prevHash :: string
  cs_blockHash :: string
  cs_valid :: bool
  cs_error :: string

record chain_report =
  cr_isValid :: bool
  cr_totalBlocks :: nat
  cr_steps :: "chain_step list"

definition check_block :: "audit_row option \<Rightarrow> audit_row \<Rightarrow> bool \<times> string" where
  "check_block previous current =
     (case previous of
        None \<Rightarrow>
          if al_prev_hash current \<noteq> zero_hash
          then (False, ''Genesis block prev_hash is modified: '' @ al_prev_hash current) else (True, [])
      | Some q \<Rightarrow>
          if trim (al_prev_hash current) \<noteq> trim (al_block_hash q)
          then (False, ''Chain broken at Block #'' @ show_int (al_id current)
                  @ '': prev_hash does not match previous block_hash.'')
          else (True, []))"

text \<open>The loop over the rows, with the row before the current one, the flag and the steps so far.\<close>

fun verify_loop :: "audit_row option \<Rightarrow> audit_row list \<Rightarrow> bool \<Rightarrow> chain_step list \<Rightarrow> bool \<times> chain_step list" where
  "verify_loop previous [] isValid steps = (isValid, steps)"
| "verify_loop previous (current # rows) isValid steps =
     (let (stepValid, error) = check_block previous current
      in verify_loop (Some current) rows (if \<not> stepValid then False else isValid)
           (steps @ [\<lparr>cs_blockId = show_int (al_id current), cs_action = al_action current,
                      cs_resource = al_resource current, cs_prevHash = al_prev_hash current,
                      cs_blockHash = al_block_hash current, cs_valid = stepValid, cs_error = error\<rparr>]))"

definition verify_rows :: "audit_row list \<Rightarrow> chain_report" where
  "verify_rows rows = (let (isValid, steps) = verify_loop None rows True []
     in \<lparr>cr_isValid = isValid, cr_totalBlocks = length rows, cr_steps = steps\<rparr>)"

definition verify_chain_GET :: "string + audit_row list \<Rightarrow> chain_report api_response" where
  "verify_chain_GET queried = respond (map_sum id verify_rows queried)"

text \<open>\<open>SELECT ... FROM audit_logs ORDER BY id ASC\<close>, and the logs route's
  \<open>ORDER BY id DESC LIMIT 50\<close>, both as superuser.\<close>

definition all_logs :: "db \<Rightarrow> audit_row list" where
  "all_logs d = sort_key al_id (audit_logs d)"

definition logs_GET :: "string + db \<Rightarrow> audit_row list api_response" where
  "logs_GET queried = respond (map_sum id (\<lambda>d. take 50 (rev (all_logs d))) queried)"

section \<open>What the verdict means\<close>

fun links :: "audit_row option \<Rightarrow> audit_row list \<Rightarrow> bool" where
  "links previous [] = True"
| "links previous (r # rs) = (fst (check_block previous r) \<and> links (Some r) rs)"

definition step_of :: "audit_row option \<Rightarrow> audit_row \<Rightarrow> chain_step" where
  "step_of previous r = \<lparr>cs_blockId = show_int (al_id r), cs_action = al_action r, cs_resource = al_resource r,
     cs_prevHash = al_prev_hash r, cs_blockHash = al_block_hash r,
     cs_valid = fst (check_block previous r), cs_error = snd (check_block previous r)\<rparr>"

fun steps_of :: "audit_row option \<Rightarrow> audit_row list \<Rightarrow> chain_step list" where
  "steps_of previous [] = []"
| "steps_of previous (r # rs) = step_of previous r # steps_of (Some r) rs"

lemma verify_loop_eq: "verify_loop q rows v st = (v \<and> links q rows, st @ steps_of q rows)"
  by (induction rows arbitrary: q v st) (auto simp: step_of_def split: prod.splits)

lemma steps_of_valid: "list_all cs_valid (steps_of q rows) \<longleftrightarrow> links q rows"
  by (induction rows arbitrary: q) (auto simp: step_of_def)

lemma length_steps_of [simp]: "length (steps_of q rows) = length rows"
  by (induction rows arbitrary: q) auto

lemma verify_rows_links: "cr_isValid (verify_rows rows) \<longleftrightarrow> links None rows"
  by (simp add: verify_rows_def verify_loop_eq)

lemma links_snoc:
  "links q (rs @ [r]) \<longleftrightarrow> links q rs \<and> fst (check_block (if rs = [] then q else Some (last rs)) r)"
  by (induction rs arbitrary: q) auto

text \<open>The route's verdict is exact for its rows.  One step per row, in order; the verdict is
  the conjunction of the steps' flags; and it is positive iff the first row carries the zero
  hash and each later row repeats the block hash of the row before it, up to white space.\<close>

theorem verify_rows_verdict:
  "length (cr_steps (verify_rows rows)) = length rows
   \<and> map cs_blockId (cr_steps (verify_rows rows)) = map (show_int \<circ> al_id) rows
   \<and> (cr_isValid (verify_rows rows) \<longleftrightarrow> list_all cs_valid (cr_steps (verify_rows rows)))
   \<and> (cr_isValid (verify_rows rows) \<longleftrightarrow>
        (case rows of [] \<Rightarrow> True | r # _ \<Rightarrow> al_prev_hash r = zero_hash)
        \<and> successively (\<lambda>q r. trim (al_prev_hash r) = trim (al_block_hash q)) rows)"
proof -
  have ids: "map cs_blockId (steps_of q rows) = map (show_int \<circ> al_id) rows" for q
    by (induction rows arbitrary: q) (auto simp: step_of_def)
  have tail: "links (Some q) rs \<longleftrightarrow> successively (\<lambda>q r. trim (al_prev_hash r) = trim (al_block_hash q)) (q # rs)" for q rs
    by (induction rs arbitrary: q) (auto simp: check_block_def)
  have "links None rows \<longleftrightarrow> (case rows of [] \<Rightarrow> True | r # _ \<Rightarrow> al_prev_hash r = zero_hash)
        \<and> successively (\<lambda>q r. trim (al_prev_hash r) = trim (al_block_hash q)) rows"
    by (cases rows) (auto simp: check_block_def tail)
  then show ?thesis
    by (simp add: verify_rows_def verify_loop_eq steps_of_valid ids)
qed

text \<open>The verdict never looks at what a row says.  Rewriting the actor, tenant, action,
  resource, details or time of any rows, with the two hash columns left alone, cannot turn
  a positive verdict into a negative one: no hash is recomputed.\<close>

theorem verify_rows_ignores_contents:
  "cr_isValid (verify_rows (map (\<lambda>r. if q r then r\<lparr>al_timestamp := ts, al_actor := actor, al_tenant := tenant,
       al_action := action, al_resource := res, al_details := det\<rparr> else r) rows))
   = cr_isValid (verify_rows rows)"
proof -
  let ?f = "\<lambda>r. if q r then r\<lparr>al_timestamp := ts, al_actor := actor, al_tenant := tenant,
       al_action := action, al_resource := res, al_details := det\<rparr> else r"
  have "links (map_option ?f o') (map ?f rows) = links o' rows" for o'
  proof (induction rows arbitrary: o')
    case (Cons r rs)
    have "fst (check_block (map_option ?f o') (?f r)) = fst (check_block o' r)"
      by (cases o') (auto simp: check_block_def)
    with Cons.IH [of "Some r"] show ?case by simp
  qed simp
  from this [of None] show ?thesis by (simp add: verify_rows_links)
qed

section \<open>The verdict on a ledger the gateway wrote\<close>

lemma all_logs_run:
  "all_logs (fold (db_step p k) ops empty_db) = audit_logs (fold (db_step p k) ops empty_db)"
proof -
  have "ids_ok (fold (db_step p k) ops empty_db)"
    using run_ledger_inv by (simp add: ledger_inv_def)
  then have "sorted_wrt (<) (map al_id (audit_logs (fold (db_step p k) ops empty_db)))"
    by (simp add: ids_ok_def sorted_wrt_append)
  then show ?thesis
    by (simp add: all_logs_def sorted_sort_id sort_key_id_if_sorted strict_sorted_iff)
qed

lemma linked_links:
  "linked p k h rs \<Longrightarrow> (case q of None \<Rightarrow> h = zero_hash | Some r \<Rightarrow> h = al_block_hash r) \<Longrightarrow> links q rs"
  by (induction rs arbitrary: q h) (auto simp: check_block_def split: option.splits)

lemma chained_links_one_tenant:
  assumes "\<And>t. trim (hmac_hex p t k) \<noteq> zero_hash"
    and "\<forall>u. linked p k zero_hash (filter (\<lambda>r. al_tenant r = u) rows)" "links None rows"
  shows "\<exists>u. list_all (\<lambda>r. al_tenant r = u) rows"
  using assms(2,3)
proof (induction rows rule: rev_induct)
  case (snoc r rs)
  have "linked p k zero_hash (filter (\<lambda>r. al_tenant r = u) rs)" for u
    using snoc.prems(1) [rule_format, of u] by (auto simp: linked_snoc split: if_splits)
  with snoc obtain u where u: "list_all (\<lambda>r. al_tenant r = u) rs" by (auto simp: links_snoc)
  show ?case
  proof (cases "rs = [] \<or> al_tenant r = u")
    case True
    with u show ?thesis by (auto intro: exI [of _ "al_tenant r"])
  next
    case False
    then have "rs \<noteq> []" and other: "al_tenant r \<noteq> u" by auto
    then obtain qs q where q: "rs = qs @ [q]" by (meson rev_exhaust)
    have last: "last rs = q" by (simp add: q)
    have "filter (\<lambda>x. al_tenant x = al_tenant r) rs = []"
      using u other by (auto simp: filter_empty_conv list_all_iff)
    with snoc.prems(1) [rule_format, of "al_tenant r"] have "al_prev_hash r = zero_hash" by simp
    moreover have "trim (al_prev_hash r) = trim (al_block_hash q)"
      using snoc.prems(2) \<open>rs \<noteq> []\<close> last
      by (simp only: links_snoc) (simp add: check_block_def split: if_splits)
    moreover have "filter (\<lambda>x. al_tenant x = u) rs = rs" using u by (simp add: list_all_iff)
    then have "filter (\<lambda>x. al_tenant x = u) (rs @ [r]) = qs @ [q]" using other by (simp only: filter_append) (simp add: q)
    with snoc.prems(1) [rule_format, of u] have "linked p k zero_hash (qs @ [q])" by simp
    then have "al_block_hash q = hmac_hex p (concat_text p q) k"
      by (simp add: linked_snoc)
    moreover have "trim zero_hash = zero_hash" by code_simp
    ultimately show ?thesis using assms(1) by metis
  qed
qed simp



end
