(* ===== verification/Dpop.thy ===== *)
theory Dpop
  imports Web
begin

text \<open>
  DPoP proofs (RFC 9449) and key thumbprints (RFC 7638), which the repository implements three
  times: for the gateway (\<^verbatim>\<open>gateway/internal/auth/crypto.go\<close>), for the identity provider
  (\<^verbatim>\<open>idp/crypto/dpop.go\<close>) and for the command-line client (\<^verbatim>\<open>client/crypto/crypto.go\<close>).  The
  byte offset in Go's base64 error texts is left out.  The printing of an instant with
  \<open>%v\<close> is a parameter.
\<close>

definition b64_error :: string where
  "b64_error = ''illegal base64 data''"

definition sha256_b64 :: "string \<Rightarrow> string" where
  "sha256_b64 s = b64_encode (sha256 (str_bytes s))"

section \<open>Thumbprints\<close>

definition jwk_text :: "string \<Rightarrow> string \<Rightarrow> string" where
  "jwk_text x y = ''{\"crv\":\"P-256\",\"kty\":\"EC\",\"x\":\"'' @ x @ ''\",\"y\":\"'' @ y @ ''\"}''"

text \<open>The gateway: the coordinates are spliced into the text as they are.\<close>

definition CalculateJWKThumbprint :: "string \<Rightarrow> string \<Rightarrow> string" where
  "CalculateJWKThumbprint xStr yStr = sha256_b64 (jwk_text xStr yStr)"

text \<open>The identity provider: a map with four entries, marshalled.\<close>

record JWK =
  jwk_crv :: string
  jwk_kty :: string
  jwk_x :: string
  jwk_y :: string

definition canonical_jwk :: "JWK \<Rightarrow> string" where
  "canonical_jwk j = ''{\"crv\":'' @ json_string (jwk_crv j) @ '',\"kty\":'' @ json_string (jwk_kty j)
     @ '',\"x\":'' @ json_string (jwk_x j) @ '',\"y\":'' @ json_string (jwk_y j) @ ''}''"

definition ComputeThumbprint :: "JWK \<Rightarrow> string" where
  "ComputeThumbprint j = sha256_b64 (canonical_jwk j)"

text \<open>The client: from the point, the coordinates padded to 32 bytes.\<close>

definition client_thumbprint :: "point \<Rightarrow> string" where
  "client_thumbprint pub = sha256_b64 (jwk_text (coord_enc (fst pub)) (coord_enc (snd pub)))"

section \<open>Keys from texts\<close>

definition JWKToECDSA :: "string \<Rightarrow> string \<Rightarrow> string + point" where
  "JWKToECDSA xStr yStr =
     (case coord_dec xStr of None \<Rightarrow> Inl (''invalid x coordinate: '' @ b64_error)
      | Some x \<Rightarrow>
     (case coord_dec yStr of None \<Rightarrow> Inl (''invalid y coordinate: '' @ b64_error)
      | Some y \<Rightarrow> Inr (x, y)))"

definition JWKToPublicKey :: "JWK \<Rightarrow> string + point" where
  "JWKToPublicKey j =
     (if jwk_kty j \<noteq> ''EC'' \<or> jwk_crv j \<noteq> ''P-256''
      then Inl ''unsupported key type or curve, only EC P-256 is allowed''
      else (case coord_dec (jwk_x j) of None \<Rightarrow> Inl (''failed to decode X coordinate: '' @ b64_error)
      | Some x \<Rightarrow>
     (case coord_dec (jwk_y j) of None \<Rightarrow> Inl (''failed to decode Y coordinate: '' @ b64_error)
      | Some y \<Rightarrow> Inr (x, y))))"

section \<open>The gateway's verification\<close>

definition ecdsa_algs :: "string list" where
  "ecdsa_algs = [''ES256'', ''ES384'', ''ES512'']"

definition proof_key :: "members keyfunc" where
  "proof_key t =
     (if tk_alg t \<notin> set ecdsa_algs then Inl (''unexpected signing method: '' @ str_of (member (tk_header t) ''alg''))
      else (case member (tk_header t) ''jwk'' of
        None \<Rightarrow> Inl ''missing jwk claim in DPoP header''
      | Some (JObj jwkMap) \<Rightarrow>
          if member jwkMap ''kty'' \<noteq> Some (JStr ''EC'') \<or> member jwkMap ''crv'' \<noteq> Some (JStr ''P-256'')
          then Inl ''DPoP key must be EC P-256''
          else if str_of (member jwkMap ''x'') = [] \<or> str_of (member jwkMap ''y'') = []
          then Inl ''missing X/Y coordinates in DPoP key''
          else JWKToECDSA (str_of (member jwkMap ''x'')) (str_of (member jwkMap ''y''))
      | Some _ \<Rightarrow> Inl ''invalid jwk format in DPoP header''))"

definition header_jwk :: "members jwt_token \<Rightarrow> members" where
  "header_jwk t = (case member (tk_header t) ''jwk'' of Some (JObj jwkMap) \<Rightarrow> jwkMap | _ \<Rightarrow> [])"

definition stripHostAndScheme :: "string \<Rightarrow> string" where
  "stripHostAndScheme uri =
     (let uri1 = (case index_of uri ''://'' of Some idx \<Rightarrow> drop (idx + 3) uri | None \<Rightarrow> uri)
      in (case index_of uri1 ''/'' of Some idx \<Rightarrow> drop idx uri1 | None \<Rightarrow> ''/''))"

definition verifyHTU :: "string \<Rightarrow> string \<Rightarrow> bool" where
  "verifyHTU htu targetURI =
     (if htu = targetURI then True else stripHostAndScheme htu = stripHostAndScheme targetURI)"

definition VerifyDPoPProof ::
  "(instant \<Rightarrow> string) \<Rightarrow> members jwt_lib \<Rightarrow> instant \<Rightarrow> string \<Rightarrow> string \<Rightarrow> string \<Rightarrow> string \<Rightarrow> string + (string \<times> string)" where
  "VerifyDPoPProof ft lib now proofJWT method targetURI accessToken =
     (case jwt_parse lib now proofJWT proof_key of
        Inl e \<Rightarrow> Inl (''invalid DPoP proof signature: '' @ e)
      | Inr t \<Rightarrow>
        (let claims = tk_claims t;
             htm = str_of (member claims ''htm'');
             htu = str_of (member claims ''htu'');
             jti = str_of (member claims ''jti'');
             ath = str_of (member claims ''ath'');
             jwkMap = header_jwk t
         in if \<not> equal_fold htm method
            then Inl (''invalid htm claim: expected '' @ method @ '', got '' @ htm)
            else if \<not> verifyHTU htu targetURI
            then Inl (''invalid htu claim: expected match for '' @ targetURI @ '', got '' @ htu)
            else (case member claims ''iat'' of
              Some (JNum iatFloat) \<Rightarrow>
                (let iat = unix (trunc_rat iatFloat)
                 in if now - iat > 60 * second \<or> iat - now > 60 * second
                    then Inl (''DPoP proof expired or issued in the future (iat: '' @ ft iat @ '')'')
                    else if jti = [] then Inl ''missing jti claim in DPoP proof''
                    else if accessToken \<noteq> [] \<and> ath = []
                    then Inl ''missing ath claim in DPoP proof (required for request validation)''
                    else if accessToken \<noteq> [] \<and> ath \<noteq> sha256_b64 accessToken
                    then Inl ''ath claim mismatch: proof is not bound to this access token''
                    else Inr (CalculateJWKThumbprint (str_of (member jwkMap ''x'')) (str_of (member jwkMap ''y'')), jti))
            | _ \<Rightarrow> Inl ''missing or invalid iat claim'')))"

section \<open>The identity provider's verification\<close>

record DPoPClaims =
  HTTPMethod :: string
  HTTPURI :: string
  AccessTokenHash :: string
  IssuedAt :: "instant option"
  claim_ID :: string

text \<open>\<open>json.Unmarshal\<close> into the struct: field names match up to case, null changes nothing, any
  other value that is not a string is an error.\<close>

definition unmarshal_error :: string where
  "unmarshal_error = ''json: cannot unmarshal value into Go value of type JWK''"

definition set_jwk_field :: "string \<times> json \<Rightarrow> JWK \<Rightarrow> string + JWK" where
  "set_jwk_field e j =
     (case snd e of
        JNull \<Rightarrow> Inr j
      | JStr s \<Rightarrow>
          Inr (if equal_fold (fst e) ''crv'' then j\<lparr>jwk_crv := s\<rparr>
               else if equal_fold (fst e) ''kty'' then j\<lparr>jwk_kty := s\<rparr>
               else if equal_fold (fst e) ''x'' then j\<lparr>jwk_x := s\<rparr>
               else if equal_fold (fst e) ''y'' then j\<lparr>jwk_y := s\<rparr> else j)
      | _ \<Rightarrow> if list_ex (equal_fold (fst e)) [''crv'', ''kty'', ''x'', ''y''] then Inl unmarshal_error else Inr j)"

fun fold_result :: "('a \<Rightarrow> 'b \<Rightarrow> string + 'b) \<Rightarrow> 'a list \<Rightarrow> 'b \<Rightarrow> string + 'b" where
  "fold_result f [] b = Inr b"
| "fold_result f (a # as) b = (case f a b of Inl e \<Rightarrow> Inl e | Inr b' \<Rightarrow> fold_result f as b')"

definition unmarshal_JWK :: "json \<Rightarrow> string + JWK" where
  "unmarshal_JWK v =
     (case v of
        JNull \<Rightarrow> Inr \<lparr>jwk_crv = [], jwk_kty = [], jwk_x = [], jwk_y = []\<rparr>
      | JObj ms \<Rightarrow> fold_result set_jwk_field (map_entries ms) \<lparr>jwk_crv = [], jwk_kty = [], jwk_x = [], jwk_y = []\<rparr>
      | _ \<Rightarrow> Inl unmarshal_error)"

definition client_jwk :: "'c jwt_token \<Rightarrow> string + JWK" where
  "client_jwk t =
     (if tk_alg t \<noteq> ''ES256'' then Inl (''invalid signing algorithm: '' @ tk_alg t @ '', must be ES256'')
      else (case member (tk_header t) ''jwk'' of
        None \<Rightarrow> Inl ''missing jwk in DPoP header''
      | Some jwkRaw \<Rightarrow>
          (case unmarshal_JWK jwkRaw of Inl e \<Rightarrow> Inl (''failed to unmarshal jwk: '' @ e) | Inr j \<Rightarrow> Inr j)))"

definition idp_proof_key :: "'c keyfunc" where
  "idp_proof_key t = (case client_jwk t of Inl e \<Rightarrow> Inl e | Inr j \<Rightarrow> JWKToPublicKey j)"

definition idp_VerifyDPoPProof ::
  "(instant \<Rightarrow> string) \<Rightarrow> DPoPClaims jwt_lib \<Rightarrow> instant \<Rightarrow> string \<Rightarrow> string \<Rightarrow> string \<Rightarrow> string \<Rightarrow> string + (string \<times> string)" where
  "idp_VerifyDPoPProof ft lib now proofJWT expectedMethod expectedURI accessToken =
     (case jwt_parse lib now proofJWT idp_proof_key of
        Inl e \<Rightarrow> Inl (''invalid DPoP proof signature: '' @ e)
      | Inr t \<Rightarrow>
        (let claims = tk_claims t;
             cleanURI = hd (split_on CHR ''?'' expectedURI);
             cleanClaimURI = hd (split_on CHR ''?'' (HTTPURI claims))
         in if \<not> equal_fold (HTTPMethod claims) expectedMethod
            then Inl (''htm claim mismatch: expected '' @ expectedMethod @ '', got '' @ HTTPMethod claims)
            else if \<not> equal_fold cleanClaimURI cleanURI
            then Inl (''htu claim mismatch: expected '' @ cleanURI @ '', got '' @ cleanClaimURI)
            else (case IssuedAt claims of
              None \<Rightarrow> Inl ''missing iat claim in DPoP proof''
            | Some iat \<Rightarrow>
                if now - iat < - (60 * second) \<or> now - iat > 60 * second
                then Inl (''dpop proof expired or issued in the future: iat='' @ ft iat)
                else if accessToken \<noteq> [] \<and> AccessTokenHash claims = []
                then Inl ''missing ath claim in DPoP proof while validating access token''
                else if accessToken \<noteq> [] \<and> AccessTokenHash claims \<noteq> sha256_b64 accessToken
                then Inl ''ath claim mismatch: proof is not bound to this access token''
                else (case client_jwk t of
                  Inl e \<Rightarrow> Inl e
                | Inr clientJWK \<Rightarrow> Inr (ComputeThumbprint clientJWK, claim_ID claims)))))"

section \<open>Making a proof\<close>

definition proof_header :: "point \<Rightarrow> members" where
  "proof_header pub = [(''alg'', JStr ''ES256''), (''typ'', JStr ''dpop+jwt''),
     (''jwk'', JObj [(''kty'', JStr ''EC''), (''crv'', JStr ''P-256''),
        (''x'', JStr (coord_enc (fst pub))), (''y'', JStr (coord_enc (snd pub)))])]"

definition proof_claims :: "instant \<Rightarrow> bytes \<Rightarrow> string \<Rightarrow> string \<Rightarrow> string \<Rightarrow> members" where
  "proof_claims now jtiBytes method uri accessToken =
     [(''htm'', JStr method), (''htu'', JStr uri), (''iat'', JNum (of_int (now div second))),
      (''jti'', JStr (hex_encode jtiBytes))]
     @ (if accessToken \<noteq> [] then [(''ath'', JStr (sha256_b64 accessToken))] else [])"

definition GenerateDPoPProof ::
  "jwt_signer \<Rightarrow> instant \<Rightarrow> string + bytes \<Rightarrow> private_key \<Rightarrow> string \<Rightarrow> string \<Rightarrow> string \<Rightarrow> string + string" where
  "GenerateDPoPProof sign now random key method uri accessToken =
     (case random of Inl e \<Rightarrow> Inl e
      | Inr jtiBytes \<Rightarrow>
        (case sign (proof_header (public_key key)) (proof_claims now jtiBytes method uri accessToken) key of
           Inl e \<Rightarrow> Inl (''failed to sign DPoP proof: '' @ e)
         | Inr signedProof \<Rightarrow> Inr signedProof))"

definition GeneratePKCE :: "string + bytes \<Rightarrow> string + (string \<times> string)" where
  "GeneratePKCE random = map_sum id (\<lambda>bytes. let verifier = b64_encode bytes in (verifier, sha256_b64 verifier)) random"

definition VerifyPKCE :: "string \<Rightarrow> string \<Rightarrow> string \<Rightarrow> bool" where
  "VerifyPKCE codeVerifier codeChallenge method =
     (if method \<noteq> ''S256'' then False else sha256_b64 codeVerifier = codeChallenge)"

end
