(* ===== verification/Benchmark.thy ===== *)
theory Benchmark
  imports UrlCode DerJose VerifyChain Dpop "HOL-Library.Multiset"
begin

text \<open>
  The load test of the dashboard (\<^verbatim>\<open>dashboard/src/app/api/benchmark/route.ts\<close>): its DPoP proofs,
  the token it keeps between runs, and its statistics.  Node's key generation, ECDSA and
  random bytes are inputs; so are the world behind \<open>fetch\<close> and the measured durations.
\<close>

section \<open>The proof\<close>

record bench_cache =
  cachedToken :: "json option"      \<comment> \<open>\<open>None\<close> if undefined, \<open>JNull\<close> if null\<close>
  cachedDpopKey :: "private_key option"

definition getDPoPKeyPair :: "private_key \<Rightarrow> bench_cache \<Rightarrow> private_key \<times> bench_cache" where
  "getDPoPKeyPair generated c =
     (case cachedDpopKey c of Some k \<Rightarrow> (k, c) | None \<Rightarrow> (generated, c\<lparr>cachedDpopKey := Some generated\<rparr>))"

definition key_json :: "point \<Rightarrow> json" where
  "key_json pub = JObj [(''kty'', JStr ''EC''), (''crv'', JStr ''P-256''),
     (''x'', JStr (coord_enc (fst pub))), (''y'', JStr (coord_enc (snd pub)))]"

definition bench_header :: "point \<Rightarrow> json" where
  "bench_header pub = JObj [(''typ'', JStr ''dpop+jwt''), (''alg'', JStr ''ES256''), (''jwk'', key_json pub)]"

text \<open>\<open>nowMs\<close> is \<open>Date.now()\<close>, in milliseconds.\<close>

definition bench_payload :: "int \<Rightarrow> bytes \<Rightarrow> string \<Rightarrow> string \<Rightarrow> string option \<Rightarrow> json" where
  "bench_payload nowMs random method uri ath =
     JObj ([(''htm'', JStr method), (''htu'', JStr uri), (''iat'', JNum (of_int (nowMs div 1000))),
            (''jti'', JStr (hex_encode random))]
        @ (case ath of Some a \<Rightarrow> [(''ath'', JStr a)] | None \<Rightarrow> []))"

text \<open>\<open>createHash("sha256").update(v)\<close> hashes strings and rejects every other decoded value.\<close>

fun received :: "json option \<Rightarrow> string" where
  "received None = ''undefined''"
| "received (Some JNull) = ''null''"
| "received (Some (JArr vs)) = ''an instance of Array''"
| "received (Some (JObj ms)) = ''an instance of Object''"
| "received (Some (JBool b)) = ''type boolean ('' @ stringify (JBool b) @ '')''"
| "received (Some v) = ''type number ('' @ stringify v @ '')''"

definition update_error :: "json option \<Rightarrow> string" where
  "update_error v = ''The '' @ CHR 0x22 # ''data'' @ CHR 0x22
     # '' argument must be of type string or an instance of Buffer, TypedArray, or DataView. Received '' @ received v"

definition token_hash :: "json option \<Rightarrow> string + string" where
  "token_hash v = (case v of Some (JStr t) \<Rightarrow> Inr (sha256_b64 t) | _ \<Rightarrow> Inl (update_error v))"

definition bench_ath :: "json option \<Rightarrow> string + string option" where
  "bench_ath accessToken = (if truthy accessToken then map_sum id Some (token_hash accessToken) else Inr None)"

definition b64_text :: "string \<Rightarrow> string" where
  "b64_text s = b64_encode (str_bytes s)"

text \<open>\<open>sign\<close> is \<open>crypto.sign("sha256", data, key)\<close>, a DER signature; \<open>derToJose\<close> throws on a
  signature it cannot convert.  (The texts of Node's own exceptions are shortened.)\<close>

definition copy_error :: string where
  "copy_error = ''The value of targetStart is out of range''"

definition bench_generateDPoPProof ::
  "(private_key \<Rightarrow> bytes \<Rightarrow> bytes) \<Rightarrow> private_key \<Rightarrow> int \<Rightarrow> bytes \<Rightarrow> string \<Rightarrow> string \<Rightarrow> json option \<Rightarrow> string + string" where
  "bench_generateDPoPProof sign key nowMs random method uri accessToken =
     (case bench_ath accessToken of
        Inl e \<Rightarrow> Inl e
      | Inr ath \<Rightarrow>
          (let headerB64 = b64_text (stringify (bench_header (public_key key)));
               payloadB64 = b64_text (stringify (bench_payload nowMs random method uri ath));
               signInput = headerB64 @ ''.'' @ payloadB64
           in case derToJose (sign key (str_bytes signInput)) of
                None \<Rightarrow> Inl copy_error
              | Some rawSignature \<Rightarrow> Inr (signInput @ ''.'' @ rawSignature)))"

section \<open>Obtaining a token\<close>

record bench_env =
  be_sign :: "private_key \<Rightarrow> bytes \<Rightarrow> bytes"
  be_generated :: private_key
  be_verifier :: bytes                \<comment> \<open>\<open>randomBytes(32)\<close>\<close>
  be_random :: "nat \<Rightarrow> bytes"          \<comment> \<open>\<open>randomBytes(16)\<close>, per proof\<close>
  be_nowMs :: int

definition alice_secret :: string where
  "alice_secret = ''alice-secure-secret-2026''"

definition bench_auth_request :: "string \<Rightarrow> http_request" where
  "bench_auth_request challenge = \<lparr>hr_url = ''http://localhost:8081/authorize?response_type=code&client_id=client-alice&client_secret=''
       @ alice_secret @ ''&code_challenge='' @ challenge
       @ ''&code_challenge_method=S256&redirect_uri=http://localhost:8080/callback'',
     hr_method = ''GET'', hr_headers = [(''Accept'', ''application/json'')], hr_body = []\<rparr>"

definition bench_token_request :: "string \<Rightarrow> string \<Rightarrow> string \<Rightarrow> http_request" where
  "bench_token_request code verifier dpopProof = \<lparr>hr_url = ''http://localhost:8081/token'', hr_method = ''POST'',
     hr_headers = [(''Content-Type'', ''application/x-www-form-urlencoded''), (''DPoP'', dpopProof)],
     hr_body = form_encode js_kept [(''grant_type'', ''authorization_code''), (''code'', code), (''code_verifier'', verifier),
        (''client_secret'', alice_secret)]\<rparr>"

definition status_error :: "string \<Rightarrow> http_response \<Rightarrow> string" where
  "status_error what res = what @ '' failed: Status '' @ show_nat (hp_status res) @ '', Body: '' @ hp_text res"

text \<open>The token is the \<open>access_token\<close> of the second answer, \<open>None\<close> if it is undefined.\<close>

definition fetchToken :: "bench_env \<Rightarrow> 'w fetcher \<Rightarrow> bench_cache \<Rightarrow> 'w \<Rightarrow> (string + json option) \<times> bench_cache \<times> 'w" where
  "fetchToken env fetch c w =
     (let verifier = b64_encode (be_verifier env);
          challenge = sha256_b64 verifier
      in case fetch (bench_auth_request challenge) w of
           (Inl e, w1) \<Rightarrow> (Inl e, c, w1)
         | (Inr authRes, w1) \<Rightarrow>
             if \<not> res_ok authRes then (Inl (status_error ''Authorize'' authRes), c, w1)
             else (case hp_json authRes of Inl e \<Rightarrow> (Inl e, c, w1)
                | Inr authJson \<Rightarrow>
                  (case get_prop authJson ''code'' of Inl e \<Rightarrow> (Inl e, c, w1)
                   | Inr code \<Rightarrow>
                     (let (key, c1) = getDPoPKeyPair (be_generated env) c
                      in case bench_generateDPoPProof (be_sign env) key (be_nowMs env) (be_random env 0) ''POST'' ''http://localhost:8081/token'' None of
                           Inl e \<Rightarrow> (Inl e, c1, w1)
                         | Inr dpopProof \<Rightarrow>
                             (case fetch (bench_token_request (js_text code) verifier dpopProof) w1 of
                                (Inl e, w2) \<Rightarrow> (Inl e, c1, w2)
                              | (Inr tokenRes, w2) \<Rightarrow>
                                  if \<not> res_ok tokenRes then (Inl (status_error ''Token exchange'' tokenRes), c1, w2)
                                  else (case hp_json tokenRes of Inl e \<Rightarrow> (Inl e, c1, w2)
                                    | Inr tokenJson \<Rightarrow> (get_prop tokenJson ''access_token'', c1, w2)))))))"

section \<open>The requests and the statistics\<close>

definition gateway_url :: string where "gateway_url = ''http://localhost:8080/api/balance''"
definition requestCount :: nat where "requestCount = 50"

definition bench_api_request :: "json option \<Rightarrow> string \<Rightarrow> http_request" where
  "bench_api_request token dpopProof = \<lparr>hr_url = gateway_url, hr_method = ''GET'',
     hr_headers = [(''Authorization'', ''DPoP '' @ js_text token), (''DPoP'', dpopProof)],
     hr_body = []\<rparr>"

text \<open>How one request ended: answered, answered with an error body that could not be read (the
  handler then records a second duration), or thrown.\<close>

datatype bench_outcome = Answered rat nat | Unreadable_Body rat nat rat | Thrown rat

record bench_run =
  br_latencies :: "rat list"
  br_success :: nat
  br_token :: "json option"

definition reject_token :: "nat \<Rightarrow> json option \<Rightarrow> json option" where
  "reject_token status token = (if status = 401 \<or> status = 403 then Some JNull else token)"

fun bench_record :: "bench_outcome \<Rightarrow> bench_run \<Rightarrow> bench_run" where
  "bench_record (Answered d status) b =
     (if status = 200 then b\<lparr>br_latencies := br_latencies b @ [d], br_success := br_success b + 1\<rparr>
      else b\<lparr>br_latencies := br_latencies b @ [d], br_token := reject_token status (br_token b)\<rparr>)"
| "bench_record (Unreadable_Body d status d') b =
     b\<lparr>br_latencies := br_latencies b @ [d, d'], br_token := reject_token status (br_token b)\<rparr>"
| "bench_record (Thrown d) b = b\<lparr>br_latencies := br_latencies b @ [d]\<rparr>"

definition nth_or_0 :: "rat list \<Rightarrow> nat \<Rightarrow> rat" where
  "nth_or_0 xs i = (if i < length xs then xs ! i else 0)"

definition avgLatency :: "rat list \<Rightarrow> rat" where
  "avgLatency ls = sum_list ls / of_nat (length ls)"
definition minLatency :: "rat list \<Rightarrow> rat" where
  "minLatency ls = nth_or_0 (sort ls) 0"
definition maxLatency :: "rat list \<Rightarrow> rat" where
  "maxLatency ls = nth_or_0 (sort ls) (length ls - 1)"
definition p95Latency :: "rat list \<Rightarrow> rat" where
  "p95Latency ls = nth_or_0 (sort ls) (length ls * 95 div 100)"

record bench_data =
  bd_rps :: rat
  bd_avgLatencyMs :: rat
  bd_minLatencyMs :: rat
  bd_maxLatencyMs :: rat
  bd_p95LatencyMs :: rat
  bd_successRate :: rat
  bd_totalRequests :: nat
  bd_successRequests :: nat
  bd_durationMs :: rat

definition bench_report :: "rat list \<Rightarrow> nat \<Rightarrow> rat \<Rightarrow> bench_data" where
  "bench_report latencies successCount totalTimeMs =
     \<lparr>bd_rps = to_fixed 1 (of_nat successCount / totalTimeMs * 1000),
      bd_avgLatencyMs = to_fixed 2 (avgLatency latencies), bd_minLatencyMs = to_fixed 2 (minLatency latencies),
      bd_maxLatencyMs = to_fixed 2 (maxLatency latencies), bd_p95LatencyMs = to_fixed 2 (p95Latency latencies),
      bd_successRate = to_fixed 1 (of_nat successCount / of_nat requestCount * 10000 / 100),
      bd_totalRequests = requestCount, bd_successRequests = successCount, bd_durationMs = to_fixed 1 totalTimeMs\<rparr>"

text \<open>All proofs are made before the first answer is handled; \<open>outcomes\<close> gives, for the requests
  sent, how they ended in the order in which they did, and \<open>elapsed\<close> the time all took.\<close>

definition bench_requests :: "bench_env \<Rightarrow> private_key \<Rightarrow> json option \<Rightarrow> string + http_request list" where
  "bench_requests env key token = all_results (map (\<lambda>i. map_sum id (bench_api_request token)
     (bench_generateDPoPProof (be_sign env) key (be_nowMs env) (be_random env (i + 1)) ''GET'' gateway_url token)) [0..<requestCount])"

definition benchmark_POST ::
  "bench_env \<Rightarrow> 'w fetcher \<Rightarrow> (http_request list \<Rightarrow> 'w \<Rightarrow> bench_outcome list) \<Rightarrow> rat \<Rightarrow> bench_cache \<Rightarrow> 'w
     \<Rightarrow> bench_data api_response \<times> bench_cache" where
  "benchmark_POST env fetch outcomes elapsed c w =
     (let (got, c1, w1) = (if truthy (cachedToken c) then (Inr (cachedToken c), c, w) else fetchToken env fetch c w)
      in case got of
           Inl e \<Rightarrow> (Api_Error 500 (if e \<noteq> [] then e else ''Benchmark execution failed''), c1\<lparr>cachedToken := Some JNull\<rparr>)
         | Inr token \<Rightarrow>
             (let (key, c2) = getDPoPKeyPair (be_generated env) (c1\<lparr>cachedToken := token\<rparr>)
              in case bench_requests env key token of
                   Inl e \<Rightarrow> (Api_Error 500 e, c2\<lparr>cachedToken := Some JNull\<rparr>)
                 | Inr reqs \<Rightarrow>
                     (let b = fold bench_record (outcomes reqs w1) \<lparr>br_latencies = [], br_success = 0, br_token = token\<rparr>
                      in (Api_Success (bench_report (br_latencies b) (br_success b) elapsed), c2\<lparr>cachedToken := br_token b\<rparr>))))"

section \<open>The proof is well formed\<close>

lemma no_dot: "CHR ''.'' \<notin> set (b64_encode bs)"
  using b64_encode_alphabet [of bs] by (auto simp: list_all_iff b64_alphabet_def b64_val_def)

text \<open>The hand-made proof is a JWS.  It has three parts; the first two decode to the header and
  the payload, and the third to the 64 bytes of the signature over the first two.\<close>

theorem benchmark_proof_wellformed:
  assumes "bench_ath token = Inr ath"
    and "sign key (str_bytes (b64_text (stringify (bench_header (public_key key))) @ ''.''
      @ b64_text (stringify (bench_payload nowMs random method uri ath)))) = der_sig r s"
    and "0 \<le> r" "r < 256 ^ 32" "0 \<le> s" "s < 256 ^ 32"
  shows "\<exists>h p sig proof. bench_generateDPoPProof sign key nowMs random method uri token = Inr proof
    \<and> split_on CHR ''.'' proof = [h, p, sig]
    \<and> b64_decode h = Some (str_bytes (stringify (bench_header (public_key key))))
    \<and> b64_decode p = Some (str_bytes (stringify (bench_payload nowMs random method uri ath)))
    \<and> b64_decode sig = Some (be_bytes 32 r @ be_bytes 32 s)"
proof -
  let ?h = "b64_text (stringify (bench_header (public_key key)))"
  let ?p = "b64_text (stringify (bench_payload nowMs random method uri ath))"
  let ?sig = "b64_encode (be_bytes 32 r @ be_bytes 32 s)"
  have "bench_generateDPoPProof sign key nowMs random method uri token = Inr (?h @ CHR ''.'' # ?p @ CHR ''.'' # ?sig)"
    using assms(1,2) derToJose_der_sig [OF assms(3-6)]
    by (simp add: bench_generateDPoPProof_def Let_def del: be_bytes.simps)
  moreover have "split_on CHR ''.'' (?h @ CHR ''.'' # ?p @ CHR ''.'' # ?sig) = [?h, ?p, ?sig]"
    by (simp add: b64_text_def split_on_line no_dot split_on_absent del: be_bytes.simps)
  moreover have "b64_decode (b64_encode bs) = Some bs" for bs by (rule b64.dec_enc) simp
  ultimately show ?thesis unfolding b64_text_def by blast
qed

theorem benchmark_proof_wellformed_witness:
  "\<exists>h p sig proof. bench_generateDPoPProof (\<lambda>k m. der_sig 5 6) (1, 7, 0) 0 [1] ''GET'' gateway_url (Some (JStr ''t'')) = Inr proof
    \<and> split_on CHR ''.'' proof = [h, p, sig] \<and> b64_decode sig = Some (be_bytes 32 5 @ be_bytes 32 6)"
  using benchmark_proof_wellformed [of "Some (JStr ''t'')" "Some (sha256_b64 ''t'')" "\<lambda>k m. der_sig 5 6" "(1, 7, 0)" 0 "[1]" "''GET''" gateway_url 5 6]
  by (simp add: bench_ath_def token_hash_def del: be_bytes.simps) blast

section \<open>The statistics\<close>

lemma nth_sort_mono: "i \<le> j \<Longrightarrow> j < length ls \<Longrightarrow> nth_or_0 (sort ls) i \<le> nth_or_0 (sort ls) j"
  by (simp add: nth_or_0_def sorted_nth_mono)

lemma average_bounds:
  assumes "ls \<noteq> []" "\<And>x. x \<in> set ls \<Longrightarrow> a \<le> x \<and> x \<le> b"
  shows "a \<le> avgLatency ls \<and> avgLatency ls \<le> b"
proof -
  have "of_nat (length xs) * a \<le> sum_list xs \<and> sum_list xs \<le> of_nat (length xs) * b" if "set xs \<subseteq> set ls" for xs
    using that by (induction xs) (auto simp: algebra_simps dest: assms(2) intro: add_mono)
  from this [of ls] assms(1) show ?thesis
    by (simp add: avgLatency_def pos_le_divide_eq pos_divide_le_eq mult.commute)
qed

lemma extremes:
  assumes "x \<in> set ls"
  shows "minLatency ls \<le> x \<and> x \<le> maxLatency ls"
proof -
  obtain i where i: "i < length ls" "x = sort ls ! i" using assms by (metis in_set_conv_nth length_sort set_sort)
  then have "i \<le> length ls - 1" "length ls - 1 < length ls" by linarith+
  with i have "nth_or_0 (sort ls) 0 \<le> x" "x \<le> nth_or_0 (sort ls) (length ls - 1)"
    using nth_sort_mono [of 0 i ls] nth_sort_mono [of i "length ls - 1" ls] by (simp_all add: nth_or_0_def)
  then show ?thesis by (simp add: minLatency_def maxLatency_def)
qed

lemma above_nth: "i < length ls \<Longrightarrow> length (filter (\<lambda>x. nth_or_0 (sort ls) i < x) ls) \<le> length ls - i - 1"
proof -
  assume i: "i < length ls"
  let ?q = "sort ls ! i"
  have "length (filter (\<lambda>x. ?q < x) ls) = length (filter (\<lambda>x. ?q < x) (sort ls))"
    by (metis mset_filter mset_sort size_mset)
  also have "\<dots> = length (filter (\<lambda>x. ?q < x) (drop (Suc i) (sort ls)))"
  proof -
    have "filter (\<lambda>x. ?q < x) (take (Suc i) (sort ls)) = []"
      using i by (auto simp: filter_empty_conv in_set_conv_nth not_less intro!: sorted_nth_mono)
    then show ?thesis by (metis append_Nil append_take_drop_id filter_append)
  qed
  also have "\<dots> \<le> length ls - Suc i" using length_filter_le [of _ "drop (Suc i) (sort ls)"] by simp
  finally show ?thesis using i by (simp add: nth_or_0_def)
qed

definition outcome_latencies :: "bench_outcome \<Rightarrow> rat list" where
  "outcome_latencies out = (case out of Answered d _ \<Rightarrow> [d] | Unreadable_Body d _ d' \<Rightarrow> [d, d'] | Thrown d \<Rightarrow> [d])"

definition succeeded :: "bench_outcome \<Rightarrow> bool" where
  "succeeded out = (case out of Answered _ status \<Rightarrow> status = 200 | _ \<Rightarrow> False)"

definition rejects :: "bench_outcome \<Rightarrow> bool" where
  "rejects out = (case out of Answered _ status \<Rightarrow> status = 401 \<or> status = 403
     | Unreadable_Body _ status _ \<Rightarrow> status = 401 \<or> status = 403 | Thrown _ \<Rightarrow> False)"

lemma fold_bench_record:
  "fold bench_record outs b = \<lparr>br_latencies = br_latencies b @ concat (map outcome_latencies outs),
     br_success = br_success b + length (filter succeeded outs),
     br_token = (if list_ex rejects outs then Some JNull else br_token b)\<rparr>"
proof (induction outs arbitrary: b)
  case (Cons out outs)
  then show ?case
    by (cases out) (auto simp: outcome_latencies_def succeeded_def rejects_def reject_token_def)
qed simp




text \<open>A configuration in which the hypotheses hold: a token is cached, and two of the outcomes are
  swapped.\<close>

definition sample_bench_env :: bench_env where
  "sample_bench_env = \<lparr>be_sign = (\<lambda>k m. der_sig 5 6), be_generated = (1, 7, 0), be_verifier = [1],
     be_random = (\<lambda>i. [word_of_nat i]), be_nowMs = 0\<rparr>"


end
