(* ===== verification/ReplayCache.thy ===== *)
theory ReplayCache
  imports Machine
begin

text \<open>
  The one-time-identifier caches: \<^verbatim>\<open>gateway/internal/auth/jti.go\<close> and the \<open>jtis\<close> half of
  \<^verbatim>\<open>idp/store/memory.go\<close>.  Both keep a map from identifiers to expiry times and sweep expired
  entries once a minute.  The interface \<open>replay_cache\<close> says what a caller may rely on; from it
  alone follows that the cache, which forgets, answers like a record of all acceptances ever
  made, which does not.  The last section drops the assumption that calls do not overlap.
\<close>

section \<open>The gateway's cache\<close>

type_synonym jti_map = "string \<rightharpoonup> instant"

definition IsJTIUsedAndSave :: "instant \<Rightarrow> string \<Rightarrow> duration \<Rightarrow> jti_map \<Rightarrow> bool \<times> jti_map" where
  "IsJTIUsedAndSave now jti ttl jtis =
     (case jtis jti of
        Some expireTime \<Rightarrow>
          if now < expireTime then (True, jtis)
          else (False, jtis(jti \<mapsto> now + ttl))
      | None \<Rightarrow> (False, jtis(jti \<mapsto> now + ttl)))"

text \<open>One tick of \<open>startCleanupTicker\<close>.\<close>

definition cleanup_jtis :: "instant \<Rightarrow> jti_map \<Rightarrow> jti_map" where
  "cleanup_jtis now jtis = (\<lambda>key. case jtis key of
     Some expireTime \<Rightarrow> if now > expireTime then None else Some expireTime | None \<Rightarrow> None)"

section \<open>The interface\<close>

datatype cache_event = Use instant string duration | Sweep instant

fun event_time :: "cache_event \<Rightarrow> instant" where
  "event_time (Use t j ttl) = t"
| "event_time (Sweep t) = t"

text \<open>The abstract cache: every acceptance ever made, an identifier being in use while one of
  its acceptances has not run out.\<close>

type_synonym acceptances = "(string \<times> instant) list"

definition in_use :: "acceptances \<Rightarrow> instant \<Rightarrow> string \<Rightarrow> bool" where
  "in_use h now j = list_ex (\<lambda>(i, e). i = j \<and> now < e) h"

fun history_answers :: "acceptances \<Rightarrow> cache_event list \<Rightarrow> bool list" where
  "history_answers h [] = []"
| "history_answers h (Use t j ttl # es) =
     in_use h t j # history_answers (if in_use h t j then h else (j, t + ttl) # h) es"
| "history_answers h (Sweep t # es) = history_answers h es"

locale replay_cache =
  fixes use_id :: "instant \<Rightarrow> string \<Rightarrow> duration \<Rightarrow> 'c \<Rightarrow> bool \<times> 'c"
    and sweep :: "instant \<Rightarrow> 'c \<Rightarrow> 'c"
    and expiry :: "'c \<Rightarrow> string \<Rightarrow> instant option"
  assumes use_live: "expiry c j = Some e \<Longrightarrow> now < e \<Longrightarrow> use_id now j ttl c = (True, c)"
    and use_free: "(\<And>e. expiry c j = Some e \<Longrightarrow> e \<le> now) \<Longrightarrow>
      \<not> fst (use_id now j ttl c) \<and> expiry (snd (use_id now j ttl c)) = (expiry c)(j \<mapsto> now + ttl)"
    and sweep_expiry: "expiry (sweep now c) j = (case expiry c j of
      Some e \<Rightarrow> if now > e then None else Some e | None \<Rightarrow> None)"
begin

fun answers :: "'c \<Rightarrow> cache_event list \<Rightarrow> bool list" where
  "answers c [] = []"
| "answers c (Use t j ttl # es) = (let (b, c') = use_id t j ttl c in b # answers c' es)"
| "answers c (Sweep t # es) = answers (sweep t c) es"

definition agrees :: "instant \<Rightarrow> 'c \<Rightarrow> acceptances \<Rightarrow> bool" where
  "agrees t0 c h \<longleftrightarrow> (\<forall>now \<ge> t0. \<forall>j. in_use h now j \<longleftrightarrow> (\<exists>e. expiry c j = Some e \<and> now < e))"

lemma agrees_sweep: "agrees t0 c h \<Longrightarrow> t0 \<le> t \<Longrightarrow> agrees t (sweep t c) h"
  by (fastforce simp: agrees_def sweep_expiry split: option.splits)

lemma agrees_use:
  assumes "agrees t0 c h" "t0 \<le> t"
  shows "fst (use_id t j ttl c) = in_use h t j
    \<and> agrees t (snd (use_id t j ttl c)) (if in_use h t j then h else (j, t + ttl) # h)"
proof (cases "in_use h t j")
  case True
  with assms obtain e where "expiry c j = Some e" "t < e" by (auto simp: agrees_def)
  with assms True show ?thesis by (auto simp: use_live agrees_def)
next
  case False
  with assms have free: "expiry c j = Some e \<Longrightarrow> e \<le> t" for e by (auto simp: agrees_def not_less)
  have "\<not> in_use h now j" if "t \<le> now" for now
    using False that by (fastforce simp: in_use_def list_ex_iff)
  with use_free [OF free] assms False show ?thesis
    by (auto simp: agrees_def in_use_def)
qed

lemma answers_history:
  "agrees t0 c h \<Longrightarrow> sorted (t0 # map event_time es) \<Longrightarrow> answers c es = history_answers h es"
proof (induction h es arbitrary: c t0 rule: history_answers.induct)
  case (2 h t j ttl es)
  then have step: "fst (use_id t j ttl c) = in_use h t j"
    "agrees t (snd (use_id t j ttl c)) (if in_use h t j then h else (j, t + ttl) # h)"
    using agrees_use [of t0 c h t] by auto
  from 2(1) [OF this(2)] 2(3) step(1) show ?case
    by (simp add: case_prod_beta)
next
  case (3 h t es)
  then have "agrees t (sweep t c) h" by (auto intro: agrees_sweep)
  from 3(1) [OF this] 3(3) show ?case by simp
qed simp

lemma use_twice:
  assumes "\<not> fst (use_id t j ttl c)" "\<forall>e \<in> set es. event_time e < t + ttl" "t' < t + ttl"
  shows "fst (use_id t' j ttl' (fold (\<lambda>e c. case e of Use u i d \<Rightarrow> snd (use_id u i d c) | Sweep u \<Rightarrow> sweep u c)
    es (snd (use_id t j ttl c))))"
proof -
  have "\<And>e. expiry c j = Some e \<Longrightarrow> e \<le> t"
    using assms(1) by (metis fst_conv not_le use_live)
  then have start: "expiry (snd (use_id t j ttl c)) j = Some (t + ttl)" by (simp add: use_free)
  have keep: "expiry (snd (use_id u i d x)) j = Some (t + ttl)"
    if "expiry x j = Some (t + ttl)" "u < t + ttl" for u i d x
  proof (cases "\<exists>e. expiry x i = Some e \<and> u < e")
    case True
    with that show ?thesis by (auto simp: use_live)
  next
    case False
    with that have "i \<noteq> j" by auto
    with False that show ?thesis using use_free [of x i u d] by (auto simp: not_less)
  qed
  have "expiry (fold (\<lambda>e c. case e of Use u i d \<Rightarrow> snd (use_id u i d c) | Sweep u \<Rightarrow> sweep u c) es x) j = Some (t + ttl)"
    if "expiry x j = Some (t + ttl)" for x
    using assms(2) that
    by (induction es arbitrary: x) (auto simp: keep sweep_expiry split: cache_event.splits)
  from this [OF start] assms(3) show ?thesis by (simp add: use_live)
qed

end

interpretation jti: replay_cache IsJTIUsedAndSave cleanup_jtis "\<lambda>c. c"
  by unfold_locales (force simp: IsJTIUsedAndSave_def cleanup_jtis_def split: option.splits)+

text \<open>The answers of the gateway's cache to a sequence of calls and sweeps.\<close>

fun jti_answers :: "jti_map \<Rightarrow> cache_event list \<Rightarrow> bool list" where
  "jti_answers c [] = []"
| "jti_answers c (Use t j ttl # es) = (let (b, c') = IsJTIUsedAndSave t j ttl c in b # jti_answers c' es)"
| "jti_answers c (Sweep t # es) = jti_answers (cleanup_jtis t c) es"

lemma jti_answers_eq: "jti_answers c es = jti.answers c es"
proof (induction es arbitrary: c)
  case (Cons e es)
  then show ?case by (cases e) (auto simp: case_prod_beta)
qed simp

text \<open>C9: forgetting loses nothing.  Whatever calls and clean-ups happen, in order of time, the
  gateway's cache answers exactly as a record of all acceptances ever made would: an identifier
  is refused if and only if an earlier acceptance of it has not run out yet.\<close>

theorem jti_cache_refines_history:
  assumes "sorted (map event_time es)"
  shows "jti_answers Map.empty es = history_answers [] es"
proof (cases es)
  case (Cons e es')
  have "jti.agrees (event_time e) Map.empty []" by (simp add: jti.agrees_def in_use_def)
  with assms show ?thesis
    unfolding jti_answers_eq by (intro jti.answers_history [of "event_time e"]) (auto simp: Cons)
qed simp

theorem jti_cache_refines_history_witness:
  "jti_answers Map.empty [Use 0 ''a'' 120, Sweep 60, Use 60 ''a'' 120, Use 120 ''a'' 120]
   = history_answers [] [Use 0 ''a'' 120, Sweep 60, Use 60 ''a'' 120, Use 120 ''a'' 120]"
  by (rule jti_cache_refines_history) simp

section \<open>Overlapping calls\<close>

text \<open>
  The map is a \<open>sync.Map\<close>: \<open>LoadOrStore\<close>, \<open>Store\<close> and \<open>Delete\<close> are atomic, the method is
  not.  A call reads the clock, then does \<open>LoadOrStore\<close>, and when it met an expired entry a
  separate \<open>Store\<close>; the sweep reads the clock, reads an entry, then deletes the key.
\<close>

datatype caller = Started string instant | Stale string instant

record cache_world =
  cw_map :: jti_map
  cw_calls :: "nat \<rightharpoonup> caller"
  cw_sweep :: "string option"       \<comment> \<open>the key the sweep is about to delete\<close>
  cw_now :: instant
  cw_accepted :: "string list"

inductive cache_step :: "duration \<Rightarrow> cache_world \<Rightarrow> cache_world \<Rightarrow> bool" for ttl where
  tick: "cw_now w \<le> t \<Longrightarrow> cache_step ttl w (w\<lparr>cw_now := t\<rparr>)"
| start: "cw_calls w i = None \<Longrightarrow>
    cache_step ttl w (w\<lparr>cw_calls := (cw_calls w)(i \<mapsto> Started j (cw_now w))\<rparr>)"
| stored: "cw_calls w i = Some (Started j t) \<Longrightarrow> cw_map w j = None \<Longrightarrow>
    cache_step ttl w (w\<lparr>cw_calls := (cw_calls w)(i := None), cw_map := (cw_map w)(j \<mapsto> t + ttl),
      cw_accepted := j # cw_accepted w\<rparr>)"
| refused: "cw_calls w i = Some (Started j t) \<Longrightarrow> cw_map w j = Some e \<Longrightarrow> t < e \<Longrightarrow>
    cache_step ttl w (w\<lparr>cw_calls := (cw_calls w)(i := None)\<rparr>)"
| loaded_expired: "cw_calls w i = Some (Started j t) \<Longrightarrow> cw_map w j = Some e \<Longrightarrow> \<not> t < e \<Longrightarrow>
    cache_step ttl w (w\<lparr>cw_calls := (cw_calls w)(i \<mapsto> Stale j t)\<rparr>)"
| overwrite: "cw_calls w i = Some (Stale j t) \<Longrightarrow>
    cache_step ttl w (w\<lparr>cw_calls := (cw_calls w)(i := None), cw_map := (cw_map w)(j \<mapsto> t + ttl),
      cw_accepted := j # cw_accepted w\<rparr>)"
| sweep_key: "cw_sweep w = None \<Longrightarrow> cw_map w j = Some e \<Longrightarrow> e < cw_now w \<Longrightarrow>
    cache_step ttl w (w\<lparr>cw_sweep := Some j\<rparr>)"
| delete: "cw_sweep w = Some j \<Longrightarrow>
    cache_step ttl w (w\<lparr>cw_sweep := None, cw_map := (cw_map w)(j := None)\<rparr>)"

inductive_cases cache_stepE [consumes 1]: "cache_step ttl w w'"

definition cache_at :: "jti_map \<Rightarrow> instant \<Rightarrow> cache_world" where
  "cache_at m t = \<lparr>cw_map = m, cw_calls = Map.empty, cw_sweep = None, cw_now = t, cw_accepted = []\<rparr>"

definition unseen_inv :: "duration \<Rightarrow> instant \<Rightarrow> string \<Rightarrow> cache_world \<Rightarrow> bool" where
  "unseen_inv ttl t0 j w \<longleftrightarrow>
     t0 \<le> cw_now w \<and>
     (\<forall>i k t. cw_calls w i = Some (Started k t) \<longrightarrow> t0 \<le> t \<and> t \<le> cw_now w) \<and>
     (cw_now w < t0 + ttl \<longrightarrow>
        (\<forall>i t. cw_calls w i \<noteq> Some (Stale j t)) \<and> cw_sweep w \<noteq> Some j \<and>
        (if cw_map w j = None then count_list (cw_accepted w) j = 0
         else (\<exists>e. cw_map w j = Some e \<and> t0 + ttl \<le> e) \<and> count_list (cw_accepted w) j = 1))"

lemma unseen_inv_step: "cache_step ttl w w' \<Longrightarrow> unseen_inv ttl t0 j w \<Longrightarrow> unseen_inv ttl t0 j w'"
proof (induction rule: cache_step.induct)
  case (tick w t)
  then show ?case by (fastforce simp: unseen_inv_def)
next
  case (start w i k)
  then show ?case by (auto simp: unseen_inv_def split: if_splits)
next
  case (stored w i k t)
  then show ?case by (auto simp: unseen_inv_def split: if_splits)
next
  case (refused w i k t e)
  then show ?case by (auto simp: unseen_inv_def split: if_splits)
next
  case (loaded_expired w i k t e)
  then have "t0 \<le> t" "t \<le> cw_now w" by (auto simp: unseen_inv_def)
  with loaded_expired show ?case by (fastforce simp: unseen_inv_def split: if_splits)
next
  case (overwrite w i k t)
  then show ?case by (auto simp: unseen_inv_def split: if_splits)
next
  case (sweep_key w k e)
  then show ?case by (fastforce simp: unseen_inv_def split: if_splits)
next
  case (delete w k)
  then show ?case by (auto simp: unseen_inv_def split: if_splits)
qed

lemma unseen_inv_run:
  "(cache_step ttl)\<^sup>*\<^sup>* w w' \<Longrightarrow> unseen_inv ttl t0 j w \<Longrightarrow> unseen_inv ttl t0 j w'"
  by (induction rule: rtranclp_induct) (auto intro: unseen_inv_step)

text \<open>Calls may overlap.  From a state where an identifier is unknown, under every
  interleaving of any number of calls and of the sweep, at most one call accepts it before
  its time to live has passed.\<close>

theorem concurrent_calls_accept_once:
  assumes "(cache_step ttl)\<^sup>*\<^sup>* (cache_at m t0) w" "m j = None" "cw_now w < t0 + ttl"
  shows "count_list (cw_accepted w) j \<le> 1"
proof -
  have "unseen_inv ttl t0 j (cache_at m t0)"
    using assms(2) by (simp add: unseen_inv_def cache_at_def)
  from unseen_inv_run [OF assms(1) this] assms(3) show ?thesis
    by (auto simp: unseen_inv_def split: if_splits)
qed

lemma two_acceptances:
  assumes "m j = Some e" "e \<le> t0"
  shows "\<exists>w. (cache_step ttl)\<^sup>*\<^sup>* (cache_at m t0) w \<and> cw_now w = t0 \<and> count_list (cw_accepted w) j = 2"
proof -
  let ?w1 = "(cache_at m t0)\<lparr>cw_calls := [0 \<mapsto> Started j t0]\<rparr>"
  let ?w2 = "?w1\<lparr>cw_calls := [0 \<mapsto> Started j t0, 1 \<mapsto> Started j t0]\<rparr>"
  let ?w3 = "?w2\<lparr>cw_calls := [0 \<mapsto> Stale j t0, 1 \<mapsto> Started j t0]\<rparr>"
  let ?w4 = "?w3\<lparr>cw_calls := [0 \<mapsto> Stale j t0, 1 \<mapsto> Stale j t0]\<rparr>"
  let ?w5 = "?w4\<lparr>cw_calls := [1 \<mapsto> Stale j t0], cw_map := m(j \<mapsto> t0 + ttl), cw_accepted := [j]\<rparr>"
  let ?w6 = "?w5\<lparr>cw_calls := Map.empty, cw_map := m(j \<mapsto> t0 + ttl), cw_accepted := [j, j]\<rparr>"
  have "cache_step ttl (cache_at m t0) ?w1"
    using cache_step.start [of "cache_at m t0" 0 ttl j] by (simp add: cache_at_def)
  moreover have "cache_step ttl ?w1 ?w2"
    using cache_step.start [of ?w1 1 ttl j] by (simp add: cache_at_def)
  moreover have "cache_step ttl ?w2 ?w3"
    using cache_step.loaded_expired [of ?w2 0 j t0 e ttl] assms by (simp add: cache_at_def fun_upd_twist)
  moreover have "cache_step ttl ?w3 ?w4"
    using cache_step.loaded_expired [of ?w3 1 j t0 e ttl] assms by (simp add: cache_at_def)
  moreover have "cache_step ttl ?w4 ?w5"
    using cache_step.overwrite [of ?w4 0 j t0 ttl] by (simp add: cache_at_def fun_upd_twist)
  moreover have "cache_step ttl ?w5 ?w6"
    using cache_step.overwrite [of ?w5 1 j t0 ttl] by (simp add: cache_at_def)
  ultimately have "(cache_step ttl)\<^sup>*\<^sup>* (cache_at m t0) ?w6"
    by (meson converse_rtranclp_into_rtranclp rtranclp.rtrancl_refl)
  then show ?thesis by (intro exI [of _ ?w6]) (simp add: cache_at_def)
qed

text \<open>The hypothesis matters.  When an expired entry of the identifier is still in the map
  (the sweep runs once a minute), two overlapping calls can both accept it at the same
  instant: both load the expired entry, both store.\<close>

theorem expired_entry_accepts_twice:
  assumes "snd (IsJTIUsedAndSave s j ttl m) = m'" "\<not> fst (IsJTIUsedAndSave s j ttl m)" "s + ttl \<le> t"
  shows "\<exists>w. (cache_step ttl)\<^sup>*\<^sup>* (cache_at m' t) w \<and> cw_now w = t \<and> count_list (cw_accepted w) j = 2"
proof (rule two_acceptances)
  show "m' j = Some (s + ttl)"
    using assms(1,2) by (auto simp: IsJTIUsedAndSave_def split: option.splits if_splits)
qed (rule assms(3))

theorem expired_entry_accepts_twice_witness:
  "\<exists>w. (cache_step 120)\<^sup>*\<^sup>* (cache_at [''a'' \<mapsto> 120] 130) w \<and> cw_now w = 130 \<and> count_list (cw_accepted w) ''a'' = 2"
  by (rule expired_entry_accepts_twice [where s = 0 and m = Map.empty])
     (simp_all add: IsJTIUsedAndSave_def)

theorem concurrent_calls_accept_once_witness:
  "\<exists>w. (cache_step 120)\<^sup>*\<^sup>* (cache_at Map.empty 0) w \<and> cw_accepted w = [''a''] \<and> count_list (cw_accepted w) ''a'' \<le> 1"
proof -
  let ?w0 = "cache_at Map.empty 0"
  let ?w1 = "?w0\<lparr>cw_calls := [0 \<mapsto> Started ''a'' 0]\<rparr>"
  let ?w2 = "?w0\<lparr>cw_map := [''a'' \<mapsto> 120], cw_accepted := [''a'']\<rparr>"
  have "cache_step 120 ?w0 ?w1"
    using cache_step.start [of ?w0 0 120 "''a''"] by (simp add: cache_at_def)
  moreover have "cache_step 120 ?w1 ?w2"
    using cache_step.stored [of ?w1 0 "''a''" 0 120] by (simp add: cache_at_def)
  ultimately have run: "(cache_step 120)\<^sup>*\<^sup>* ?w0 ?w2"
    by (meson converse_rtranclp_into_rtranclp rtranclp.rtrancl_refl)
  have "count_list (cw_accepted ?w2) ''a'' \<le> 1"
    by (rule concurrent_calls_accept_once [OF run]) (simp_all add: cache_at_def)
  with run show ?thesis by (intro exI [of _ ?w2]) (simp add: cache_at_def)
qed

end
