(* ===== verification/IdpStore.thy ===== *)
theory IdpStore
  imports ReplayCache "HOL-Library.Multiset"
begin

text \<open>
  The identity provider's memory (\<^verbatim>\<open>idp/store/memory.go\<close>): authorization codes, redeemed at
  most once, and the identifiers of DPoP proofs, a second instance of the replay-cache
  interface.  The interface \<open>code_store\<close> says what redeeming promises; the last section shows
  what becomes of it when two calls overlap.
\<close>

record AuthCodeInfo =
  CodeChallenge :: string
  ClientID :: string
  ExpiresAt :: instant

record RAMStore =
  codes :: "string \<rightharpoonup> AuthCodeInfo"
  jtis :: jti_map

definition empty_store :: RAMStore where
  "empty_store = \<lparr>codes = Map.empty, jtis = Map.empty\<rparr>"

definition SaveAuthCode :: "instant \<Rightarrow> string \<Rightarrow> string \<Rightarrow> string \<Rightarrow> duration \<Rightarrow> RAMStore \<Rightarrow> RAMStore" where
  "SaveAuthCode now code challenge clientID ttl s =
     s\<lparr>codes := (codes s)(code \<mapsto> \<lparr>CodeChallenge = challenge, ClientID = clientID, ExpiresAt = now + ttl\<rparr>)\<rparr>"

definition GetAndRemoveAuthCode :: "instant \<Rightarrow> string \<Rightarrow> RAMStore \<Rightarrow> (string \<times> string) option \<times> RAMStore" where
  "GetAndRemoveAuthCode now code s =
     (case codes s code of
        None \<Rightarrow> (None, s)
      | Some info \<Rightarrow>
          (let s' = s\<lparr>codes := (codes s)(code := None)\<rparr>
           in if now > ExpiresAt info then (None, s') else (Some (CodeChallenge info, ClientID info), s')))"

definition store_IsJTIUsedAndSave :: "instant \<Rightarrow> string \<Rightarrow> duration \<Rightarrow> RAMStore \<Rightarrow> bool \<times> RAMStore" where
  "store_IsJTIUsedAndSave now jti ttl s =
     (case jtis s jti of
        Some expireTime \<Rightarrow>
          if now < expireTime then (True, s)
          else (False, s\<lparr>jtis := (jtis s)(jti \<mapsto> now + ttl)\<rparr>)
      | None \<Rightarrow> (False, s\<lparr>jtis := (jtis s)(jti \<mapsto> now + ttl)\<rparr>))"

definition store_cleanup :: "instant \<Rightarrow> RAMStore \<Rightarrow> RAMStore" where
  "store_cleanup now s =
     s\<lparr>codes := (\<lambda>key. case codes s key of
          Some info \<Rightarrow> if now > ExpiresAt info then None else Some info | None \<Rightarrow> None),
       jtis := (\<lambda>key. case jtis s key of
          Some expireTime \<Rightarrow> if now > expireTime then None else Some expireTime | None \<Rightarrow> None)\<rparr>"

interpretation store_jti: replay_cache store_IsJTIUsedAndSave store_cleanup jtis
  by unfold_locales (force simp: store_IsJTIUsedAndSave_def store_cleanup_def split: option.splits)+

section \<open>Redeeming codes\<close>

locale code_store =
  fixes save :: "instant \<Rightarrow> string \<Rightarrow> 'v \<Rightarrow> 's \<Rightarrow> 's"
    and redeem :: "instant \<Rightarrow> string \<Rightarrow> 's \<Rightarrow> 'v option \<times> 's"
    and other :: "'o \<Rightarrow> 's \<Rightarrow> 's"
    and holds :: "'s \<Rightarrow> string \<Rightarrow> 'v option"
  assumes redeem_holds: "fst (redeem now c s) = Some v \<Longrightarrow> holds s c = Some v"
    and redeem_gone: "holds (snd (redeem now c s)) c = None"
    and redeem_others: "c' \<noteq> c \<Longrightarrow> holds (snd (redeem now c s)) c' = holds s c'"
    and save_holds: "holds (save now c v s) c = Some v"
    and save_others: "c' \<noteq> c \<Longrightarrow> holds (save now c v s) c' = holds s c'"
    and other_drops: "holds (other x s) c = Some v \<Longrightarrow> holds s c = Some v"
begin

text \<open>A run: saves, redemptions and anything else the store does, with the values redeemed.\<close>

fun redeemed :: "string \<Rightarrow> ((instant \<times> string \<times> 'v) + (instant \<times> string) + 'o) list \<Rightarrow> 's \<Rightarrow> 'v list" where
  "redeemed c [] s = []"
| "redeemed c (Inl (now, c', v) # ops) s = redeemed c ops (save now c' v s)"
| "redeemed c (Inr (Inl (now, c')) # ops) s =
     (case redeem now c' s of (r, s') \<Rightarrow>
        (if c' = c then (case r of Some v \<Rightarrow> [v] | None \<Rightarrow> []) else []) @ redeemed c ops s')"
| "redeemed c (Inr (Inr x) # ops) s = redeemed c ops (other x s)"

fun saved :: "string \<Rightarrow> ((instant \<times> string \<times> 'v) + (instant \<times> string) + 'o) list \<Rightarrow> 'v list" where
  "saved c [] = []"
| "saved c (Inl (now, c', v) # ops) = (if c' = c then [v] else []) @ saved c ops"
| "saved c (Inr y # ops) = saved c ops"

lemma redeemed_saved:
  "mset (redeemed c ops s) \<subseteq># mset (saved c ops) + (case holds s c of Some v \<Rightarrow> {#v#} | None \<Rightarrow> {#})"
proof (induction c ops s rule: redeemed.induct)
  case (1 c s)
  then show ?case by simp
next
  case (2 c now c' v ops s)
  show ?case
  proof (cases "c' = c")
    case True
    with 2 save_holds have "mset (redeemed c ops (save now c' v s)) \<subseteq># mset (saved c ops) + {#v#}" by simp
    from subset_mset.order_trans [OF this mset_subset_eq_add_left] True show ?thesis by simp
  next
    case False
    with 2 save_others show ?thesis by simp
  qed
next
  case (3 c now c' ops s)
  obtain r s' where r: "redeem now c' s = (r, s')" by (cases "redeem now c' s")
  with 3 have IH: "mset (redeemed c ops s') \<subseteq># mset (saved c ops) + (case holds s' c of Some v \<Rightarrow> {#v#} | None \<Rightarrow> {#})"
    by simp
  show ?case
  proof (cases "c' = c")
    case True
    with r redeem_gone [of now c s] have gone: "holds s' c = None" by simp
    show ?thesis
    proof (cases r)
      case None
      have "mset (redeemed c ops s') \<subseteq># mset (saved c ops)" using IH gone by simp
      from subset_mset.order_trans [OF this mset_subset_eq_add_left] None r True show ?thesis by simp
    next
      case (Some v)
      with r True redeem_holds [of now c s v] have "holds s c = Some v" by simp
      with r True IH gone Some show ?thesis by simp
    qed
  next
    case False
    with r redeem_others [of c c' now s] have "holds s' c = holds s c" by simp
    with r False IH show ?thesis by simp
  qed
next
  case (4 c x ops s)
  show ?case
  proof (cases "holds (other x s) c")
    case None
    with 4 have "mset (redeemed c ops (other x s)) \<subseteq># mset (saved c ops)" by simp
    from subset_mset.order_trans [OF this mset_subset_eq_add_left] show ?thesis by simp
  next
    case (Some v)
    with 4 other_drops [of x s c v] show ?thesis by simp
  qed
qed

lemma redeemed_once: "holds s c = None \<Longrightarrow> mset (redeemed c ops s) \<subseteq># mset (saved c ops)"
  using redeemed_saved [of c ops s] by simp

end

definition store_save :: "instant \<Rightarrow> string \<Rightarrow> string \<times> string \<Rightarrow> RAMStore \<Rightarrow> RAMStore" where
  "store_save now c v s = SaveAuthCode now c (fst v) (snd v) (5 * minute) s"

definition store_other :: "cache_event \<Rightarrow> RAMStore \<Rightarrow> RAMStore" where
  "store_other e s = (case e of Use t j ttl \<Rightarrow> snd (store_IsJTIUsedAndSave t j ttl s) | Sweep t \<Rightarrow> store_cleanup t s)"

definition held :: "RAMStore \<Rightarrow> string \<Rightarrow> (string \<times> string) option" where
  "held s c = map_option (\<lambda>i. (CodeChallenge i, ClientID i)) (codes s c)"

interpretation idp_codes: code_store store_save GetAndRemoveAuthCode store_other held
  by unfold_locales
     (auto simp: store_save_def SaveAuthCode_def GetAndRemoveAuthCode_def store_other_def held_def Let_def
        store_IsJTIUsedAndSave_def store_cleanup_def split: option.splits if_splits cache_event.splits)

text \<open>The operations on the store, and the redemptions of one code in a run.\<close>

datatype store_op =
    Save instant string string string     \<comment> \<open>time, code, challenge, client\<close>
  | Redeem instant string
  | Other cache_event

fun store_run :: "string \<Rightarrow> store_op list \<Rightarrow> RAMStore \<Rightarrow> (string \<times> string) list" where
  "store_run c [] s = []"
| "store_run c (Save now c' ch cl # ops) s = store_run c ops (SaveAuthCode now c' ch cl (5 * minute) s)"
| "store_run c (Redeem now c' # ops) s =
     (case GetAndRemoveAuthCode now c' s of (r, s') \<Rightarrow>
        (if c' = c then (case r of Some v \<Rightarrow> [v] | None \<Rightarrow> []) else []) @ store_run c ops s')"
| "store_run c (Other e # ops) s = store_run c ops (store_other e s)"

fun saves_of :: "string \<Rightarrow> store_op list \<Rightarrow> (string \<times> string) list" where
  "saves_of c [] = []"
| "saves_of c (Save now c' ch cl # ops) = (if c' = c then [(ch, cl)] else []) @ saves_of c ops"
| "saves_of c (Redeem now c' # ops) = saves_of c ops"
| "saves_of c (Other e # ops) = saves_of c ops"

fun abstract_op :: "store_op \<Rightarrow> (instant \<times> string \<times> string \<times> string) + (instant \<times> string) + cache_event" where
  "abstract_op (Save now c ch cl) = Inl (now, c, ch, cl)"
| "abstract_op (Redeem now c) = Inr (Inl (now, c))"
| "abstract_op (Other e) = Inr (Inr e)"

lemma store_save_eq: "SaveAuthCode now c ch cl (5 * minute) s = store_save now c (ch, cl) s"
  by (simp add: store_save_def)

lemma store_run_eq: "store_run c ops s = idp_codes.redeemed c (map abstract_op ops) s"
proof (induction ops arbitrary: s)
  case (Cons op ops)
  then show ?case by (cases op) (auto simp: store_save_eq split: prod.splits)
qed simp

lemma saves_of_eq: "saves_of c ops = idp_codes.saved c (map abstract_op ops)"
  by (induction c ops rule: saves_of.induct) auto

text \<open>C13: an authorization code buys one redemption.  In any run of the store, whatever else
  happens, each successful redemption of a code is matched by a save of that code of its own,
  and returns the challenge and the client saved with it.\<close>

theorem auth_code_redeemed_once:
  "mset (store_run c ops empty_store) \<subseteq># mset (saves_of c ops)"
  unfolding store_run_eq saves_of_eq
  by (rule idp_codes.redeemed_once) (simp add: held_def empty_store_def)

section \<open>Overlapping redemptions\<close>

text \<open>\<open>GetAndRemoveAuthCode\<close> is a \<open>Load\<close> and then a \<open>Delete\<close>; each is atomic, the pair is not.\<close>

record redeem_world =
  rw_codes :: "string \<rightharpoonup> AuthCodeInfo"
  rw_loaded :: "nat \<rightharpoonup> string \<times> AuthCodeInfo"
  rw_redeemed :: "(nat \<times> string) list"

inductive redeem_step :: "instant \<Rightarrow> redeem_world \<Rightarrow> redeem_world \<Rightarrow> bool" for now where
  load: "rw_loaded w i = None \<Longrightarrow> rw_codes w c = Some info \<Longrightarrow>
    redeem_step now w (w\<lparr>rw_loaded := (rw_loaded w)(i \<mapsto> (c, info))\<rparr>)"
| delete: "rw_loaded w i = Some (c, info) \<Longrightarrow>
    redeem_step now w (w\<lparr>rw_loaded := (rw_loaded w)(i := None), rw_codes := (rw_codes w)(c := None),
      rw_redeemed := (if now > ExpiresAt info then [] else [(i, c)]) @ rw_redeemed w\<rparr>)"

definition redeem_at :: "(string \<rightharpoonup> AuthCodeInfo) \<Rightarrow> redeem_world" where
  "redeem_at m = \<lparr>rw_codes = m, rw_loaded = Map.empty, rw_redeemed = []\<rparr>"

text \<open>C14: the promise needs calls that do not overlap.  From every state with an unexpired code
  there is an interleaving of two calls in which both redeem it, so one code can yield two
  access tokens.\<close>

theorem overlapping_redemptions_both_succeed:
  assumes "m c = Some info" "now \<le> ExpiresAt info"
  shows "\<exists>w. (redeem_step now)\<^sup>*\<^sup>* (redeem_at m) w \<and> rw_redeemed w = [(1, c), (0, c)]
    \<and> rw_codes w = m(c := None)"
proof -
  let ?w0 = "redeem_at m"
  let ?w1 = "?w0\<lparr>rw_loaded := [0 \<mapsto> (c, info)]\<rparr>"
  let ?w2 = "?w0\<lparr>rw_loaded := [0 \<mapsto> (c, info), 1 \<mapsto> (c, info)]\<rparr>"
  let ?w3 = "?w0\<lparr>rw_loaded := [1 \<mapsto> (c, info)], rw_codes := m(c := None), rw_redeemed := [(0, c)]\<rparr>"
  let ?w4 = "?w0\<lparr>rw_codes := m(c := None), rw_redeemed := [(1, c), (0, c)]\<rparr>"
  have "redeem_step now ?w0 ?w1"
    using redeem_step.load [of ?w0 0 c info now] assms by (simp add: redeem_at_def)
  moreover have "redeem_step now ?w1 ?w2"
    using redeem_step.load [of ?w1 1 c info now] assms by (simp add: redeem_at_def)
  moreover have "redeem_step now ?w2 ?w3"
    using redeem_step.delete [of ?w2 0 c info now] assms by (simp add: redeem_at_def fun_upd_twist)
  moreover have "redeem_step now ?w3 ?w4"
    using redeem_step.delete [of ?w3 1 c info now] assms by (simp add: redeem_at_def fun_upd_twist)
  ultimately have "(redeem_step now)\<^sup>*\<^sup>* ?w0 ?w4"
    by (meson converse_rtranclp_into_rtranclp rtranclp.rtrancl_refl)
  then show ?thesis by (intro exI [of _ ?w4]) (simp add: redeem_at_def)
qed

theorem overlapping_redemptions_both_succeed_witness:
  "\<exists>w. (redeem_step 0)\<^sup>*\<^sup>* (redeem_at [''c'' \<mapsto> \<lparr>CodeChallenge = ''x'', ClientID = ''client-alice'', ExpiresAt = 300\<rparr>]) w
     \<and> rw_redeemed w = [(1, ''c''), (0, ''c'')]
     \<and> rw_codes w = [''c'' \<mapsto> \<lparr>CodeChallenge = ''x'', ClientID = ''client-alice'', ExpiresAt = 300\<rparr>](''c'' := None)"
  by (rule overlapping_redemptions_both_succeed [OF fun_upd_same]) simp

end
