(* ===== verification/Idp.thy ===== *)
theory Idp
  imports IdpStore Dpop
begin

text \<open>
  The identity provider's endpoints: \<^verbatim>\<open>idp/handler/authorize.go\<close>, \<^verbatim>\<open>token.go\<close>, \<^verbatim>\<open>jwks.go\<close>
  and \<^verbatim>\<open>discovery.go\<close>, with the clients of \<^verbatim>\<open>idp/config/clients.go\<close> and the routes of
  \<^verbatim>\<open>idp/main.go\<close>.  A handler takes the request and the store and returns the response and
  the new store.  The JWT library, the signing key, the random bytes and the clock are inputs;
  so is Go's handling of the redirect URI (\<open>None\<close> is the parser's error).
\<close>

record idp_env =
  ie_format :: "instant \<Rightarrow> string"
  ie_jwt :: "DPoPClaims jwt_lib"
  ie_sign :: jwt_signer
  ie_key :: private_key
  ie_random :: "string + bytes"
  ie_with_query :: "string \<Rightarrow> (string \<times> string) list \<Rightarrow> string option"
  ie_code_now :: instant          \<comment> \<open>the clock at the four places the handlers read it\<close>
  ie_proof_now :: instant
  ie_jti_now :: instant
  ie_issue_now :: instant

definition RegisteredClients :: "string \<rightharpoonup> string" where
  "RegisteredClients = [''client-alice'' \<mapsto> ''alice-secure-secret-2026'',
     ''client-bob'' \<mapsto> ''bob-secure-secret-2026'', ''client-evil'' \<mapsto> ''evil-secure-secret-2026'']"

definition issuer :: string where
  "issuer = ''https://idp.internal''"

definition quoted :: "string \<Rightarrow> string" where
  "quoted s = CHR 0x27 # s @ [CHR 0x27]"

section \<open>The authorization endpoint\<close>

definition AuthorizeHandler :: "idp_env \<Rightarrow> request \<Rightarrow> RAMStore \<Rightarrow> response \<times> RAMStore" where
  "AuthorizeHandler env r s =
     (let q = rq_query r; clientID = q ''client_id''; redirectURI = q ''redirect_uri'';
          codeChallenge = q ''code_challenge''
      in if q ''response_type'' \<noteq> ''code''
         then (http_error [] (''invalid_request: response_type must be '' @ quoted ''code'') StatusBadRequest, s)
         else if clientID = [] then (http_error [] ''invalid_request: client_id is required'' StatusBadRequest, s)
         else (case RegisteredClients clientID of
           None \<Rightarrow> (http_error [] ''invalid_client: client_id is not registered'' StatusUnauthorized, s)
         | Some expectedSecret \<Rightarrow>
             if redirectURI = [] then (http_error [] ''invalid_request: redirect_uri is required'' StatusBadRequest, s)
             else if codeChallenge = [] then (http_error [] ''invalid_request: code_challenge is required'' StatusBadRequest, s)
             else if q ''code_challenge_method'' \<noteq> ''S256''
             then (http_error [] (''invalid_request: code_challenge_method must be '' @ quoted ''S256'') StatusBadRequest, s)
             else (case ie_random env of
               Inl _ \<Rightarrow> (http_error [] ''server_error: failed to generate code'' StatusInternalServerError, s)
             | Inr bytes \<Rightarrow>
                 (let code = hex_encode bytes;
                      s' = SaveAuthCode (ie_code_now env) code codeChallenge clientID (5 * minute) s
                  in (case ie_with_query env redirectURI ((''code'', code) #
                            (if q ''state'' \<noteq> [] then [(''state'', q ''state'')] else [])) of
                    None \<Rightarrow> (http_error [] ''invalid_request: malformed redirect_uri'' StatusBadRequest, s')
                  | Some targetURL \<Rightarrow>
                      if rq_header r ''Accept'' = ''application/json'' then
                        (let clientSecret = q ''client_secret''
                         in if clientSecret = []
                            then (http_error [] ''invalid_client: client_secret is required for headless flow'' StatusUnauthorized, s')
                            else if clientSecret \<noteq> expectedSecret
                            then (http_error [] ''invalid_client: client authentication failed'' StatusUnauthorized, s')
                            else (write_json (set_header ''Content-Type'' ''application/json'' []) StatusOK
                                    (JObj [(''code'', JStr code)]), s'))
                      else (\<lparr>rs_status = StatusFound, rs_headers = set_header ''Location'' targetURL [],
                             rs_body = Text []\<rparr>, s'))))))"

section \<open>The token endpoint\<close>

definition tenant_of_client :: "string \<Rightarrow> string \<times> string" where
  "tenant_of_client clientID =
     (if clientID = ''client-alice'' then (''11111111-1111-1111-1111-111111111111'', ''operator'')
      else if clientID = ''client-bob'' then (''22222222-2222-2222-2222-222222222222'', ''viewer'')
      else if clientID = ''client-evil'' then (''66666666-6666-6666-6666-666666666666'', ''attacker'')
      else (''88888888-8888-8888-8888-888888888888'', ''guest''))"

definition token_claims :: "instant \<Rightarrow> string \<Rightarrow> string \<Rightarrow> members" where
  "token_claims now clientID jkt =
     [(''iss'', JStr issuer), (''sub'', JStr clientID), (''tenant_id'', JStr (fst (tenant_of_client clientID))),
      (''role'', JStr (snd (tenant_of_client clientID))), (''scope'', JStr ''transfer balance''),
      (''exp'', JNum (of_int ((now + 60 * second) div second))), (''iat'', JNum (of_int (now div second))),
      (''cnf'', JObj [(''jkt'', JStr jkt)])]"

definition token_header :: members where
  "token_header = [(''alg'', JStr ''ES256''), (''typ'', JStr ''JWT''), (''kid'', JStr ''idp-signing-key'')]"

definition token_response :: "string \<Rightarrow> string \<Rightarrow> json" where
  "token_response accessToken jti = JObj [(''access_token'', JStr accessToken), (''token_type'', JStr ''DPoP''),
     (''expires_in'', JNum 60), (''refresh_token'', JStr (''rt_'' @ jti))]"

definition full_uri :: "request \<Rightarrow> string" where
  "full_uri r = (if rq_tls r then ''https'' else ''http'') @ ''://'' @ rq_host r @ rq_path r"

definition token_headers :: headers where
  "token_headers = set_header ''Access-Control-Allow-Origin'' ''*'' (set_header ''Content-Type'' ''application/json'' [])"

text \<open>The part of the handler after the client has been authenticated.\<close>

definition issue_token :: "idp_env \<Rightarrow> request \<Rightarrow> string \<Rightarrow> RAMStore \<Rightarrow> response \<times> RAMStore" where
  "issue_token env r clientID s =
     (if rq_header r ''DPoP'' = []
      then (http_error token_headers ''invalid_request: missing DPoP header proof'' StatusBadRequest, s)
      else (case idp_VerifyDPoPProof (ie_format env) (ie_jwt env) (ie_proof_now env) (rq_header r ''DPoP'') ''POST'' (full_uri r) [] of
        Inl e \<Rightarrow> (http_error token_headers (''invalid_dpop_proof: '' @ e) StatusBadRequest, s)
      | Inr (jkt, jti) \<Rightarrow>
          (case store_IsJTIUsedAndSave (ie_jti_now env) jti (2 * minute) s of
             (True, s') \<Rightarrow> (http_error token_headers ''invalid_dpop_proof: replay attack detected (jti already used)'' StatusBadRequest, s')
           | (False, s') \<Rightarrow>
               (case ie_sign env token_header (token_claims (ie_issue_now env) clientID jkt) (ie_key env) of
                  Inl _ \<Rightarrow> (http_error token_headers ''server_error: failed to sign token'' StatusInternalServerError, s')
                | Inr accessToken \<Rightarrow> (write_json token_headers StatusOK (token_response accessToken jti), s')))))"

definition TokenHandler :: "idp_env \<Rightarrow> request \<Rightarrow> RAMStore \<Rightarrow> response \<times> RAMStore" where
  "TokenHandler env r s =
     (if rq_method r \<noteq> ''POST'' then (http_error token_headers ''method_not_allowed'' StatusMethodNotAllowed, s)
      else (case rq_form r of
        Inl _ \<Rightarrow> (http_error token_headers ''invalid_request: failed to parse form parameters'' StatusBadRequest, s)
      | Inr form \<Rightarrow>
          if form ''grant_type'' \<noteq> ''authorization_code''
          then (http_error token_headers (''unsupported_grant_type: grant_type must be '' @ quoted ''authorization_code'') StatusBadRequest, s)
          else if form ''code'' = [] then (http_error token_headers ''invalid_request: code is required'' StatusBadRequest, s)
          else if form ''code_verifier'' = []
          then (http_error token_headers ''invalid_request: code_verifier is required'' StatusBadRequest, s)
          else (case GetAndRemoveAuthCode (ie_code_now env) (form ''code'') s of
            (None, s') \<Rightarrow> (http_error token_headers ''invalid_grant: authorization code is invalid or expired'' StatusBadRequest, s')
          | (Some (codeChallenge, clientID), s') \<Rightarrow>
              (case RegisteredClients clientID of
                 None \<Rightarrow> (http_error token_headers ''invalid_client: client is not registered'' StatusUnauthorized, s')
               | Some expectedSecret \<Rightarrow>
                   if form ''client_secret'' = []
                   then (http_error token_headers ''invalid_client: client_secret is required'' StatusUnauthorized, s')
                   else if form ''client_secret'' \<noteq> expectedSecret
                   then (http_error token_headers ''invalid_client: client authentication failed'' StatusUnauthorized, s')
                   else if \<not> VerifyPKCE (form ''code_verifier'') codeChallenge ''S256''
                   then (http_error token_headers ''invalid_grant: PKCE verification failed'' StatusBadRequest, s')
                   else issue_token env r clientID s'))))"

section \<open>Key set, discovery, routes\<close>

definition JWKSHandler :: "point \<Rightarrow> response" where
  "JWKSHandler pubKey = write_json token_headers StatusOK
     (JObj [(''keys'', JArr [JObj [(''kty'', JStr ''EC''), (''use'', JStr ''sig''), (''alg'', JStr ''ES256''),
        (''crv'', JStr ''P-256''), (''x'', JStr (coord_enc (fst pubKey))), (''y'', JStr (coord_enc (snd pubKey))),
        (''kid'', JStr ''idp-signing-key'')]])])"

definition DiscoveryHandler :: response where
  "DiscoveryHandler = write_json token_headers StatusOK
     (JObj [(''issuer'', JStr issuer), (''authorization_endpoint'', JStr (issuer @ ''/authorize'')),
       (''token_endpoint'', JStr (issuer @ ''/token'')), (''jwks_uri'', JStr (issuer @ ''/jwks'')),
       (''response_types_supported'', JArr [JStr ''code'']), (''subject_types_supported'', JArr [JStr ''public'']),
       (''id_token_signing_alg_values_supported'', JArr [JStr ''ES256'']),
       (''code_challenge_methods_supported'', JArr [JStr ''S256'']),
       (''dpop_signing_alg_values_supported'', JArr [JStr ''ES256'']),
       (''token_endpoint_auth_methods_supported'', JArr [JStr ''private_key_jwt'', JStr ''tls_client_auth''])])"

definition not_found :: response where
  "not_found = http_error [] ''404 page not found'' 404"

definition idp_serve :: "idp_env \<Rightarrow> request \<Rightarrow> RAMStore \<Rightarrow> response \<times> RAMStore" where
  "idp_serve env r s =
     (if rq_path r = ''/.well-known/openid-configuration'' then (DiscoveryHandler, s)
      else if rq_path r \<in> {''/.well-known/jwks.json'', ''/jwks''} then (JWKSHandler (public_key (ie_key env)), s)
      else if rq_path r = ''/authorize'' then AuthorizeHandler env r s
      else if rq_path r = ''/token'' then TokenHandler env r s
      else (not_found, s))"

end
