(* ===== verification/Fetch.thy ===== *)
theory Fetch
  imports UrlCode Idp
begin

text \<open>
  The identity provider as the dashboard's \<open>fetch\<close> meets it: a URL becomes the request of the
  Go handlers, their response becomes a fetch response.
\<close>

section \<open>Requests\<close>

fun after_scheme :: "string \<Rightarrow> string" where
  "after_scheme [] = []"
| "after_scheme (c # s) = (if starts_with (c # s) ''://'' then drop 3 (c # s) else after_scheme s)"

definition url_host :: "string \<Rightarrow> string" where
  "url_host url = takeWhile (\<lambda>c. c \<noteq> CHR ''/'') (after_scheme url)"

definition url_path :: "string \<Rightarrow> string" where
  "url_path url = takeWhile (\<lambda>c. c \<noteq> CHR ''?'') (dropWhile (\<lambda>c. c \<noteq> CHR ''/'') (after_scheme url))"

definition url_query :: "string \<Rightarrow> string" where
  "url_query url = drop 1 (dropWhile (\<lambda>c. c \<noteq> CHR ''?'') url)"

fun lookup_text :: "(string \<times> string) list \<Rightarrow> string \<Rightarrow> string" where
  "lookup_text [] k = []"
| "lookup_text ((k', v) # ps) k = (if k' = k then v else lookup_text ps k)"

text \<open>\<open>ParseForm\<close>: the form body of a POST, PUT or PATCH comes before the query; a malformed pair in
  either is an error.\<close>

definition form_body :: "http_request \<Rightarrow> string" where
  "form_body rq = (if hr_method rq \<in> {''POST'', ''PUT'', ''PATCH''}
       \<and> lookup_text (hr_headers rq) ''Content-Type'' = ''application/x-www-form-urlencoded'' then hr_body rq else [])"

definition parse_form :: "http_request \<Rightarrow> string + (string \<Rightarrow> string)" where
  "parse_form rq =
     (if query_malformed (form_body rq) \<or> query_malformed (url_query (hr_url rq)) then Inl ''invalid URL escape''
      else Inr (lookup_text (parse_query (form_body rq) @ parse_query (url_query (hr_url rq)))))"

definition request_of :: "http_request \<Rightarrow> request" where
  "request_of rq = \<lparr>rq_method = hr_method rq, rq_host = url_host (hr_url rq), rq_path = url_path (hr_url rq),
     rq_tls = False, rq_remote = [], rq_header = lookup_text (hr_headers rq),
     rq_query = lookup_text (parse_query (url_query (hr_url rq))), rq_form = parse_form rq,
     rq_body = Inl ''invalid character'', rq_conn = None\<rparr>"

section \<open>Responses\<close>

definition go_answer :: "(nat \<Rightarrow> string) \<Rightarrow> response \<Rightarrow> http_response" where
  "go_answer status_text r = \<lparr>hp_status = rs_status r, hp_statusText = status_text (rs_status r),
     hp_text = (case rs_body r of Text s \<Rightarrow> s | Json v \<Rightarrow> stringify v),
     hp_json = (case rs_body r of Text s \<Rightarrow> Inl ''Unexpected token'' | Json v \<Rightarrow> Inr v)\<rparr>"

lemma go_answer_simps [simp]:
  "hp_status (go_answer st r) = rs_status r" "res_ok (go_answer st r) \<longleftrightarrow> 200 \<le> rs_status r \<and> rs_status r \<le> 299"
  by (simp_all add: go_answer_def res_ok_def)

text \<open>The identity provider at its address, and whatever answers elsewhere.\<close>

definition idp_address :: string where "idp_address = ''http://localhost:8081''"

definition two_hosts :: "idp_env \<Rightarrow> (nat \<Rightarrow> string) \<Rightarrow> 'g fetcher \<Rightarrow> (RAMStore \<times> 'g) fetcher" where
  "two_hosts env status_text other rq w =
     (if starts_with (hr_url rq) idp_address
      then (let (r, s') = idp_serve env (request_of rq) (fst w) in (Inr (go_answer status_text r), s', snd w))
      else (let (a, g') = other rq (snd w) in (a, fst w, g')))"

end
