(* ===== verification/DpopFacts.thy ===== *)
theory DpopFacts
  imports Dpop
begin

text \<open>
  What DPoP verification guarantees: the three thumbprint implementations agree, a thumbprint
  determines the key, the flexible htu comparison is a comparison of paths, an accepted proof
  is fresh, bound and signed by the key it names, and an honest client's proof is accepted.
\<close>

section \<open>Thumbprints\<close>

lemma those_None: "None \<in> set os \<Longrightarrow> those os = None"
  by (induction os) (auto split: option.splits)

lemma coord_dec_no_quote:
  assumes "coord_dec s = Some n"
  shows "CHR 0x22 \<notin> set s"
proof
  assume "CHR 0x22 \<in> set s"
  then have "CHR 0x22 \<in> set (filter (\<lambda>c. c \<noteq> CHR 0x0A \<and> c \<noteq> CHR 0x0D) s)" by simp
  then have "b64_val CHR 0x22 \<in> set (map b64_val (filter (\<lambda>c. c \<noteq> CHR 0x0A \<and> c \<noteq> CHR 0x0D) s))"
    unfolding set_map by (rule imageI)
  moreover have "b64_val CHR 0x22 = None" by (simp add: b64_val_def)
  ultimately have "those (map b64_val (filter (\<lambda>c. c \<noteq> CHR 0x0A \<and> c \<noteq> CHR 0x0D) s)) = None"
    using those_None by metis
  then have "b64_decode s = None" unfolding b64_decode_def by (simp only: option.case)
  with assms show False by (simp add: coord_dec_def)
qed

lemma until_quote: "CHR 0x22 \<notin> set a \<Longrightarrow> CHR 0x22 \<notin> set b \<Longrightarrow>
    a @ CHR 0x22 # s = b @ CHR 0x22 # t \<longleftrightarrow> a = b \<and> s = t"
proof (induction a arbitrary: b)
  case Nil
  then show ?case by (cases b) auto
next
  case (Cons c a)
  then show ?case by (cases b) auto
qed

lemma jwk_text_inject:
  assumes "CHR 0x22 \<notin> set x" "CHR 0x22 \<notin> set x'"
  shows "jwk_text x y = jwk_text x' y' \<longleftrightarrow> x = x' \<and> y = y'"
  using until_quote [OF assms] by (auto simp: jwk_text_def)

lemma JWKToECDSA_ok: "JWKToECDSA x y = Inr k \<longleftrightarrow> coord_dec x = Some (fst k) \<and> coord_dec y = Some (snd k)"
  by (cases k) (auto simp: JWKToECDSA_def split: option.splits)

lemma JWKToPublicKey_ok:
  "JWKToPublicKey j = Inr k \<longleftrightarrow> jwk_kty j = ''EC'' \<and> jwk_crv j = ''P-256'' \<and> JWKToECDSA (jwk_x j) (jwk_y j) = Inr k"
  by (auto simp: JWKToPublicKey_def JWKToECDSA_def split: option.splits)

text \<open>C10: a thumbprint determines the key.  If two pairs of coordinates both decode and have the
  same thumbprint, they are the same texts and the same key, unless the two different
  canonical texts are a collision of SHA-256.  No choice of coordinate texts can splice
  extra members into the canonical JSON.\<close>

theorem thumbprint_determines_key:
  assumes "JWKToECDSA x y = Inr k" "JWKToECDSA x' y' = Inr k'"
    and "CalculateJWKThumbprint x y = CalculateJWKThumbprint x' y'"
  shows "(x = x' \<and> y = y' \<and> k = k') \<or>
    (jwk_text x y \<noteq> jwk_text x' y' \<and> sha256 (str_bytes (jwk_text x y)) = sha256 (str_bytes (jwk_text x' y')))"
proof (cases "jwk_text x y = jwk_text x' y'")
  case True
  moreover have "CHR 0x22 \<notin> set x" "CHR 0x22 \<notin> set x'"
    using assms(1,2) by (auto simp: JWKToECDSA_ok dest: coord_dec_no_quote)
  ultimately have "x = x' \<and> y = y'" by (simp add: jwk_text_inject)
  with assms(1,2) show ?thesis by simp
next
  case False
  moreover have "sha256 (str_bytes (jwk_text x y)) = sha256 (str_bytes (jwk_text x' y'))"
    using assms(3) by (simp add: CalculateJWKThumbprint_def sha256_b64_def)
  ultimately show ?thesis by simp
qed

theorem thumbprint_determines_key_witness:
  "(''AQ'' = ''AQ'' \<and> ''Ag'' = ''Ag'' \<and> (1 :: int, 2 :: int) = (1, 2)) \<or>
    (jwk_text ''AQ'' ''Ag'' \<noteq> jwk_text ''AQ'' ''Ag'' \<and>
     sha256 (str_bytes (jwk_text ''AQ'' ''Ag'')) = sha256 (str_bytes (jwk_text ''AQ'' ''Ag'')))"
proof -
  have "JWKToECDSA ''AQ'' ''Ag'' = Inr (1, 2)" by code_simp
  from thumbprint_determines_key [OF this this refl] show ?thesis by simp
qed

definition key_jwk :: "point \<Rightarrow> JWK" where
  "key_jwk pub = \<lparr>jwk_crv = ''P-256'', jwk_kty = ''EC'', jwk_x = coord_enc (fst pub), jwk_y = coord_enc (snd pub)\<rparr>"

definition point_ok :: "point \<Rightarrow> bool" where
  "point_ok pub \<longleftrightarrow> coord_ok (fst pub) \<and> coord_ok (snd pub)"

lemma canonical_key_jwk:
  "point_ok pub \<Longrightarrow> canonical_jwk (key_jwk pub) = jwk_text (coord_enc (fst pub)) (coord_enc (snd pub))"
  by (simp add: canonical_jwk_def key_jwk_def point_ok_def coord_enc_ok json_string_plain b64_encode_alphabet jwk_text_def
      del: be_bytes.simps) (simp add: json_string_def json_char_def)

lemma sort_jwk_names: "sort [''kty'', ''crv'', ''x'', ''y''] = [''crv'', ''kty'', ''x'', ''y'']"
  by code_simp

lemma unmarshal_proof_jwk:
  "unmarshal_JWK (JObj [(''kty'', JStr ''EC''), (''crv'', JStr ''P-256''), (''x'', JStr a), (''y'', JStr b)])
     = Inr \<lparr>jwk_crv = ''P-256'', jwk_kty = ''EC'', jwk_x = a, jwk_y = b\<rparr>"
proof -
  have fold: "equal_fold ''crv'' ''crv''" "\<not> equal_fold ''kty'' ''crv''" "equal_fold ''kty'' ''kty''"
    "\<not> equal_fold ''x'' ''crv''" "\<not> equal_fold ''x'' ''kty''" "equal_fold ''x'' ''x''"
    "\<not> equal_fold ''y'' ''crv''" "\<not> equal_fold ''y'' ''kty''" "\<not> equal_fold ''y'' ''x''" "equal_fold ''y'' ''y''"
    by code_simp+
  show ?thesis
    by (simp add: unmarshal_JWK_def map_entries_def sort_jwk_names member_def set_jwk_field_def fold)
qed

text \<open>The three programs agree on every P-256 point.  The key the client puts into its proof
  header is read back exactly by the gateway and by the identity provider, and the
  thumbprints the three compute for it are equal.\<close>

theorem thumbprints_agree:
  assumes "coord_ok (fst pub)" "coord_ok (snd pub)"
  shows "JWKToECDSA (coord_enc (fst pub)) (coord_enc (snd pub)) = Inr pub
    \<and> (\<exists>j. map_option unmarshal_JWK (member (proof_header pub) ''jwk'') = Some (Inr j)
        \<and> JWKToPublicKey j = Inr pub \<and> ComputeThumbprint j = client_thumbprint pub)
    \<and> CalculateJWKThumbprint (coord_enc (fst pub)) (coord_enc (snd pub)) = client_thumbprint pub"
proof -
  have dec: "coord_dec (coord_enc (fst pub)) = Some (fst pub)" "coord_dec (coord_enc (snd pub)) = Some (snd pub)"
    using assms coord.dec_enc by auto
  have "member (proof_header pub) ''jwk'' = Some (JObj [(''kty'', JStr ''EC''), (''crv'', JStr ''P-256''),
      (''x'', JStr (coord_enc (fst pub))), (''y'', JStr (coord_enc (snd pub)))])"
    by (simp add: member_def proof_header_def)
  moreover have "ComputeThumbprint (key_jwk pub) = client_thumbprint pub"
    using assms by (simp add: ComputeThumbprint_def client_thumbprint_def canonical_key_jwk point_ok_def)
  ultimately show ?thesis
    using dec by (auto simp: JWKToECDSA_def JWKToPublicKey_def unmarshal_proof_jwk key_jwk_def
        CalculateJWKThumbprint_def client_thumbprint_def)
qed

theorem thumbprints_agree_witness:
  "JWKToECDSA (coord_enc 7) (coord_enc 0) = Inr (7, 0)
   \<and> CalculateJWKThumbprint (coord_enc 7) (coord_enc 0) = client_thumbprint (7, 0)"
  using thumbprints_agree [of "(7, 0)"] by (simp add: coord_ok_def)

section \<open>The htu comparison\<close>

lemma index_of_sep: "CHR '':'' \<notin> set a \<Longrightarrow> index_of (a @ ''://'' @ b) ''://'' = Some (length a)"
  by (induction a) auto

lemma index_of_slash: "CHR ''/'' \<notin> set h \<Longrightarrow> index_of (h @ CHR ''/'' # p) ''/'' = Some (length h)"
  by (induction h) auto

lemma strip_url:
  assumes "CHR '':'' \<notin> set s" "CHR ''/'' \<notin> set h"
  shows "stripHostAndScheme (s @ ''://'' @ h @ CHR ''/'' # p) = CHR ''/'' # p"
  using index_of_sep [OF assms(1), of "h @ CHR ''/'' # p"] index_of_slash [OF assms(2)]
  by (simp add: stripHostAndScheme_def)

text \<open>On absolute URLs the gateway's htu check compares the paths and nothing else: scheme,
  host and port of the proof are ignored, everything from the first slash on must be equal,
  query included.\<close>

theorem verifyHTU_compares_paths:
  assumes "CHR '':'' \<notin> set s1" "CHR ''/'' \<notin> set h1" "CHR '':'' \<notin> set s2" "CHR ''/'' \<notin> set h2"
  shows "verifyHTU (s1 @ ''://'' @ h1 @ CHR ''/'' # p1) (s2 @ ''://'' @ h2 @ CHR ''/'' # p2) \<longleftrightarrow> p1 = p2"
  using strip_url [OF assms(1,2), of p1] strip_url [OF assms(3,4), of p2]
  by (auto simp: verifyHTU_def)

theorem verifyHTU_compares_paths_witness:
  "verifyHTU (''https'' @ ''://'' @ ''evil.example'' @ CHR ''/'' # ''api/balance'')
     (''http'' @ ''://'' @ ''localhost:8080'' @ CHR ''/'' # ''api/balance'')
   \<longleftrightarrow> ''api/balance'' = ''api/balance''"
  by (rule verifyHTU_compares_paths) simp_all

section \<open>Accepted proofs\<close>

definition proof_valid ::
  "instant \<Rightarrow> members jwt_lib \<Rightarrow> string \<Rightarrow> string \<Rightarrow> string \<Rightarrow> string \<Rightarrow> string \<times> string \<Rightarrow> bool" where
  "proof_valid now lib raw verb target tok r \<longleftrightarrow>
     (\<exists>t q x y k. jwt_decode lib raw = Some t \<and> jwt_verify lib raw k \<and> JWKToECDSA x y = Inr k
        \<and> fst r = CalculateJWKThumbprint x y
        \<and> str_of (member (header_jwk t) ''x'') = x \<and> str_of (member (header_jwk t) ''y'') = y
        \<and> equal_fold (str_of (member (tk_claims t) ''htm'')) verb
        \<and> verifyHTU (str_of (member (tk_claims t) ''htu'')) target
        \<and> member (tk_claims t) ''iat'' = Some (JNum q) \<and> \<bar>now - unix (trunc_rat q)\<bar> \<le> 60 * second
        \<and> member (tk_claims t) ''jti'' = Some (JStr (snd r)) \<and> snd r \<noteq> []
        \<and> (tok \<noteq> [] \<longrightarrow> member (tk_claims t) ''ath'' = Some (JStr (sha256_b64 tok))))"

lemma str_of_nonempty: "str_of v = s \<Longrightarrow> s \<noteq> [] \<Longrightarrow> v = Some (JStr s)"
  by (auto simp: str_of_def split: option.splits json.splits)

lemma sha256_b64_nonempty [simp]: "sha256_b64 s \<noteq> []"
  by (metis b64_encode_empty_iff length_sha256 list.size(3) sha256_b64_def zero_neq_numeral)

lemma proof_key_ok:
  assumes "proof_key t = Inr k"
  shows "tk_alg t \<in> set ecdsa_algs"
    and "JWKToECDSA (str_of (member (header_jwk t) ''x'')) (str_of (member (header_jwk t) ''y'')) = Inr k"
  using assms by (auto simp: proof_key_def header_jwk_def split: if_splits option.splits json.splits)

lemma gateway_proof_sound_lemma:
  assumes "jwt_lawful lib" "VerifyDPoPProof ft lib now raw verb target tok = Inr r"
  shows "proof_valid now lib raw verb target tok r"
proof -
  from assms obtain t k where t: "jwt_decode lib raw = Some t" "proof_key t = Inr k" "jwt_verify lib raw k"
      "jwt_parse lib now raw proof_key = Inr t"
    by (cases "jwt_parse lib now raw proof_key") (auto simp: VerifyDPoPProof_def jwt_parse_ok)
  with assms(2) obtain q where
    "member (tk_claims t) ''iat'' = Some (JNum q)" "\<bar>now - unix (trunc_rat q)\<bar> \<le> 60 * second"
    "equal_fold (str_of (member (tk_claims t) ''htm'')) verb"
    "verifyHTU (str_of (member (tk_claims t) ''htu'')) target"
    "str_of (member (tk_claims t) ''jti'') = snd r" "snd r \<noteq> []"
    "fst r = CalculateJWKThumbprint (str_of (member (header_jwk t) ''x'')) (str_of (member (header_jwk t) ''y''))"
    "tok \<noteq> [] \<longrightarrow> str_of (member (tk_claims t) ''ath'') = sha256_b64 tok"
    by (auto simp: VerifyDPoPProof_def Let_def split: if_splits option.splits json.splits)
  with t proof_key_ok(2) [OF t(2)] show ?thesis
    unfolding proof_valid_def by (metis sha256_b64_nonempty str_of_nonempty)
qed

text \<open>C11: an accepted proof is what RFC 9449 asks for.  Whenever the gateway's verification
  succeeds, the proof is signed by the key in its own header, the thumbprint returned is that
  key's, htm and htu match the request, iat is within 60 seconds of now, the jti returned is
  the proof's and not empty, and ath is the hash of the access token.\<close>

theorem gateway_proof_sound:
  assumes "jwt_lawful lib" "VerifyDPoPProof ft lib now raw verb target tok = Inr r"
  shows "proof_valid now lib raw verb target tok r"
  using assms by (rule gateway_proof_sound_lemma)

section \<open>Honest proofs\<close>

text \<open>What the client's signing guarantees to a verifier: the signed text decodes to the given
  header and claims, and verifies under the signer's public key.\<close>

definition signs_for :: "jwt_signer \<Rightarrow> members jwt_lib \<Rightarrow> bool" where
  "signs_for sign lib \<longleftrightarrow> (\<forall>h c k s. sign h c k = Inr s \<longrightarrow>
     jwt_decode lib s = Some \<lparr>tk_alg = str_of (member h ''alg''), tk_header = h, tk_claims = c\<rparr>
     \<and> jwt_verify lib s (public_key k))"

lemma proof_header_key:
  assumes "point_ok pub"
  shows "proof_key \<lparr>tk_alg = str_of (member (proof_header pub) ''alg''), tk_header = proof_header pub, tk_claims = c\<rparr> = Inr pub"
  using assms coord_enc_nonempty coord.dec_enc
  by (simp add: proof_key_def proof_header_def member_def ecdsa_algs_def point_ok_def JWKToECDSA_def)

lemma hex_encode_nonempty: "bs \<noteq> [] \<Longrightarrow> hex_encode bs \<noteq> []"
  using length_hex_encode [of bs] by fastforce

lemma honest_proof_gateway:
  assumes "jwt_lawful lib" "signs_for sign lib" "coord_ok (fst (public_key key))" "coord_ok (snd (public_key key))"
    and "GenerateDPoPProof sign t0 (Inr jtiBytes) key verb uri tok = Inr raw" "jtiBytes \<noteq> []"
    and "stripHostAndScheme uri = stripHostAndScheme target"
    and "unix (t0 div second) \<le> now" "now \<le> unix (t0 div second) + 60 * second"
    and "jwt_fresh lib now (proof_claims t0 jtiBytes verb uri tok)"
  shows "VerifyDPoPProof ft lib now raw verb target tok
    = Inr (client_thumbprint (public_key key), hex_encode jtiBytes)"
proof -
  let ?pub = "public_key key"
  define c where "c = proof_claims t0 jtiBytes verb uri tok"
  define t where "t = \<lparr>tk_alg = str_of (member (proof_header ?pub) ''alg''), tk_header = proof_header ?pub, tk_claims = c\<rparr>"
  have "sign (proof_header ?pub) c key = Inr raw"
    using assms(5) by (auto simp: GenerateDPoPProof_def c_def split: sum.splits)
  with assms(2) have "jwt_decode lib raw = Some t \<and> jwt_verify lib raw ?pub"
    unfolding signs_for_def t_def by blast
  moreover have "proof_key t = Inr ?pub"
    using assms(3,4) proof_header_key by (simp add: t_def point_ok_def)
  ultimately have parse: "jwt_parse lib now raw proof_key = Inr t"
    using assms(1,10) by (simp add: jwt_parse_ok t_def c_def)
  have claims: "member c ''htm'' = Some (JStr verb)" "member c ''htu'' = Some (JStr uri)"
    "member c ''iat'' = Some (JNum (of_int (t0 div second)))" "member c ''jti'' = Some (JStr (hex_encode jtiBytes))"
    "tok = [] \<or> member c ''ath'' = Some (JStr (sha256_b64 tok))"
    by (auto simp: c_def proof_claims_def member_def)
  have jwk: "str_of (member (header_jwk t) ''x'') = coord_enc (fst ?pub)"
    "str_of (member (header_jwk t) ''y'') = coord_enc (snd ?pub)"
    by (simp_all add: t_def header_jwk_def proof_header_def member_def)
  have "verifyHTU uri target" "tk_claims t = c" "hex_encode jtiBytes \<noteq> []"
    using assms(6,7) by (simp_all add: verifyHTU_def t_def hex_encode_nonempty)
  moreover have "\<not> (now - unix (t0 div second) > 60 * second \<or> unix (t0 div second) - now > 60 * second)"
    using assms(8,9) second_pos by linarith
  ultimately show ?thesis
    using claims by (auto simp: VerifyDPoPProof_def parse jwk Let_def CalculateJWKThumbprint_def client_thumbprint_def)
qed

text \<open>The same for the identity provider's library, which decodes the claims into a struct.\<close>

definition typed_claims :: "members \<Rightarrow> DPoPClaims" where
  "typed_claims c = \<lparr>HTTPMethod = str_of (member c ''htm''), HTTPURI = str_of (member c ''htu''),
     AccessTokenHash = str_of (member c ''ath''),
     IssuedAt = (case member c ''iat'' of Some (JNum q) \<Rightarrow> Some (unix (trunc_rat q)) | _ \<Rightarrow> None),
     claim_ID = str_of (member c ''jti'')\<rparr>"

definition signs_for_idp :: "jwt_signer \<Rightarrow> DPoPClaims jwt_lib \<Rightarrow> bool" where
  "signs_for_idp sign lib \<longleftrightarrow> (\<forall>h c k s. sign h c k = Inr s \<longrightarrow>
     jwt_decode lib s = Some \<lparr>tk_alg = str_of (member h ''alg''), tk_header = h, tk_claims = typed_claims c\<rparr>
     \<and> jwt_verify lib s (public_key k))"

lemma client_jwk_proof_header:
  "client_jwk \<lparr>tk_alg = str_of (member (proof_header pub) ''alg''), tk_header = proof_header pub, tk_claims = c\<rparr>
     = Inr (key_jwk pub)"
  by (simp add: client_jwk_def proof_header_def member_def unmarshal_proof_jwk key_jwk_def)

lemma decoded_proof_idp:
  assumes "jwt_lawful lib" "jwt_decode lib raw = Some t" "jwt_verify lib raw pub" "jwt_fresh lib now (tk_claims t)"
    and "tk_alg t = ''ES256''" "client_jwk t = Inr (key_jwk pub)" "coord_ok (fst pub)" "coord_ok (snd pub)"
    and "tk_claims t = \<lparr>HTTPMethod = verb, HTTPURI = uri, AccessTokenHash = [], IssuedAt = Some t0, claim_ID = jti\<rparr>"
    and "hd (split_on CHR ''?'' uri) = hd (split_on CHR ''?'' target)" "t0 \<le> now" "now \<le> t0 + 60 * second"
  shows "idp_VerifyDPoPProof ft lib now raw verb target [] = Inr (client_thumbprint pub, jti)"
proof -
  have "idp_proof_key t = Inr pub"
    using assms(5-8) coord.dec_enc by (simp add: idp_proof_key_def JWKToPublicKey_def key_jwk_def)
  with assms(1-4) have parse: "jwt_parse lib now raw idp_proof_key = Inr t"
    by (simp add: jwt_parse_ok)
  have "ComputeThumbprint (key_jwk pub) = client_thumbprint pub"
    using assms(7,8) by (simp add: ComputeThumbprint_def client_thumbprint_def canonical_key_jwk point_ok_def)
  moreover have "\<not> (now - t0 < - (60 * second) \<or> now - t0 > 60 * second)"
    using assms(11,12) second_pos by linarith
  ultimately show ?thesis
    using assms(10) by (simp add: idp_VerifyDPoPProof_def parse assms(6,9))
qed

lemma typed_proof_claims: "typed_claims (proof_claims t0 jtiBytes verb uri []) =
  \<lparr>HTTPMethod = verb, HTTPURI = uri, AccessTokenHash = [], IssuedAt = Some (unix (t0 div second)), claim_ID = hex_encode jtiBytes\<rparr>"
  by (simp add: typed_claims_def proof_claims_def member_def)

lemma honest_proof_idp:
  assumes "jwt_lawful lib" "signs_for_idp sign lib" "coord_ok (fst (public_key key))" "coord_ok (snd (public_key key))"
    and "GenerateDPoPProof sign t0 (Inr jtiBytes) key verb uri [] = Inr raw"
    and "hd (split_on CHR ''?'' uri) = hd (split_on CHR ''?'' target)"
    and "unix (t0 div second) \<le> now" "now \<le> unix (t0 div second) + 60 * second"
    and "jwt_fresh lib now (typed_claims (proof_claims t0 jtiBytes verb uri []))"
  shows "idp_VerifyDPoPProof ft lib now raw verb target []
    = Inr (client_thumbprint (public_key key), hex_encode jtiBytes)"
proof -
  have "sign (proof_header (public_key key)) (proof_claims t0 jtiBytes verb uri []) key = Inr raw"
    using assms(5) by (auto simp: GenerateDPoPProof_def split: sum.splits)
  with assms(2) have "jwt_decode lib raw = Some \<lparr>tk_alg = str_of (member (proof_header (public_key key)) ''alg''),
        tk_header = proof_header (public_key key), tk_claims = typed_claims (proof_claims t0 jtiBytes verb uri [])\<rparr>"
      "jwt_verify lib raw (public_key key)"
    unfolding signs_for_idp_def by blast+
  from decoded_proof_idp [OF assms(1) this _ _ client_jwk_proof_header assms(3,4) _ assms(6-8)] assms(9)
  show ?thesis by (simp add: typed_proof_claims proof_header_def member_def)
qed

text \<open>C12: an honest client's proofs are accepted.  A proof made by \<open>GenerateDPoPProof\<close> passes the
  gateway's verification, if its URL's path is the request's, and without an access token the
  identity provider's, if its URL is the endpoint's, for up to 60 seconds after the second it
  was made in.  Both obtain the client's own thumbprint and the random jti.\<close>

theorem honest_proof_accepted:
  assumes "jwt_lawful lib" "signs_for sign lib" "jwt_lawful idp_lib" "signs_for_idp sign idp_lib"
    and "coord_ok (fst (public_key key))" "coord_ok (snd (public_key key))" "jtiBytes \<noteq> []"
    and "GenerateDPoPProof sign t0 (Inr jtiBytes) key verb uri tok = Inr raw"
    and "unix (t0 div second) \<le> now" "now \<le> unix (t0 div second) + 60 * second"
    and "jwt_fresh lib now (proof_claims t0 jtiBytes verb uri tok)"
    and "jwt_fresh idp_lib now (typed_claims (proof_claims t0 jtiBytes verb uri tok))"
  shows "(stripHostAndScheme uri = stripHostAndScheme target \<longrightarrow>
      VerifyDPoPProof ft lib now raw verb target tok = Inr (client_thumbprint (public_key key), hex_encode jtiBytes))
    \<and> (tok = [] \<and> hd (split_on CHR ''?'' uri) = hd (split_on CHR ''?'' target) \<longrightarrow>
      idp_VerifyDPoPProof ft idp_lib now raw verb target [] = Inr (client_thumbprint (public_key key), hex_encode jtiBytes))"
  using honest_proof_gateway [of lib sign key t0 jtiBytes verb uri tok raw target now ft]
    honest_proof_idp [of idp_lib sign key t0 jtiBytes verb uri raw target now ft] assms by auto

section \<open>Examples\<close>

definition sample_key :: private_key where "sample_key = (1, 7, 0)"

definition sample_claims :: members where
  "sample_claims = proof_claims 0 [1] ''GET'' ''http://h/api'' ''''"

definition sample_sign :: jwt_signer where
  "sample_sign h c k = (if h = proof_header (7, 0) \<and> c = sample_claims \<and> k = sample_key then Inr ''p'' else Inl ''no key'')"

definition sample_lib :: "(members \<Rightarrow> 'c) \<Rightarrow> 'c jwt_lib" where
  "sample_lib typed = simple_jwt (\<lambda>s. if s = ''p'' then Some \<lparr>tk_alg = ''ES256'', tk_header = proof_header (7, 0), tk_claims = typed sample_claims\<rparr> else None)
     (\<lambda>s k. k = (7, 0)) (\<lambda>_ _. True)"

lemma sample_lib_lawful: "jwt_lawful (sample_lib typed)"
  by (simp add: sample_lib_def simple_jwt_lawful)

lemma sample_signs: "signs_for sample_sign (sample_lib id)" "signs_for_idp sample_sign (sample_lib typed_claims)"
  by (auto simp: signs_for_def signs_for_idp_def sample_sign_def sample_lib_def simple_jwt_def sample_key_def
      public_key_def proof_header_def member_def split: if_splits)

lemma sample_proof: "GenerateDPoPProof sample_sign 0 (Inr [1]) sample_key ''GET'' ''http://h/api'' '''' = Inr ''p''"
  by (simp add: GenerateDPoPProof_def sample_sign_def sample_claims_def sample_key_def public_key_def)

theorem honest_proof_accepted_witness:
  "VerifyDPoPProof show_int (sample_lib id) (30 * second) ''p'' ''GET'' ''http://h/api'' '''' = Inr (client_thumbprint (7, 0), hex_encode [1])
   \<and> idp_VerifyDPoPProof show_int (sample_lib typed_claims) (30 * second) ''p'' ''GET'' ''http://h/api'' '''' = Inr (client_thumbprint (7, 0), hex_encode [1])"
  using honest_proof_accepted [OF sample_lib_lawful sample_signs(1) sample_lib_lawful sample_signs(2), of sample_key "[1]" 0
      "''GET''" "''http://h/api''" "''''" "''p''" "30 * second" "''http://h/api''" show_int] sample_proof
  by (simp add: sample_key_def public_key_def coord_ok_def sample_lib_def simple_jwt_def unix_def second_def)

theorem gateway_proof_sound_witness:
  "proof_valid (30 * second) (sample_lib id) ''p'' ''GET'' ''http://h/api'' '''' (client_thumbprint (7, 0), hex_encode [1])"
proof (rule gateway_proof_sound)
  show "VerifyDPoPProof show_int (sample_lib id) (30 * second) ''p'' ''GET'' ''http://h/api'' '''' = Inr (client_thumbprint (7, 0), hex_encode [1])"
    using honest_proof_gateway [OF sample_lib_lawful sample_signs(1), of sample_key 0 "[1]"
      "''GET''" "''http://h/api''" "''''" "''p''" "''http://h/api''" "30 * second" show_int] sample_proof
    by (simp add: sample_key_def public_key_def coord_ok_def sample_lib_def simple_jwt_def unix_def second_def)
qed (rule sample_lib_lawful)

end
