(* ===== verification/IdpFacts.thy ===== *)
theory IdpFacts
  imports Idp DpopFacts
begin

text \<open>
  What the identity provider's endpoints promise: when a code is disclosed, what a request must
  have shown to get a token, what the store keeps of it, and that an honest client gets one.
\<close>

lemma issued_token:
  assumes "rs_status (fst (issue_token env r cl s)) = StatusOK"
  shows "\<exists>jkt jti tok. idp_VerifyDPoPProof (ie_format env) (ie_jwt env) (ie_proof_now env) (rq_header r ''DPoP'') ''POST'' (full_uri r) [] = Inr (jkt, jti)
    \<and> \<not> fst (store_IsJTIUsedAndSave (ie_jti_now env) jti (2 * minute) s)
    \<and> ie_sign env token_header (token_claims (ie_issue_now env) cl jkt) (ie_key env) = Inr tok
    \<and> rs_body (fst (issue_token env r cl s)) = Json (token_response tok jti)
    \<and> snd (issue_token env r cl s) = snd (store_IsJTIUsedAndSave (ie_jti_now env) jti (2 * minute) s)"
  using assms by (auto simp: issue_token_def split: if_splits sum.splits prod.splits bool.splits)

lemma issue_token_codes [simp]: "codes (snd (issue_token env r cl s)) = codes s"
  by (auto simp: issue_token_def store_IsJTIUsedAndSave_def split: sum.splits prod.splits bool.splits option.splits)

lemma redeemed_code:
  assumes "GetAndRemoveAuthCode now c s = (Some (ch, cl), s')"
  shows "held s c = Some (ch, cl)" "codes s' = (codes s)(c := None)" "jtis s' = jtis s"
  using assms by (auto simp: GetAndRemoveAuthCode_def held_def Let_def split: option.splits if_splits)

lemma fresh_jti_recorded:
  "\<not> fst (store_IsJTIUsedAndSave now j ttl s) \<Longrightarrow> jtis (snd (store_IsJTIUsedAndSave now j ttl s)) = (jtis s)(j \<mapsto> now + ttl)"
  by (auto simp: store_IsJTIUsedAndSave_def split: option.splits if_splits)

text \<open>C15: a token is issued only to the holder of a live code, who authenticates as the code's
  client, knows the PKCE verifier and proves possession of a key with a fresh proof.  The token
  names that client and is bound to that key's thumbprint; code and jti are then spent.\<close>

theorem token_issued_sound:
  assumes "TokenHandler env r s = (rs, s')" "rs_status rs = StatusOK"
  shows "\<exists>form challenge client jkt jti tok. rq_method r = ''POST'' \<and> rq_form r = Inr form
    \<and> held s (form ''code'') = Some (challenge, client)
    \<and> RegisteredClients client = Some (form ''client_secret'')
    \<and> sha256_b64 (form ''code_verifier'') = challenge
    \<and> idp_VerifyDPoPProof (ie_format env) (ie_jwt env) (ie_proof_now env) (rq_header r ''DPoP'') ''POST'' (full_uri r) [] = Inr (jkt, jti)
    \<and> (\<forall>e. jtis s jti = Some e \<longrightarrow> e \<le> ie_jti_now env)
    \<and> ie_sign env token_header (token_claims (ie_issue_now env) client jkt) (ie_key env) = Inr tok
    \<and> rs_body rs = Json (token_response tok jti)
    \<and> codes s' = (codes s)(form ''code'' := None)
    \<and> jtis s' = (jtis s)(jti \<mapsto> ie_jti_now env + 2 * minute)"
proof -
  obtain form ch cl s1 where form: "rq_method r = ''POST''" "rq_form r = Inr form"
      "GetAndRemoveAuthCode (ie_code_now env) (form ''code'') s = (Some (ch, cl), s1)"
      "RegisteredClients cl = Some (form ''client_secret'')" "VerifyPKCE (form ''code_verifier'') ch ''S256''"
    and rest: "issue_token env r cl s1 = (rs, s')"
    using assms by (auto simp: TokenHandler_def split: if_splits sum.splits prod.splits option.splits)
  from issued_token [of env r cl s1] rest assms(2) obtain jkt jti tok where issued:
    "idp_VerifyDPoPProof (ie_format env) (ie_jwt env) (ie_proof_now env) (rq_header r ''DPoP'') ''POST'' (full_uri r) [] = Inr (jkt, jti)"
    "\<not> fst (store_IsJTIUsedAndSave (ie_jti_now env) jti (2 * minute) s1)"
    "ie_sign env token_header (token_claims (ie_issue_now env) cl jkt) (ie_key env) = Inr tok"
    "rs_body rs = Json (token_response tok jti)" "s' = snd (store_IsJTIUsedAndSave (ie_jti_now env) jti (2 * minute) s1)"
    by auto
  have "codes s' = (codes s)(form ''code'' := None)"
    using rest issue_token_codes [of env r cl s1] redeemed_code(2) [OF form(3)] by simp
  moreover have "jtis s' = (jtis s)(jti \<mapsto> ie_jti_now env + 2 * minute)"
    using issued(2,5) fresh_jti_recorded redeemed_code(3) [OF form(3)] by simp
  moreover have "\<forall>e. jtis s jti = Some e \<longrightarrow> e \<le> ie_jti_now env"
    using issued(2) redeemed_code(3) [OF form(3)] by (auto simp: store_IsJTIUsedAndSave_def split: if_splits)
  ultimately show ?thesis
    using form(1,2,4,5) redeemed_code(1) [OF form(3)] issued(1,3,4)
    by (intro exI [of _ form] exI [of _ ch] exI [of _ cl] exI [of _ jkt] exI [of _ jti] exI [of _ tok])
       (simp add: VerifyPKCE_def)
qed

text \<open>A presented code is gone whatever the outcome: every POST to the token endpoint that
  names a code and a verifier removes the code from the store, also when the secret, the
  verifier or the proof is refused, and it leaves all other codes.\<close>

theorem token_request_spends_code:
  assumes "rq_method r = ''POST''" "rq_form r = Inr form" "form ''grant_type'' = ''authorization_code''"
    and "form ''code'' \<noteq> []" "form ''code_verifier'' \<noteq> []"
  shows "codes (snd (TokenHandler env r s)) = (codes s)(form ''code'' := None)"
proof -
  obtain res s1 where take: "GetAndRemoveAuthCode (ie_code_now env) (form ''code'') s = (res, s1)" by force
  then have "codes s1 = (codes s)(form ''code'' := None)"
    by (auto simp: GetAndRemoveAuthCode_def Let_def fun_upd_idem split: option.splits if_splits)
  with assms take show ?thesis
    by (auto simp: TokenHandler_def split: option.splits prod.splits)
qed

section \<open>The authorization endpoint\<close>

lemma client_secret_nonempty: "RegisteredClients c = Some x \<Longrightarrow> x \<noteq> []"
  by (auto simp: RegisteredClients_def split: if_splits)

definition authorize_accepts :: "idp_env \<Rightarrow> request \<Rightarrow> bytes \<Rightarrow> bool" where
  "authorize_accepts env r bytes \<longleftrightarrow> rq_query r ''response_type'' = ''code'' \<and> rq_query r ''client_id'' \<noteq> []
     \<and> RegisteredClients (rq_query r ''client_id'') \<noteq> None \<and> rq_query r ''redirect_uri'' \<noteq> []
     \<and> rq_query r ''code_challenge'' \<noteq> [] \<and> rq_query r ''code_challenge_method'' = ''S256''
     \<and> ie_random env = Inr bytes"

text \<open>C16: the headless answer discloses a code exactly to the authenticated client.  The endpoint
  answers 200 if and only if the parameters are in order, JSON was asked for and the client's
  secret was given; the body is then the new code and the store holds it with the
  request's challenge and client.\<close>

theorem authorize_discloses_iff_authenticated:
  "rs_status (fst (AuthorizeHandler env r s)) = StatusOK \<longleftrightarrow>
     (\<exists>bytes. authorize_accepts env r bytes
        \<and> ie_with_query env (rq_query r ''redirect_uri'') ((''code'', hex_encode bytes) #
             (if rq_query r ''state'' \<noteq> [] then [(''state'', rq_query r ''state'')] else [])) \<noteq> None
        \<and> rq_header r ''Accept'' = ''application/json''
        \<and> RegisteredClients (rq_query r ''client_id'') = Some (rq_query r ''client_secret'')
        \<and> rs_body (fst (AuthorizeHandler env r s)) = Json (JObj [(''code'', JStr (hex_encode bytes))])
        \<and> held (snd (AuthorizeHandler env r s)) (hex_encode bytes)
            = Some (rq_query r ''code_challenge'', rq_query r ''client_id''))"
  by (auto simp: AuthorizeHandler_def authorize_accepts_def Let_def held_def SaveAuthCode_def
      dest: client_secret_nonempty split: if_splits option.splits sum.splits)

text \<open>The code is stored before the client is authenticated: a request whose parameters are in
  order leaves a live code in the store even when it is then refused for a missing or wrong
  client secret, or for a malformed redirect URI.\<close>

theorem authorize_stores_before_authenticating:
  assumes "authorize_accepts env r bytes"
  shows "held (snd (AuthorizeHandler env r s)) (hex_encode bytes)
      = Some (rq_query r ''code_challenge'', rq_query r ''client_id'')
    \<and> (rq_header r ''Accept'' = ''application/json''
       \<and> RegisteredClients (rq_query r ''client_id'') \<noteq> Some (rq_query r ''client_secret'')
       \<longrightarrow> rs_status (fst (AuthorizeHandler env r s)) \<in> {StatusBadRequest, StatusUnauthorized})"
  using assms
  by (auto simp: AuthorizeHandler_def authorize_accepts_def Let_def held_def SaveAuthCode_def
      split: option.splits)

section \<open>An honest client\<close>

text \<open>What an honest token request is: the form of \<open>getDPoPBoundToken\<close> in \<^verbatim>\<open>client/main.go\<close>, with a
  proof made by \<open>GenerateDPoPProof\<close> for the endpoint's own URL.\<close>

definition honest_request :: "jwt_signer \<Rightarrow> private_key \<Rightarrow> instant \<Rightarrow> bytes \<Rightarrow> string \<Rightarrow> string \<Rightarrow> string \<Rightarrow> request \<Rightarrow> bool" where
  "honest_request sign key t0 jtiBytes code verifier secret r \<longleftrightarrow>
     rq_method r = ''POST'' \<and> rq_header r ''DPoP'' \<noteq> [] \<and> jtiBytes \<noteq> []
     \<and> GenerateDPoPProof sign t0 (Inr jtiBytes) key ''POST'' (full_uri r) [] = Inr (rq_header r ''DPoP'')
     \<and> (\<exists>form. rq_form r = Inr form \<and> form ''grant_type'' = ''authorization_code'' \<and> form ''code'' = code
          \<and> form ''code_verifier'' = verifier \<and> form ''client_secret'' = secret)"

definition honest_clock :: "DPoPClaims jwt_lib \<Rightarrow> instant \<Rightarrow> bytes \<Rightarrow> string \<Rightarrow> instant \<Rightarrow> bool" where
  "honest_clock lib t0 jtiBytes uri now \<longleftrightarrow> unix (t0 div second) \<le> now \<and> now \<le> unix (t0 div second) + 60 * second
     \<and> jwt_fresh lib now (typed_claims (proof_claims t0 jtiBytes ''POST'' uri []))"

lemma token_for_accepted_proof:
  assumes "rq_method r = ''POST''" "rq_header r ''DPoP'' \<noteq> []" "rq_form r = Inr form"
    and "form ''grant_type'' = ''authorization_code''" "form ''code'' = code" "form ''code_verifier'' = verifier"
    and "form ''client_secret'' = secret"
    and accepted: "idp_VerifyDPoPProof (ie_format env) (ie_jwt env) (ie_proof_now env) (rq_header r ''DPoP'') ''POST'' (full_uri r) []
      = Inr (jkt, jti)"
    and "codes s code = Some \<lparr>CodeChallenge = sha256_b64 verifier, ClientID = client, ExpiresAt = e\<rparr>"
    and "code \<noteq> []" "verifier \<noteq> []" "ie_code_now env \<le> e" "RegisteredClients client = Some secret"
    and "\<forall>e. jtis s jti = Some e \<longrightarrow> e \<le> ie_jti_now env"
    and "ie_sign env token_header (token_claims (ie_issue_now env) client jkt) (ie_key env) = Inr tok"
  shows "fst (TokenHandler env r s) = write_json token_headers StatusOK (token_response tok jti)"
proof -
  define s1 where "s1 = s\<lparr>codes := (codes s)(code := None)\<rparr>"
  have "\<not> fst (store_IsJTIUsedAndSave (ie_jti_now env) jti (2 * minute) s1)"
    using assms(14) by (auto simp: store_IsJTIUsedAndSave_def s1_def split: option.splits)
  then have "fst (issue_token env r client s1) = write_json token_headers StatusOK (token_response tok jti)"
    using assms(2,15) by (auto simp: issue_token_def accepted split: prod.splits bool.splits)
  moreover have "GetAndRemoveAuthCode (ie_code_now env) code s = (Some (sha256_b64 verifier, client), s1)"
    using assms(9,12) by (simp add: GetAndRemoveAuthCode_def s1_def)
  moreover have "secret \<noteq> []" using assms(13) client_secret_nonempty by blast
  ultimately show ?thesis
    using assms(1,3-7,10,11,13) by (simp add: TokenHandler_def VerifyPKCE_def)
qed

lemma honest_token:
  assumes "jwt_lawful (ie_jwt env)" "signs_for_idp sign (ie_jwt env)" "coord_ok (fst (public_key key))" "coord_ok (snd (public_key key))"
    and "honest_request sign key t0 jtiBytes code verifier secret r"
    and "honest_clock (ie_jwt env) t0 jtiBytes (full_uri r) (ie_proof_now env)"
    and "codes s code = Some \<lparr>CodeChallenge = sha256_b64 verifier, ClientID = client, ExpiresAt = e\<rparr>"
    and "code \<noteq> []" "verifier \<noteq> []" "ie_code_now env \<le> e" "RegisteredClients client = Some secret"
    and "\<forall>e. jtis s (hex_encode jtiBytes) = Some e \<longrightarrow> e \<le> ie_jti_now env"
    and "ie_sign env token_header (token_claims (ie_issue_now env) client (client_thumbprint (public_key key))) (ie_key env) = Inr tok"
  shows "fst (TokenHandler env r s) = write_json token_headers StatusOK (token_response tok (hex_encode jtiBytes))"
proof -
  from assms(5) obtain form where form: "rq_method r = ''POST''" "rq_header r ''DPoP'' \<noteq> []" "rq_form r = Inr form"
    "form ''grant_type'' = ''authorization_code''" "form ''code'' = code" "form ''code_verifier'' = verifier" "form ''client_secret'' = secret"
    unfolding honest_request_def by blast
  have "idp_VerifyDPoPProof (ie_format env) (ie_jwt env) (ie_proof_now env) (rq_header r ''DPoP'') ''POST'' (full_uri r) []
      = Inr (client_thumbprint (public_key key), hex_encode jtiBytes)"
    using assms(5,6) unfolding honest_request_def honest_clock_def by (intro honest_proof_idp [OF assms(1-4) _ refl]) auto
  from token_for_accepted_proof [OF form this assms(7-13)] show ?thesis .
qed

text \<open>The flow works for an honest client.  After an authorization request whose parameters are
  in order and whose challenge is the hash of a verifier, the client's token request within
  five minutes, made with its own secret, that verifier and a proof by its key, is answered
  with a token for that client bound to the thumbprint of that key.\<close>

theorem honest_client_obtains_token:
  assumes "jwt_lawful (ie_jwt env)" "signs_for_idp sign (ie_jwt env)" "coord_ok (fst (public_key key))" "coord_ok (snd (public_key key))"
    and "authorize_accepts env0 r0 bytes" "bytes \<noteq> []" "rq_query r0 ''code_challenge'' = sha256_b64 verifier" "verifier \<noteq> []"
    and "ie_code_now env \<le> ie_code_now env0 + 5 * minute"
    and "honest_request sign key t0 jtiBytes (hex_encode bytes) verifier secret r"
    and "honest_clock (ie_jwt env) t0 jtiBytes (full_uri r) (ie_proof_now env)"
    and "RegisteredClients (rq_query r0 ''client_id'') = Some secret"
    and "\<forall>e. jtis s0 (hex_encode jtiBytes) = Some e \<longrightarrow> e \<le> ie_jti_now env"
    and "ie_sign env token_header (token_claims (ie_issue_now env) (rq_query r0 ''client_id'')
          (client_thumbprint (public_key key))) (ie_key env) = Inr tok"
  shows "fst (TokenHandler env r (snd (AuthorizeHandler env0 r0 s0)))
    = write_json token_headers StatusOK (token_response tok (hex_encode jtiBytes))"
proof (rule honest_token [OF assms(1-4,10,11) _ _ assms(8,9) assms(12) _ assms(14)])
  show "codes (snd (AuthorizeHandler env0 r0 s0)) (hex_encode bytes) = Some \<lparr>CodeChallenge = sha256_b64 verifier,
      ClientID = rq_query r0 ''client_id'', ExpiresAt = ie_code_now env0 + 5 * minute\<rparr>"
    using assms(5,7) by (auto simp: AuthorizeHandler_def authorize_accepts_def Let_def SaveAuthCode_def split: option.splits)
  show "hex_encode bytes \<noteq> []" using assms(6) by (rule hex_encode_nonempty)
  have "jtis (snd (AuthorizeHandler env0 r0 s0)) = jtis s0"
    using assms(5) by (auto simp: AuthorizeHandler_def authorize_accepts_def Let_def SaveAuthCode_def split: option.splits)
  then show "\<forall>e. jtis (snd (AuthorizeHandler env0 r0 s0)) (hex_encode jtiBytes) = Some e \<longrightarrow> e \<le> ie_jti_now env"
    using assms(13) by simp
qed

section \<open>Examples\<close>

definition sample_query :: "string \<Rightarrow> string \<Rightarrow> string" where
  "sample_query secret = ((\<lambda>_. [])(''response_type'' := ''code'', ''client_id'' := ''client-alice'',
     ''redirect_uri'' := ''http://localhost:8080/callback'', ''code_challenge'' := sha256_b64 ''v'',
     ''code_challenge_method'' := ''S256'', ''client_secret'' := secret))"

definition sample_request :: "string \<Rightarrow> string \<Rightarrow> request" where
  "sample_request path secret = \<lparr>rq_method = ''POST'', rq_host = ''h'', rq_path = path, rq_tls = False, rq_remote = [],
     rq_header = (\<lambda>_. [])(''Accept'' := ''application/json'', ''DPoP'' := ''p''), rq_query = sample_query secret,
     rq_form = Inr ((\<lambda>_. [])(''grant_type'' := ''authorization_code'', ''code'' := ''01'', ''code_verifier'' := ''v'',
        ''client_secret'' := secret)), rq_body = Inl ''EOF'', rq_conn = None\<rparr>"

definition sample_post_claims :: members where
  "sample_post_claims = proof_claims 0 [1] ''POST'' ''http://h/token'' ''''"

definition sample_idp :: idp_env where
  "sample_idp = \<lparr>ie_format = show_int,
     ie_jwt = simple_jwt (\<lambda>s. if s = ''p'' then Some \<lparr>tk_alg = ''ES256'', tk_header = proof_header (7, 0),
        tk_claims = typed_claims sample_post_claims\<rparr> else None) (\<lambda>s k. k = (7, 0)) (\<lambda>_ _. True),
     ie_sign = (\<lambda>h c k. Inr ''token''), ie_key = (1, 7, 0), ie_random = Inr [1],
     ie_with_query = (\<lambda>u _. Some u), ie_code_now = 0, ie_proof_now = 0, ie_jti_now = 0, ie_issue_now = 0\<rparr>"

theorem authorize_stores_before_authenticating_witness:
  "held (snd (AuthorizeHandler sample_idp (sample_request ''/authorize'' ''wrong'') empty_store)) ''01'' = Some (sha256_b64 ''v'', ''client-alice'')
   \<and> rs_status (fst (AuthorizeHandler sample_idp (sample_request ''/authorize'' ''wrong'') empty_store)) \<in> {StatusBadRequest, StatusUnauthorized}"
proof -
  have "authorize_accepts sample_idp (sample_request ''/authorize'' ''wrong'') [1]"
    by (simp add: authorize_accepts_def sample_idp_def sample_request_def sample_query_def RegisteredClients_def)
  from authorize_stores_before_authenticating [OF this, of empty_store]
  show ?thesis
    by (simp add: sample_request_def sample_query_def RegisteredClients_def hex_encode_def hex_char_def char_of_def numeral_eq_Suc)
qed

definition sample_idp_sign :: jwt_signer where
  "sample_idp_sign h c k = (if h = proof_header (7, 0) \<and> c = sample_post_claims \<and> k = sample_key then Inr ''p'' else Inl ''no key'')"

definition sample_secret :: string where "sample_secret = ''alice-secure-secret-2026''"

definition sample_saved :: RAMStore where
  "sample_saved = snd (AuthorizeHandler sample_idp (sample_request ''/authorize'' sample_secret) empty_store)"

lemma sample_idp_lib:
  "jwt_lawful (ie_jwt sample_idp)" "signs_for_idp sample_idp_sign (ie_jwt sample_idp)"
proof -
  show "jwt_lawful (ie_jwt sample_idp)" by (simp add: sample_idp_def simple_jwt_lawful)
qed (auto simp: sample_idp_def signs_for_idp_def sample_idp_sign_def simple_jwt_def sample_key_def
      public_key_def proof_header_def member_def split: if_splits)

lemma hex_1: "hex_encode [1] = ''01''"
  by (simp add: hex_encode_def hex_char_def char_of_def numeral_eq_Suc)

lemma sample_honest:
  "honest_request sample_idp_sign sample_key 0 [1] ''01'' ''v'' sample_secret (sample_request ''/token'' sample_secret)"
  "honest_clock (ie_jwt sample_idp) 0 [1] (full_uri (sample_request ''/token'' sample_secret)) (ie_proof_now sample_idp)"
  by (simp_all add: honest_request_def honest_clock_def sample_request_def full_uri_def GenerateDPoPProof_def
      sample_idp_sign_def sample_post_claims_def sample_key_def public_key_def sample_idp_def unix_def simple_jwt_def second_def)

lemma sample_accepts: "authorize_accepts sample_idp (sample_request ''/authorize'' sample_secret) [1]"
  by (simp add: authorize_accepts_def sample_idp_def sample_request_def sample_query_def RegisteredClients_def)

lemma sample_saved_code: "codes sample_saved ''01'' = Some \<lparr>CodeChallenge = sha256_b64 ''v'', ClientID = ''client-alice'', ExpiresAt = 5 * minute\<rparr>"
  by (simp add: sample_saved_def AuthorizeHandler_def sample_idp_def sample_request_def sample_query_def sample_secret_def
      RegisteredClients_def SaveAuthCode_def hex_1 Let_def)

lemma sample_saved_jtis: "jtis sample_saved = Map.empty"
  by (simp add: sample_saved_def AuthorizeHandler_def sample_idp_def sample_request_def sample_query_def sample_secret_def
      RegisteredClients_def SaveAuthCode_def empty_store_def Let_def)

lemma sample_token: "fst (TokenHandler sample_idp (sample_request ''/token'' sample_secret) sample_saved)
    = write_json token_headers StatusOK (token_response ''token'' ''01'')"
  using honest_token [OF sample_idp_lib, of sample_key 0 "[1]" "''01''" "''v''" sample_secret
      "sample_request ''/token'' sample_secret" sample_saved "''client-alice''" "5 * minute" "''token''"]
    sample_honest sample_saved_code sample_saved_jtis
  by (simp add: hex_1 sample_key_def public_key_def coord_ok_def sample_idp_def minute_def second_def RegisteredClients_def sample_secret_def)

theorem honest_client_obtains_token_witness:
  "fst (TokenHandler sample_idp (sample_request ''/token'' sample_secret) sample_saved)
    = write_json token_headers StatusOK (token_response ''token'' ''01'')"
  unfolding sample_saved_def
  using honest_client_obtains_token [OF sample_idp_lib, of sample_key sample_idp "sample_request ''/authorize'' sample_secret" "[1]" "''v''" 0 "[1]"
      sample_secret "sample_request ''/token'' sample_secret" empty_store "''token''"]
    sample_honest sample_accepts
  by (simp add: hex_1 sample_key_def public_key_def coord_ok_def sample_idp_def minute_def second_def RegisteredClients_def
      sample_request_def sample_query_def empty_store_def sample_secret_def)

theorem token_issued_sound_witness:
  "\<exists>client. held sample_saved ''01'' = Some (sha256_b64 ''v'', client) \<and> RegisteredClients client = Some sample_secret"
  using token_issued_sound [of sample_idp "sample_request ''/token'' sample_secret" sample_saved] sample_token
  by (cases "TokenHandler sample_idp (sample_request ''/token'' sample_secret) sample_saved")
     (auto simp: sample_request_def)

theorem token_request_spends_code_witness:
  "codes (snd (TokenHandler sample_idp (sample_request ''/token'' ''wrong'') sample_saved)) = (codes sample_saved)(''01'' := None)"
  using token_request_spends_code [of "sample_request ''/token'' ''wrong''"] by (simp add: sample_request_def)

end
