(* ===== verification/Exchange.thy ===== *)
theory Exchange
  imports Fetch IdpFacts
begin

text \<open>
  The token exchange as the provider sees it, whoever asks: the query of the authorization
  request that the command-line client, the load test and the simulator all write, and what
  the authorization endpoint makes of it.
\<close>

lemma b64_no: "b64_val c = None \<Longrightarrow> c \<notin> set (b64_encode bs)"
  using b64_encode_alphabet [of bs] by (auto simp: list_all_iff b64_alphabet_def)

lemma b64_plain: "plain_text (b64_encode bs)" "plain_text (sha256_b64 s)"
  by (simp_all add: plain_text_def sha256_b64_def b64_no b64_val_def)

definition auth_pairs :: "string \<Rightarrow> string \<Rightarrow> string \<Rightarrow> (string \<times> string) list" where
  "auth_pairs client secret challenge = [(''response_type'', ''code''), (''client_id'', client), (''client_secret'', secret),
     (''code_challenge'', challenge), (''code_challenge_method'', ''S256''),
     (''redirect_uri'', ''http://localhost:8080/callback'')]"

definition auth_url :: "string \<Rightarrow> string \<Rightarrow> string \<Rightarrow> string \<Rightarrow> string" where
  "auth_url base client secret challenge = (base @ ''/authorize'') @ CHR ''?'' # join_with ''&'' (map (\<lambda>(k, v). k @ CHR ''='' # v) (auth_pairs client secret challenge))"

lemma query_of: "CHR ''?'' \<notin> set base \<Longrightarrow> url_query (base @ CHR ''?'' # q) = q"
  by (induction base) (auto simp: url_query_def)

lemma auth_url_query:
  assumes "CHR ''?'' \<notin> set base" "plain_text client" "plain_text secret" "plain_text challenge"
  shows "parse_query (url_query (auth_url base client secret challenge)) = auth_pairs client secret challenge"
proof -
  have "CHR ''?'' \<notin> set (base @ ''/authorize'')" using assms(1) by simp
  then have "url_query (auth_url base client secret challenge)
      = join_with ''&'' (map (\<lambda>(k, v). k @ CHR ''='' # v) (auth_pairs client secret challenge))"
    unfolding auth_url_def by (rule query_of)
  moreover have "\<forall>(k, v) \<in> set (auth_pairs client secret challenge). plain_text k \<and> plain_text v \<and> CHR ''='' \<notin> set k"
    using assms(2-4) by (simp add: auth_pairs_def plain_text_def)
  ultimately show ?thesis by (simp only: plain_query(1))
qed

lemma client_plain: "RegisteredClients c = Some x \<Longrightarrow> plain_text c \<and> plain_text x"
  by (auto simp: RegisteredClients_def plain_text_def split: if_splits)

lemma authorize_answers:
  assumes "rq_query r = lookup_text (auth_pairs client secret challenge)" "rq_header r ''Accept'' = ''application/json''"
    and "ie_random ienv = Inr bytes" "challenge \<noteq> []" "RegisteredClients client = Some secret"
    and "ie_with_query ienv ''http://localhost:8080/callback'' [(''code'', hex_encode bytes)] \<noteq> None"
  shows "AuthorizeHandler ienv r s =
    (write_json (set_header ''Content-Type'' ''application/json'' []) StatusOK (JObj [(''code'', JStr (hex_encode bytes))]),
     SaveAuthCode (ie_code_now ienv) (hex_encode bytes) challenge client (5 * minute) s)"
proof -
  have "client \<noteq> []" "secret \<noteq> []" using assms(5) by (auto simp: RegisteredClients_def split: if_splits)
  with assms show ?thesis by (auto simp: AuthorizeHandler_def auth_pairs_def Let_def)
qed

text \<open>The answer as a client of \<open>fetch\<close> gets it.\<close>

definition code_answer :: "(nat \<Rightarrow> string) \<Rightarrow> string \<Rightarrow> http_response" where
  "code_answer st code = go_answer st (write_json (set_header ''Content-Type'' ''application/json'' []) StatusOK (JObj [(''code'', JStr code)]))"

definition token_answer :: "(nat \<Rightarrow> string) \<Rightarrow> string \<Rightarrow> string \<Rightarrow> http_response" where
  "token_answer st tok jti = go_answer st (write_json token_headers StatusOK (token_response tok jti))"

text \<open>The two requests, one after the other, as the store sees them: the code is issued and spent.\<close>

lemma code_then_token:
  assumes "starts_with (hr_url rq1) idp_address" "rq_path (request_of rq1) = ''/authorize''"
    and "rq_query (request_of rq1) = lookup_text (auth_pairs client secret (sha256_b64 verifier))"
    and "rq_header (request_of rq1) ''Accept'' = ''application/json''"
    and "starts_with (hr_url rq2) idp_address" "rq_path (request_of rq2) = ''/token''" "rq_method (request_of rq2) = ''POST''"
    and "rq_header (request_of rq2) ''DPoP'' \<noteq> []" "rq_form (request_of rq2) = Inr form"
    and "form ''grant_type'' = ''authorization_code''" "form ''code'' = hex_encode bytes" "form ''code_verifier'' = verifier"
    and "form ''client_secret'' = secret"
    and "idp_VerifyDPoPProof (ie_format ienv) (ie_jwt ienv) (ie_proof_now ienv) (rq_header (request_of rq2) ''DPoP'') ''POST''
      (full_uri (request_of rq2)) [] = Inr (jkt, jti)"
    and "ie_random ienv = Inr bytes" "bytes \<noteq> []" "verifier \<noteq> []" "RegisteredClients client = Some secret"
    and "ie_with_query ienv ''http://localhost:8080/callback'' [(''code'', hex_encode bytes)] \<noteq> None"
    and "\<forall>e. jtis store jti = Some e \<longrightarrow> e \<le> ie_jti_now ienv"
    and "ie_sign ienv token_header (token_claims (ie_issue_now ienv) client jkt) (ie_key ienv) = Inr tok"
  shows "\<exists>store1 store2. two_hosts ienv st other rq1 (store, g) = (Inr (code_answer st (hex_encode bytes)), store1, g)
    \<and> two_hosts ienv st other rq2 (store1, g) = (Inr (token_answer st tok jti), store2, g)
    \<and> codes store2 = (codes store)(hex_encode bytes := None)"
proof -
  define store1 where "store1 = SaveAuthCode (ie_code_now ienv) (hex_encode bytes) (sha256_b64 verifier) client (5 * minute) store"
  have code: "hex_encode bytes \<noteq> []" using assms(16) by (rule hex_encode_nonempty)
  have stored: "codes store1 (hex_encode bytes) = Some \<lparr>CodeChallenge = sha256_b64 verifier, ClientID = client, ExpiresAt = ie_code_now ienv + 5 * minute\<rparr>"
    "ie_code_now ienv \<le> ie_code_now ienv + 5 * minute" "\<forall>e. jtis store1 jti = Some e \<longrightarrow> e \<le> ie_jti_now ienv"
    using assms(20) by (simp_all add: store1_def SaveAuthCode_def minute_def second_def)
  have "fst (TokenHandler ienv (request_of rq2) store1) = write_json token_headers StatusOK (token_response tok jti)"
    using token_for_accepted_proof [OF assms(7-14) stored(1) code assms(17) stored(2) assms(18) stored(3) assms(21)] .
  moreover have "codes (snd (TokenHandler ienv (request_of rq2) store1)) = (codes store)(hex_encode bytes := None)"
    using token_request_spends_code [OF assms(7,9,10), of ienv store1] assms(11,12,17) code
    by (simp add: store1_def SaveAuthCode_def)
  ultimately obtain store2 where
    "TokenHandler ienv (request_of rq2) store1 = (write_json token_headers StatusOK (token_response tok jti), store2)"
    "codes store2 = (codes store)(hex_encode bytes := None)"
    by (metis prod.collapse)
  moreover have "AuthorizeHandler ienv (request_of rq1) store =
      (write_json (set_header ''Content-Type'' ''application/json'' []) StatusOK (JObj [(''code'', JStr (hex_encode bytes))]), store1)"
    using authorize_answers [OF assms(3,4,15) sha256_b64_nonempty assms(18,19)] by (simp add: store1_def)
  ultimately have "two_hosts ienv st other rq1 (store, g) = (Inr (code_answer st (hex_encode bytes)), store1, g)"
    "two_hosts ienv st other rq2 (store1, g) = (Inr (token_answer st tok jti), store2, g)"
    using assms(1,2,5,6) by (simp_all add: two_hosts_def idp_serve_def code_answer_def token_answer_def)
  with \<open>codes store2 = (codes store)(hex_encode bytes := None)\<close> show ?thesis by blast
qed

text \<open>What the clients read of the two answers.\<close>

lemma answer_simps [simp]:
  "hp_status (code_answer st code) = 200" "hp_json (code_answer st code) = Inr (JObj [(''code'', JStr code)])"
  "hp_status (token_answer st tok jti) = 200" "hp_json (token_answer st tok jti) = Inr (token_response tok jti)"
  "res_ok (code_answer st code)" "res_ok (token_answer st tok jti)"
  by (simp_all add: code_answer_def token_answer_def res_ok_def) (simp_all add: go_answer_def)

end
