(* ===== verification/BenchmarkRun.thy ===== *)
theory BenchmarkRun
  imports Benchmark Exchange
begin

text \<open>
  The load test's token exchange against the identity provider: the two requests of
  \<open>fetchToken\<close> as the provider's handlers see them, and that they obtain a token.
\<close>

section \<open>The requests as received\<close>

lemma bench_auth_url: "hr_url (bench_auth_request challenge) = auth_url ''http://localhost:8081'' ''client-alice'' alice_secret challenge"
  by (simp add: bench_auth_request_def auth_url_def auth_pairs_def join_with_def)

lemma bench_auth_received:
  "plain_text challenge \<Longrightarrow> rq_query (request_of (bench_auth_request challenge)) = lookup_text (auth_pairs ''client-alice'' alice_secret challenge)"
  "rq_header (request_of (bench_auth_request challenge)) ''Accept'' = ''application/json''"
proof -
  have "plain_text ''client-alice''" "plain_text alice_secret"
    using client_plain [of "''client-alice''" alice_secret] by (simp_all add: RegisteredClients_def alice_secret_def)
  then show "plain_text challenge \<Longrightarrow> rq_query (request_of (bench_auth_request challenge)) = lookup_text (auth_pairs ''client-alice'' alice_secret challenge)"
    by (simp add: request_of_def bench_auth_url auth_url_query)
qed (simp add: request_of_def bench_auth_request_def)

definition token_pairs :: "string \<Rightarrow> string \<Rightarrow> (string \<times> string) list" where
  "token_pairs code verifier = [(''grant_type'', ''authorization_code''), (''code'', code), (''code_verifier'', verifier),
     (''client_secret'', alice_secret)]"

lemma token_form: "rq_form (request_of (bench_token_request code verifier p)) = Inr (lookup_text (token_pairs code verifier))"
proof -
  have "form_body (bench_token_request code verifier p) = form_encode js_kept (token_pairs code verifier)"
    by (simp add: form_body_def bench_token_request_def token_pairs_def)
  moreover have "url_query (hr_url (bench_token_request code verifier p)) = []"
    by (simp add: url_query_def bench_token_request_def)
  ultimately show ?thesis by (simp add: request_of_def parse_form_def form_parsed)
qed

text \<open>Where the two requests go.\<close>

lemma to_idp:
  "starts_with (hr_url (bench_auth_request challenge)) idp_address" "rq_path (request_of (bench_auth_request challenge)) = ''/authorize''"
  "starts_with (hr_url (bench_token_request code verifier p)) idp_address" "rq_path (request_of (bench_token_request code verifier p)) = ''/token''"
  "full_uri (request_of (bench_token_request code verifier p)) = ''http://localhost:8081/token''"
  by (simp_all add: bench_auth_request_def bench_token_request_def idp_address_def request_of_def url_path_def url_host_def full_uri_def)

lemma token_request:
  "rq_method (request_of (bench_token_request code verifier p)) = ''POST''"
  "rq_header (request_of (bench_token_request code verifier p)) ''DPoP'' = p"
  by (simp_all add: bench_token_request_def request_of_def)

section \<open>The proof as verified\<close>

definition bench_claims :: "bench_env \<Rightarrow> members" where
  "bench_claims env = [(''htm'', JStr ''POST''), (''htu'', JStr ''http://localhost:8081/token''),
     (''iat'', JNum (of_int (be_nowMs env div 1000))), (''jti'', JStr (hex_encode (be_random env 0)))]"

definition bench_input :: "bench_env \<Rightarrow> point \<Rightarrow> string" where
  "bench_input env pub = b64_text (stringify (bench_header pub)) @ ''.'' @ b64_text (stringify (JObj (bench_claims env)))"

definition bench_token :: "bench_env \<Rightarrow> point \<Rightarrow> DPoPClaims jwt_token" where
  "bench_token env pub = \<lparr>tk_alg = ''ES256'', tk_header = [(''typ'', JStr ''dpop+jwt''), (''alg'', JStr ''ES256''), (''jwk'', key_json pub)],
     tk_claims = typed_claims (bench_claims env)\<rparr>"

text \<open>What the exchange relies on outside the program: Node's signature of the text has the DER form
  of a pair \<open>(r, s)\<close>; the provider's JWT library decodes the compact text to its header and
  claims, and verifies the 64 bytes of that pair under the signer's key; and the two clocks
  differ by no more than a minute.\<close>

definition proof_readable :: "bench_env \<Rightarrow> idp_env \<Rightarrow> private_key \<Rightarrow> int \<Rightarrow> int \<Rightarrow> bool" where
  "proof_readable env ienv key r s \<longleftrightarrow>
     (let input = bench_input env (public_key key); raw = input @ ''.'' @ b64_encode (be_bytes 32 r @ be_bytes 32 s)
      in be_sign env key (str_bytes input) = der_sig r s \<and> 0 \<le> r \<and> r < 256 ^ 32 \<and> 0 \<le> s \<and> s < 256 ^ 32
         \<and> coord_ok (fst (public_key key)) \<and> coord_ok (snd (public_key key)) \<and> jwt_lawful (ie_jwt ienv)
         \<and> jwt_decode (ie_jwt ienv) raw = Some (bench_token env (public_key key))
         \<and> jwt_verify (ie_jwt ienv) raw (public_key key)
         \<and> jwt_fresh (ie_jwt ienv) (ie_proof_now ienv) (typed_claims (bench_claims env))
         \<and> unix (be_nowMs env div 1000) \<le> ie_proof_now ienv \<and> ie_proof_now ienv \<le> unix (be_nowMs env div 1000) + 60 * second)"

lemma bench_proof:
  assumes "proof_readable env ienv key r s"
  shows "bench_generateDPoPProof (be_sign env) key (be_nowMs env) (be_random env 0) ''POST'' ''http://localhost:8081/token'' None
    = Inr (bench_input env (public_key key) @ ''.'' @ b64_encode (be_bytes 32 r @ be_bytes 32 s))"
proof -
  have "bench_payload (be_nowMs env) (be_random env 0) ''POST'' ''http://localhost:8081/token'' None = JObj (bench_claims env)"
    by (simp add: bench_payload_def bench_claims_def)
  moreover have "derToJose (der_sig r s) = Some (b64_encode (be_bytes 32 r @ be_bytes 32 s))"
    using assms by (intro derToJose_der_sig) (simp_all add: proof_readable_def Let_def del: be_bytes.simps)
  ultimately show ?thesis
    using assms by (simp add: bench_generateDPoPProof_def bench_ath_def proof_readable_def bench_input_def Let_def del: be_bytes.simps)
qed

lemma bench_proof_accepted:
  assumes "proof_readable env ienv key r s"
  shows "idp_VerifyDPoPProof ft (ie_jwt ienv) (ie_proof_now ienv)
      (bench_input env (public_key key) @ ''.'' @ b64_encode (be_bytes 32 r @ be_bytes 32 s)) ''POST'' ''http://localhost:8081/token'' []
    = Inr (client_thumbprint (public_key key), hex_encode (be_random env 0))"
proof (rule decoded_proof_idp)
  show "client_jwk (bench_token env (public_key key)) = Inr (key_jwk (public_key key))"
    by (simp add: client_jwk_def bench_token_def member_def key_json_def unmarshal_proof_jwk key_jwk_def)
  show "tk_claims (bench_token env (public_key key)) = \<lparr>HTTPMethod = ''POST'', HTTPURI = ''http://localhost:8081/token'',
      AccessTokenHash = [], IssuedAt = Some (unix (be_nowMs env div 1000)), claim_ID = hex_encode (be_random env 0)\<rparr>"
    by (simp add: bench_token_def typed_claims_def bench_claims_def member_def)
qed (use assms in \<open>simp_all add: proof_readable_def Let_def bench_token_def del: be_bytes.simps\<close>)

section \<open>The exchange\<close>

lemma exchange:
  assumes "proof_readable env ienv key r s" "fst (getDPoPKeyPair (be_generated env) c) = key"
    and "ie_random ienv = Inr bytes" "bytes \<noteq> []" "be_verifier env \<noteq> []"
    and "ie_with_query ienv ''http://localhost:8080/callback'' [(''code'', hex_encode bytes)] \<noteq> None"
    and "\<forall>e. jtis store (hex_encode (be_random env 0)) = Some e \<longrightarrow> e \<le> ie_jti_now ienv"
    and "ie_sign ienv token_header (token_claims (ie_issue_now ienv) ''client-alice'' (client_thumbprint (public_key key))) (ie_key ienv) = Inr tok"
  shows "\<exists>c' store'. fetchToken env (two_hosts ienv st gw) c (store, g) = (Inr (Some (JStr tok)), c', store', g)
    \<and> cachedDpopKey c' = Some key \<and> codes store' = (codes store)(hex_encode bytes := None)"
proof -
  let ?verifier = "b64_encode (be_verifier env)" and ?code = "hex_encode bytes"
  let ?proof = "bench_input env (public_key key) @ ''.'' @ b64_encode (be_bytes 32 r @ be_bytes 32 s)"
  let ?rq1 = "bench_auth_request (sha256_b64 ?verifier)" and ?rq2 = "bench_token_request ?code ?verifier ?proof"
  obtain store1 store2 where served: "two_hosts ienv st gw ?rq1 (store, g) = (Inr (code_answer st ?code), store1, g)"
    "two_hosts ienv st gw ?rq2 (store1, g) = (Inr (token_answer st tok (hex_encode (be_random env 0))), store2, g)"
    "codes store2 = (codes store)(?code := None)"
  proof -
    have "\<exists>store1 store2. two_hosts ienv st gw ?rq1 (store, g) = (Inr (code_answer st ?code), store1, g)
      \<and> two_hosts ienv st gw ?rq2 (store1, g) = (Inr (token_answer st tok (hex_encode (be_random env 0))), store2, g)
      \<and> codes store2 = (codes store)(?code := None)"
    proof (rule code_then_token [OF to_idp(1,2) bench_auth_received(1) bench_auth_received(2) to_idp(3,4) token_request(1) _ token_form])
      show "idp_VerifyDPoPProof (ie_format ienv) (ie_jwt ienv) (ie_proof_now ienv) (rq_header (request_of ?rq2) ''DPoP'') ''POST''
          (full_uri (request_of ?rq2)) [] = Inr (client_thumbprint (public_key key), hex_encode (be_random env 0))"
        using bench_proof_accepted [OF assms(1)] by (simp add: token_request to_idp)
      show "RegisteredClients ''client-alice'' = Some alice_secret" by (simp add: RegisteredClients_def alice_secret_def)
    qed (use assms(3-8) b64_plain in \<open>simp_all add: token_request bench_input_def token_pairs_def\<close>)
    then show ?thesis using that by blast
  qed
  obtain c1 where c1: "getDPoPKeyPair (be_generated env) c = (key, c1)" "cachedDpopKey c1 = Some key"
    using assms(2) by (auto simp: getDPoPKeyPair_def split: option.splits)
  show ?thesis
    using served c1(2) by (simp add: fetchToken_def Let_def c1(1) bench_proof [OF assms(1)] get_prop_def
        member_def js_text_def token_response_def del: be_bytes.simps)
qed


section \<open>An example run\<close>

definition bench_idp :: idp_env where
  "bench_idp = sample_idp\<lparr>ie_jwt := simple_jwt
     (\<lambda>raw. if raw = bench_input sample_bench_env (7, 0) @ ''.'' @ b64_encode (be_bytes 32 5 @ be_bytes 32 6)
        then Some (bench_token sample_bench_env (7, 0)) else None)
     (\<lambda>raw k. k = (7, 0)) (\<lambda>_ _. True)\<rparr>"

lemma bench_idp_readable: "proof_readable sample_bench_env bench_idp (1, 7, 0) 5 6"
proof -
  have "jwt_lawful (ie_jwt bench_idp)" by (simp add: bench_idp_def simple_jwt_lawful)
  then show ?thesis
    by (simp add: proof_readable_def Let_def bench_idp_def sample_bench_env_def sample_idp_def public_key_def coord_ok_def
        simple_jwt_def unix_def second_def del: be_bytes.simps)
qed


end
