(* ===== verification/Telemetry.thy ===== *)
theory Telemetry
  imports Machine
begin

text \<open>
  The gateway's metrics store and its Prometheus text (\<^verbatim>\<open>gateway/internal/telemetry/metrics.go\<close>).
  Counters are unbounded integers.  Go walks the request map in no fixed order; the order
  met by a scrape is an argument of \<open>ServeMetrics\<close>.
\<close>

record MetricsStore =
  requestsTotal :: "(string \<times> int) list"    \<comment> \<open>a map from \<open>handler:status\<close>, keys distinct\<close>
  dpopVerifyUs :: int
  tokenVerifyUs :: int
  zitiVerifyUs :: int
  pdpVerifyUs :: int
  dbRlsContextUs :: int
  dbWormExecUs :: int

definition empty_metrics :: MetricsStore where
  "empty_metrics = \<lparr>requestsTotal = [], dpopVerifyUs = 0, tokenVerifyUs = 0, zitiVerifyUs = 0, pdpVerifyUs = 0,
     dbRlsContextUs = 0, dbWormExecUs = 0\<rparr>"

fun bump :: "string \<Rightarrow> (string \<times> int) list \<Rightarrow> (string \<times> int) list" where
  "bump k [] = [(k, 1)]"
| "bump k ((k', n) # rest) = (if k' = k then (k', n + 1) # rest else (k', n) # bump k rest)"

definition request_key :: "string \<Rightarrow> nat \<Rightarrow> string" where
  "request_key handler status = handler @ CHR '':'' # show_nat status"

definition IncrementRequestCounter :: "string \<Rightarrow> nat \<Rightarrow> MetricsStore \<Rightarrow> MetricsStore" where
  "IncrementRequestCounter handler status m =
     m\<lparr>requestsTotal := bump (request_key handler status) (requestsTotal m)\<rparr>"

definition RecordSecurityOverhead :: "int \<Rightarrow> int \<Rightarrow> int \<Rightarrow> MetricsStore \<Rightarrow> MetricsStore" where
  "RecordSecurityOverhead dpop token ziti m =
     m\<lparr>dpopVerifyUs := dpop, tokenVerifyUs := token, zitiVerifyUs := ziti\<rparr>"

definition RecordDbLatency :: "int \<Rightarrow> int \<Rightarrow> MetricsStore \<Rightarrow> MetricsStore" where
  "RecordDbLatency rls worm m = m\<lparr>dbRlsContextUs := rls, dbWormExecUs := worm\<rparr>"

definition RecordPDPOverhead :: "int \<Rightarrow> MetricsStore \<Rightarrow> MetricsStore" where
  "RecordPDPOverhead pdp m = m\<lparr>pdpVerifyUs := pdp\<rparr>"

section \<open>The exposition text\<close>

text \<open>\<open>strings.LastIndex(key, ":")\<close>, and \<open>Sscanf\<close> with \<open>%d\<close> on the rest.\<close>

definition split_last_colon :: "string \<Rightarrow> (string \<times> string) option" where
  "split_last_colon key = (let r = rev key; s = takeWhile (\<lambda>c. c \<noteq> CHR '':'') r
     in if length s = length r then None else Some (rev (drop (length s + 1) r), rev s))"

definition scan_nat :: "string \<Rightarrow> nat" where
  "scan_nat s = read_nat (takeWhile is_digit s)"

definition line :: "string \<Rightarrow> string" where
  "line s = s @ [CHR 0x0A]"

definition request_line :: "string \<times> int \<Rightarrow> string" where
  "request_line e =
     (let (handler, status) = (case split_last_colon (fst e) of Some (h, s) \<Rightarrow> (h, scan_nat s) | None \<Rightarrow> (fst e, 0))
      in ''gateway_requests_total{handler=\"'' @ handler @ ''\",status=\"'' @ show_nat status @ ''\"} '' @ show_int (snd e))"

definition overhead_line :: "string \<Rightarrow> int \<Rightarrow> string" where
  "overhead_line stage us = ''gateway_security_overhead_microseconds{stage=\"'' @ stage @ ''\"} '' @ show_int us"

definition db_line :: "string \<Rightarrow> int \<Rightarrow> string" where
  "db_line operation us = ''gateway_db_latency_microseconds{operation=\"'' @ operation @ ''\"} '' @ show_int us"

definition metrics_lines :: "(string \<times> int) list \<Rightarrow> MetricsStore \<Rightarrow> string list" where
  "metrics_lines order m =
     [''# HELP gateway_requests_total Total number of HTTP requests processed by the API Gateway.'',
      ''# TYPE gateway_requests_total counter''] @ map request_line order @ [[],
      ''# HELP gateway_security_overhead_microseconds Latency of security layer checks in microseconds.'',
      ''# TYPE gateway_security_overhead_microseconds gauge'',
      overhead_line ''dpop'' (dpopVerifyUs m), overhead_line ''token'' (tokenVerifyUs m),
      overhead_line ''ziti'' (zitiVerifyUs m), overhead_line ''pdp_grpc'' (pdpVerifyUs m), [],
      ''# HELP gateway_db_latency_microseconds Latency of database transaction and security operations in microseconds.'',
      ''# TYPE gateway_db_latency_microseconds gauge'',
      db_line ''rls_context'' (dbRlsContextUs m), db_line ''worm_exec'' (dbWormExecUs m)]"

definition ServeMetrics :: "(string \<times> int) list \<Rightarrow> MetricsStore \<Rightarrow> string" where
  "ServeMetrics order m = concat (map line (metrics_lines order m))"

section \<open>Runs of the store\<close>

datatype metric_op =
    Count_Request string nat
  | Security_Overhead int int int
  | Db_Latency int int
  | Pdp_Overhead int

fun metric_step :: "metric_op \<Rightarrow> MetricsStore \<Rightarrow> MetricsStore" where
  "metric_step (Count_Request h st) m = IncrementRequestCounter h st m"
| "metric_step (Security_Overhead d t z) m = RecordSecurityOverhead d t z m"
| "metric_step (Db_Latency r w) m = RecordDbLatency r w m"
| "metric_step (Pdp_Overhead p) m = RecordPDPOverhead p m"

text \<open>Handler names the text format can carry, and durations that are not negative.\<close>

definition plain_name :: "string \<Rightarrow> bool" where
  "plain_name h \<longleftrightarrow> h \<noteq> [] \<and> CHR 0x22 \<notin> set h \<and> CHR 0x0A \<notin> set h"

fun metric_op_ok :: "metric_op \<Rightarrow> bool" where
  "metric_op_ok (Count_Request h st) = plain_name h"
| "metric_op_ok (Security_Overhead d t z) = (0 \<le> d \<and> 0 \<le> t \<and> 0 \<le> z)"
| "metric_op_ok (Db_Latency r w) = (0 \<le> r \<and> 0 \<le> w)"
| "metric_op_ok (Pdp_Overhead p) = (0 \<le> p)"

definition metrics_ok :: "MetricsStore \<Rightarrow> bool" where
  "metrics_ok m \<longleftrightarrow> distinct (map fst (requestsTotal m))
     \<and> (\<forall>(k, n) \<in> set (requestsTotal m). 0 < n \<and> (\<exists>h st. plain_name h \<and> k = request_key h st))
     \<and> 0 \<le> dpopVerifyUs m \<and> 0 \<le> tokenVerifyUs m \<and> 0 \<le> zitiVerifyUs m \<and> 0 \<le> pdpVerifyUs m
     \<and> 0 \<le> dbRlsContextUs m \<and> 0 \<le> dbWormExecUs m"

lemma bump_keys: "fst ` set (bump k es) = insert k (fst ` set es)"
  by (induction k es rule: bump.induct) auto

lemma bump_distinct: "distinct (map fst es) \<Longrightarrow> distinct (map fst (bump k es))"
proof (induction k es rule: bump.induct)
  case (2 k k' n rest)
  then show ?case using bump_keys [of k rest] by auto
qed simp

lemma bump_map_of: "map_of (bump k es) = (map_of es)(k \<mapsto> (case map_of es k of Some n \<Rightarrow> n + 1 | None \<Rightarrow> 1))"
  by (induction k es rule: bump.induct) auto

lemma bump_set: "e \<in> set (bump k es) \<Longrightarrow> e \<in> set es \<or> e = (k, 1) \<or> (\<exists>n. (k, n) \<in> set es \<and> e = (k, n + 1))"
  by (induction k es rule: bump.induct) (auto split: if_splits)

interpretation telemetry: machine metric_step metrics_ok metric_op_ok
proof
  fix m e
  assume "metrics_ok m" "metric_op_ok e"
  then show "metrics_ok (metric_step e m)"
  proof (cases e)
    case (Count_Request h st)
    with \<open>metrics_ok m\<close> \<open>metric_op_ok e\<close> show ?thesis
      by (auto simp: metrics_ok_def IncrementRequestCounter_def bump_distinct dest!: bump_set)
  qed (auto simp: metrics_ok_def RecordSecurityOverhead_def RecordDbLatency_def RecordPDPOverhead_def)
qed

lemma metrics_ok_empty: "metrics_ok empty_metrics"
  by (simp add: metrics_ok_def empty_metrics_def)

lemma split_request_key: "split_last_colon (request_key h st) = Some (h, show_nat st)"
proof -
  have "CHR '':'' \<notin> set (rev (show_nat st))" by (simp add: show_nat_no)
  then have "takeWhile (\<lambda>c. c \<noteq> CHR '':'') (rev (show_nat st) @ CHR '':'' # rev h) = rev (show_nat st)"
    by (subst takeWhile_append2) auto
  then show ?thesis by (simp add: split_last_colon_def request_key_def)
qed

lemma request_key_inject: "request_key h st = request_key h' st' \<longleftrightarrow> h = h' \<and> st = st'"
  by (metis option.inject prod.inject show_nat_inject split_request_key)

lemma scan_show_nat: "scan_nat (show_nat n) = n"
  using show_nat_digits [of n] by (simp add: scan_nat_def takeWhile_eq_all_conv [THEN iffD2])

lemma request_line_key: "request_line (request_key h st, n) =
    ''gateway_requests_total{handler=\"'' @ h @ ''\",status=\"'' @ show_nat st @ ''\"} '' @ show_int n"
  by (simp add: request_line_def split_request_key scan_show_nat)

text \<open>The counter of a handler and status is the number of increments it received.\<close>

definition request_count :: "string \<Rightarrow> nat \<Rightarrow> metric_op list \<Rightarrow> int" where
  "request_count h st ops = int (length (filter (\<lambda>e. e = Count_Request h st) ops))"

lemma run_counts:
  "map_of (requestsTotal (fold metric_step ops empty_metrics)) (request_key h st)
     = (if request_count h st ops = 0 then None else Some (request_count h st ops))"
proof (induction ops rule: rev_induct)
  case Nil
  then show ?case by (simp add: request_count_def empty_metrics_def)
next
  case (snoc e ops)
  let ?m = "fold metric_step ops empty_metrics"
  have "map_of (requestsTotal (metric_step e ?m)) (request_key h st) =
      (if e = Count_Request h st then Some (case map_of (requestsTotal ?m) (request_key h st) of Some n \<Rightarrow> n + 1 | None \<Rightarrow> 1)
       else map_of (requestsTotal ?m) (request_key h st))"
    by (cases e) (auto simp: IncrementRequestCounter_def RecordSecurityOverhead_def RecordDbLatency_def
        RecordPDPOverhead_def bump_map_of request_key_inject)
  with snoc show ?case
    by (simp add: request_count_def split: if_splits)
qed

end
