(* ===== verification/Gateway.thy ===== *)
theory Gateway
  imports ReplayCache Telemetry Dpop Ledger
begin

text \<open>
  The API gateway: the key cache (\<^verbatim>\<open>gateway/internal/auth/crypto.go\<close>), the middleware chain
  (\<^verbatim>\<open>middleware/auth.go\<close>, \<^verbatim>\<open>conn.go\<close>), the policy client (\<^verbatim>\<open>pdpclient/client.go\<close>), the built-in
  policy engine (\<^verbatim>\<open>policy/pdp.go\<close>), the handlers (\<^verbatim>\<open>api/handlers.go\<close>) and the routes of
  \<^verbatim>\<open>gateway/main.go\<close>.  A handler takes the claims in the request's context, the headers set so
  far, the request and the gateway's state.  The policy service, the JWKS fetch, the clock and
  measured durations are inputs.
\<close>

section \<open>The key cache\<close>

record jwks_key =
  k_Kty :: string
  k_Crv :: string
  k_X :: string
  k_Y :: string
  k_Kid :: string

definition empty_key :: jwks_key where
  "empty_key = \<lparr>k_Kty = [], k_Crv = [], k_X = [], k_Y = [], k_Kid = []\<rparr>"

definition set_key_field :: "string \<times> json \<Rightarrow> jwks_key \<Rightarrow> string + jwks_key" where
  "set_key_field e k =
     (case snd e of
        JNull \<Rightarrow> Inr k
      | JStr s \<Rightarrow>
          Inr (if equal_fold (fst e) ''kty'' then k\<lparr>k_Kty := s\<rparr> else if equal_fold (fst e) ''crv'' then k\<lparr>k_Crv := s\<rparr>
               else if equal_fold (fst e) ''x'' then k\<lparr>k_X := s\<rparr> else if equal_fold (fst e) ''y'' then k\<lparr>k_Y := s\<rparr>
               else if equal_fold (fst e) ''kid'' then k\<lparr>k_Kid := s\<rparr> else k)
      | _ \<Rightarrow> if list_ex (equal_fold (fst e)) [''kty'', ''use'', ''alg'', ''crv'', ''x'', ''y'', ''kid'']
            then Inl unmarshal_error else Inr k)"

definition decode_key :: "json \<Rightarrow> string + jwks_key" where
  "decode_key v = (case v of JNull \<Rightarrow> Inr empty_key | JObj ms \<Rightarrow> fold_result set_key_field ms empty_key
     | _ \<Rightarrow> Inl unmarshal_error)"

fun decode_all :: "json list \<Rightarrow> string + jwks_key list" where
  "decode_all [] = Inr []"
| "decode_all (v # vs) = (case decode_key v of Inl e \<Rightarrow> Inl e | Inr k \<Rightarrow> map_sum id (Cons k) (decode_all vs))"

definition set_keys :: "string \<times> json \<Rightarrow> jwks_key list \<Rightarrow> string + jwks_key list" where
  "set_keys e ks =
     (if equal_fold (fst e) ''keys''
      then (case snd e of JNull \<Rightarrow> Inr [] | JArr vs \<Rightarrow> decode_all vs | _ \<Rightarrow> Inl unmarshal_error) else Inr ks)"

definition decode_jwks :: "json \<Rightarrow> string + jwks_key list" where
  "decode_jwks v = (case v of JNull \<Rightarrow> Inr [] | JObj ms \<Rightarrow> fold_result set_keys ms [] | _ \<Rightarrow> Inl unmarshal_error)"

record jwks_cache =
  jc_keys :: "string \<rightharpoonup> point"
  jc_lastUpdate :: instant
  jc_ttl :: duration

text \<open>The result of \<open>client.Get\<close>: the error, or the status and the decoded body.\<close>

type_synonym fetched = "string + nat \<times> (string + json)"

definition FetchKeys :: "instant \<Rightarrow> fetched \<Rightarrow> jwks_cache \<Rightarrow> string option \<times> jwks_cache" where
  "FetchKeys now resp c =
     (case resp of Inl e \<Rightarrow> (Some e, c)
      | Inr (status, body) \<Rightarrow>
          if status \<noteq> StatusOK then (Some (''invalid status code from JWKS: '' @ show_nat status), c)
          else (case body of Inl e \<Rightarrow> (Some e, c)
           | Inr v \<Rightarrow>
             (case decode_jwks v of Inl e \<Rightarrow> (Some e, c)
              | Inr keys \<Rightarrow>
                 (None, c\<lparr>jc_keys := foldl (\<lambda>newKeys k.
                      if k_Kty k = ''EC'' \<and> k_Crv k = ''P-256'' then
                        (case JWKToECDSA (k_X k) (k_Y k) of Inl _ \<Rightarrow> newKeys | Inr pubKey \<Rightarrow> newKeys(k_Kid k \<mapsto> pubKey))
                      else newKeys) Map.empty keys, jc_lastUpdate := now\<rparr>))))"

definition GetPublicKey :: "instant \<Rightarrow> fetched \<Rightarrow> string \<Rightarrow> jwks_cache \<Rightarrow> (string + point) \<times> jwks_cache" where
  "GetPublicKey now resp kid c =
     (case jc_keys c kid of
        Some key \<Rightarrow>
          if now - jc_lastUpdate c < jc_ttl c then (Inr key, c)
          else (case FetchKeys now resp c of
            (Some e, c') \<Rightarrow> (Inr key, c')
          | (None, c') \<Rightarrow> ((case jc_keys c' kid of Some key' \<Rightarrow> Inr key'
               | None \<Rightarrow> Inl (''key ID '' @ CHR 0x27 # kid @ CHR 0x27 # '' not found in JWKS'')), c'))
      | None \<Rightarrow>
          (case FetchKeys now resp c of
            (Some e, c') \<Rightarrow> (Inl (''failed to fetch JWKS: '' @ e), c')
          | (None, c') \<Rightarrow> ((case jc_keys c' kid of Some key' \<Rightarrow> Inr key'
               | None \<Rightarrow> Inl (''key ID '' @ CHR 0x27 # kid @ CHR 0x27 # '' not found in JWKS'')), c')))"

section \<open>State, configuration, environment\<close>

record gateway =
  gw_jtis :: jti_map
  gw_jwks :: jwks_cache
  gw_metrics :: MetricsStore
  gw_db :: db

record pdp_request =
  pr_TenantId :: string
  pr_Subject :: string
  pr_Action :: string
  pr_Resource :: string
  pr_Context :: "(string \<times> string) list"

type_synonym pdp_service = "pdp_request \<Rightarrow> string + int \<times> string"    \<comment> \<open>decision, matched policy\<close>

record gateway_config =
  gc_enforceZiti :: bool
  gc_pdpClient :: "bool option"        \<comment> \<open>\<open>None\<close>: no client; else its \<open>failOpen\<close>\<close>
  gc_auditSecret :: string

record gateway_env =
  ge_format :: "instant \<Rightarrow> string"           \<comment> \<open>\<open>%v\<close> of an instant\<close>
  ge_rfc3339 :: "instant \<Rightarrow> string"          \<comment> \<open>an instant in JSON\<close>
  ge_jwt :: "members jwt_lib"
  ge_pdp :: pdp_service
  ge_pg :: pg
  ge_db :: db_env
  ge_fetch :: fetched
  ge_proof_now :: instant
  ge_jti_now :: instant
  ge_token_now :: instant
  ge_utc :: string                     \<comment> \<open>\<open>time.Now().UTC().Format("15:04:05Z")\<close>\<close>
  ge_dpop_us :: int
  ge_token_us :: int
  ge_ziti_us :: int
  ge_pdp_us :: int

record TokenClaims =
  Sub :: string
  TenantID :: string
  Role :: string
  Scope :: string
  JKT :: string

type_synonym handler = "TokenClaims option \<Rightarrow> headers \<Rightarrow> request \<Rightarrow> gateway \<Rightarrow> response \<times> gateway"

section \<open>SecureAPI\<close>

definition GetZitiIdentity :: "conn option \<Rightarrow> string" where
  "GetZitiIdentity c = (case c of None \<Rightarrow> [] | Some cn \<Rightarrow>
     (case source_identifier cn of None \<Rightarrow> [] | Some s \<Rightarrow> s))"

text \<open>\<open>SplitN(authHeader, " ", 2)\<close>, when it yields two parts.\<close>

definition split_authorization :: "string \<Rightarrow> (string \<times> string) option" where
  "split_authorization h = map_option (\<lambda>i. (take i h, drop (i + 1) h)) (index_of h '' '')"

definition token_kid :: "members jwt_token \<Rightarrow> string + string" where
  "token_kid t =
     (if tk_alg t \<notin> set ecdsa_algs then Inl (''unexpected token signing method: '' @ str_of (member (tk_header t) ''alg''))
      else if str_of (member (tk_header t) ''kid'') = [] then Inl ''missing kid in token header''
      else Inr (str_of (member (tk_header t) ''kid'')))"

definition token_key :: "gateway_env \<Rightarrow> jwks_cache \<Rightarrow> members keyfunc" where
  "token_key env c t = (case token_kid t of Inl e \<Rightarrow> Inl e
     | Inr kid \<Rightarrow> fst (GetPublicKey (ge_token_now env) (ge_fetch env) kid c))"

text \<open>The library calls the key function once, on the decoded token; it may refresh the cache.\<close>

definition parse_access_token ::
  "gateway_env \<Rightarrow> string \<Rightarrow> gateway \<Rightarrow> (string + members jwt_token) \<times> gateway" where
  "parse_access_token env accessToken g =
     (jwt_parse (ge_jwt env) (ge_token_now env) accessToken (token_key env (gw_jwks g)),
      (case jwt_decode (ge_jwt env) accessToken of None \<Rightarrow> g
       | Some t \<Rightarrow> (case token_kid t of Inl _ \<Rightarrow> g
           | Inr kid \<Rightarrow> g\<lparr>gw_jwks := snd (GetPublicKey (ge_token_now env) (ge_fetch env) kid (gw_jwks g))\<rparr>)))"

definition full_uri_gw :: "request \<Rightarrow> string" where
  "full_uri_gw r = (if rq_tls r then ''https'' else ''http'') @ ''://'' @ rq_host r @ rq_path r"

definition identity_mismatch :: "string \<Rightarrow> string \<Rightarrow> string" where
  "identity_mismatch zitiIdentity tokenSub = ''forbidden: network identity '' @ CHR 0x27 # zitiIdentity @ CHR 0x27 #
     '' does not match token subject '' @ CHR 0x27 # tokenSub @ [CHR 0x27]"

definition claims_of_token :: "members \<Rightarrow> TokenClaims" where
  "claims_of_token claims = \<lparr>Sub = str_of (member claims ''sub''), TenantID = str_of (member claims ''tenant_id''),
     Role = str_of (member claims ''role''), Scope = str_of (member claims ''scope''),
     JKT = (case member claims ''cnf'' of Some (JObj cnf) \<Rightarrow> str_of (member cnf ''jkt'') | _ \<Rightarrow> [])\<rparr>"

definition perf_headers :: "gateway_env \<Rightarrow> headers \<Rightarrow> headers" where
  "perf_headers env hs = set_header ''X-Perf-Ziti-Verify-Us'' (show_int (ge_ziti_us env))
     (set_header ''X-Perf-Token-Verify-Us'' (show_int (ge_token_us env))
     (set_header ''X-Perf-Dpop-Verify-Us'' (show_int (ge_dpop_us env)) hs))"

text \<open>Steps 5 and 6: the token is bound to the proof's key, its subject to the network identity.\<close>

definition check_binding :: "gateway_config \<Rightarrow> members \<Rightarrow> string \<Rightarrow> string \<Rightarrow> (string \<times> nat) option" where
  "check_binding cfg claims jkt zitiIdentity =
     (case member claims ''cnf'' of
        Some (JObj cnf) \<Rightarrow>
          if str_of (member cnf ''jkt'') \<noteq> jkt
          then Some (''invalid_token: token jkt binding mismatch (sender-constraining failed)'', StatusUnauthorized)
          else if gc_enforceZiti cfg \<and> zitiIdentity = []
          then Some (''forbidden: missing OpenZiti network identity in a secure context'', StatusForbidden)
          else if (gc_enforceZiti cfg \<or> zitiIdentity \<noteq> []) \<and> str_of (member claims ''sub'') \<noteq> zitiIdentity
          then Some (identity_mismatch zitiIdentity (str_of (member claims ''sub'')), StatusForbidden)
          else None
      | _ \<Rightarrow> Some (''invalid_token: missing cnf claim'', StatusUnauthorized))"

text \<open>Steps 4 to 6 and what follows: the token, its bindings, the next handler.\<close>

definition verify_token :: "gateway_env \<Rightarrow> gateway_config \<Rightarrow> handler \<Rightarrow> string \<Rightarrow> string \<Rightarrow> headers \<Rightarrow> request \<Rightarrow> gateway \<Rightarrow> response \<times> gateway" where
  "verify_token env cfg nxt accessToken jkt hs r g =
     (case parse_access_token env accessToken g of
        (Inl e, g2) \<Rightarrow> (http_error hs (''invalid_token: signature verification failed: '' @ e) StatusUnauthorized, g2)
      | (Inr t, g2) \<Rightarrow>
          (case check_binding cfg (tk_claims t) jkt (GetZitiIdentity (rq_conn r)) of
             Some (msg, code) \<Rightarrow> (http_error hs msg code, g2)
           | None \<Rightarrow>
               nxt (Some (claims_of_token (tk_claims t))) (perf_headers env hs) r
                 (g2\<lparr>gw_metrics := RecordSecurityOverhead (ge_dpop_us env) (ge_token_us env) (ge_ziti_us env) (gw_metrics g2)\<rparr>)))"

definition SecureAPI :: "gateway_env \<Rightarrow> gateway_config \<Rightarrow> handler \<Rightarrow> handler" where
  "SecureAPI env cfg nxt ctx hs r g =
     (let authHeader = rq_header r ''Authorization''; dpopHeader = rq_header r ''DPoP''
      in if authHeader = [] then (http_error hs ''invalid_token: missing Authorization header'' StatusUnauthorized, g)
         else (case split_authorization authHeader of
           None \<Rightarrow> (http_error hs ''invalid_token: Authorization type must be DPoP'' StatusUnauthorized, g)
         | Some (scheme, accessToken) \<Rightarrow>
             if \<not> equal_fold scheme ''DPoP''
             then (http_error hs ''invalid_token: Authorization type must be DPoP'' StatusUnauthorized, g)
             else if dpopHeader = []
             then (http_error hs ''invalid_dpop_proof: missing DPoP header proof'' StatusUnauthorized, g)
             else (case VerifyDPoPProof (ge_format env) (ge_jwt env) (ge_proof_now env) dpopHeader (rq_method r) (full_uri_gw r) accessToken of
               Inl e \<Rightarrow> (http_error hs (''invalid_dpop_proof: '' @ e) StatusUnauthorized, g)
             | Inr (jkt, jti) \<Rightarrow>
                 (case IsJTIUsedAndSave (ge_jti_now env) jti (2 * minute) (gw_jtis g) of
                    (True, c) \<Rightarrow> (http_error hs ''invalid_dpop_proof: replay attack detected (jti already used)'' StatusUnauthorized, g\<lparr>gw_jtis := c\<rparr>)
                  | (False, c) \<Rightarrow>
                      verify_token env cfg nxt accessToken jkt hs r (g\<lparr>gw_jtis := c\<rparr>)))))"

section \<open>Authorisation\<close>

definition RequireRole :: "string list \<Rightarrow> handler \<Rightarrow> handler" where
  "RequireRole allowedRoles nxt ctx hs r g =
     (case ctx of
        None \<Rightarrow> (http_error hs ''unauthorized: missing claims context'' StatusUnauthorized, g)
      | Some claims \<Rightarrow>
          if \<not> list_ex (equal_fold (Role claims)) allowedRoles
          then (http_error hs (''forbidden: role '' @ CHR 0x27 # Role claims @ CHR 0x27 # '' is not authorized to access this resource'') StatusForbidden, g)
          else nxt ctx hs r g)"

definition ALLOW :: int where "ALLOW = 1"

text \<open>\<open>CheckAccess\<close>: allowed, matched policy, HTTP status, error.\<close>

definition CheckAccess :: "bool \<Rightarrow> pdp_service \<Rightarrow> pdp_request \<Rightarrow> bool \<times> string \<times> nat \<times> string option" where
  "CheckAccess failOpen pdp req =
     (case pdp req of
        Inl e \<Rightarrow>
          if failOpen then (True, [], 0, None)
          else (False, [], StatusServiceUnavailable, Some (''policy decision point unavailable: '' @ e))
      | Inr (decision, matched) \<Rightarrow>
          if decision = ALLOW then (True, matched, 0, None) else (False, matched, StatusForbidden, None))"

definition resource_of :: "string \<Rightarrow> string" where
  "resource_of p =
     (if starts_with p ''/api/balance'' then ''resource:balance''
      else if starts_with p ''/api/transfer'' then ''resource:transfer''
      else if starts_with p ''/api/audit-logs'' then ''resource:audit-logs'' else ''unknown'')"

definition action_of :: "string \<Rightarrow> string" where
  "action_of m = (if m = ''POST'' \<or> m = ''PUT'' \<or> m = ''DELETE'' then ''CREATE'' else ''READ'')"

definition policy_request :: "gateway_env \<Rightarrow> TokenClaims \<Rightarrow> request \<Rightarrow> pdp_request" where
  "policy_request env claims r =
     (let zitiIdentity = GetZitiIdentity (rq_conn r);
          clientIP = (if zitiIdentity \<noteq> [] then zitiIdentity else rq_remote r)
      in \<lparr>pr_TenantId = TenantID claims, pr_Subject = ''role:'' @ Role claims, pr_Action = action_of (rq_method r),
          pr_Resource = resource_of (rq_path r),
          pr_Context = [(''ip_address'', clientIP), (''request_time'', ge_utc env), (''http_method'', rq_method r),
            (''dpop_jkt'', JKT claims), (''ziti_identity'', zitiIdentity), (''tenant_id'', TenantID claims),
            (''role'', Role claims), (''scope'', Scope claims), (''token_subject'', Sub claims)]\<rparr>)"

definition EnforcePolicy :: "gateway_env \<Rightarrow> gateway_config \<Rightarrow> handler \<Rightarrow> handler" where
  "EnforcePolicy env cfg nxt ctx hs r g =
     (case ctx of
        None \<Rightarrow> (http_error hs ''unauthorized: missing claims context'' StatusUnauthorized, g)
      | Some claims \<Rightarrow>
          (case gc_pdpClient cfg of
             None \<Rightarrow> (http_error hs ''forbidden: policy enforcement point not initialized'' StatusServiceUnavailable, g)
           | Some failOpen \<Rightarrow>
               (let req = policy_request env claims r;
                    (allow, matched, httpStatus, err) = CheckAccess failOpen (ge_pdp env) req;
                    hs1 = set_header ''X-Perf-PDP-Verify-Us'' (show_int (ge_pdp_us env)) hs;
                    g1 = g\<lparr>gw_metrics := RecordPDPOverhead (ge_pdp_us env) (gw_metrics g)\<rparr>
                in case err of
                     Some e \<Rightarrow> (http_error hs1 (''service_unavailable: policy decision point error: '' @ e) httpStatus, g1)
                   | None \<Rightarrow>
                       if \<not> allow then
                         (http_error hs1 (''forbidden: PDP denied access to '' @ CHR 0x27 # pr_Resource req @ CHR 0x27 #
                            '' for subject '' @ CHR 0x27 # pr_Subject req @ [CHR 0x27] @
                            (if matched \<noteq> [] then '' (matched policy: '' @ matched @ '')'' else [])) StatusForbidden, g1)
                       else nxt ctx (if matched \<noteq> [] then set_header ''X-Matched-Policy-Id'' matched hs1 else hs1) r g1)))"

text \<open>The engine of \<^verbatim>\<open>policy/pdp.go\<close>, which the routes do not use, and \<^verbatim>\<open>config/policies.json\<close>.\<close>

record PolicyRule =
  rule_Role :: string
  rule_Resource :: string
  rule_Actions :: "string list"

definition Evaluate :: "PolicyRule list option \<Rightarrow> string \<Rightarrow> string \<Rightarrow> string \<Rightarrow> bool" where
  "Evaluate globalEngine role resource action =
     (case globalEngine of None \<Rightarrow> False
      | Some rules \<Rightarrow> list_ex (\<lambda>rule. rule_Role rule = role \<and> rule_Resource rule = resource
            \<and> list_ex (\<lambda>act. act = action) (rule_Actions rule)) rules)"

section \<open>Handlers\<close>

definition json_headers :: "headers \<Rightarrow> headers" where
  "json_headers hs = set_header ''Content-Type'' ''application/json'' hs"

definition db_headers :: "int \<Rightarrow> int \<Rightarrow> headers \<Rightarrow> headers" where
  "db_headers rls dbt hs = set_header ''X-Perf-Db-Exec-Us'' (show_int dbt)
     (set_header ''X-Perf-Db-Context-Us'' (show_int rls) (json_headers hs))"

definition error_json :: "headers \<Rightarrow> nat \<Rightarrow> string \<Rightarrow> response" where
  "error_json hs code msg = write_json (json_headers hs) code (JObj [(''error'', JStr msg)])"

definition db_failed :: "string \<Rightarrow> headers \<Rightarrow> string \<Rightarrow> gateway \<Rightarrow> response \<times> gateway" where
  "db_failed route hs e g = (error_json hs StatusInternalServerError e,
     g\<lparr>gw_metrics := IncrementRequestCounter route StatusInternalServerError (gw_metrics g)\<rparr>)"

definition db_succeeded :: "string \<Rightarrow> nat \<Rightarrow> int \<Rightarrow> int \<Rightarrow> gateway \<Rightarrow> gateway" where
  "db_succeeded route code rls dbt g =
     g\<lparr>gw_metrics := RecordDbLatency rls dbt (IncrementRequestCounter route code (gw_metrics g))\<rparr>"

definition GetBalanceHandler :: "gateway_env \<Rightarrow> gateway_config \<Rightarrow> handler" where
  "GetBalanceHandler env cfg ctx hs r g =
     (case ctx of
        None \<Rightarrow> (error_json hs StatusUnauthorized ''missing claims context'', g)
      | Some claims \<Rightarrow>
          (case GetBalance (ge_pg env) (ge_db env) (gc_auditSecret cfg) (TenantID claims) (Sub claims) (gw_db g) of
             (Inl e, d) \<Rightarrow> db_failed ''/api/balance'' hs e (g\<lparr>gw_db := d\<rparr>)
           | (Inr (balance, rls, dbt), d) \<Rightarrow>
               (write_json (db_headers rls dbt hs) StatusOK
                  (JObj [(''tenant_id'', JStr (TenantID claims)), (''sub'', JStr (Sub claims)),
                         (''role'', JStr (Role claims)), (''balance'', JNum balance)]),
                db_succeeded ''/api/balance'' StatusOK rls dbt (g\<lparr>gw_db := d\<rparr>))))"

text \<open>The decoded body: a number and a text, absent members being zero, null ignored, any other
  type an error; member names match up to case and the last one counts.\<close>

definition set_transfer_field :: "string \<times> json \<Rightarrow> rat \<times> string \<Rightarrow> string + rat \<times> string" where
  "set_transfer_field e q =
     (if equal_fold (fst e) ''amount'' then
        (case snd e of JNull \<Rightarrow> Inr q | JNum n \<Rightarrow> Inr (n, snd q) | _ \<Rightarrow> Inl unmarshal_error)
      else if equal_fold (fst e) ''description'' then
        (case snd e of JNull \<Rightarrow> Inr q | JStr s \<Rightarrow> Inr (fst q, s) | _ \<Rightarrow> Inl unmarshal_error)
      else Inr q)"

definition decode_transfer :: "string + json \<Rightarrow> string + rat \<times> string" where
  "decode_transfer b = (case b of Inl e \<Rightarrow> Inl e
     | Inr JNull \<Rightarrow> Inr (0, [])
     | Inr (JObj ms) \<Rightarrow> fold_result set_transfer_field ms (0, [])
     | Inr _ \<Rightarrow> Inl unmarshal_error)"

definition transaction_json :: "(instant \<Rightarrow> string) \<Rightarrow> Transaction \<Rightarrow> json" where
  "transaction_json ft t = JObj [(''id'', JStr (t_ID t)), (''tenant_id'', JStr (t_TenantID t)),
     (''amount'', JNum (t_Amount t)), (''description'', JStr (t_Description t)), (''created_at'', JStr (ft (t_CreatedAt t)))]"

definition CreateTransferHandler :: "gateway_env \<Rightarrow> gateway_config \<Rightarrow> handler" where
  "CreateTransferHandler env cfg ctx hs r g =
     (case ctx of
        None \<Rightarrow> (error_json hs StatusUnauthorized ''missing claims context'', g)
      | Some claims \<Rightarrow>
          (case decode_transfer (rq_body r) of
             Inl _ \<Rightarrow> (error_json hs StatusBadRequest ''invalid request body'', g)
           | Inr (amount, description) \<Rightarrow>
               if amount \<le> 0 then (error_json hs StatusBadRequest ''amount must be greater than zero'', g)
               else (case CreateTransaction (ge_pg env) (ge_db env) (gc_auditSecret cfg) (TenantID claims) amount description (Sub claims) (gw_db g) of
                 (Inl e, d) \<Rightarrow> db_failed ''/api/transfer'' hs e (g\<lparr>gw_db := d\<rparr>)
               | (Inr (tx, rls, dbt), d) \<Rightarrow>
                   (write_json (db_headers rls dbt hs) StatusCreated
                      (JObj [(''status'', JStr ''success''), (''transaction'', transaction_json (ge_rfc3339 env) tx)]),
                    db_succeeded ''/api/transfer'' StatusCreated rls dbt (g\<lparr>gw_db := d\<rparr>)))))"

definition audit_json :: "gateway_env \<Rightarrow> audit_row \<Rightarrow> json" where
  "audit_json env l = JObj [(''id'', JNum (of_int (al_id l))), (''timestamp'', JStr (ge_rfc3339 env (al_timestamp l))),
     (''actor_id'', JStr (al_actor l)), (''tenant_id'', JStr (al_tenant l)), (''action'', JStr (al_action l)),
     (''resource'', JStr (al_resource l)), (''details'', JStr (jsonb_out (ge_pg env) (al_details l))),
     (''prev_hash'', JStr (al_prev_hash l)), (''block_hash'', JStr (al_block_hash l))]"

definition GetAuditLogsHandler :: "gateway_env \<Rightarrow> gateway_config \<Rightarrow> handler" where
  "GetAuditLogsHandler env cfg ctx hs r g =
     (case ctx of
        None \<Rightarrow> (error_json hs StatusUnauthorized ''missing claims context'', g)
      | Some claims \<Rightarrow>
          (case GetAuditLogs (ge_pg env) (ge_db env) (gc_auditSecret cfg) (TenantID claims) (gw_db g) of
             (Inl e, d) \<Rightarrow> db_failed ''/api/audit-logs'' hs e (g\<lparr>gw_db := d\<rparr>)
           | (Inr (logs, rls, dbt), d) \<Rightarrow>
               (write_json (db_headers rls dbt hs) StatusOK
                  (JObj [(''tenant_id'', JStr (TenantID claims)),
                         (''audit_logs'', if logs = [] then JNull else JArr (map (audit_json env) logs))]),
                db_succeeded ''/api/audit-logs'' StatusOK rls dbt (g\<lparr>gw_db := d\<rparr>))))"

section \<open>Routes\<close>

text \<open>The order in which a scrape meets the request counters is the store's own here.  The router
  redirects a path that is not clean before it looks for a handler: see the theory \<open>Router\<close>.\<close>

definition gateway_serve :: "gateway_env \<Rightarrow> gateway_config \<Rightarrow> request \<Rightarrow> gateway \<Rightarrow> response \<times> gateway" where
  "gateway_serve env cfg r g =
     (if rq_path r = ''/api/transfer'' then SecureAPI env cfg (EnforcePolicy env cfg (CreateTransferHandler env cfg)) None [] r g
      else if rq_path r = ''/api/balance'' then SecureAPI env cfg (EnforcePolicy env cfg (GetBalanceHandler env cfg)) None [] r g
      else if rq_path r = ''/api/audit-logs'' then SecureAPI env cfg (EnforcePolicy env cfg (GetAuditLogsHandler env cfg)) None [] r g
      else if rq_path r = ''/metrics'' then
        (\<lparr>rs_status = StatusOK, rs_headers = set_header ''Content-Type'' ''text/plain; version=0.0.4; charset=utf-8'' [],
          rs_body = Text (ServeMetrics (requestsTotal (gw_metrics g)) (gw_metrics g))\<rparr>, g)
      else (http_error [] ''404 page not found'' 404, g))"

text \<open>\<open>main\<close>'s reading of \<open>USE_ZITI\<close>, \<open>ENFORCE_ZITI\<close>, \<open>PDP_FAIL_OPEN\<close> and \<open>AUDIT_SECRET\<close>.\<close>

definition load_config :: "(string \<Rightarrow> string) \<Rightarrow> gateway_config" where
  "load_config env_var =
     (let useZiti = \<not> equal_fold (trim (env_var ''USE_ZITI'')) ''false''
      in \<lparr>gc_enforceZiti = (useZiti \<or> equal_fold (trim (env_var ''ENFORCE_ZITI'')) ''true''),
          gc_pdpClient = Some (equal_fold (trim (env_var ''PDP_FAIL_OPEN'')) ''true''),
          gc_auditSecret = (if env_var ''AUDIT_SECRET'' = [] then ''test-audit-secret-key-2026'' else env_var ''AUDIT_SECRET'')\<rparr>)"

end
