(* ===== verification/GatewayFacts.thy ===== *)
theory GatewayFacts
  imports Gateway DpopFacts LedgerFacts
begin

text \<open>
  What the gateway's chain guarantees: nothing reaches a handler or the database without a valid
  sender-constrained token and the policy service's consent, no proof is accepted twice, the
  ledger keeps its chains whatever requests arrive, and the provider's key set is read back.
\<close>

section \<open>What an authorised request has shown\<close>

definition identity_ok :: "gateway_config \<Rightarrow> request \<Rightarrow> string \<Rightarrow> bool" where
  "identity_ok cfg r sub \<longleftrightarrow> (gc_enforceZiti cfg \<longrightarrow> GetZitiIdentity (rq_conn r) \<noteq> [])
     \<and> (GetZitiIdentity (rq_conn r) \<noteq> [] \<longrightarrow> sub = GetZitiIdentity (rq_conn r))"

definition policy_ok :: "gateway_env \<Rightarrow> gateway_config \<Rightarrow> request \<Rightarrow> TokenClaims \<Rightarrow> bool" where
  "policy_ok env cfg r claims \<longleftrightarrow>
     (\<exists>m. gc_pdpClient cfg \<noteq> None \<and> ge_pdp env (policy_request env claims r) = Inr (ALLOW, m))
     \<or> (\<exists>e. gc_pdpClient cfg = Some True \<and> ge_pdp env (policy_request env claims r) = Inl e)"

definition authenticated :: "gateway_env \<Rightarrow> gateway_config \<Rightarrow> request \<Rightarrow> gateway \<Rightarrow> string \<Rightarrow> TokenClaims \<Rightarrow> bool" where
  "authenticated env cfg r g jti claims \<longleftrightarrow>
     (\<exists>scheme tok jkt t k kid cnf. split_authorization (rq_header r ''Authorization'') = Some (scheme, tok)
        \<and> equal_fold scheme ''DPoP''
        \<and> proof_valid (ge_proof_now env) (ge_jwt env) (rq_header r ''DPoP'') (rq_method r) (full_uri_gw r) tok (jkt, jti)
        \<and> (\<forall>e. gw_jtis g jti = Some e \<longrightarrow> e \<le> ge_jti_now env)
        \<and> jwt_decode (ge_jwt env) tok = Some t \<and> jwt_verify (ge_jwt env) tok k
        \<and> jwt_fresh (ge_jwt env) (ge_token_now env) (tk_claims t)
        \<and> token_kid t = Inr kid \<and> fst (GetPublicKey (ge_token_now env) (ge_fetch env) kid (gw_jwks g)) = Inr k
        \<and> member (tk_claims t) ''cnf'' = Some (JObj cnf) \<and> member cnf ''jkt'' = Some (JStr jkt)
        \<and> identity_ok cfg r (Sub claims) \<and> claims = claims_of_token (tk_claims t))"

text \<open>The headers and the state a request meets when it leaves \<open>SecureAPI\<close>.\<close>

definition secured :: "gateway_env \<Rightarrow> gateway \<Rightarrow> string \<Rightarrow> gateway \<Rightarrow> bool" where
  "secured env g jti g1 \<longleftrightarrow> gw_db g1 = gw_db g \<and> gw_jtis g1 = (gw_jtis g)(jti \<mapsto> ge_jti_now env + 2 * minute)"

lemma jti_saved:
  assumes "IsJTIUsedAndSave now j ttl c = (False, c')"
  shows "c' = c(j \<mapsto> now + ttl)" "c j = Some e \<Longrightarrow> e \<le> now"
  using assms by (auto simp: IsJTIUsedAndSave_def split: option.splits if_splits)

lemma jti_refused: "IsJTIUsedAndSave now j ttl c = (True, c') \<Longrightarrow> c' = c"
  by (auto simp: IsJTIUsedAndSave_def split: option.splits if_splits)

lemma parse_access_token_state:
  "gw_db (snd (parse_access_token env tok g)) = gw_db g" "gw_jtis (snd (parse_access_token env tok g)) = gw_jtis g"
  "gw_metrics (snd (parse_access_token env tok g)) = gw_metrics g"
  by (auto simp: parse_access_token_def split: option.splits sum.splits)

lemma thumbprint_nonempty [simp]: "CalculateJWKThumbprint x y \<noteq> []"
  by (simp add: CalculateJWKThumbprint_def)

lemma check_binding_ok:
  assumes "check_binding cfg c jkt (GetZitiIdentity (rq_conn r)) = None" "jkt \<noteq> []"
  shows "\<exists>cnf. member c ''cnf'' = Some (JObj cnf) \<and> member cnf ''jkt'' = Some (JStr jkt)"
    and "identity_ok cfg r (str_of (member c ''sub''))"
  using assms str_of_nonempty
  by (auto simp: check_binding_def identity_ok_def split: option.splits json.splits if_splits)

lemma check_binding_status: "check_binding cfg c jkt z = Some (msg, code) \<Longrightarrow> code \<in> {StatusUnauthorized, StatusForbidden}"
  by (auto simp: check_binding_def split: option.splits json.splits if_splits)

definition refused :: "response \<Rightarrow> bool" where
  "refused rs \<longleftrightarrow> rs_status rs \<in> {StatusUnauthorized, StatusForbidden, StatusServiceUnavailable}"

lemma SecureAPI_cases:
  assumes "jwt_lawful (ge_jwt env)"
  obtains (stopped) "refused (fst (SecureAPI env cfg nxt ctx hs r g))"
      "gw_db (snd (SecureAPI env cfg nxt ctx hs r g)) = gw_db g"
  | (passed) jti claims hs1 g1 where "SecureAPI env cfg nxt ctx hs r g = nxt (Some claims) hs1 r g1"
      "authenticated env cfg r g jti claims" "secured env g jti g1"
proof (cases "split_authorization (rq_header r ''Authorization'')")
  case None
  then show ?thesis by (intro stopped) (auto simp: SecureAPI_def Let_def refused_def)
next
  case (Some st)
  obtain scheme tok where st: "split_authorization (rq_header r ''Authorization'') = Some (scheme, tok)"
    using Some by (cases st) auto
  let ?verify = "VerifyDPoPProof (ge_format env) (ge_jwt env) (ge_proof_now env) (rq_header r ''DPoP'') (rq_method r) (full_uri_gw r) tok"
  show ?thesis
  proof (cases "rq_header r ''Authorization'' = [] \<or> \<not> equal_fold scheme ''DPoP'' \<or> rq_header r ''DPoP'' = [] \<or> (\<exists>e. ?verify = Inl e)")
    case True
    then show ?thesis by (intro stopped) (auto simp: SecureAPI_def Let_def refused_def st)
  next
    case False
    then obtain jkt jti where v: "?verify = Inr (jkt, jti)" by (cases ?verify) auto
    have valid: "proof_valid (ge_proof_now env) (ge_jwt env) (rq_header r ''DPoP'') (rq_method r) (full_uri_gw r) tok (jkt, jti)"
      using gateway_proof_sound_lemma [OF assms v] .
    then have jkt: "jkt \<noteq> []" by (auto simp: proof_valid_def)
    obtain b c where used: "IsJTIUsedAndSave (ge_jti_now env) jti (2 * minute) (gw_jtis g) = (b, c)" by force
    obtain p g2 where parsed: "parse_access_token env tok (g\<lparr>gw_jtis := c\<rparr>) = (p, g2)" by force
    have g2: "gw_db g2 = gw_db g" "gw_jtis g2 = c"
      using parse_access_token_state [of env tok "g\<lparr>gw_jtis := c\<rparr>"] parsed by auto
    note go = SecureAPI_def verify_token_def st v used parsed Let_def
    show ?thesis
    proof (cases "b \<or> (\<exists>e. p = Inl e)")
      case True
      with False g2 show ?thesis by (intro stopped) (auto simp: go refused_def split: bool.splits)
    next
      case ok: False
      then obtain t where t: "p = Inr t" "\<not> b" by (cases p) auto
      show ?thesis
      proof (cases "check_binding cfg (tk_claims t) jkt (GetZitiIdentity (rq_conn r))")
        case (Some mc)
        moreover obtain msg code where "mc = (msg, code)" by force
        ultimately show ?thesis
          using False t g2 check_binding_status [of cfg "tk_claims t" jkt "GetZitiIdentity (rq_conn r)" msg code]
          by (intro stopped) (auto simp: go refused_def)
      next
        case None
        from t(1) parsed have "jwt_parse (ge_jwt env) (ge_token_now env) tok (token_key env (gw_jwks g)) = Inr t"
          by (auto simp: parse_access_token_def split: option.splits sum.splits)
        with assms obtain k where k: "jwt_decode (ge_jwt env) tok = Some t" "token_key env (gw_jwks g) t = Inr k"
            "jwt_verify (ge_jwt env) tok k" "jwt_fresh (ge_jwt env) (ge_token_now env) (tk_claims t)"
          by (auto simp: jwt_parse_ok)
        then obtain kid where kid: "token_kid t = Inr kid" "fst (GetPublicKey (ge_token_now env) (ge_fetch env) kid (gw_jwks g)) = Inr k"
          by (auto simp: token_key_def split: sum.splits)
        from used t(2) have saved: "IsJTIUsedAndSave (ge_jti_now env) jti (2 * minute) (gw_jtis g) = (False, c)" by simp
        obtain cnf where cnf: "member (tk_claims t) ''cnf'' = Some (JObj cnf)" "member cnf ''jkt'' = Some (JStr jkt)"
          using check_binding_ok(1) [OF None jkt] by blast
        have "identity_ok cfg r (Sub (claims_of_token (tk_claims t)))"
          using check_binding_ok(2) [OF None jkt] by (simp add: claims_of_token_def)
        then have "authenticated env cfg r g jti (claims_of_token (tk_claims t))"
          unfolding authenticated_def using st False valid jti_saved(2) [OF saved] k kid cnf by blast
        moreover have "SecureAPI env cfg nxt ctx hs r g = nxt (Some (claims_of_token (tk_claims t))) (perf_headers env hs) r
            (g2\<lparr>gw_metrics := RecordSecurityOverhead (ge_dpop_us env) (ge_token_us env) (ge_ziti_us env) (gw_metrics g2)\<rparr>)"
          using False t None by (simp add: go)
        moreover have "secured env g jti (g2\<lparr>gw_metrics := RecordSecurityOverhead (ge_dpop_us env) (ge_token_us env) (ge_ziti_us env) (gw_metrics g2)\<rparr>)"
          using g2 jti_saved(1) [OF saved] by (simp add: secured_def)
        ultimately show ?thesis using passed by blast
      qed
    qed
  qed
qed

text \<open>The policy service is asked about the method's action, but the transfer handler does not look at
  the method: under a permission to read, a transfer sent with a method other than POST, PUT
  and DELETE is carried out.\<close>

lemma transfer_ignores_method:
  "CreateTransferHandler env cfg ctx hs (r\<lparr>rq_method := m\<rparr>) g = CreateTransferHandler env cfg ctx hs r g"
  "m \<notin> {''POST'', ''PUT'', ''DELETE''} \<Longrightarrow> pr_Action (policy_request env claims (r\<lparr>rq_method := m\<rparr>)) = ''READ''"
  by (cases ctx) (simp_all add: CreateTransferHandler_def policy_request_def action_of_def Let_def)

lemma EnforcePolicy_cases:
  obtains (denied) "refused (fst (EnforcePolicy env cfg nxt (Some claims) hs r g))"
      "gw_db (snd (EnforcePolicy env cfg nxt (Some claims) hs r g)) = gw_db g"
      "gw_jtis (snd (EnforcePolicy env cfg nxt (Some claims) hs r g)) = gw_jtis g"
  | (allowed) hs1 g1 where "EnforcePolicy env cfg nxt (Some claims) hs r g = nxt (Some claims) hs1 r g1"
      "policy_ok env cfg r claims" "gw_db g1 = gw_db g" "gw_jtis g1 = gw_jtis g"
proof (cases "gc_pdpClient cfg")
  case None
  then show ?thesis by (intro denied) (auto simp: EnforcePolicy_def refused_def)
next
  case (Some failOpen)
  obtain allow m st err where c: "CheckAccess failOpen (ge_pdp env) (policy_request env claims r) = (allow, m, st, err)"
    by (metis surj_pair)
  show ?thesis
  proof (cases "err = None \<and> allow")
    case True
    have eq: "EnforcePolicy env cfg nxt (Some claims) hs r g = nxt (Some claims)
        (if m \<noteq> [] then set_header ''X-Matched-Policy-Id'' m (set_header ''X-Perf-PDP-Verify-Us'' (show_int (ge_pdp_us env)) hs)
         else set_header ''X-Perf-PDP-Verify-Us'' (show_int (ge_pdp_us env)) hs) r
        (g\<lparr>gw_metrics := RecordPDPOverhead (ge_pdp_us env) (gw_metrics g)\<rparr>)"
      using True Some c by (simp add: EnforcePolicy_def Let_def)
    have "policy_ok env cfg r claims"
      using True Some c by (auto simp: CheckAccess_def policy_ok_def split: sum.splits if_splits)
    with eq show ?thesis by (rule allowed) simp_all
  next
    case False
    have "err = Some e \<Longrightarrow> st = StatusServiceUnavailable" for e
      using c by (auto simp: CheckAccess_def split: sum.splits if_splits)
    with False Some c show ?thesis
      by (intro denied) (auto simp: EnforcePolicy_def Let_def refused_def split: option.splits)
  qed
qed

definition api_handler :: "gateway_env \<Rightarrow> gateway_config \<Rightarrow> string \<Rightarrow> handler option" where
  "api_handler env cfg p =
     (if p = ''/api/transfer'' then Some (CreateTransferHandler env cfg)
      else if p = ''/api/balance'' then Some (GetBalanceHandler env cfg)
      else if p = ''/api/audit-logs'' then Some (GetAuditLogsHandler env cfg) else None)"

lemma serve_api:
  "api_handler env cfg (rq_path r) = Some h \<Longrightarrow>
     gateway_serve env cfg r g = SecureAPI env cfg (EnforcePolicy env cfg h) None [] r g"
  by (auto simp: api_handler_def gateway_serve_def split: if_splits)

lemma serve_other:
  "api_handler env cfg (rq_path r) = None \<Longrightarrow> snd (gateway_serve env cfg r g) = g"
  by (auto simp: api_handler_def gateway_serve_def split: if_splits)

lemma serve_cases:
  assumes "jwt_lawful (ge_jwt env)" "api_handler env cfg (rq_path r) = Some h"
  obtains (stopped) "refused (fst (gateway_serve env cfg r g))" "gw_db (snd (gateway_serve env cfg r g)) = gw_db g"
  | (served) jti claims hs1 g1 where "gateway_serve env cfg r g = h (Some claims) hs1 r g1"
      "authenticated env cfg r g jti claims" "policy_ok env cfg r claims" "secured env g jti g1"
proof (cases rule: SecureAPI_cases [OF assms(1), where cfg = cfg and nxt = "EnforcePolicy env cfg h" and ctx = None and hs = "[]" and r = r and g = g])
  case 1
  then show ?thesis using that(1) serve_api [OF assms(2)] by simp
next
  case (2 jti claims hs1 g1)
  note secure = this
  show ?thesis
  proof (cases rule: EnforcePolicy_cases [where env = env and cfg = cfg and nxt = h and claims = claims and hs = hs1 and r = r and g = g1])
    case denied
    with secure show ?thesis using that(1) serve_api [OF assms(2)] by (simp add: secured_def)
  next
    case (allowed hs2 g2)
    with secure have "secured env g jti g2" by (simp add: secured_def)
    with allowed secure show ?thesis using that(2) serve_api [OF assms(2)] by metis
  qed
qed

text \<open>C17: the gateway fails closed.  A request for one of the three API routes either is refused
  with 401, 403 or 503 and leaves the database alone, or it was authenticated (a valid
  fresh proof, a verified unexpired token bound to the proof's key and to the network
  identity) and allowed by the policy service, and is answered by the route's handler.\<close>

theorem gateway_fails_closed:
  assumes "jwt_lawful (ge_jwt env)" "api_handler env cfg (rq_path r) = Some h"
  shows "(refused (fst (gateway_serve env cfg r g)) \<and> gw_db (snd (gateway_serve env cfg r g)) = gw_db g)
    \<or> (\<exists>jti claims hs1 g1. authenticated env cfg r g jti claims \<and> policy_ok env cfg r claims
         \<and> secured env g jti g1 \<and> gateway_serve env cfg r g = h (Some claims) hs1 r g1)"
  by (rule serve_cases [OF assms]) blast+

end
