(* ===== verification/Startup.thy ===== *)
theory Startup
  imports GatewayFacts
begin

text \<open>
  How the two servers start: the identity provider's signing key (\<^verbatim>\<open>idp/config/config.go\<close>), the
  OpenZiti contexts (\<^verbatim>\<open>ziti/ziti.go\<close> of gateway and client), the connection to the policy service
  (\<^verbatim>\<open>pdpclient/client.go\<close>) and the gateway's \<open>main\<close>.  The file system is a map; the key
  generator, the PEM and X.509 codecs, the OpenZiti SDK, gRPC and the listeners are inputs
  that succeed or return an error.
\<close>

section \<open>The signing key\<close>

type_synonym files = "string \<rightharpoonup> bytes"

record key_world =
  kw_stat :: "string \<Rightarrow> string option"        \<comment> \<open>an error of \<open>Stat\<close> other than that the file is missing\<close>
  kw_read :: "string \<Rightarrow> string option"
  kw_mkdir :: "string option"
  kw_generate :: "string + private_key"
  kw_marshal :: "private_key \<Rightarrow> string + bytes"
  kw_open :: "string option"
  kw_write :: "string option"
  kw_partial :: bytes                     \<comment> \<open>what a failed write leaves\<close>
  kw_pem :: "string \<Rightarrow> bytes \<Rightarrow> bytes"        \<comment> \<open>\<open>pem.Encode\<close> of a block with this type\<close>
  kw_unpem :: "bytes \<Rightarrow> (string \<times> bytes) option"
  kw_parse :: "bytes \<Rightarrow> string + private_key"

text \<open>\<open>filepath.Join\<close> for a directory that is empty, \<open>.\<close> (the one \<open>main\<close> passes) or already clean.\<close>

definition key_file :: "string \<Rightarrow> string" where
  "key_file keyDir = (if keyDir = ''.'' \<or> keyDir = [] then ''idp-private.key'' else keyDir @ ''/idp-private.key'')"

definition key_type :: string where "key_type = ''EC PRIVATE KEY''"

text \<open>The result is an error or the key that \<open>AppConfig\<close> then holds.\<close>

definition create_key :: "key_world \<Rightarrow> string \<Rightarrow> files \<Rightarrow> (string + private_key) \<times> files" where
  "create_key kw keyPath fs =
     (case kw_mkdir kw of Some e \<Rightarrow> (Inl (''failed to create key directory: '' @ e), fs)
      | None \<Rightarrow>
        (case kw_generate kw of Inl e \<Rightarrow> (Inl (''failed to generate EC key: '' @ e), fs)
         | Inr privKey \<Rightarrow>
           (case kw_marshal kw privKey of Inl e \<Rightarrow> (Inl e, fs)
            | Inr x509Encoded \<Rightarrow>
              (case kw_open kw of Some e \<Rightarrow> (Inl e, fs)
               | None \<Rightarrow>
                 (case kw_write kw of Some e \<Rightarrow> (Inl e, fs(keyPath \<mapsto> kw_partial kw))
                  | None \<Rightarrow> (Inr privKey, fs(keyPath \<mapsto> kw_pem kw key_type x509Encoded)))))))"

definition load_key :: "key_world \<Rightarrow> string \<Rightarrow> files \<Rightarrow> string + private_key" where
  "load_key kw keyPath fs =
     (case (kw_read kw keyPath, fs keyPath) of
        (Some e, _) \<Rightarrow> Inl e
      | (None, None) \<Rightarrow> Inl ''no such file or directory''
      | (None, Some pemBytes) \<Rightarrow>
          (case kw_unpem kw pemBytes of
             None \<Rightarrow> Inl ''invalid PEM block type, expected EC PRIVATE KEY''
           | Some (t, b) \<Rightarrow> if t \<noteq> key_type then Inl ''invalid PEM block type, expected EC PRIVATE KEY'' else kw_parse kw b))"

definition LoadOrGenerateKeys :: "key_world \<Rightarrow> string \<Rightarrow> files \<Rightarrow> (string + private_key) \<times> files" where
  "LoadOrGenerateKeys kw keyDir fs =
     (let keyPath = key_file keyDir
      in if kw_stat kw keyPath = None \<and> fs keyPath = None then create_key kw keyPath fs else (load_key kw keyPath fs, fs))"

text \<open>The documented round trips of \<open>encoding/pem\<close> and \<open>crypto/x509\<close>.\<close>

definition key_codecs :: "key_world \<Rightarrow> bool" where
  "key_codecs kw \<longleftrightarrow> (\<forall>t b. kw_unpem kw (kw_pem kw t b) = Some (t, b)) \<and> (\<forall>k b. kw_marshal kw k = Inr b \<longrightarrow> kw_parse kw b = Inr k)"

lemma created_key:
  assumes "key_codecs kw" "create_key kw p fs = (Inr k, fs')" "kw_read kw' p = None" "kw_unpem kw' = kw_unpem kw" "kw_parse kw' = kw_parse kw"
  shows "load_key kw' p fs' = Inr k" "fs' p \<noteq> None"
  using assms by (auto simp: create_key_def load_key_def key_codecs_def simp del: split_paired_All split: option.splits sum.splits)

lemma keys_survive:
  assumes "key_codecs kw" "LoadOrGenerateKeys kw dir fs = (Inr k, fs')"
    and "kw_read kw' (key_file dir) = None" "kw_unpem kw' = kw_unpem kw" "kw_parse kw' = kw_parse kw"
  shows "LoadOrGenerateKeys kw' dir fs' = (Inr k, fs')"
proof (cases "kw_stat kw (key_file dir) = None \<and> fs (key_file dir) = None")
  case True
  then have "create_key kw (key_file dir) fs = (Inr k, fs')" using assms(2) by (simp add: LoadOrGenerateKeys_def Let_def)
  from created_key [OF assms(1) this assms(3-5)] show ?thesis
    by (auto simp: LoadOrGenerateKeys_def Let_def)
next
  case False
  then have l: "load_key kw (key_file dir) fs = Inr k" "fs' = fs"
    using assms(2) by (auto simp: LoadOrGenerateKeys_def Let_def split: if_splits)
  then obtain b where "fs (key_file dir) = Some b" by (auto simp: load_key_def split: option.splits)
  with l assms(3-5) show ?thesis
    by (auto simp: LoadOrGenerateKeys_def load_key_def Let_def split: option.splits)
qed

text \<open>But a failed write is final: the file it leaves is never replaced, and every later start fails unless
  what is left happens to be a key.\<close>

lemma failed_write_is_final:
  assumes "kw_stat kw (key_file dir) = None" "fs (key_file dir) = None" "kw_mkdir kw = None" "kw_generate kw = Inr k" "kw_marshal kw k = Inr b"
    and "kw_open kw = None" "kw_write kw = Some e" "kw_unpem kw' (kw_partial kw) = None"
  shows "\<exists>fs'. LoadOrGenerateKeys kw dir fs = (Inl e, fs')
    \<and> (\<exists>e'. LoadOrGenerateKeys kw' dir fs' = (Inl e', fs'))"
  using assms by (auto simp: LoadOrGenerateKeys_def create_key_def load_key_def Let_def split: option.split)

section \<open>OpenZiti contexts\<close>

text \<open>What start-up asks of the outside: files, the OpenZiti SDK, TLS files, gRPC, the database and the
  listeners; \<open>Some\<close> is an error.\<close>

record outside =
  out_missing :: "string \<Rightarrow> bool"
  out_config :: "string \<Rightarrow> string option"
  out_context :: "string \<Rightarrow> string option"
  out_authenticate :: "string \<Rightarrow> string option"
  out_key_pair :: "string \<Rightarrow> string \<Rightarrow> string option"
  out_read :: "string \<Rightarrow> string option"
  out_pem_ok :: "string \<Rightarrow> bool"
  out_dial :: "string \<Rightarrow> string option"
  out_database :: "string \<Rightarrow> string option"
  out_listen_service :: "string \<Rightarrow> string option"
  out_listen_tcp :: "string \<Rightarrow> string option"

datatype ctx = Never | Opened | Closed

definition NewZitiContext :: "outside \<Rightarrow> string \<Rightarrow> string option \<times> ctx" where
  "NewZitiContext out identityPath =
     (if out_missing out identityPath then (Some (''identity file not found at: '' @ identityPath), Never)
      else case out_config out identityPath of Some e \<Rightarrow> (Some (''failed to load ziti config: '' @ e), Never)
      | None \<Rightarrow> (case out_context out identityPath of Some e \<Rightarrow> (Some (''failed to create ziti context: '' @ e), Never)
      | None \<Rightarrow> (case out_authenticate out identityPath of Some e \<Rightarrow> (Some (''failed to authenticate with ziti controller: '' @ e), Opened)
      | None \<Rightarrow> (None, Opened))))"

text \<open>The client's differs in its messages.\<close>

definition NewZitiClient :: "outside \<Rightarrow> string \<Rightarrow> string option \<times> ctx" where
  "NewZitiClient out identityPath =
     (if out_missing out identityPath then (Some (''identity file not found at: '' @ identityPath), Never)
      else case out_config out identityPath of Some e \<Rightarrow> (Some (''failed to load client ziti config: '' @ e), Never)
      | None \<Rightarrow> (case out_context out identityPath of Some e \<Rightarrow> (Some (''failed to create client ziti context: '' @ e), Never)
      | None \<Rightarrow> (case out_authenticate out identityPath of Some e \<Rightarrow> (Some (''failed to authenticate client with ziti controller: '' @ e), Opened)
      | None \<Rightarrow> (None, Opened))))"

section \<open>The connection to the policy service\<close>

record pdp_settings =
  ps_Addr :: string
  ps_TLSCertFile :: string
  ps_TLSKeyFile :: string
  ps_TLSCAFile :: string
  ps_RequestTimeout :: int
  ps_FailOpen :: bool
  ps_UseZiti :: bool
  ps_ZitiIdentityFile :: string
  ps_ZitiServiceName :: string

datatype credentials = Insecure | Mutual_TLS string string string

record pdp_client =
  pc_target :: string
  pc_credentials :: credentials
  pc_dialer :: "string option"       \<comment> \<open>the overlay service the connection is dialled through\<close>
  pc_requestTimeout :: int
  pc_failOpen :: bool

definition defaultRequestTimeout :: int where "defaultRequestTimeout = 80 * (second div 1000)"

definition loadMTLSCredentials :: "outside \<Rightarrow> string \<Rightarrow> string \<Rightarrow> string \<Rightarrow> string + credentials" where
  "loadMTLSCredentials out certFile keyFile caFile =
     (case out_key_pair out certFile keyFile of
        Some e \<Rightarrow> Inl (''failed to load client cert/key pair ('' @ certFile @ '', '' @ keyFile @ ''): '' @ e)
      | None \<Rightarrow> (case out_read out caFile of
           Some e \<Rightarrow> Inl (''failed to read CA cert file '' @ caFile @ '': '' @ e)
         | None \<Rightarrow> if \<not> out_pem_ok out caFile then Inl (''failed to parse CA cert from '' @ caFile @ '': invalid PEM format'')
             else Inr (Mutual_TLS certFile keyFile caFile)))"

text \<open>Over the overlay: the context is closed again when it cannot authenticate.\<close>

definition pdp_overlay :: "outside \<Rightarrow> string \<Rightarrow> string option \<times> ctx" where
  "pdp_overlay out path =
     (if out_missing out path then (Some (''pdpclient: ziti identity file not found at: '' @ path), Never)
      else case out_config out path of Some e \<Rightarrow> (Some (''pdpclient: failed to load client ziti config: '' @ e), Never)
      | None \<Rightarrow> (case out_context out path of Some e \<Rightarrow> (Some (''pdpclient: failed to create client ziti context: '' @ e), Never)
      | None \<Rightarrow> (case out_authenticate out path of
           Some e \<Rightarrow> (Some (''pdpclient: failed to authenticate client with ziti controller: '' @ e), Closed)
         | None \<Rightarrow> (None, Opened))))"

definition pdp_credentials :: "outside \<Rightarrow> pdp_settings \<Rightarrow> string + credentials" where
  "pdp_credentials out cfg =
     (if ps_TLSCertFile cfg \<noteq> [] \<and> ps_TLSKeyFile cfg \<noteq> [] \<and> ps_TLSCAFile cfg \<noteq> []
      then (case loadMTLSCredentials out (ps_TLSCertFile cfg) (ps_TLSKeyFile cfg) (ps_TLSCAFile cfg) of
          Inl e \<Rightarrow> Inl (''pdpclient: failed to load mTLS credentials: '' @ e) | Inr c \<Rightarrow> Inr c)
      else Inr Insecure)"

definition request_timeout :: "pdp_settings \<Rightarrow> int" where
  "request_timeout cfg = (if 0 < ps_RequestTimeout cfg then ps_RequestTimeout cfg else defaultRequestTimeout)"

definition pdp_dial :: "outside \<Rightarrow> pdp_settings \<Rightarrow> credentials \<Rightarrow> ctx \<Rightarrow> (string + pdp_client) \<times> ctx" where
  "pdp_dial out cfg c z =
     (let targetAddr = (if ps_UseZiti cfg then ''passthrough:///'' @ ps_ZitiServiceName cfg else ps_Addr cfg)
      in case out_dial out targetAddr of
           Some e \<Rightarrow> (Inl (''pdpclient: failed to dial PDP: '' @ e), if z = Never then Never else Closed)
         | None \<Rightarrow> (Inr \<lparr>pc_target = targetAddr, pc_credentials = c,
             pc_dialer = (if ps_UseZiti cfg then Some (ps_ZitiServiceName cfg) else None),
             pc_requestTimeout = request_timeout cfg, pc_failOpen = ps_FailOpen cfg\<rparr>, z))"

definition pdp_New :: "outside \<Rightarrow> pdp_settings \<Rightarrow> (string + pdp_client) \<times> ctx" where
  "pdp_New out cfg =
     (if \<not> ps_UseZiti cfg \<and> ps_Addr cfg = [] then (Inl ''pdpclient: PDP address must not be empty'', Never)
      else if ps_UseZiti cfg then
        (case pdp_overlay out (ps_ZitiIdentityFile cfg) of
           (Some e, z) \<Rightarrow> (Inl e, z)
         | (None, z) \<Rightarrow> pdp_dial out cfg Insecure z)
      else (case pdp_credentials out cfg of Inl e \<Rightarrow> (Inl e, Never) | Inr c \<Rightarrow> pdp_dial out cfg c Never))"

text \<open>\<open>Close\<close>, with the error of closing the connection.\<close>

definition pdp_Close :: "string option \<Rightarrow> ctx \<Rightarrow> string option \<times> ctx" where
  "pdp_Close connErr z = (connErr, if z = Never then Never else Closed)"

lemma overlay_context: "case pdp_overlay out path of (Some e, z) \<Rightarrow> z \<noteq> Opened | (None, z) \<Rightarrow> z = Opened"
  by (simp add: pdp_overlay_def split: option.split)

lemma credentials_mutual: "pdp_credentials out cfg = Inr c \<Longrightarrow>
    c = Insecure \<longleftrightarrow> ps_TLSCertFile cfg = [] \<or> ps_TLSKeyFile cfg = [] \<or> ps_TLSCAFile cfg = []"
  by (auto simp: pdp_credentials_def loadMTLSCredentials_def split: if_splits option.splits sum.splits)

lemma dialled: "case pdp_dial out cfg c z of (Inl e, z') \<Rightarrow> z' \<noteq> Opened
    | (Inr p, z') \<Rightarrow> z' = z \<and> (pc_dialer p \<noteq> None \<longleftrightarrow> ps_UseZiti cfg) \<and> 0 < pc_requestTimeout p
        \<and> pc_failOpen p = ps_FailOpen cfg \<and> pc_credentials p = c"
  by (simp add: pdp_dial_def request_timeout_def defaultRequestTimeout_def second_def Let_def split: option.split)

text \<open>No context is leaked: after an error none is open, and a client has one exactly if it runs over the
  overlay.  The timeout is positive, and the credentials are mutual TLS whenever the three files
  are named and the overlay is not used.\<close>

theorem pdp_connection:
  "case pdp_New out cfg of
     (Inl e, z) \<Rightarrow> z \<noteq> Opened
   | (Inr c, z) \<Rightarrow> (z = Opened \<longleftrightarrow> ps_UseZiti cfg) \<and> (pc_dialer c \<noteq> None \<longleftrightarrow> ps_UseZiti cfg) \<and> 0 < pc_requestTimeout c
       \<and> pc_failOpen c = ps_FailOpen cfg
       \<and> (pc_credentials c = Insecure \<longleftrightarrow> ps_UseZiti cfg \<or> ps_TLSCertFile cfg = [] \<or> ps_TLSKeyFile cfg = [] \<or> ps_TLSCAFile cfg = [])"
proof (cases "ps_UseZiti cfg")
  case True
  then show ?thesis
    using overlay_context [where out = out and path = "ps_ZitiIdentityFile cfg"] dialled [where out = out and cfg = cfg and c = Insecure and z = Opened]
    by (auto simp: pdp_New_def split: prod.splits option.splits sum.splits)
next
  case False
  show ?thesis
  proof (cases "pdp_credentials out cfg")
    case (Inr c)
    then show ?thesis
      using False dialled [where out = out and cfg = cfg and c = c and z = Never] credentials_mutual [OF Inr] by (auto simp: pdp_New_def split: prod.splits sum.splits)
  qed (use False in \<open>simp add: pdp_New_def\<close>)
qed

text \<open>The policy client closes a context that cannot authenticate; the gateway's listener and the
  command-line client leave it open.\<close>

lemma failed_authentication:
  assumes "\<not> out_missing out path" "out_config out path = None" "out_context out path = None" "out_authenticate out path = Some e"
  shows "snd (pdp_overlay out path) = Closed" "snd (NewZitiContext out path) = Opened" "snd (NewZitiClient out path) = Opened"
  using assms by (simp_all add: pdp_overlay_def NewZitiContext_def NewZitiClient_def)

section \<open>The gateway's main\<close>

definition or_else :: "string \<Rightarrow> string \<Rightarrow> string" where
  "or_else s d = (if s = [] then d else s)"

definition env_true :: "(string \<Rightarrow> string) \<Rightarrow> string \<Rightarrow> bool" where
  "env_true env_var name = equal_fold (trim (env_var name)) ''true''"

definition pdp_settings_of :: "(string \<Rightarrow> string) \<Rightarrow> pdp_settings" where
  "pdp_settings_of env_var = \<lparr>ps_Addr = or_else (env_var ''PDP_ADDR'') ''localhost:50051'',
     ps_TLSCertFile = env_var ''PDP_TLS_CERT'', ps_TLSKeyFile = env_var ''PDP_TLS_KEY'', ps_TLSCAFile = env_var ''PDP_TLS_CA'',
     ps_RequestTimeout = 0, ps_FailOpen = env_true env_var ''PDP_FAIL_OPEN'', ps_UseZiti = env_true env_var ''PDP_USE_ZITI'',
     ps_ZitiIdentityFile = or_else (env_var ''PDP_ZITI_IDENTITY_PATH'')
        (or_else (env_var ''ZITI_IDENTITY_PATH'') ''docker/identities/gateway-dev.json''),
     ps_ZitiServiceName = or_else (env_var ''PDP_ZITI_SERVICE_NAME'') ''policy-decision-service''\<rparr>"

definition use_ziti :: "(string \<Rightarrow> string) \<Rightarrow> bool" where
  "use_ziti env_var = (\<not> equal_fold (trim (env_var ''USE_ZITI'')) ''false'')"

datatype listener = On_Service string | On_Port string

definition open_listener :: "outside \<Rightarrow> (string \<Rightarrow> string) \<Rightarrow> string + listener" where
  "open_listener out env_var =
     (if use_ziti env_var then
        (let service = or_else (env_var ''ZITI_SERVICE_NAME'') ''financial-ledger-service''
         in case NewZitiContext out (or_else (env_var ''ZITI_IDENTITY_PATH'') ''docker/identities/gateway-dev.json'') of
              (Some e, _) \<Rightarrow> Inl (''ZITI CONFIG ERROR: '' @ e)
            | (None, _) \<Rightarrow>
                (case out_listen_service out service of
                   Some e \<Rightarrow> Inl (''ZITI LISTEN ERROR: failed to listen on ziti service '' @ CHR 0x27 # service @ CHR 0x27 # '': '' @ e)
                 | None \<Rightarrow> Inr (On_Service service)))
      else (let addr = '':'' @ or_else (env_var ''PORT'') ''8080''
            in case out_listen_tcp out addr of Some e \<Rightarrow> Inl (''TCP LISTEN ERROR: '' @ e) | None \<Rightarrow> Inr (On_Port addr)))"

definition database_url :: "(string \<Rightarrow> string) \<Rightarrow> string" where
  "database_url env_var = or_else (env_var ''DATABASE_URL'')
     ''host=localhost port=5432 user=app_user password=app_secure_password_2026 dbname=fapi_db sslmode=disable''"

text \<open>What \<open>main\<close> does up to \<open>server.Serve\<close>: an error ends the process.  The routes it sets up are
  \<open>gateway_serve\<close>, which takes the resulting configuration; the URL of the key set is part of the
  input \<open>ge_fetch\<close> there.\<close>

definition gateway_main :: "outside \<Rightarrow> (string \<Rightarrow> string) \<Rightarrow> string + gateway_config \<times> listener" where
  "gateway_main out env_var =
     (case fst (pdp_New out (pdp_settings_of env_var)) of
        Inl e \<Rightarrow> Inl (''PDP ERROR: Failed to connect to Policy Decision Point at '' @ ps_Addr (pdp_settings_of env_var) @ '': '' @ e)
      | Inr client \<Rightarrow>
          (case out_database out (database_url env_var) of
             Some e \<Rightarrow> Inl (''DATABASE ERROR: Failed to connect to database: '' @ e)
           | None \<Rightarrow>
               (case open_listener out env_var of Inl e \<Rightarrow> Inl e
                | Inr l \<Rightarrow> Inr ((load_config env_var)\<lparr>gc_pdpClient := Some (pc_failOpen client)\<rparr>, l))))"

lemma started:
  assumes "gateway_main out env_var = Inr (cfg, l)"
  shows "cfg = load_config env_var" "(\<exists>s. l = On_Service s) \<longleftrightarrow> use_ziti env_var"
proof -
  from assms obtain c where c: "fst (pdp_New out (pdp_settings_of env_var)) = Inr c" "open_listener out env_var = Inr l"
      "cfg = (load_config env_var)\<lparr>gc_pdpClient := Some (pc_failOpen c)\<rparr>"
    by (auto simp: gateway_main_def split: sum.splits option.splits)
  have "pc_failOpen c = ps_FailOpen (pdp_settings_of env_var)"
    using pdp_connection [where out = out and cfg = "pdp_settings_of env_var"] c(1) by (auto split: prod.splits sum.splits)
  with c(3) show "cfg = load_config env_var"
    by (simp add: load_config_def pdp_settings_of_def env_true_def Let_def)
  show "(\<exists>s. l = On_Service s) \<longleftrightarrow> use_ziti env_var"
    using c(2) by (auto simp: open_listener_def Let_def split: if_splits option.splits prod.splits)
qed

text \<open>C23: a gateway that has started on the overlay is dark and bound: it serves an API request only to a
  connection with a network identity, which is the subject of the token; it always has a
  client of the policy service; and without any setting it runs on the overlay and fails
  closed.\<close>

theorem started_gateway_enforces:
  assumes "gateway_main out env_var = Inr (cfg, l)" "jwt_lawful (ge_jwt env)" "api_handler env cfg (rq_path r) = Some h"
  shows "gc_pdpClient cfg \<noteq> None
    \<and> ((\<exists>s. l = On_Service s) \<longrightarrow> gc_enforceZiti cfg \<and>
        (\<not> refused (fst (gateway_serve env cfg r g)) \<longrightarrow>
           (\<exists>jti claims. authenticated env cfg r g jti claims \<and> GetZitiIdentity (rq_conn r) \<noteq> [] \<and> Sub claims = GetZitiIdentity (rq_conn r))))
    \<and> ((\<forall>name. env_var name = []) \<longrightarrow> l = On_Service ''financial-ledger-service'' \<and> gc_pdpClient cfg = Some False)"
proof -
  note start = started [OF assms(1)]
  have "equal_fold [] ''false'' = False" "trim [] = []" by code_simp+
  then have enforced: "use_ziti env_var \<Longrightarrow> gc_enforceZiti cfg" "(\<forall>name. env_var name = []) \<Longrightarrow> use_ziti env_var"
    by (simp_all add: start(1) load_config_def use_ziti_def)
  have bound: "\<exists>jti claims. authenticated env cfg r g jti claims \<and> GetZitiIdentity (rq_conn r) \<noteq> [] \<and> Sub claims = GetZitiIdentity (rq_conn r)"
    if "use_ziti env_var" "\<not> refused (fst (gateway_serve env cfg r g))"
  proof (cases rule: serve_cases [OF assms(2,3), where g = g])
    case (2 jti claims hs1 g1)
    have "identity_ok cfg r (Sub claims)" using 2(2) by (auto simp: authenticated_def)
    with enforced(1) [OF that(1)] 2(2) show ?thesis by (auto simp: identity_ok_def)
  qed (use that in simp)
  have "l = On_Service ''financial-ledger-service'' \<and> gc_pdpClient cfg = Some False" if "\<forall>name. env_var name = []"
  proof -
    have "equal_fold [] ''true'' = False" "trim [] = []" by code_simp+
    then have "gc_pdpClient cfg = Some False" using that by (simp add: start(1) load_config_def)
    moreover have "open_listener out env_var = Inr l" using assms(1) by (auto simp: gateway_main_def split: sum.splits option.splits)
    ultimately show ?thesis using enforced(2) [OF that] that
      by (auto simp: open_listener_def or_else_def Let_def split: option.splits prod.splits)
  qed
  moreover have "gc_pdpClient cfg \<noteq> None" by (simp add: start(1) load_config_def Let_def)
  ultimately show ?thesis using enforced(1) bound start(2) by blast
qed

end
