(* ===== verification/PolicyFile.thy ===== *)
theory PolicyFile
  imports GatewayFacts
begin

text \<open>
  The file-based policy engine of \<^verbatim>\<open>gateway/internal/policy/pdp.go\<close> and the rules it is shipped
  with (\<^verbatim>\<open>gateway/config/policies.json\<close>): loading, evaluation, and how the shipped names relate
  to the names the middleware asks about.
\<close>

section \<open>Loading\<close>

definition policy_paths :: "string list" where
  "policy_paths = [''config/policies.json'', ''../gateway/config/policies.json'', ''../../gateway/config/policies.json'',
     ''../config/policies.json'']"

text \<open>The first path that can be read; the error is that of the last.\<close>

fun first_readable :: "(string \<Rightarrow> string + 'f) \<Rightarrow> string list \<Rightarrow> string \<Rightarrow> string + string \<times> 'f" where
  "first_readable read [] e = Inl e"
| "first_readable read (p # ps) e = (case read p of Inr content \<Rightarrow> Inr (p, content) | Inl e' \<Rightarrow> first_readable read ps e')"

definition string_item :: "json \<Rightarrow> string + string" where
  "string_item v = (case v of JStr s \<Rightarrow> Inr s | JNull \<Rightarrow> Inr [] | _ \<Rightarrow> Inl unmarshal_error)"

fun string_items :: "json list \<Rightarrow> string + string list" where
  "string_items [] = Inr []"
| "string_items (v # vs) = (case (string_item v, string_items vs) of (Inr s, Inr ss) \<Rightarrow> Inr (s # ss) | _ \<Rightarrow> Inl unmarshal_error)"

definition set_rule_field :: "string \<times> json \<Rightarrow> PolicyRule \<Rightarrow> string + PolicyRule" where
  "set_rule_field e q =
     (if equal_fold (fst e) ''role'' then
        (case snd e of JNull \<Rightarrow> Inr q | JStr s \<Rightarrow> Inr (q\<lparr>rule_Role := s\<rparr>) | _ \<Rightarrow> Inl unmarshal_error)
      else if equal_fold (fst e) ''resource'' then
        (case snd e of JNull \<Rightarrow> Inr q | JStr s \<Rightarrow> Inr (q\<lparr>rule_Resource := s\<rparr>) | _ \<Rightarrow> Inl unmarshal_error)
      else if equal_fold (fst e) ''actions'' then
        (case snd e of JNull \<Rightarrow> Inr (q\<lparr>rule_Actions := []\<rparr>) | JArr vs \<Rightarrow> map_sum id (\<lambda>ss. q\<lparr>rule_Actions := ss\<rparr>) (string_items vs)
         | _ \<Rightarrow> Inl unmarshal_error)
      else Inr q)"

definition empty_rule :: PolicyRule where
  "empty_rule = \<lparr>rule_Role = [], rule_Resource = [], rule_Actions = []\<rparr>"

definition decode_rule :: "json \<Rightarrow> string + PolicyRule" where
  "decode_rule v = (case v of JNull \<Rightarrow> Inr empty_rule | JObj ms \<Rightarrow> fold_result set_rule_field ms empty_rule | _ \<Rightarrow> Inl unmarshal_error)"

fun decode_rules :: "json list \<Rightarrow> string + PolicyRule list" where
  "decode_rules [] = Inr []"
| "decode_rules (v # vs) = (case (decode_rule v, decode_rules vs) of (Inr r, Inr rs) \<Rightarrow> Inr (r # rs) | (Inl e, _) \<Rightarrow> Inl e | (_, Inl e) \<Rightarrow> Inl e)"

definition unmarshal_rules :: "string + json \<Rightarrow> string + PolicyRule list" where
  "unmarshal_rules parsed = (case parsed of Inl e \<Rightarrow> Inl e | Inr JNull \<Rightarrow> Inr [] | Inr (JArr vs) \<Rightarrow> decode_rules vs | Inr _ \<Rightarrow> Inl unmarshal_error)"

text \<open>\<open>read\<close> gives a file's content as parsed JSON, or the syntax error.  An error leaves the engine as
  it was.\<close>

definition LoadPolicies :: "(string \<Rightarrow> string + (string + json)) \<Rightarrow> PolicyRule list option \<Rightarrow> string option \<times> PolicyRule list option" where
  "LoadPolicies read engine =
     (case first_readable read policy_paths [] of
        Inl e \<Rightarrow> (Some (''could not find policies.json: '' @ e), engine)
      | Inr (foundPath, content) \<Rightarrow>
          (case unmarshal_rules content of
             Inl e \<Rightarrow> (Some (''failed to parse policies.json from '' @ foundPath @ '': '' @ e), engine)
           | Inr rules \<Rightarrow> (None, Some rules)))"

section \<open>The shipped rules\<close>

definition rule_json :: "string \<Rightarrow> string \<Rightarrow> string list \<Rightarrow> json" where
  "rule_json role resource actions = JObj [(''role'', JStr role), (''resource'', JStr resource), (''actions'', JArr (map JStr actions))]"

definition shipped_policies :: json where
  "shipped_policies = JArr
     [rule_json ''operator'' ''balance'' [''READ''], rule_json ''operator'' ''transfer'' [''CREATE''],
      rule_json ''operator'' ''audit-logs'' [''READ''], rule_json ''viewer'' ''balance'' [''READ''],
      rule_json ''viewer'' ''audit-logs'' [''READ'']]"

definition shipped_rules :: "PolicyRule list" where
  "shipped_rules =
     [\<lparr>rule_Role = ''operator'', rule_Resource = ''balance'', rule_Actions = [''READ'']\<rparr>,
      \<lparr>rule_Role = ''operator'', rule_Resource = ''transfer'', rule_Actions = [''CREATE'']\<rparr>,
      \<lparr>rule_Role = ''operator'', rule_Resource = ''audit-logs'', rule_Actions = [''READ'']\<rparr>,
      \<lparr>rule_Role = ''viewer'', rule_Resource = ''balance'', rule_Actions = [''READ'']\<rparr>,
      \<lparr>rule_Role = ''viewer'', rule_Resource = ''audit-logs'', rule_Actions = [''READ'']\<rparr>]"

lemma rule_names: "equal_fold ''role'' ''role''" "\<not> equal_fold ''resource'' ''role''" "equal_fold ''resource'' ''resource''"
  "\<not> equal_fold ''actions'' ''role''" "\<not> equal_fold ''actions'' ''resource''" "equal_fold ''actions'' ''actions''"
  by code_simp+

lemma decode_rule_json: "string_items (map JStr actions) = Inr ss \<Longrightarrow>
    decode_rule (rule_json role resource actions) = Inr \<lparr>rule_Role = role, rule_Resource = resource, rule_Actions = ss\<rparr>"
  by (simp add: decode_rule_def rule_json_def set_rule_field_def rule_names empty_rule_def)

lemma string_items_texts [simp]: "string_items (map JStr ss) = Inr ss"
  by (induction ss) (simp_all add: string_item_def)

lemma unmarshal_shipped: "unmarshal_rules (Inr shipped_policies) = Inr shipped_rules"
  by (simp add: unmarshal_rules_def shipped_policies_def shipped_rules_def decode_rule_json [OF string_items_texts] del: list.map)

lemma first_readable_none: "\<forall>p \<in> set ps. \<exists>e. read p = Inl e \<Longrightarrow> \<exists>e'. first_readable read ps e = Inl e'"
  by (induction ps arbitrary: e) auto

text \<open>What the shipped rules allow, as a table.\<close>

lemma shipped_table: "Evaluate (Some shipped_rules) role resource action \<longleftrightarrow>
    (role = ''operator'' \<or> role = ''viewer'') \<and> (resource = ''balance'' \<or> resource = ''audit-logs'') \<and> action = ''READ''
    \<or> role = ''operator'' \<and> resource = ''transfer'' \<and> action = ''CREATE''"
  by (auto simp: Evaluate_def shipped_rules_def)

text \<open>The middleware asks about \<open>resource:balance\<close> where the rules say \<open>balance\<close>: loaded with the shipped
  file, the engine would deny every request of the gateway, whatever its role, path and method.\<close>

theorem shipped_rules_deny_gateway:
  assumes "read p = Inr (Inr shipped_policies)" "p \<in> set policy_paths" "\<forall>q \<in> set policy_paths. q \<noteq> p \<longrightarrow> (\<exists>e. read q = Inl e)"
  shows "LoadPolicies read engine = (None, Some shipped_rules)
    \<and> \<not> Evaluate (snd (LoadPolicies read engine)) role (pr_Resource (policy_request env claims r)) (pr_Action (policy_request env claims r))"
proof -
  have "\<exists>q. first_readable read ps e = Inr (q, Inr shipped_policies)" if "p \<in> set ps" "\<forall>q \<in> set ps. q \<noteq> p \<longrightarrow> (\<exists>e. read q = Inl e)" for ps e
    using that assms(1) by (induction ps arbitrary: e) (auto split: sum.split)
  with assms(2,3) obtain q where "first_readable read policy_paths [] = Inr (q, Inr shipped_policies)" by blast
  then have loaded: "LoadPolicies read engine = (None, Some shipped_rules)"
    by (simp add: LoadPolicies_def unmarshal_shipped)
  moreover have "resource_of p \<notin> {''balance'', ''transfer'', ''audit-logs''}" for p
    by (simp add: resource_of_def)
  ultimately show ?thesis by (auto simp: shipped_table policy_request_def Let_def)
qed

definition shipped_disk :: "string \<Rightarrow> string + (string + json)" where
  "shipped_disk p = (if p = ''config/policies.json'' then Inr (Inr shipped_policies) else Inl ''no such file'')"

theorem shipped_rules_deny_gateway_witness:
  "\<forall>env claims r. \<not> Evaluate (snd (LoadPolicies shipped_disk None)) ''operator''
     (pr_Resource (policy_request env claims r)) (pr_Action (policy_request env claims r))"
proof -
  have "shipped_disk ''config/policies.json'' = Inr (Inr shipped_policies)" "''config/policies.json'' \<in> set policy_paths"
    "\<forall>q \<in> set policy_paths. q \<noteq> ''config/policies.json'' \<longrightarrow> (\<exists>e. shipped_disk q = Inl e)"
    by (simp_all add: shipped_disk_def policy_paths_def)
  from shipped_rules_deny_gateway [OF this] show ?thesis by blast
qed

end
