(* ===== verification/CommandLine.thy ===== *)
theory CommandLine
  imports Fetch
begin

text \<open>
  The command-line client (\<^verbatim>\<open>client/main.go\<close>): its flags, the token exchange with the identity
  provider, and the three commands it sends to the gateway.  The networks are \<open>fetcher\<close>s over a
  world of their own: plain HTTP, and the OpenZiti overlay, whose opening can fail.  Keys,
  random bytes, the clock and the signer are inputs.  Log lines are not modelled; a run ends
  with what it prints or with the message it dies with.
\<close>

section \<open>Flags and inputs\<close>

record cli_flags =
  identityFlag :: string
  secretFlag :: string
  commandFlag :: string
  amountFlag :: rat
  descFlag :: string
  idpURLFlag :: string
  gatewayURLFlag :: string
  useZitiFlag :: bool

definition default_flags :: cli_flags where
  "default_flags = \<lparr>identityFlag = ''client-alice'', secretFlag = [], commandFlag = ''balance'', amountFlag = 0,
     descFlag = ''Giao dich PTIT Thesis ZTA'', idpURLFlag = ''http://localhost:8081'',
     gatewayURLFlag = ''http://gateway.ziti'', useZitiFlag = True\<rparr>"

definition clientSecrets :: "string \<rightharpoonup> string" where
  "clientSecrets = [''client-alice'' \<mapsto> ''alice-secure-secret-2026'',
     ''client-bob'' \<mapsto> ''bob-secure-secret-2026'', ''client-evil'' \<mapsto> ''evil-secure-secret-2026'']"

text \<open>\<open>ce_url_ok\<close>: whether \<open>http.NewRequest\<close> accepts a URL; its error is ignored, and the nil request
  is then dereferenced.\<close>

record cli_env =
  ce_key :: "string + private_key"
  ce_sign :: jwt_signer
  ce_pkce :: "string + bytes"
  ce_token_now :: instant
  ce_token_jti :: "string + bytes"
  ce_api_now :: instant
  ce_api_jti :: "string + bytes"
  ce_url_ok :: "string \<Rightarrow> bool"

datatype stop = Fatal string | Panic

datatype outcome = Died stop | Printed nat body

text \<open>The sequencing of steps that can stop the program.\<close>

definition step_then :: "(stop + 'a) \<times> 'w \<Rightarrow> ('a \<Rightarrow> 'w \<Rightarrow> (stop + 'b) \<times> 'w) \<Rightarrow> (stop + 'b) \<times> 'w" where
  "step_then r k = (case r of (Inl e, w) \<Rightarrow> (Inl e, w) | (Inr x, w) \<Rightarrow> k x w)"

lemma step_then_simps [simp]:
  "step_then (Inl e, w) k = (Inl e, w)" "step_then (Inr x, w) k = k x w"
  by (simp_all add: step_then_def)

definition fatal :: "string \<Rightarrow> string + 'a \<Rightarrow> stop + 'a" where
  "fatal what r = map_sum (\<lambda>e. Fatal (what @ e)) id r"

lemma fatal_simps [simp]: "fatal what (Inr x) = Inr x" "fatal what (Inl e) = Inl (Fatal (what @ e))"
  by (simp_all add: fatal_def)

definition do_request :: "cli_env \<Rightarrow> string \<Rightarrow> 'w fetcher \<Rightarrow> http_request \<Rightarrow> 'w \<Rightarrow> (stop + http_response) \<times> 'w" where
  "do_request env what fetch rq w =
     (if \<not> ce_url_ok env (hr_url rq) then (Inl Panic, w)
      else (let (r, w') = fetch rq w in (fatal what r, w')))"

section \<open>The token exchange\<close>

text \<open>Decoding an object into a structure: names match up to case, the last member counts, null
  leaves the field, another type is an error.\<close>

definition type_mismatch :: string where
  "type_mismatch = ''json: cannot unmarshal into Go value''"

fun string_field :: "string \<Rightarrow> members \<Rightarrow> string \<Rightarrow> string + string" where
  "string_field name [] s = Inr s"
| "string_field name ((k, v) # ms) s =
     (if equal_fold k name
      then (case v of JStr t \<Rightarrow> string_field name ms t | JNull \<Rightarrow> string_field name ms s | _ \<Rightarrow> Inl type_mismatch)
      else string_field name ms s)"

fun int_field :: "string \<Rightarrow> members \<Rightarrow> int \<Rightarrow> string + int" where
  "int_field name [] n = Inr n"
| "int_field name ((k, v) # ms) n =
     (if equal_fold k name
      then (case v of JNum q \<Rightarrow> if q = of_int \<lfloor>q\<rfloor> \<and> - (2 ^ 63) \<le> q \<and> q < 2 ^ 63 then int_field name ms \<lfloor>q\<rfloor> else Inl type_mismatch
         | JNull \<Rightarrow> int_field name ms n | _ \<Rightarrow> Inl type_mismatch)
      else int_field name ms n)"

record TokenResponse =
  tr_AccessToken :: string
  tr_TokenType :: string
  tr_ExpiresIn :: int
  tr_RefreshToken :: string

definition decode_code :: "string + json \<Rightarrow> string + string" where
  "decode_code body = (case body of Inl e \<Rightarrow> Inl e | Inr JNull \<Rightarrow> Inr [] | Inr (JObj ms) \<Rightarrow> string_field ''code'' ms []
     | Inr _ \<Rightarrow> Inl type_mismatch)"

definition decode_token :: "string + json \<Rightarrow> string + TokenResponse" where
  "decode_token body = (case body of Inl e \<Rightarrow> Inl e
     | Inr JNull \<Rightarrow> Inr \<lparr>tr_AccessToken = [], tr_TokenType = [], tr_ExpiresIn = 0, tr_RefreshToken = []\<rparr>
     | Inr (JObj ms) \<Rightarrow>
         (case (string_field ''access_token'' ms [], string_field ''token_type'' ms [], int_field ''expires_in'' ms 0,
              string_field ''refresh_token'' ms []) of
            (Inr a, Inr t, Inr n, Inr r) \<Rightarrow> Inr \<lparr>tr_AccessToken = a, tr_TokenType = t, tr_ExpiresIn = n, tr_RefreshToken = r\<rparr>
          | _ \<Rightarrow> Inl type_mismatch)
     | Inr _ \<Rightarrow> Inl type_mismatch)"

definition cli_auth_request :: "string \<Rightarrow> string \<Rightarrow> string \<Rightarrow> string \<Rightarrow> http_request" where
  "cli_auth_request idpBaseURL clientID clientSecret challenge = \<lparr>hr_url = idpBaseURL @ ''/authorize?response_type=code&client_id='' @ clientID
       @ ''&client_secret='' @ clientSecret @ ''&code_challenge='' @ challenge
       @ ''&code_challenge_method=S256&redirect_uri=http://localhost:8080/callback'',
     hr_method = ''GET'', hr_headers = [(''Accept'', ''application/json'')], hr_body = []\<rparr>"

text \<open>\<open>form.Encode\<close> writes the pairs in the order of their names.\<close>

definition cli_token_request :: "string \<Rightarrow> string \<Rightarrow> string \<Rightarrow> string \<Rightarrow> string \<Rightarrow> http_request" where
  "cli_token_request tokenURL code verifier clientSecret dpopProof = \<lparr>hr_url = tokenURL, hr_method = ''POST'',
     hr_headers = [(''Content-Type'', ''application/x-www-form-urlencoded''), (''DPoP'', dpopProof)],
     hr_body = form_encode go_kept [(''client_secret'', clientSecret), (''code'', code), (''code_verifier'', verifier),
        (''grant_type'', ''authorization_code'')]\<rparr>"

definition status_refused :: "string \<Rightarrow> http_response \<Rightarrow> stop" where
  "status_refused what resp = Fatal (what @ '' returned status '' @ show_nat (hp_status resp) @ '': '' @ hp_text resp)"

definition getDPoPBoundToken :: "cli_env \<Rightarrow> 'w fetcher \<Rightarrow> string \<Rightarrow> string \<Rightarrow> string \<Rightarrow> private_key \<Rightarrow> 'w \<Rightarrow> (stop + string) \<times> 'w" where
  "getDPoPBoundToken env fetch idpBaseURL clientID clientSecret dpopKey w =
     step_then (fatal [] (GeneratePKCE (ce_pkce env)), w) (\<lambda>(verifier, challenge) w.
     step_then (do_request env ''authorize request failed: '' fetch (cli_auth_request idpBaseURL clientID clientSecret challenge) w) (\<lambda>resp w.
     if hp_status resp \<noteq> StatusOK then (Inl (status_refused ''authorize'' resp), w)
     else step_then (fatal ''failed to parse auth code response: '' (decode_code (hp_json resp)), w) (\<lambda>code w.
     step_then (fatal ''failed to generate DPoP proof for token: ''
         (GenerateDPoPProof (ce_sign env) (ce_token_now env) (ce_token_jti env) dpopKey ''POST'' (idpBaseURL @ ''/token'') []), w) (\<lambda>dpopProof w.
     step_then (do_request env ''token exchange request failed: '' fetch
         (cli_token_request (idpBaseURL @ ''/token'') code verifier clientSecret dpopProof) w) (\<lambda>tokenResp w.
     if hp_status tokenResp \<noteq> StatusOK then (Inl (status_refused ''token exchange'' tokenResp), w)
     else step_then (fatal ''failed to parse token response: '' (decode_token (hp_json tokenResp)), w) (\<lambda>tr w.
       (Inr (tr_AccessToken tr), w)))))))"

section \<open>The commands\<close>

definition printAPIResponse :: "http_response \<Rightarrow> outcome" where
  "printAPIResponse resp = Printed (hp_status resp) (case hp_json resp of Inr v \<Rightarrow> Json v | Inl _ \<Rightarrow> Text (hp_text resp))"

definition finish :: "(stop + http_response) \<times> 'w \<Rightarrow> outcome \<times> 'w" where
  "finish r = ((case fst r of Inl e \<Rightarrow> Died e | Inr resp \<Rightarrow> printAPIResponse resp), snd r)"

definition api_call :: "cli_env \<Rightarrow> 'w fetcher \<Rightarrow> string \<Rightarrow> private_key \<Rightarrow> string \<Rightarrow> (string \<Rightarrow> http_request) \<Rightarrow> string \<Rightarrow> 'w \<Rightarrow> outcome \<times> 'w" where
  "api_call env fetch accessToken dpopKey verb request targetURL w =
     finish (step_then (fatal ''CRYPTO ERROR: Failed to generate API DPoP proof: ''
         (GenerateDPoPProof (ce_sign env) (ce_api_now env) (ce_api_jti env) dpopKey verb targetURL accessToken), w)
       (\<lambda>dpopProof w. do_request env ''GATEWAY CONNECTION ERROR: '' fetch (request dpopProof) w))"

definition get_request :: "string \<Rightarrow> string \<Rightarrow> string \<Rightarrow> http_request" where
  "get_request targetURL accessToken dpopProof = \<lparr>hr_url = targetURL, hr_method = ''GET'',
     hr_headers = [(''Authorization'', ''DPoP '' @ accessToken), (''DPoP'', dpopProof)], hr_body = []\<rparr>"

text \<open>\<open>json.Marshal\<close> of a map writes the members in the order of their names; \<open>marshal\<close> is its text.\<close>

definition transfer_payload :: "rat \<Rightarrow> string \<Rightarrow> json" where
  "transfer_payload amount desc = JObj [(''amount'', JNum amount), (''description'', JStr desc)]"

definition post_request :: "string \<Rightarrow> string \<Rightarrow> string \<Rightarrow> string \<Rightarrow> http_request" where
  "post_request targetURL accessToken payload dpopProof = \<lparr>hr_url = targetURL, hr_method = ''POST'',
     hr_headers = [(''Content-Type'', ''application/json''), (''Authorization'', ''DPoP '' @ accessToken), (''DPoP'', dpopProof)],
     hr_body = payload\<rparr>"

definition executeGetBalance :: "cli_env \<Rightarrow> 'w fetcher \<Rightarrow> string \<Rightarrow> string \<Rightarrow> private_key \<Rightarrow> 'w \<Rightarrow> outcome \<times> 'w" where
  "executeGetBalance env fetch gatewayURL accessToken dpopKey w =
     (let targetURL = gatewayURL @ ''/api/balance''
      in api_call env fetch accessToken dpopKey ''GET'' (get_request targetURL accessToken) targetURL w)"

definition executeTransfer :: "(json \<Rightarrow> string) \<Rightarrow> cli_env \<Rightarrow> 'w fetcher \<Rightarrow> string \<Rightarrow> string \<Rightarrow> private_key \<Rightarrow> rat \<Rightarrow> string \<Rightarrow> 'w \<Rightarrow> outcome \<times> 'w" where
  "executeTransfer marshal env fetch gatewayURL accessToken dpopKey amount desc w =
     (let targetURL = gatewayURL @ ''/api/transfer''
      in api_call env fetch accessToken dpopKey ''POST''
           (post_request targetURL accessToken (marshal (transfer_payload amount desc))) targetURL w)"

definition executeGetAuditLogs :: "cli_env \<Rightarrow> 'w fetcher \<Rightarrow> string \<Rightarrow> string \<Rightarrow> private_key \<Rightarrow> 'w \<Rightarrow> outcome \<times> 'w" where
  "executeGetAuditLogs env fetch gatewayURL accessToken dpopKey w =
     (let targetURL = gatewayURL @ ''/api/audit-logs''
      in api_call env fetch accessToken dpopKey ''GET'' (get_request targetURL accessToken) targetURL w)"

section \<open>The program\<close>

text \<open>\<open>overlay path\<close> is \<open>NewZitiClient\<close> with its HTTP client, whose requests all go to the service.\<close>

definition client_secret :: "cli_flags \<Rightarrow> string" where
  "client_secret flags = (if secretFlag flags = [] then (case clientSecrets (identityFlag flags) of None \<Rightarrow> [] | Some s \<Rightarrow> s)
     else secretFlag flags)"

definition transport :: "cli_flags \<Rightarrow> 'w fetcher \<Rightarrow> (string \<Rightarrow> string + 'w fetcher) \<Rightarrow> stop + 'w fetcher \<times> string" where
  "transport flags http overlay =
     (if useZitiFlag flags
      then map_sum id (\<lambda>f. (f, gatewayURLFlag flags)) (fatal ''ZITI CONFIG ERROR: '' (overlay (''docker/identities/'' @ identityFlag flags @ ''.json'')))
      else Inr (http, if gatewayURLFlag flags = ''http://gateway.ziti'' then ''http://localhost:8080'' else gatewayURLFlag flags))"

definition client_command :: "(json \<Rightarrow> string) \<Rightarrow> cli_env \<Rightarrow> cli_flags \<Rightarrow> 'w fetcher \<Rightarrow> string \<Rightarrow> string \<Rightarrow> private_key \<Rightarrow> 'w \<Rightarrow> outcome \<times> 'w" where
  "client_command marshal env flags fetch gatewayURL accessToken dpopKey w =
     (let command = map lower_char (commandFlag flags)
      in if command = ''balance'' then executeGetBalance env fetch gatewayURL accessToken dpopKey w
         else if command = ''transfer'' then
           (if amountFlag flags \<le> 0 then (Died (Fatal ''VALIDATION ERROR: Transfer amount must be greater than zero''), w)
            else executeTransfer marshal env fetch gatewayURL accessToken dpopKey (amountFlag flags) (descFlag flags) w)
         else if command = ''logs'' then executeGetAuditLogs env fetch gatewayURL accessToken dpopKey w
         else (Died (Fatal ''UNKNOWN COMMAND: Supported commands are balance, transfer, logs''), w))"

definition client_main :: "(json \<Rightarrow> string) \<Rightarrow> cli_env \<Rightarrow> cli_flags \<Rightarrow> 'w fetcher \<Rightarrow> (string \<Rightarrow> string + 'w fetcher) \<Rightarrow> 'w \<Rightarrow> outcome \<times> 'w" where
  "client_main marshal env flags http overlay w =
     (case ce_key env of
        Inl e \<Rightarrow> (Died (Fatal (''CRYPTO ERROR: Failed to generate DPoP EC key: '' @ e)), w)
      | Inr dpopKey \<Rightarrow>
          (case getDPoPBoundToken env http (idpURLFlag flags) (identityFlag flags) (client_secret flags) dpopKey w of
             (Inl Panic, w1) \<Rightarrow> (Died Panic, w1)
           | (Inl (Fatal e), w1) \<Rightarrow> (Died (Fatal (''AUTHENTICATION ERROR: Failed to obtain DPoP-bound token: '' @ e)), w1)
           | (Inr accessToken, w1) \<Rightarrow>
               (case transport flags http overlay of
                  Inl e \<Rightarrow> (Died e, w1)
                | Inr (fetch, gatewayURL) \<Rightarrow> client_command marshal env flags fetch gatewayURL accessToken dpopKey w1)))"

end
