(* ===== verification/GatewayRuns.thy ===== *)
theory GatewayRuns
  imports GatewayFacts Idp
begin

text \<open>
  Runs of the gateway: any sequence of requests and sweeps of the replay cache.  The ledger stays
  chained, its new rows belong to authenticated tenants, and a proof that was served is refused
  when it comes again.  The last section is about the key cache.
\<close>

datatype gateway_event = Serve gateway_env request | Cleanup instant

fun gateway_step :: "gateway_config \<Rightarrow> gateway_event \<Rightarrow> gateway \<Rightarrow> gateway" where
  "gateway_step cfg (Serve env r) g = snd (gateway_serve env cfg r g)"
| "gateway_step cfg (Cleanup now) g = g\<lparr>gw_jtis := cleanup_jtis now (gw_jtis g)\<rparr>"

text \<open>All requests of a run meet the same database server and JWT library.\<close>

fun event_ok :: "pg \<Rightarrow> members jwt_lib \<Rightarrow> gateway_event \<Rightarrow> bool" where
  "event_ok p lib (Serve env r) = (ge_pg env = p \<and> ge_jwt env = lib)"
| "event_ok p lib (Cleanup now) = True"

section \<open>The ledger under any requests\<close>

definition tenant_op :: "gateway_env \<Rightarrow> gateway_config \<Rightarrow> TokenClaims \<Rightarrow> db \<Rightarrow> db \<Rightarrow> bool" where
  "tenant_op env cfg claims d d' \<longleftrightarrow>
     d' = d \<or> (\<exists>op. op_tenant op = TenantID claims \<and> d' = db_step (ge_pg env) (gc_auditSecret cfg) op d)"

lemma handler_db:
  assumes "api_handler env cfg p = Some h"
  shows "tenant_op env cfg claims (gw_db g) (gw_db (snd (h (Some claims) hs r g)))"
proof -
  have b: "tenant_op env cfg claims (gw_db g) (gw_db (snd (GetBalanceHandler env cfg (Some claims) hs r g)))"
    unfolding tenant_op_def
    by (rule disjI2, rule exI [of _ "Op_Balance (ge_db env) (TenantID claims) (Sub claims)"])
       (auto simp: GetBalanceHandler_def db_failed_def db_succeeded_def split: prod.splits sum.splits)
  have l: "tenant_op env cfg claims (gw_db g) (gw_db (snd (GetAuditLogsHandler env cfg (Some claims) hs r g)))"
    unfolding tenant_op_def
    by (rule disjI2, rule exI [of _ "Op_Logs (ge_db env) (TenantID claims)"])
       (auto simp: GetAuditLogsHandler_def db_failed_def db_succeeded_def split: prod.splits sum.splits)
  have t: "tenant_op env cfg claims (gw_db g) (gw_db (snd (CreateTransferHandler env cfg (Some claims) hs r g)))"
  proof (cases "\<exists>amount description. decode_transfer (rq_body r) = Inr (amount, description) \<and> \<not> amount \<le> 0")
    case True
    then obtain amount description where "decode_transfer (rq_body r) = Inr (amount, description)" "\<not> amount \<le> 0" by blast
    then show ?thesis unfolding tenant_op_def
      by (intro disjI2 exI [of _ "Op_Create (ge_db env) (TenantID claims) amount description (Sub claims)"])
         (auto simp: CreateTransferHandler_def db_failed_def db_succeeded_def split: prod.splits sum.splits)
  next
    case False
    then show ?thesis
      by (auto simp: CreateTransferHandler_def tenant_op_def split: sum.splits)
  qed
  from assms b l t show ?thesis by (auto simp: api_handler_def split: if_splits)
qed

lemma serve_db:
  assumes "jwt_lawful (ge_jwt env)"
  shows "gw_db (snd (gateway_serve env cfg r g)) = gw_db g
    \<or> (\<exists>jti claims. authenticated env cfg r g jti claims \<and> policy_ok env cfg r claims
        \<and> tenant_op env cfg claims (gw_db g) (gw_db (snd (gateway_serve env cfg r g))))"
proof (cases "api_handler env cfg (rq_path r)")
  case None
  then show ?thesis by (simp add: serve_other)
next
  case (Some h)
  show ?thesis
  proof (cases rule: serve_cases [OF assms Some, where g = g])
    case 2
    then show ?thesis using handler_db [OF Some] by (metis secured_def)
  qed simp
qed

lemma gateway_step_inv:
  assumes "jwt_lawful lib" "ledger_inv p (gc_auditSecret cfg) (gw_db g)" "event_ok p lib e"
  shows "ledger_inv p (gc_auditSecret cfg) (gw_db (gateway_step cfg e g))"
proof (cases e)
  case (Serve env r)
  with assms(1,3) have "jwt_lawful (ge_jwt env)" "ge_pg env = p" by auto
  with serve_db [of env cfg r g] Serve assms(2) show ?thesis
    by (auto simp: tenant_op_def intro: db_step_inv)
qed (use assms in simp)

definition run_ok :: "pg \<Rightarrow> members jwt_lib \<Rightarrow> gateway_event \<Rightarrow> bool" where
  "run_ok p lib e \<longleftrightarrow> jwt_lawful lib \<and> event_ok p lib e"

interpretation gateway_run: machine "gateway_step cfg" "\<lambda>g. ledger_inv p (gc_auditSecret cfg) (gw_db g)" "run_ok p lib"
  for cfg p lib
  by unfold_locales (auto simp: run_ok_def intro: gateway_step_inv)

text \<open>C18: no request breaks the ledger.  Starting from an empty ledger, after every sequence of
  requests, valid or not, each tenant's rows are one hash chain keyed with the audit secret; and
  a request that changed the database was authenticated and allowed, and acted as one
  operation of the tenant named in its token.\<close>

theorem gateway_keeps_ledger:
  assumes "jwt_lawful lib" "list_all (event_ok p lib) es" "gw_db g = empty_db"
    and "event_ok p lib (Serve env r)"
    and g': "g' = fold (gateway_step cfg) es g"
  shows "linked p (gc_auditSecret cfg) zero_hash (tenant_log u (gw_db g'))
    \<and> (gw_db (snd (gateway_serve env cfg r g')) \<noteq> gw_db g' \<longrightarrow>
        (\<exists>jti claims op. authenticated env cfg r g' jti claims \<and> policy_ok env cfg r claims
           \<and> op_tenant op = TenantID claims
           \<and> gw_db (snd (gateway_serve env cfg r g')) = db_step p (gc_auditSecret cfg) op (gw_db g')))"
proof -
  have "list_all (run_ok p lib) es" using assms(1,2) by (auto simp: run_ok_def list_all_iff)
  then have "ledger_inv p (gc_auditSecret cfg) (gw_db g')"
    unfolding g' using gateway_run.run_inv [where p = p and lib = lib] ledger_inv_empty assms(3) by simp
  moreover have "jwt_lawful (ge_jwt env)" "ge_pg env = p" using assms(1,4) by auto
  ultimately show ?thesis
    using serve_db [of env cfg r g'] by (auto simp: ledger_inv_def tenant_op_def)
qed

section \<open>Replayed proofs\<close>

lemma handler_jtis:
  "api_handler env cfg p = Some h \<Longrightarrow> gw_jtis (snd (h c hs r g)) = gw_jtis g"
  by (auto simp: api_handler_def GetBalanceHandler_def CreateTransferHandler_def GetAuditLogsHandler_def
      db_failed_def db_succeeded_def split: if_splits option.splits sum.splits prod.splits)

lemma EnforcePolicy_jtis:
  assumes "\<And>c hs g. gw_jtis (snd (nxt c hs r g)) = gw_jtis g"
  shows "gw_jtis (snd (EnforcePolicy env cfg nxt c hs r g)) = gw_jtis g"
  using assms by (auto simp: EnforcePolicy_def Let_def split: option.splits prod.splits)

lemma verify_token_jtis:
  assumes "\<And>c hs g. gw_jtis (snd (nxt c hs r g)) = gw_jtis g"
  shows "gw_jtis (snd (verify_token env cfg nxt tok jkt hs r g)) = gw_jtis g"
proof -
  obtain p g2 where parsed: "parse_access_token env tok g = (p, g2)" by force
  then have "gw_jtis g2 = gw_jtis g" using parse_access_token_state(2) [of env tok g] by simp
  with assms parsed show ?thesis
    by (auto simp: verify_token_def split: sum.splits option.splits)
qed

lemma SecureAPI_jtis:
  assumes "\<And>c hs g. gw_jtis (snd (nxt c hs r g)) = gw_jtis g" "gw_jtis g j = Some e" "ge_jti_now env < e"
  shows "gw_jtis (snd (SecureAPI env cfg nxt c hs r g)) j = Some e"
proof -
  have keep: "c' j = Some e" if "IsJTIUsedAndSave (ge_jti_now env) i (2 * minute) (gw_jtis g) = (b, c')" for i b c'
    using that assms(2,3) by (auto simp: IsJTIUsedAndSave_def split: option.splits if_splits)
  have tail: "gw_jtis (snd (verify_token env cfg nxt tok jkt hs r x)) = gw_jtis x" for tok jkt x
    by (rule verify_token_jtis) (rule assms(1))
  show ?thesis
    using assms(2) by (auto simp: SecureAPI_def Let_def tail dest: keep split: option.splits prod.splits sum.splits bool.splits)
qed

lemma serve_jtis:
  assumes "gw_jtis g j = Some e" "ge_jti_now env < e"
  shows "gw_jtis (snd (gateway_serve env cfg r g)) j = Some e"
proof (cases "api_handler env cfg (rq_path r)")
  case None
  with assms show ?thesis by (simp add: serve_other)
next
  case (Some h)
  show ?thesis
    unfolding serve_api [OF Some]
    by (rule SecureAPI_jtis [OF _ assms]) (intro EnforcePolicy_jtis handler_jtis [OF Some])
qed

fun gateway_event_time :: "gateway_event \<Rightarrow> instant" where
  "gateway_event_time (Serve env r) = ge_jti_now env"
| "gateway_event_time (Cleanup now) = now"

lemma run_jtis:
  "gw_jtis g j = Some e \<Longrightarrow> list_all (\<lambda>x. gateway_event_time x < e) es \<Longrightarrow>
     gw_jtis (fold (gateway_step cfg) es g) j = Some e"
proof (induction es arbitrary: g)
  case (Cons x es)
  have "gw_jtis (gateway_step cfg x g) j = Some e"
    using Cons.prems by (cases x) (auto simp: serve_jtis cleanup_jtis_def)
  with Cons show ?case by simp
qed simp

lemma served_proof_refused:
  assumes "jwt_lawful (ge_jwt env1)" "ge_jwt env2 = ge_jwt env1" "rq_header r2 ''DPoP'' = rq_header r1 ''DPoP''"
    and "api_handler env1 cfg (rq_path r1) = Some h1" "api_handler env2 cfg (rq_path r2) = Some h2"
    and "\<not> refused (fst (gateway_serve env1 cfg r1 g))"
    and "list_all (\<lambda>x. gateway_event_time x < ge_jti_now env1 + 2 * minute) es"
    and "ge_jti_now env2 < ge_jti_now env1 + 2 * minute \<or> ge_proof_now env1 + 2 * minute < ge_proof_now env2"
    and g': "g' = fold (gateway_step cfg) es (snd (gateway_serve env1 cfg r1 g))"
  shows "refused (fst (gateway_serve env2 cfg r2 g')) \<and> gw_db (snd (gateway_serve env2 cfg r2 g')) = gw_db g'"
proof (cases rule: serve_cases [OF assms(1,4), where g = g])
  case 1
  with assms(6) show ?thesis by simp
next
  case (2 jti claims hs1 g1)
  have "gw_jtis (snd (gateway_serve env1 cfg r1 g)) jti = Some (ge_jti_now env1 + 2 * minute)"
    using 2 handler_jtis [OF assms(4)] by (simp add: secured_def)
  from run_jtis [OF this assms(7)] have live: "gw_jtis g' jti = Some (ge_jti_now env1 + 2 * minute)"
    by (simp add: g')
  have "jwt_lawful (ge_jwt env2)" using assms(1,2) by simp
  note second = serve_cases [OF this assms(5), where g = g']
  show ?thesis
  proof (cases rule: second)
    case (2 jti2 claims2 hs2 g2)
    have known: "\<exists>t q. jwt_decode (ge_jwt env) (rq_header r ''DPoP'') = Some t \<and> member (tk_claims t) ''jti'' = Some (JStr j)
        \<and> member (tk_claims t) ''iat'' = Some (JNum q) \<and> \<bar>ge_proof_now env - unix (trunc_rat q)\<bar> \<le> 60 * second
        \<and> (\<forall>e. gw_jtis x j = Some e \<longrightarrow> e \<le> ge_jti_now env)"
      if "authenticated env cfg r x j c" for env r x j c
      using that by (fastforce simp: authenticated_def proof_valid_def)
    from known [OF \<open>authenticated env1 cfg r1 g jti claims\<close>] obtain t q where t: "jwt_decode (ge_jwt env1) (rq_header r1 ''DPoP'') = Some t"
      "member (tk_claims t) ''jti'' = Some (JStr jti)" "member (tk_claims t) ''iat'' = Some (JNum q)"
      "\<bar>ge_proof_now env1 - unix (trunc_rat q)\<bar> \<le> 60 * second" by blast
    from known [OF 2(2)] t assms(2,3) have "jti2 = jti" "\<bar>ge_proof_now env2 - unix (trunc_rat q)\<bar> \<le> 60 * second"
      "\<forall>e. gw_jtis g' jti2 = Some e \<longrightarrow> e \<le> ge_jti_now env2" by auto
    with live t(4) assms(8) show ?thesis by (auto simp: minute_def)
  qed simp
qed

text \<open>C19: a proof is served once.  After a request was served, a second request with the same DPoP
  proof, whatever its method, URL and token and whatever happened in between, is refused and
  leaves the database alone: within two minutes of the first by the cache, and when the
  proof is verified more than two minutes after the first time by its iat.\<close>

theorem gateway_refuses_replay:
  assumes "jwt_lawful (ge_jwt env1)" "ge_jwt env2 = ge_jwt env1" "rq_header r2 ''DPoP'' = rq_header r1 ''DPoP''"
    and "api_handler env1 cfg (rq_path r1) = Some h1" "api_handler env2 cfg (rq_path r2) = Some h2"
    and "\<not> refused (fst (gateway_serve env1 cfg r1 g))"
    and "list_all (\<lambda>x. gateway_event_time x < ge_jti_now env1 + 2 * minute) es"
    and "ge_jti_now env2 < ge_jti_now env1 + 2 * minute \<or> ge_proof_now env1 + 2 * minute < ge_proof_now env2"
    and g': "g' = fold (gateway_step cfg) es (snd (gateway_serve env1 cfg r1 g))"
  shows "refused (fst (gateway_serve env2 cfg r2 g')) \<and> gw_db (snd (gateway_serve env2 cfg r2 g')) = gw_db g'"
  using assms by (rule served_proof_refused)

section \<open>The key set\<close>

lemma decode_served_key:
  "decode_key (JObj [(''kty'', JStr ''EC''), (''use'', JStr ''sig''), (''alg'', JStr ''ES256''),
     (''crv'', JStr ''P-256''), (''x'', JStr a), (''y'', JStr b), (''kid'', JStr ''idp-signing-key'')])
   = Inr \<lparr>k_Kty = ''EC'', k_Crv = ''P-256'', k_X = a, k_Y = b, k_Kid = ''idp-signing-key''\<rparr>"
proof -
  have fold: "\<not> equal_fold ''use'' k" "\<not> equal_fold ''alg'' k" if "k \<in> {''kty'', ''crv'', ''x'', ''y'', ''kid''}" for k
    using that by (auto simp: equal_fold_def lower_char_def)
  have more: "\<not> equal_fold ''crv'' ''kty''" "\<not> equal_fold ''x'' ''kty''" "\<not> equal_fold ''x'' ''crv''" "\<not> equal_fold ''y'' ''kty''"
    "\<not> equal_fold ''y'' ''crv''" "\<not> equal_fold ''y'' ''x''" "\<not> equal_fold ''kid'' ''kty''" "\<not> equal_fold ''kid'' ''crv''"
    "\<not> equal_fold ''kid'' ''x''" "\<not> equal_fold ''kid'' ''y''" by code_simp+
  show ?thesis by (simp add: decode_key_def set_key_field_def empty_key_def fold more)
qed

lemma fetch_served_key:
  assumes "coord_ok (fst pub)" "coord_ok (snd pub)" "rs_body (JWKSHandler pub) = Json v"
  shows "FetchKeys now (Inr (StatusOK, Inr v)) c = (None, c\<lparr>jc_keys := [''idp-signing-key'' \<mapsto> pub], jc_lastUpdate := now\<rparr>)"
proof -
  have "JWKToECDSA (coord_enc (fst pub)) (coord_enc (snd pub)) = Inr pub"
    using assms(1,2) coord.dec_enc by (simp add: JWKToECDSA_def)
  moreover have "v = JObj [(''keys'', JArr [JObj [(''kty'', JStr ''EC''), (''use'', JStr ''sig''), (''alg'', JStr ''ES256''),
     (''crv'', JStr ''P-256''), (''x'', JStr (coord_enc (fst pub))), (''y'', JStr (coord_enc (snd pub))), (''kid'', JStr ''idp-signing-key'')]])]"
    using assms(3) by (simp add: JWKSHandler_def)
  ultimately show ?thesis
    by (simp add: FetchKeys_def decode_jwks_def set_keys_def decode_served_key)
qed

text \<open>The gateway obtains the provider's key.  Fetching the key set the provider publishes makes
  its signing key, and no other, known under the identifier the provider's tokens name; while
  the cache is fresh no fetch is made, and when a refresh fails a cached key stays in use.\<close>

theorem jwks_roundtrip:
  assumes "coord_ok (fst pub)" "coord_ok (snd pub)" "rs_body (JWKSHandler pub) = Json v"
  shows "FetchKeys now (Inr (rs_status (JWKSHandler pub), Inr v)) c
      = (None, c\<lparr>jc_keys := [''idp-signing-key'' \<mapsto> pub], jc_lastUpdate := now\<rparr>)
    \<and> (0 < jc_ttl c \<longrightarrow> GetPublicKey now resp ''idp-signing-key'' (c\<lparr>jc_keys := [''idp-signing-key'' \<mapsto> pub], jc_lastUpdate := now\<rparr>)
        = (Inr pub, c\<lparr>jc_keys := [''idp-signing-key'' \<mapsto> pub], jc_lastUpdate := now\<rparr>))
    \<and> (jc_keys c kid = Some k \<longrightarrow> fst (GetPublicKey later (Inl e) kid c) = Inr k)"
  using fetch_served_key [OF assms] by (simp add: JWKSHandler_def GetPublicKey_def FetchKeys_def)

theorem jwks_roundtrip_witness:
  "\<exists>v. rs_body (JWKSHandler (7, 0)) = Json v
    \<and> fst (FetchKeys 0 (Inr (200, Inr v)) \<lparr>jc_keys = Map.empty, jc_lastUpdate = 0, jc_ttl = 5\<rparr>) = None"
proof -
  obtain v where v: "rs_body (JWKSHandler (7, 0)) = Json v" by (simp add: JWKSHandler_def)
  have "rs_status (JWKSHandler (7, 0)) = 200" by (simp add: JWKSHandler_def)
  with jwks_roundtrip [OF _ _ v, of 0 "\<lparr>jc_keys = Map.empty, jc_lastUpdate = 0, jc_ttl = 5\<rparr>"] v show ?thesis
    by (auto simp: coord_ok_def)
qed

end
