(* ===== verification/EndToEnd.thy ===== *)
theory EndToEnd
  imports GatewayRuns IdpFacts
begin

text \<open>
  Properties of the provider, the gateway and the ledger together: the token the provider issues
  gets its holder the tenant's balance, is worth nothing without the key it is bound to, and
  is worth nothing after a minute.
\<close>

section \<open>A request served\<close>

lemma split_dpop: "split_authorization (''DPoP '' @ tok) = Some (''DPoP'', tok)"
  by (simp add: split_authorization_def)

lemma member_token_claims:
  "member (token_claims now cl jkt) ''cnf'' = Some (JObj [(''jkt'', JStr jkt)])"
  "member (token_claims now cl jkt) ''sub'' = Some (JStr cl)"
  "member (token_claims now cl jkt) ''exp'' = Some (JNum (of_int ((now + 60 * second) div second)))"
  "member (token_claims now cl jkt) ''nbf'' = None"
  "member (token_claims now cl jkt) ''tenant_id'' = Some (JStr (fst (tenant_of_client cl)))"
  "member (token_claims now cl jkt) ''role'' = Some (JStr (snd (tenant_of_client cl)))"
  "member (token_claims now cl jkt) ''scope'' = Some (JStr ''transfer balance'')"
  by (simp_all add: member_def token_claims_def)

definition client_claims :: "string \<Rightarrow> string \<Rightarrow> TokenClaims" where
  "client_claims client jkt = \<lparr>Sub = client, TenantID = fst (tenant_of_client client), Role = snd (tenant_of_client client),
     Scope = ''transfer balance'', JKT = jkt\<rparr>"

lemma claims_of_issued: "claims_of_token (token_claims now cl jkt) = client_claims cl jkt"
  by (simp add: claims_of_token_def client_claims_def member_token_claims) (simp add: member_def)

definition issued_token_of :: "instant \<Rightarrow> string \<Rightarrow> string \<Rightarrow> members jwt_token" where
  "issued_token_of now client jkt = \<lparr>tk_alg = ''ES256'', tk_header = token_header, tk_claims = token_claims now client jkt\<rparr>"

lemma issued_token_kid: "token_kid (issued_token_of now client jkt) = Inr ''idp-signing-key''"
  by (simp add: token_kid_def issued_token_of_def token_header_def member_def ecdsa_algs_def)

lemma issued_decodes:
  assumes "signs_for sign lib" "sign token_header (token_claims now client jkt) key = Inr tok"
  shows "jwt_decode lib tok = Some (issued_token_of now client jkt)" "jwt_verify lib tok (public_key key)"
proof -
  have "str_of (member token_header ''alg'') = ''ES256''" by (simp add: token_header_def member_def)
  with assms show "jwt_decode lib tok = Some (issued_token_of now client jkt)" "jwt_verify lib tok (public_key key)"
    unfolding signs_for_def issued_token_of_def by metis+
qed

lemma serve_honest:
  assumes "jwt_lawful (ge_jwt env)" "api_handler env cfg (rq_path r) = Some h"
    and "rq_header r ''Authorization'' = ''DPoP '' @ tok" "rq_header r ''DPoP'' \<noteq> []"
    and "VerifyDPoPProof (ge_format env) (ge_jwt env) (ge_proof_now env) (rq_header r ''DPoP'') (rq_method r) (full_uri_gw r) tok = Inr (jkt, jti)"
    and "\<forall>e. gw_jtis g jti = Some e \<longrightarrow> e \<le> ge_jti_now env"
    and "jwt_decode (ge_jwt env) tok = Some (issued_token_of now client jkt)" "jwt_verify (ge_jwt env) tok k"
    and "jwt_fresh (ge_jwt env) (ge_token_now env) (token_claims now client jkt)"
    and "fst (GetPublicKey (ge_token_now env) (ge_fetch env) ''idp-signing-key'' (gw_jwks g)) = Inr k"
    and "identity_ok cfg r client" "policy_ok env cfg r (client_claims client jkt)"
  shows "\<exists>hs g1. gateway_serve env cfg r g = h (Some (client_claims client jkt)) hs r g1 \<and> gw_db g1 = gw_db g"
proof -
  have "\<not> fst (IsJTIUsedAndSave (ge_jti_now env) jti (2 * minute) (gw_jtis g))"
    using assms(6) by (auto simp: IsJTIUsedAndSave_def split: option.splits)
  then obtain c where used: "IsJTIUsedAndSave (ge_jti_now env) jti (2 * minute) (gw_jtis g) = (False, c)"
    by (cases "IsJTIUsedAndSave (ge_jti_now env) jti (2 * minute) (gw_jtis g)") auto
  define t where "t = issued_token_of now client jkt"
  obtain p g2 where parsed: "parse_access_token env tok (g\<lparr>gw_jtis := c\<rparr>) = (p, g2)" by force
  have "token_key env (gw_jwks g) t = Inr k"
    using assms(10) by (simp add: token_key_def t_def issued_token_kid)
  then have "jwt_parse (ge_jwt env) (ge_token_now env) tok (token_key env (gw_jwks g)) = Inr t"
    using assms(7-9) by (simp add: jwt_parse_ok [OF assms(1)] t_def) (simp add: issued_token_of_def)
  then have "p = Inr t"
    using parsed by (simp add: parse_access_token_def)
  moreover have "gw_db g2 = gw_db g"
    using parse_access_token_state(1) [of env tok "g\<lparr>gw_jtis := c\<rparr>"] parsed by simp
  moreover have "check_binding cfg (tk_claims t) jkt (GetZitiIdentity (rq_conn r)) = None"
    using assms(11) by (auto simp: check_binding_def t_def issued_token_of_def member_token_claims identity_ok_def)
       (simp_all add: member_def)
  moreover have "claims_of_token (tk_claims t) = client_claims client jkt"
    by (simp add: t_def issued_token_of_def claims_of_issued)
  moreover have "split_authorization (rq_header r ''Authorization'') = Some (''DPoP'', tok)" "rq_header r ''Authorization'' \<noteq> []"
    using assms(3) split_dpop by simp_all
  ultimately obtain hs1 g1 where first: "gateway_serve env cfg r g =
      EnforcePolicy env cfg h (Some (client_claims client jkt)) hs1 r g1" "gw_db g1 = gw_db g"
    using assms(4,5) used parsed
    by (simp add: serve_api [OF assms(2)] SecureAPI_def Let_def verify_token_def)
  have "\<exists>m f. gc_pdpClient cfg = Some f \<and> CheckAccess f (ge_pdp env) (policy_request env (client_claims client jkt) r) = (True, m, 0, None)"
    using assms(12) by (auto simp: policy_ok_def CheckAccess_def) blast
  then obtain m f where "gc_pdpClient cfg = Some f"
    "CheckAccess f (ge_pdp env) (policy_request env (client_claims client jkt) r) = (True, m, 0, None)" by blast
  with first(1) have "gateway_serve env cfg r g = h (Some (client_claims client jkt))
      (if m \<noteq> [] then set_header ''X-Matched-Policy-Id'' m (set_header ''X-Perf-PDP-Verify-Us'' (show_int (ge_pdp_us env)) hs1)
       else set_header ''X-Perf-PDP-Verify-Us'' (show_int (ge_pdp_us env)) hs1) r
      (g1\<lparr>gw_metrics := RecordPDPOverhead (ge_pdp_us env) (gw_metrics g1)\<rparr>)"
    by (simp add: EnforcePolicy_def Let_def)
  moreover have "gw_db (g1\<lparr>gw_metrics := RecordPDPOverhead (ge_pdp_us env) (gw_metrics g1)\<rparr>) = gw_db g"
    using first(2) by simp
  ultimately show ?thesis by (intro exI conjI)
qed

section \<open>The balance\<close>

lemma GetBalance_answers:
  assumes "\<forall>c. de_fault env c = None" "uuid_in p tenant = Some u" "uuid_in p (GetUserUUID sub) \<noteq> None" "tenant \<noteq> []" "k \<noteq> []"
  shows "fst (GetBalance p env k tenant sub d) = Inr (of_int (sum_list (map tr_cents (tenant_tx u d))) / 100, de_rls_us env, de_exec_us env)"
proof -
  obtain a where "uuid_in p (GetUserUUID sub) = Some a" using assms(3) by auto
  with assms show ?thesis
    by (simp add: GetBalance_def open_context_def tx_begin_def faulty_def sql_sum_amount_def rls_tenant_def visible_tx_def
        tenant_tx_def audit_and_commit_def sql_insert_audit_def hash_audit_record_def Let_def)
qed

lemma tenant_nonempty: "fst (tenant_of_client c) \<noteq> []"
  by (simp add: tenant_of_client_def)

lemma balance_answers:
  assumes "\<forall>c. de_fault (ge_db env) c = None" "uuid_in (ge_pg env) (TenantID claims) = Some u"
    and "uuid_in (ge_pg env) (GetUserUUID (Sub claims)) \<noteq> None" "TenantID claims \<noteq> []" "gc_auditSecret cfg \<noteq> []"
  shows "rs_status (fst (GetBalanceHandler env cfg (Some claims) hs r g)) = StatusOK"
    and "rs_body (fst (GetBalanceHandler env cfg (Some claims) hs r g)) = Json (JObj [(''tenant_id'', JStr (TenantID claims)),
        (''sub'', JStr (Sub claims)), (''role'', JStr (Role claims)),
        (''balance'', JNum (of_int (sum_list (map tr_cents (tenant_tx u (gw_db g)))) / 100))])"
  using GetBalance_answers [OF assms, where d = "gw_db g"] by (auto simp: GetBalanceHandler_def split: prod.splits)

text \<open>Tokens expire: the library's documented check, for claims without \<open>nbf\<close>.\<close>

definition checks_expiry :: "members jwt_lib \<Rightarrow> bool" where
  "checks_expiry lib \<longleftrightarrow> (\<forall>now c. member c ''nbf'' = None \<longrightarrow>
     (jwt_fresh lib now c \<longleftrightarrow> (case member c ''exp'' of Some (JNum q) \<Rightarrow> now < unix (trunc_rat q) | _ \<Rightarrow> True)))"

lemma token_fresh_iff:
  "checks_expiry lib \<Longrightarrow> jwt_fresh lib now (token_claims t client jkt) \<longleftrightarrow> now < unix ((t + 60 * second) div second)"
  by (simp add: checks_expiry_def member_token_claims)

lemma proof_claims_fresh: "checks_expiry lib \<Longrightarrow> jwt_fresh lib now (proof_claims t b m u a)"
  by (simp add: checks_expiry_def proof_claims_def member_def)

text \<open>What a request of the command-line client is, with its own key and its token.\<close>

definition client_request :: "jwt_signer \<Rightarrow> private_key \<Rightarrow> instant \<Rightarrow> bytes \<Rightarrow> string \<Rightarrow> request \<Rightarrow> bool" where
  "client_request sign key t0 jtiBytes tok r \<longleftrightarrow> rq_header r ''Authorization'' = ''DPoP '' @ tok \<and> rq_header r ''DPoP'' \<noteq> []
     \<and> GenerateDPoPProof sign t0 (Inr jtiBytes) key (rq_method r) (full_uri_gw r) tok = Inr (rq_header r ''DPoP'')"

definition key_ok :: "private_key \<Rightarrow> bool" where
  "key_ok key \<longleftrightarrow> coord_ok (fst (public_key key)) \<and> coord_ok (snd (public_key key))"

lemma honest_served:
  assumes "jwt_lawful (ge_jwt env)" "checks_expiry (ge_jwt env)" "signs_for sign (ge_jwt env)" "signs_for idp_sign (ge_jwt env)"
    and "key_ok key" "key_ok idp_key" "jtiBytes \<noteq> []"
    and "idp_sign token_header (token_claims issued client (client_thumbprint (public_key key))) idp_key = Inr tok"
    and "client_request sign key t0 jtiBytes tok r" "api_handler env cfg (rq_path r) = Some h"
    and "unix (t0 div second) \<le> ge_proof_now env" "ge_proof_now env \<le> unix (t0 div second) + 60 * second"
    and "ge_token_now env < unix ((issued + 60 * second) div second)"
    and "\<forall>e. gw_jtis g (hex_encode jtiBytes) = Some e \<longrightarrow> e \<le> ge_jti_now env"
    and "rs_body (JWKSHandler (public_key idp_key)) = Json v" "ge_fetch env = Inr (StatusOK, Inr v)" "jc_keys (gw_jwks g) = Map.empty"
    and "identity_ok cfg r client" "policy_ok env cfg r (client_claims client (client_thumbprint (public_key key)))"
  shows "\<exists>hs g1. gateway_serve env cfg r g = h (Some (client_claims client (client_thumbprint (public_key key)))) hs r g1 \<and> gw_db g1 = gw_db g"
proof -
  let ?jkt = "client_thumbprint (public_key key)"
  have accepted: "VerifyDPoPProof (ge_format env) (ge_jwt env) (ge_proof_now env) (rq_header r ''DPoP'') (rq_method r) (full_uri_gw r) tok
      = Inr (?jkt, hex_encode jtiBytes)"
    using assms(5,9) proof_claims_fresh [OF assms(2)] assms(7,11,12)
    by (intro honest_proof_gateway [OF assms(1,3)]) (auto simp: client_request_def key_ok_def)
  have "fst (GetPublicKey (ge_token_now env) (ge_fetch env) ''idp-signing-key'' (gw_jwks g)) = Inr (public_key idp_key)"
    using fetch_served_key [of "public_key idp_key" v "ge_token_now env" "gw_jwks g"] assms(6,15-17)
    by (simp add: GetPublicKey_def key_ok_def)
  then show ?thesis
    using serve_honest [OF assms(1,10) _ _ accepted assms(14) issued_decodes [OF assms(4,8)] _ _ assms(18,19)]
      assms(9,13) token_fresh_iff [OF assms(2)]
    by (auto simp: client_request_def)
qed

lemma honest_balance:
  assumes "jwt_lawful (ge_jwt env)" "checks_expiry (ge_jwt env)" "signs_for sign (ge_jwt env)" "signs_for idp_sign (ge_jwt env)"
    and "key_ok key" "key_ok idp_key" "jtiBytes \<noteq> []"
    and "idp_sign token_header (token_claims issued client (client_thumbprint (public_key key))) idp_key = Inr tok"
    and "client_request sign key t0 jtiBytes tok r" "rq_path r = ''/api/balance''"
    and "unix (t0 div second) \<le> ge_proof_now env" "ge_proof_now env \<le> unix (t0 div second) + 60 * second"
    and "ge_token_now env < unix ((issued + 60 * second) div second)"
    and "\<forall>e. gw_jtis g (hex_encode jtiBytes) = Some e \<longrightarrow> e \<le> ge_jti_now env"
    and "rs_body (JWKSHandler (public_key idp_key)) = Json v" "ge_fetch env = Inr (StatusOK, Inr v)" "jc_keys (gw_jwks g) = Map.empty"
    and "identity_ok cfg r client" "policy_ok env cfg r (client_claims client (client_thumbprint (public_key key)))"
    and "\<forall>c. de_fault (ge_db env) c = None" "gc_auditSecret cfg \<noteq> []"
    and "uuid_in (ge_pg env) (fst (tenant_of_client client)) = Some u" "uuid_in (ge_pg env) (GetUserUUID client) \<noteq> None"
  shows "rs_status (fst (gateway_serve env cfg r g)) = StatusOK
    \<and> rs_body (fst (gateway_serve env cfg r g)) = Json (JObj [(''tenant_id'', JStr (fst (tenant_of_client client))),
        (''sub'', JStr client), (''role'', JStr (snd (tenant_of_client client))),
        (''balance'', JNum (of_int (sum_list (map tr_cents (tenant_tx u (gw_db g)))) / 100))])"
proof -
  let ?jkt = "client_thumbprint (public_key key)"
  have h: "api_handler env cfg (rq_path r) = Some (GetBalanceHandler env cfg)" using assms(10) by (simp add: api_handler_def)
  from honest_served [OF assms(1-9) h assms(11-19)] obtain hs g1 where served: "gateway_serve env cfg r g = GetBalanceHandler env cfg (Some (client_claims client ?jkt)) hs r g1"
      "gw_db g1 = gw_db g" by blast
  show ?thesis
    using balance_answers [where claims = "client_claims client ?jkt", OF assms(20) _ _ _ assms(21), of u] assms(22,23) tenant_nonempty
    by (simp add: served client_claims_def)
qed

section \<open>A transfer\<close>

lemma CreateTransaction_answers:
  assumes "\<forall>c. de_fault env c = None" "uuid_in p tenant = Some u" "uuid_in p (GetUserUUID sub) \<noteq> None" "tenant \<noteq> []" "k \<noteq> []"
    and "\<bar>to_cents amount\<bar> < 10 ^ 15"
  shows "\<exists>t d' row. CreateTransaction p env k tenant amount desc sub d = (Inr (t, de_rls_us env, de_exec_us env), d')
    \<and> transactions d' = transactions d @ [row] \<and> tr_tenant row = u \<and> tr_cents row = to_cents amount"
proof -
  obtain a where "uuid_in p (GetUserUUID sub) = Some a" using assms(3) by auto
  with assms show ?thesis
    by (simp add: CreateTransaction_def open_context_def tx_begin_def faulty_def sql_insert_transaction_def rls_tenant_def
        audit_and_commit_def sql_insert_audit_def hash_audit_record_def tx_commit_def Let_def)
qed

lemma transfer_answers:
  assumes "\<forall>c. de_fault (ge_db env) c = None" "uuid_in (ge_pg env) (TenantID claims) = Some u"
    and "uuid_in (ge_pg env) (GetUserUUID (Sub claims)) \<noteq> None" "TenantID claims \<noteq> []" "gc_auditSecret cfg \<noteq> []"
    and "decode_transfer (rq_body r) = Inr (amount, desc)" "0 < amount" "\<bar>to_cents amount\<bar> < 10 ^ 15"
  shows "rs_status (fst (CreateTransferHandler env cfg (Some claims) hs r g)) = StatusCreated"
    and "\<exists>v. rs_body (fst (CreateTransferHandler env cfg (Some claims) hs r g)) = Json v"
    and "\<exists>row. tenant_tx u (gw_db (snd (CreateTransferHandler env cfg (Some claims) hs r g))) = tenant_tx u (gw_db g) @ [row]
      \<and> tr_cents row = to_cents amount"
    and "\<forall>u'. u' \<noteq> u \<longrightarrow> tenant_tx u' (gw_db (snd (CreateTransferHandler env cfg (Some claims) hs r g))) = tenant_tx u' (gw_db g)"
proof -
  from CreateTransaction_answers [OF assms(1-5,8), where desc = desc and d = "gw_db g"] obtain t d' row where
    "CreateTransaction (ge_pg env) (ge_db env) (gc_auditSecret cfg) (TenantID claims) amount desc (Sub claims) (gw_db g)
      = (Inr (t, de_rls_us (ge_db env), de_exec_us (ge_db env)), d')" "transactions d' = transactions (gw_db g) @ [row]"
    "tr_tenant row = u" "tr_cents row = to_cents amount" by blast
  with assms(6,7) show "rs_status (fst (CreateTransferHandler env cfg (Some claims) hs r g)) = StatusCreated"
    and "\<exists>v. rs_body (fst (CreateTransferHandler env cfg (Some claims) hs r g)) = Json v"
    and "\<exists>row. tenant_tx u (gw_db (snd (CreateTransferHandler env cfg (Some claims) hs r g))) = tenant_tx u (gw_db g) @ [row]
      \<and> tr_cents row = to_cents amount"
    and "\<forall>u'. u' \<noteq> u \<longrightarrow> tenant_tx u' (gw_db (snd (CreateTransferHandler env cfg (Some claims) hs r g))) = tenant_tx u' (gw_db g)"
    by (auto simp: CreateTransferHandler_def tenant_tx_def db_succeeded_def)
qed

text \<open>The handler asks for an amount above zero; the column keeps two decimals.  An amount below half a
  cent passes the check and is recorded as 0.00.\<close>

lemma tiny_amount: "0 < amount \<Longrightarrow> amount < 1 / 200 \<Longrightarrow> to_cents amount = 0"
  by (simp add: to_cents_def floor_eq_iff)

section \<open>Stolen and expired tokens\<close>

lemma authenticated_token:
  assumes "authenticated env cfg r g jti claims" "split_authorization (rq_header r ''Authorization'') = Some (scheme, tok)"
    and "jwt_decode (ge_jwt env) tok = Some (issued_token_of t client jkt)"
  shows "jwt_fresh (ge_jwt env) (ge_token_now env) (token_claims t client jkt)"
    and "\<exists>p x y k. jwt_decode (ge_jwt env) (rq_header r ''DPoP'') = Some p \<and> str_of (member (header_jwk p) ''x'') = x
      \<and> str_of (member (header_jwk p) ''y'') = y \<and> jwt_verify (ge_jwt env) (rq_header r ''DPoP'') k
      \<and> JWKToECDSA x y = Inr k \<and> CalculateJWKThumbprint x y = jkt"
    and "claims = client_claims client jkt"
proof -
  have jkt: "member [(''jkt'', JStr jkt)] ''jkt'' = Some (JStr jkt)" by (simp add: member_def)
  from assms obtain jkt' where fresh: "jwt_fresh (ge_jwt env) (ge_token_now env) (token_claims t client jkt)"
    "claims = claims_of_token (token_claims t client jkt)" and "member [(''jkt'', JStr jkt)] ''jkt'' = Some (JStr jkt')"
    and "proof_valid (ge_proof_now env) (ge_jwt env) (rq_header r ''DPoP'') (rq_method r) (full_uri_gw r) tok (jkt', jti)"
    unfolding authenticated_def by (auto simp: issued_token_of_def member_token_claims)
  with jkt have valid: "proof_valid (ge_proof_now env) (ge_jwt env) (rq_header r ''DPoP'') (rq_method r) (full_uri_gw r) tok (jkt, jti)"
    by simp
  show "\<exists>p x y k. jwt_decode (ge_jwt env) (rq_header r ''DPoP'') = Some p \<and> str_of (member (header_jwk p) ''x'') = x
      \<and> str_of (member (header_jwk p) ''y'') = y \<and> jwt_verify (ge_jwt env) (rq_header r ''DPoP'') k
      \<and> JWKToECDSA x y = Inr k \<and> CalculateJWKThumbprint x y = jkt"
    using valid unfolding proof_valid_def by auto
  show "jwt_fresh (ge_jwt env) (ge_token_now env) (token_claims t client jkt)" "claims = client_claims client jkt"
    using fresh by (simp_all add: claims_of_issued)
qed

definition proof_jwk_text :: "members jwt_token \<Rightarrow> string" where
  "proof_jwk_text p = jwk_text (str_of (member (header_jwk p) ''x'')) (str_of (member (header_jwk p) ''y''))"

definition key_text :: "point \<Rightarrow> string" where
  "key_text pub = jwk_text (coord_enc (fst pub)) (coord_enc (snd pub))"

text \<open>C30: a stolen token is useless.  A token bound to a key is refused, whatever the request and the
  proof sent along, unless that proof verifies under the very key; the only way around is a
  proof whose header holds a second preimage of the key's SHA-256 thumbprint.\<close>

theorem stolen_token_refused:
  assumes "jwt_lawful (ge_jwt env)" "signs_for idp_sign (ge_jwt env)" "key_ok key"
    and "idp_sign token_header (token_claims issued client (client_thumbprint (public_key key))) idp_key = Inr tok"
    and "split_authorization (rq_header r ''Authorization'') = Some (scheme, tok)"
    and "\<not> jwt_verify (ge_jwt env) (rq_header r ''DPoP'') (public_key key)"
    and "api_handler env cfg (rq_path r) = Some h"
  shows "refused (fst (gateway_serve env cfg r g)) \<and> gw_db (snd (gateway_serve env cfg r g)) = gw_db g
    \<or> (\<exists>p. jwt_decode (ge_jwt env) (rq_header r ''DPoP'') = Some p \<and> proof_jwk_text p \<noteq> key_text (public_key key)
        \<and> sha256 (str_bytes (proof_jwk_text p)) = sha256 (str_bytes (key_text (public_key key))))"
proof (cases rule: serve_cases [OF assms(1,7), where g = g])
  case (2 jti claims hs1 g1)
  let ?x = "coord_enc (fst (public_key key))" and ?y = "coord_enc (snd (public_key key))"
  from authenticated_token(2) [OF 2(2) assms(5) issued_decodes(1) [OF assms(2,4)]] obtain p x y k where
    p: "jwt_decode (ge_jwt env) (rq_header r ''DPoP'') = Some p" "proof_jwk_text p = jwk_text x y"
    and k: "jwt_verify (ge_jwt env) (rq_header r ''DPoP'') k" "JWKToECDSA x y = Inr k"
      "CalculateJWKThumbprint x y = client_thumbprint (public_key key)" by (auto simp: proof_jwk_text_def)
  have own: "JWKToECDSA ?x ?y = Inr (public_key key)"
    using assms(3) coord.dec_enc by (simp add: JWKToECDSA_ok key_ok_def)
  have "sha256 (str_bytes (proof_jwk_text p)) = sha256 (str_bytes (key_text (public_key key)))"
    using k(3) by (simp add: CalculateJWKThumbprint_def client_thumbprint_def sha256_b64_def p(2) key_text_def)
  moreover have "jwk_text x y \<noteq> jwk_text ?x ?y"
  proof
    assume "jwk_text x y = jwk_text ?x ?y"
    then have "x = ?x \<and> y = ?y"
      using k(2) own by (subst (asm) jwk_text_inject) (auto simp: JWKToECDSA_ok dest: coord_dec_no_quote)
    with k own assms(6) show False by auto
  qed
  ultimately show ?thesis using p by (auto simp: key_text_def)
qed simp

text \<open>C31: a token is good for a minute.  From 60 seconds after its issue on, every request that
  carries it is refused, whoever sends it and however well it proves possession of the key.\<close>

theorem expired_token_refused:
  assumes "jwt_lawful (ge_jwt env)" "checks_expiry (ge_jwt env)" "signs_for idp_sign (ge_jwt env)"
    and "idp_sign token_header (token_claims issued client jkt) idp_key = Inr tok"
    and "split_authorization (rq_header r ''Authorization'') = Some (scheme, tok)"
    and "issued + 60 * second \<le> ge_token_now env" "api_handler env cfg (rq_path r) = Some h"
  shows "refused (fst (gateway_serve env cfg r g)) \<and> gw_db (snd (gateway_serve env cfg r g)) = gw_db g"
proof (cases rule: serve_cases [OF assms(1,7), where g = g])
  case (2 jti claims hs1 g1)
  have "ge_token_now env < unix ((issued + 60 * second) div second)"
    using authenticated_token(1) [OF 2(2) assms(5) issued_decodes(1) [OF assms(3,4)]] token_fresh_iff [OF assms(2)] by simp
  moreover have "(issued + 60 * second) div second * second \<le> issued + 60 * second"
    by (simp add: second_def)
  ultimately show ?thesis using assms(6) by (simp add: unix_def)
qed simp

section \<open>An example run\<close>

definition gw_claims :: members where
  "gw_claims = proof_claims 0 [1] ''GET'' ''http://h/api/balance'' ''tok''"

definition alice_token :: "members jwt_token" where
  "alice_token = issued_token_of 0 ''client-alice'' (client_thumbprint (7, 0))"

definition gw_lib :: "members jwt_lib" where
  "gw_lib = simple_jwt
     (\<lambda>s. if s = ''p'' then Some \<lparr>tk_alg = ''ES256'', tk_header = proof_header (7, 0), tk_claims = gw_claims\<rparr>
          else if s = ''tok'' then Some alice_token else None)
     (\<lambda>s k. s = ''p'' \<and> k = (7, 0) \<or> s = ''tok'' \<and> k = (9, 0))
     (\<lambda>now c. case member c ''exp'' of Some (JNum q) \<Rightarrow> now < unix (trunc_rat q) | _ \<Rightarrow> True)"

definition gw_sign :: jwt_signer where
  "gw_sign h c k = (if h = proof_header (7, 0) \<and> c = gw_claims \<and> k = (1, 7, 0) then Inr ''p'' else Inl ''no key'')"

definition gw_idp_sign :: jwt_signer where
  "gw_idp_sign h c k = (if h = token_header \<and> c = tk_claims alice_token \<and> k = (2, 9, 0) then Inr ''tok'' else Inl ''no key'')"

definition gw_jwks_json :: json where
  "gw_jwks_json = (case rs_body (JWKSHandler (9, 0)) of Json v \<Rightarrow> v | Text _ \<Rightarrow> JNull)"

definition gw_env :: gateway_env where
  "gw_env = \<lparr>ge_format = show_int, ge_rfc3339 = show_int, ge_jwt = gw_lib, ge_pdp = (\<lambda>_. Inr (ALLOW, ''allow-1'')), ge_pg = sample_pg,
     ge_db = sample_env, ge_fetch = Inr (200, Inr gw_jwks_json), ge_proof_now = 0, ge_jti_now = 0, ge_token_now = 0, ge_utc = ''00:00:00Z'',
     ge_dpop_us = 1, ge_token_us = 1, ge_ziti_us = 1, ge_pdp_us = 1\<rparr>"

definition gw_request :: "string \<Rightarrow> request" where
  "gw_request proof_text = \<lparr>rq_method = ''GET'', rq_host = ''h'', rq_path = ''/api/balance'', rq_tls = False, rq_remote = [],
     rq_header = (\<lambda>_. [])(''Authorization'' := ''DPoP '' @ ''tok'', ''DPoP'' := proof_text), rq_query = (\<lambda>_. []), rq_form = Inl [],
     rq_body = Inl ''EOF'', rq_conn = Some \<lparr>source_identifier = Some ''client-alice''\<rparr>\<rparr>"

definition gw_config :: gateway_config where
  "gw_config = \<lparr>gc_enforceZiti = True, gc_pdpClient = Some False, gc_auditSecret = ''k''\<rparr>"

definition gw_start :: gateway where
  "gw_start = \<lparr>gw_jtis = Map.empty, gw_jwks = \<lparr>jc_keys = Map.empty, jc_lastUpdate = 0, jc_ttl = 5 * minute\<rparr>,
     gw_metrics = empty_metrics, gw_db = empty_db\<rparr>"

lemma gw_lib_facts: "jwt_lawful gw_lib" "checks_expiry gw_lib" "signs_for gw_sign gw_lib" "signs_for gw_idp_sign gw_lib"
proof -
  show "jwt_lawful gw_lib" by (simp add: gw_lib_def simple_jwt_lawful)
  show "checks_expiry gw_lib" by (simp add: checks_expiry_def gw_lib_def simple_jwt_def)
  show "signs_for gw_sign gw_lib"
    by (auto simp: signs_for_def gw_sign_def gw_lib_def simple_jwt_def public_key_def proof_header_def member_def split: if_splits)
  show "signs_for gw_idp_sign gw_lib"
    by (auto simp: signs_for_def gw_idp_sign_def gw_lib_def simple_jwt_def public_key_def token_header_def member_def
        alice_token_def issued_token_of_def split: if_splits)
qed

lemma gw_env_simps [simp]:
  "ge_jwt gw_env = gw_lib" "ge_pg gw_env = sample_pg" "ge_proof_now gw_env = 0" "ge_jti_now gw_env = 0" "ge_token_now gw_env = 0"
  "ge_db gw_env = sample_env" "ge_fetch gw_env = Inr (200, Inr gw_jwks_json)"
  by (simp_all add: gw_env_def)

lemma gw_token: "gw_idp_sign token_header (token_claims 0 ''client-alice'' (client_thumbprint (public_key (1, 7, 0)))) (2, 9, 0) = Inr ''tok''"
  by (simp add: gw_idp_sign_def alice_token_def issued_token_of_def public_key_def)

lemma gw_client_request: "client_request gw_sign (1, 7, 0) 0 [1] ''tok'' (gw_request ''p'')"
  by (simp add: client_request_def gw_request_def GenerateDPoPProof_def gw_sign_def public_key_def gw_claims_def full_uri_gw_def)

lemma gw_keys: "key_ok (1, 7, 0)" "key_ok (2, 9, 0)"
  by (simp_all add: key_ok_def public_key_def coord_ok_def)

lemma gw_clock: "unix (0 div second) \<le> 0" "0 \<le> unix (0 div second) + 60 * second" "0 < unix ((0 + 60 * second) div second)"
  by (simp_all add: unix_def second_def)

lemma gw_permits:
  "identity_ok gw_config (gw_request p) ''client-alice''" "policy_ok gw_env gw_config r c" "gc_auditSecret gw_config \<noteq> []"
  "\<forall>c. de_fault sample_env c = None" "rq_path (gw_request p) = ''/api/balance''"
  "rs_body (JWKSHandler (public_key (2, 9, 0))) = Json gw_jwks_json" "jc_keys (gw_jwks gw_start) = Map.empty"
  by (simp_all add: identity_ok_def gw_config_def gw_request_def GetZitiIdentity_def policy_ok_def gw_env_def sample_env_def
      gw_jwks_json_def JWKSHandler_def public_key_def gw_start_def)

lemma gw_uuids: "uuid_in sample_pg s = Some s"
  by (simp add: sample_pg_def)

lemma gw_jtis_start: "\<forall>e. gw_jtis gw_start j = Some e \<longrightarrow> e \<le> t"
  by (simp add: gw_start_def)

lemma gw_served: "rs_status (fst (gateway_serve gw_env gw_config (gw_request ''p'') gw_start)) = StatusOK"
  using honest_balance [of gw_env gw_sign gw_idp_sign "(1, 7, 0)" "(2, 9, 0)" "[1]" 0 "''client-alice''" "''tok''" 0 "gw_request ''p''"
      gw_start gw_jwks_json gw_config "fst (tenant_of_client ''client-alice'')"]
    gw_lib_facts gw_token gw_client_request gw_keys gw_clock gw_permits gw_uuids gw_jtis_start
  by simp

lemma gw_api: "api_handler gw_env gw_config (rq_path (gw_request p)) = Some (GetBalanceHandler gw_env gw_config)"
  by (simp add: api_handler_def gw_request_def)

theorem gateway_fails_closed_witness:
  "\<exists>jti claims. authenticated gw_env gw_config (gw_request ''p'') gw_start jti claims"
proof -
  have "jwt_lawful (ge_jwt gw_env)" by (simp add: gw_lib_facts)
  from gateway_fails_closed [OF this gw_api, of "''p''" gw_start] gw_served show ?thesis
    by (auto simp: refused_def)
qed

theorem gateway_keeps_ledger_witness:
  "linked sample_pg ''k'' zero_hash (tenant_log ''11111111-1111-1111-1111-111111111111'' (gw_db (fold (gateway_step gw_config) [Serve gw_env (gw_request ''p'')] gw_start)))"
proof -
  have "list_all (event_ok sample_pg gw_lib) [Serve gw_env (gw_request ''p'')]" "gw_db gw_start = empty_db"
    "event_ok sample_pg gw_lib (Serve gw_env (gw_request ''p''))"
    by (simp_all add: gw_start_def)
  from gateway_keeps_ledger [OF gw_lib_facts(1) this refl, of gw_config "''11111111-1111-1111-1111-111111111111''"] show ?thesis
    by (simp add: gw_config_def)
qed

theorem gateway_refuses_replay_witness:
  "refused (fst (gateway_serve gw_env gw_config (gw_request ''p'')
     (fold (gateway_step gw_config) [] (snd (gateway_serve gw_env gw_config (gw_request ''p'') gw_start)))))"
proof -
  have "jwt_lawful (ge_jwt gw_env)" by (simp add: gw_lib_facts)
  moreover have "\<not> refused (fst (gateway_serve gw_env gw_config (gw_request ''p'') gw_start))"
    using gw_served by (simp add: refused_def)
  ultimately show ?thesis
    using gateway_refuses_replay [OF _ refl refl gw_api gw_api, of "''p''" gw_start "[]" _] by (simp add: minute_def)
qed

lemma gw_split: "split_authorization (rq_header (gw_request p) ''Authorization'') = Some (''DPoP'', ''tok'')"
  using split_dpop [of "''tok''"] by (simp add: gw_request_def)

theorem stolen_token_refused_witness:
  "refused (fst (gateway_serve gw_env gw_config (gw_request ''q'') gw_start))"
proof -
  have "jwt_decode gw_lib (rq_header (gw_request ''q'') ''DPoP'') = None"
    "\<not> jwt_verify gw_lib (rq_header (gw_request ''q'') ''DPoP'') (public_key (1, 7, 0))"
    by (simp_all add: gw_request_def gw_lib_def simple_jwt_def)
  then show ?thesis
    using stolen_token_refused [of gw_env gw_idp_sign "(1, 7, 0)" 0 "''client-alice''" "(2, 9, 0)" "''tok''" "gw_request ''q''" "''DPoP''"
        gw_config _ gw_start, OF _ _ gw_keys(1) gw_token gw_split _ gw_api] gw_lib_facts
    by simp
qed

theorem expired_token_refused_witness:
  "refused (fst (gateway_serve (gw_env\<lparr>ge_token_now := 61 * second\<rparr>) gw_config (gw_request ''p'') gw_start))"
proof -
  have "api_handler (gw_env\<lparr>ge_token_now := 61 * second\<rparr>) gw_config (rq_path (gw_request ''p''))
      = Some (GetBalanceHandler (gw_env\<lparr>ge_token_now := 61 * second\<rparr>) gw_config)"
    by (simp add: api_handler_def gw_request_def)
  from expired_token_refused [of "gw_env\<lparr>ge_token_now := 61 * second\<rparr>" gw_idp_sign 0 "''client-alice''"
      "client_thumbprint (public_key (1, 7, 0))" "(2, 9, 0)" "''tok''" "gw_request ''p''" "''DPoP''", OF _ _ _ gw_token gw_split _ this, of gw_start] gw_lib_facts show ?thesis
    by (simp add: second_def)
qed

end
