(* ===== verification/ClientRun.thy ===== *)
theory ClientRun
  imports CommandLine Exchange EndToEnd
begin

text \<open>
  The command-line client against this provider and this gateway: a whole run of the program,
  from the PKCE verifier to the printed balance, and what it does when it is refused.
\<close>

section \<open>The services behind the networks\<close>

text \<open>The gateway as a server: the connection carries the network identity, \<open>decode\<close> is Go's decoder of
  the request body.\<close>

definition gateway_host :: "gateway_env \<Rightarrow> gateway_config \<Rightarrow> conn option \<Rightarrow> (string \<Rightarrow> string + json) \<Rightarrow> (nat \<Rightarrow> string) \<Rightarrow> gateway fetcher" where
  "gateway_host env cfg cn decode status_text rq g =
     (let (r, g') = gateway_serve env cfg ((request_of rq)\<lparr>rq_conn := cn, rq_body := decode (hr_body rq)\<rparr>) g
      in (Inr (go_answer status_text r), g'))"

text \<open>The overlay leads to the gateway's service only.\<close>

definition over :: "'g fetcher \<Rightarrow> ('s \<times> 'g) fetcher" where
  "over f rq w = (let (a, g') = f rq (snd w) in (a, fst w, g'))"

definition ziti_conn :: "string \<Rightarrow> conn option" where
  "ziti_conn client = Some \<lparr>source_identifier = Some client\<rparr>"

section \<open>Its requests as received\<close>

lemma secrets_agree: "clientSecrets = RegisteredClients"
  by (simp add: clientSecrets_def RegisteredClients_def)

lemma cli_auth_url: "hr_url (cli_auth_request base client secret challenge) = auth_url base client secret challenge"
  by (simp add: cli_auth_request_def auth_url_def auth_pairs_def join_with_def)

lemma cli_auth_received:
  assumes "RegisteredClients client = Some secret" "plain_text challenge"
  shows "rq_query (request_of (cli_auth_request idp_address client secret challenge)) = lookup_text (auth_pairs client secret challenge)"
    and "rq_header (request_of (cli_auth_request idp_address client secret challenge)) ''Accept'' = ''application/json''"
    and "starts_with (hr_url (cli_auth_request idp_address client secret challenge)) idp_address"
    and "rq_path (request_of (cli_auth_request idp_address client secret challenge)) = ''/authorize''"
proof -
  have "CHR ''?'' \<notin> set idp_address" by (simp add: idp_address_def)
  then show "rq_query (request_of (cli_auth_request idp_address client secret challenge)) = lookup_text (auth_pairs client secret challenge)"
    using auth_url_query [of idp_address client secret challenge] assms client_plain [OF assms(1)]
    by (simp add: request_of_def cli_auth_url)
qed (simp_all add: cli_auth_request_def request_of_def idp_address_def url_path_def)

definition cli_token_pairs :: "string \<Rightarrow> string \<Rightarrow> string \<Rightarrow> (string \<times> string) list" where
  "cli_token_pairs code verifier secret = [(''client_secret'', secret), (''code'', code), (''code_verifier'', verifier),
     (''grant_type'', ''authorization_code'')]"

lemma cli_token_received:
  fixes code verifier secret p
  defines "rq \<equiv> cli_token_request (idp_address @ ''/token'') code verifier secret p"
  shows "rq_form (request_of rq) = Inr (lookup_text (cli_token_pairs code verifier secret))"
    and "starts_with (hr_url rq) idp_address" "rq_path (request_of rq) = ''/token''" "rq_method (request_of rq) = ''POST''"
    and "rq_header (request_of rq) ''DPoP'' = p" "full_uri (request_of rq) = idp_address @ ''/token''"
proof -
  have "form_body rq = form_encode go_kept (cli_token_pairs code verifier secret)"
    by (simp add: rq_def form_body_def cli_token_request_def cli_token_pairs_def)
  moreover have "url_query (hr_url rq) = []"
    by (simp add: rq_def url_query_def cli_token_request_def idp_address_def)
  ultimately show "rq_form (request_of rq) = Inr (lookup_text (cli_token_pairs code verifier secret))"
    by (simp add: request_of_def parse_form_def form_parsed)
qed (simp_all add: rq_def cli_token_request_def request_of_def idp_address_def url_path_def url_host_def full_uri_def)

lemma decode_answers:
  "decode_code (Inr (JObj [(''code'', JStr code)])) = Inr code"
  "\<exists>tr. decode_token (Inr (token_response tok jti)) = Inr tr \<and> tr_AccessToken tr = tok"
proof -
  have fold: "equal_fold ''code'' ''code''" "equal_fold ''access_token'' ''access_token''" "\<not> equal_fold ''token_type'' ''access_token''"
    "\<not> equal_fold ''expires_in'' ''access_token''" "\<not> equal_fold ''refresh_token'' ''access_token''"
    "\<not> equal_fold ''access_token'' ''token_type''" "equal_fold ''token_type'' ''token_type''" "\<not> equal_fold ''expires_in'' ''token_type''"
    "\<not> equal_fold ''refresh_token'' ''token_type''" "\<not> equal_fold ''access_token'' ''expires_in''" "\<not> equal_fold ''token_type'' ''expires_in''"
    "equal_fold ''expires_in'' ''expires_in''" "\<not> equal_fold ''refresh_token'' ''expires_in''" "\<not> equal_fold ''access_token'' ''refresh_token''"
    "\<not> equal_fold ''token_type'' ''refresh_token''" "\<not> equal_fold ''expires_in'' ''refresh_token''" "equal_fold ''refresh_token'' ''refresh_token''"
    by code_simp+
  show "decode_code (Inr (JObj [(''code'', JStr code)])) = Inr code" by (simp add: decode_code_def fold)
  show "\<exists>tr. decode_token (Inr (token_response tok jti)) = Inr tr \<and> tr_AccessToken tr = tok"
    by (simp add: decode_token_def token_response_def fold)
qed

section \<open>The token\<close>

text \<open>What a run needs of its inputs.\<close>

definition client_ready :: "cli_env \<Rightarrow> private_key \<Rightarrow> bytes \<Rightarrow> bytes \<Rightarrow> bool" where
  "client_ready cenv key verifierBytes j \<longleftrightarrow> ce_key cenv = Inr key \<and> key_ok key \<and> ce_pkce cenv = Inr verifierBytes \<and> verifierBytes \<noteq> []
     \<and> ce_token_jti cenv = Inr j \<and> (\<forall>u. ce_url_ok cenv u)"

definition provider_ready :: "cli_env \<Rightarrow> idp_env \<Rightarrow> private_key \<Rightarrow> bytes \<Rightarrow> RAMStore \<Rightarrow> bool" where
  "provider_ready cenv ienv key j store \<longleftrightarrow> jwt_lawful (ie_jwt ienv) \<and> signs_for_idp (ce_sign cenv) (ie_jwt ienv)
     \<and> (\<exists>bytes. ie_random ienv = Inr bytes \<and> bytes \<noteq> []
          \<and> ie_with_query ienv ''http://localhost:8080/callback'' [(''code'', hex_encode bytes)] \<noteq> None)
     \<and> (\<exists>p. GenerateDPoPProof (ce_sign cenv) (ce_token_now cenv) (Inr j) key ''POST'' (idp_address @ ''/token'') [] = Inr p \<and> p \<noteq> [])
     \<and> honest_clock (ie_jwt ienv) (ce_token_now cenv) j (idp_address @ ''/token'') (ie_proof_now ienv)
     \<and> (\<forall>e. jtis store (hex_encode j) = Some e \<longrightarrow> e \<le> ie_jti_now ienv)"

lemma client_obtains_token:
  assumes "client_ready cenv key vb j" "provider_ready cenv ienv key j store" "RegisteredClients client = Some secret"
    and "ie_sign ienv token_header (token_claims (ie_issue_now ienv) client (client_thumbprint (public_key key))) (ie_key ienv) = Inr tok"
  shows "\<exists>store'. getDPoPBoundToken cenv (two_hosts ienv st other) idp_address client secret key (store, g) = (Inr tok, store', g)"
proof -
  let ?verifier = "b64_encode vb" and ?jkt = "client_thumbprint (public_key key)"
  from assms(2) obtain bytes p where b: "ie_random ienv = Inr bytes" "bytes \<noteq> []"
      "ie_with_query ienv ''http://localhost:8080/callback'' [(''code'', hex_encode bytes)] \<noteq> None"
    and p: "GenerateDPoPProof (ce_sign cenv) (ce_token_now cenv) (Inr j) key ''POST'' (idp_address @ ''/token'') [] = Inr p" "p \<noteq> []"
    and fresh: "\<forall>e. jtis store (hex_encode j) = Some e \<longrightarrow> e \<le> ie_jti_now ienv"
    and clock: "honest_clock (ie_jwt ienv) (ce_token_now cenv) j (idp_address @ ''/token'') (ie_proof_now ienv)"
    and lib: "jwt_lawful (ie_jwt ienv)" "signs_for_idp (ce_sign cenv) (ie_jwt ienv)"
    unfolding provider_ready_def by blast
  let ?rq1 = "cli_auth_request idp_address client secret (sha256_b64 ?verifier)"
  let ?rq2 = "cli_token_request (idp_address @ ''/token'') (hex_encode bytes) ?verifier secret p"
  have key: "coord_ok (fst (public_key key))" "coord_ok (snd (public_key key))"
    using assms(1) by (simp_all add: client_ready_def key_ok_def)
  have "idp_VerifyDPoPProof (ie_format ienv) (ie_jwt ienv) (ie_proof_now ienv) p ''POST'' (idp_address @ ''/token'') [] = Inr (?jkt, hex_encode j)"
    using clock unfolding honest_clock_def by (intro honest_proof_idp [OF lib key p(1) refl]) auto
  then have accepted: "idp_VerifyDPoPProof (ie_format ienv) (ie_jwt ienv) (ie_proof_now ienv) (rq_header (request_of ?rq2) ''DPoP'') ''POST''
      (full_uri (request_of ?rq2)) [] = Inr (?jkt, hex_encode j)"
    by (simp add: cli_token_received(5,6))
  have "\<exists>store1 store2. two_hosts ienv st other ?rq1 (store, g) = (Inr (code_answer st (hex_encode bytes)), store1, g)
    \<and> two_hosts ienv st other ?rq2 (store1, g) = (Inr (token_answer st tok (hex_encode j)), store2, g)
    \<and> codes store2 = (codes store)(hex_encode bytes := None)"
  proof (rule code_then_token [OF cli_auth_received(3,4) [OF assms(3)] cli_auth_received(1,2) [OF assms(3)]
        cli_token_received(2-4) _ cli_token_received(1) _ _ _ _ accepted b(1,2) _ assms(3) b(3) fresh assms(4)])
  qed (use assms(1) p(2) b64_plain in \<open>simp_all add: client_ready_def cli_token_pairs_def cli_token_received(5)\<close>)
  then obtain store1 store2 where served: "two_hosts ienv st other ?rq1 (store, g) = (Inr (code_answer st (hex_encode bytes)), store1, g)"
    "two_hosts ienv st other ?rq2 (store1, g) = (Inr (token_answer st tok (hex_encode j)), store2, g)" by blast
  obtain tr where "decode_token (Inr (token_response tok (hex_encode j))) = Inr tr" "tr_AccessToken tr = tok"
    using decode_answers(2) by blast
  with served p(1) assms(1) show ?thesis
    by (simp add: getDPoPBoundToken_def GeneratePKCE_def do_request_def client_ready_def Let_def decode_answers(1))
qed

section \<open>The balance\<close>

definition received :: "conn option \<Rightarrow> string + json \<Rightarrow> http_request \<Rightarrow> request" where
  "received cn b rq = (request_of rq)\<lparr>rq_conn := cn, rq_body := b\<rparr>"

definition balance_request :: "string \<Rightarrow> string \<Rightarrow> http_request" where
  "balance_request tok p = get_request ''http://gateway.ziti/api/balance'' tok p"

text \<open>What the gateway sees of a command.\<close>

definition sent_command :: "string \<Rightarrow> string \<Rightarrow> string \<Rightarrow> string \<Rightarrow> request \<Rightarrow> bool" where
  "sent_command verb path tok p r \<longleftrightarrow> rq_method r = verb \<and> rq_path r = path \<and> full_uri_gw r = ''http://gateway.ziti'' @ path
     \<and> rq_header r ''Authorization'' = ''DPoP '' @ tok \<and> rq_header r ''DPoP'' = p"

lemma balance_received: "sent_command ''GET'' ''/api/balance'' tok p (received cn b (balance_request tok p))"
  by (simp add: sent_command_def received_def balance_request_def get_request_def request_of_def url_path_def url_host_def full_uri_gw_def)

lemma decode_payload: "decode_transfer (Inr (transfer_payload amount desc)) = Inr (amount, desc)"
proof -
  have "equal_fold ''amount'' ''amount''" "\<not> equal_fold ''description'' ''amount''" "equal_fold ''description'' ''description''"
    by code_simp+
  then show ?thesis by (simp add: decode_transfer_def transfer_payload_def set_transfer_field_def)
qed

definition transfer_request :: "string \<Rightarrow> string \<Rightarrow> string \<Rightarrow> http_request" where
  "transfer_request tok payload p = post_request ''http://gateway.ziti/api/transfer'' tok payload p"

lemma transfer_received:
  "sent_command ''POST'' ''/api/transfer'' tok p (received cn b (transfer_request tok payload p))"
  "rq_body (received cn b (transfer_request tok payload p)) = b"
  by (simp_all add: sent_command_def received_def transfer_request_def post_request_def request_of_def url_path_def url_host_def full_uri_gw_def)

text \<open>What the gateway, its database and the provider's key set must be for a command that is sent with
  this verb to this path.\<close>

definition gateway_ready :: "cli_env \<Rightarrow> idp_env \<Rightarrow> gateway_env \<Rightarrow> gateway_config \<Rightarrow> string \<Rightarrow> string \<Rightarrow> private_key \<Rightarrow> bytes \<Rightarrow> string \<Rightarrow> gateway \<Rightarrow> bool" where
  "gateway_ready cenv ienv genv cfg verb path key j tok g \<longleftrightarrow> jwt_lawful (ge_jwt genv) \<and> checks_expiry (ge_jwt genv)
     \<and> signs_for (ce_sign cenv) (ge_jwt genv) \<and> signs_for (ie_sign ienv) (ge_jwt genv) \<and> key_ok (ie_key ienv)
     \<and> ce_api_jti cenv = Inr j \<and> j \<noteq> []
     \<and> (\<exists>p. GenerateDPoPProof (ce_sign cenv) (ce_api_now cenv) (Inr j) key verb (''http://gateway.ziti'' @ path) tok = Inr p \<and> p \<noteq> [])
     \<and> unix (ce_api_now cenv div second) \<le> ge_proof_now genv \<and> ge_proof_now genv \<le> unix (ce_api_now cenv div second) + 60 * second
     \<and> ge_token_now genv < unix ((ie_issue_now ienv + 60 * second) div second)
     \<and> (\<forall>e. gw_jtis g (hex_encode j) = Some e \<longrightarrow> e \<le> ge_jti_now genv)
     \<and> (\<exists>v. rs_body (JWKSHandler (public_key (ie_key ienv))) = Json v \<and> ge_fetch genv = Inr (StatusOK, Inr v)) \<and> jc_keys (gw_jwks g) = Map.empty
     \<and> (\<forall>c. de_fault (ge_db genv) c = None) \<and> gc_auditSecret cfg \<noteq> []"

definition client_known :: "gateway_env \<Rightarrow> string \<Rightarrow> string \<Rightarrow> bool" where
  "client_known genv client u \<longleftrightarrow> uuid_in (ge_pg genv) (fst (tenant_of_client client)) = Some u \<and> uuid_in (ge_pg genv) (GetUserUUID client) \<noteq> None"

lemma over_ziti:
  assumes "RegisteredClients client = Some secret"
  shows "identity_ok cfg (received (ziti_conn client) b rq) client"
  using assms by (auto simp: identity_ok_def GetZitiIdentity_def ziti_conn_def received_def RegisteredClients_def split: if_splits)

text \<open>Every command of a client that is ready reaches the handler of its path, with the claims of its token.\<close>

lemma command_reaches_handler:
  assumes "gateway_ready cenv ienv genv cfg verb path key j tok g" "key_ok key" "RegisteredClients client = Some secret"
    and "ie_sign ienv token_header (token_claims (ie_issue_now ienv) client (client_thumbprint (public_key key))) (ie_key ienv) = Inr tok"
    and "api_handler genv cfg path = Some h"
    and "\<And>p. sent_command verb path tok p (received (ziti_conn client) b (mk p))"
    and "\<And>p. policy_ok genv cfg (received (ziti_conn client) b (mk p)) (client_claims client (client_thumbprint (public_key key)))"
  obtains p hs g1 where
    "GenerateDPoPProof (ce_sign cenv) (ce_api_now cenv) (ce_api_jti cenv) key verb (''http://gateway.ziti'' @ path) tok = Inr p"
    "gateway_serve genv cfg (received (ziti_conn client) b (mk p)) g
      = h (Some (client_claims client (client_thumbprint (public_key key)))) hs (received (ziti_conn client) b (mk p)) g1"
    "gw_db g1 = gw_db g"
proof -
  from assms(1) obtain p v where p: "GenerateDPoPProof (ce_sign cenv) (ce_api_now cenv) (Inr j) key verb (''http://gateway.ziti'' @ path) tok = Inr p" "p \<noteq> []"
    and v: "rs_body (JWKSHandler (public_key (ie_key ienv))) = Json v" "ge_fetch genv = Inr (StatusOK, Inr v)" "jc_keys (gw_jwks g) = Map.empty"
    and lib: "jwt_lawful (ge_jwt genv)" "checks_expiry (ge_jwt genv)" "signs_for (ce_sign cenv) (ge_jwt genv)" "signs_for (ie_sign ienv) (ge_jwt genv)"
    and keys: "key_ok (ie_key ienv)" "j \<noteq> []" "ce_api_jti cenv = Inr j"
    and clock: "unix (ce_api_now cenv div second) \<le> ge_proof_now genv" "ge_proof_now genv \<le> unix (ce_api_now cenv div second) + 60 * second"
      "ge_token_now genv < unix ((ie_issue_now ienv + 60 * second) div second)"
    and fresh: "\<forall>e. gw_jtis g (hex_encode j) = Some e \<longrightarrow> e \<le> ge_jti_now genv"
    unfolding gateway_ready_def by blast
  have "client_request (ce_sign cenv) key (ce_api_now cenv) j tok (received (ziti_conn client) b (mk p))"
    using p assms(6) by (simp add: client_request_def sent_command_def)
  moreover have "api_handler genv cfg (rq_path (received (ziti_conn client) b (mk p))) = Some h"
    using assms(5,6) by (simp add: sent_command_def)
  ultimately obtain hs g1 where "gateway_serve genv cfg (received (ziti_conn client) b (mk p)) g
      = h (Some (client_claims client (client_thumbprint (public_key key)))) hs (received (ziti_conn client) b (mk p)) g1" "gw_db g1 = gw_db g"
    using honest_served [OF lib assms(2) keys(1,2) assms(4) _ _ clock fresh v over_ziti [OF assms(3)] assms(7)] by blast
  then show ?thesis by (rule that [rotated]) (use p(1) keys(3) in simp)
qed

section \<open>Whole runs\<close>

lemma over_host:
  "over (gateway_host genv cfg cn decode st) rq (store, g) =
    (Inr (go_answer st (fst (gateway_serve genv cfg (received cn (decode (hr_body rq)) rq) g))), store,
     snd (gateway_serve genv cfg (received cn (decode (hr_body rq)) rq) g))"
  by (simp add: over_def gateway_host_def received_def split: prod.splits)

lemma call_host:
  assumes "GenerateDPoPProof (ce_sign cenv) (ce_api_now cenv) (ce_api_jti cenv) key verb url tok = Inr p" "\<forall>u. ce_url_ok cenv u"
    and "rs_body (fst (gateway_serve genv cfg (received cn (decode (hr_body (mk p))) (mk p)) g)) = Json v"
  shows "api_call cenv (over (gateway_host genv cfg cn decode st)) tok key verb mk url (store, g) =
    (Printed (rs_status (fst (gateway_serve genv cfg (received cn (decode (hr_body (mk p))) (mk p)) g))) (Json v), store,
     snd (gateway_serve genv cfg (received cn (decode (hr_body (mk p))) (mk p)) g))"
  using assms by (simp add: api_call_def do_request_def over_host finish_def printAPIResponse_def Let_def)
    (simp add: go_answer_def)

lemma program_run:
  assumes "client_ready cenv key vb j" "provider_ready cenv ienv key j store" "RegisteredClients client = Some secret"
    and "ie_sign ienv token_header (token_claims (ie_issue_now ienv) client (client_thumbprint (public_key key))) (ie_key ienv) = Inr tok"
    and "overlay (''docker/identities/'' @ client @ ''.json'') = Inr net"
    and "secretFlag f = []" "idpURLFlag f = idp_address" "identityFlag f = client" "gatewayURLFlag f = ''http://gateway.ziti''" "useZitiFlag f"
  shows "\<exists>store'. client_main marshal cenv f (two_hosts ienv st other) overlay (store, g)
    = client_command marshal cenv f net ''http://gateway.ziti'' tok key (store', g)"
proof -
  obtain store' where "getDPoPBoundToken cenv (two_hosts ienv st other) idp_address client secret key (store, g) = (Inr tok, store', g)"
    using client_obtains_token [OF assms(1-4), of st other g] by blast
  moreover have "client_secret f = secret" "transport f (two_hosts ienv st other) overlay = Inr (net, ''http://gateway.ziti'')"
    using assms(3,5-10) by (simp_all add: client_secret_def transport_def secrets_agree)
  ultimately have "client_main marshal cenv f (two_hosts ienv st other) overlay (store, g)
    = client_command marshal cenv f net ''http://gateway.ziti'' tok key (store', g)"
    using assms(1,7,8) by (simp add: client_main_def client_ready_def)
  then show ?thesis ..
qed

definition balance_flags :: "string \<Rightarrow> cli_flags" where
  "balance_flags client = default_flags\<lparr>identityFlag := client\<rparr>"

definition transfer_flags :: "string \<Rightarrow> rat \<Rightarrow> string \<Rightarrow> cli_flags" where
  "transfer_flags client amount desc = default_flags\<lparr>identityFlag := client, commandFlag := ''transfer'', amountFlag := amount, descFlag := desc\<rparr>"

lemma the_flags:
  "secretFlag (balance_flags c) = []" "idpURLFlag (balance_flags c) = idp_address" "identityFlag (balance_flags c) = c"
  "gatewayURLFlag (balance_flags c) = ''http://gateway.ziti''" "useZitiFlag (balance_flags c)"
  "secretFlag (transfer_flags c a s) = []" "idpURLFlag (transfer_flags c a s) = idp_address" "identityFlag (transfer_flags c a s) = c"
  "gatewayURLFlag (transfer_flags c a s) = ''http://gateway.ziti''" "useZitiFlag (transfer_flags c a s)"
  by (simp_all add: balance_flags_def transfer_flags_def default_flags_def idp_address_def)

lemma the_commands:
  "client_command marshal cenv (balance_flags c) fetch url tok key w = executeGetBalance cenv fetch url tok key w"
  "0 < a \<Longrightarrow> client_command marshal cenv (transfer_flags c a s) fetch url tok key w = executeTransfer marshal cenv fetch url tok key a s w"
proof -
  have "map lower_char ''balance'' = ''balance''" "map lower_char ''transfer'' = ''transfer''" by code_simp+
  then show "client_command marshal cenv (balance_flags c) fetch url tok key w = executeGetBalance cenv fetch url tok key w"
    "0 < a \<Longrightarrow> client_command marshal cenv (transfer_flags c a s) fetch url tok key w = executeTransfer marshal cenv fetch url tok key a s w"
    by (simp_all add: client_command_def balance_flags_def transfer_flags_def default_flags_def)
qed



section \<open>An example run\<close>

definition cli_post :: members where
  "cli_post = proof_claims 0 [1] ''POST'' ''http://localhost:8081/token'' []"

definition cli_get :: members where
  "cli_get = proof_claims 0 [2] ''GET'' ''http://gateway.ziti/api/balance'' ''tok''"

definition cli_transfer :: members where
  "cli_transfer = proof_claims 0 [2] ''POST'' ''http://gateway.ziti/api/transfer'' ''tok''"

definition cli_sign :: jwt_signer where
  "cli_sign h c k = (if h = proof_header (7, 0) \<and> k = (1, 7, 0) \<and> c = cli_post then Inr ''p''
     else if h = proof_header (7, 0) \<and> k = (1, 7, 0) \<and> c = cli_get then Inr ''q''
     else if h = proof_header (7, 0) \<and> k = (1, 7, 0) \<and> c = cli_transfer then Inr ''t'' else Inl ''no key'')"

definition cli_lib :: "(members \<Rightarrow> 'c) \<Rightarrow> (instant \<Rightarrow> 'c \<Rightarrow> bool) \<Rightarrow> 'c jwt_lib" where
  "cli_lib typed = simple_jwt
     (\<lambda>s. if s = ''p'' then Some \<lparr>tk_alg = ''ES256'', tk_header = proof_header (7, 0), tk_claims = typed cli_post\<rparr>
          else if s = ''q'' then Some \<lparr>tk_alg = ''ES256'', tk_header = proof_header (7, 0), tk_claims = typed cli_get\<rparr>
          else if s = ''t'' then Some \<lparr>tk_alg = ''ES256'', tk_header = proof_header (7, 0), tk_claims = typed cli_transfer\<rparr>
          else if s = ''tok'' then Some \<lparr>tk_alg = ''ES256'', tk_header = token_header, tk_claims = typed (tk_claims alice_token)\<rparr> else None)
     (\<lambda>s k. s \<in> {''p'', ''q'', ''t''} \<and> k = (7, 0) \<or> s = ''tok'' \<and> k = (9, 0))"

definition expiry :: "instant \<Rightarrow> members \<Rightarrow> bool" where
  "expiry now c = (case member c ''exp'' of Some (JNum q) \<Rightarrow> now < unix (trunc_rat q) | _ \<Rightarrow> True)"

definition cli_inputs :: cli_env where
  "cli_inputs = \<lparr>ce_key = Inr (1, 7, 0), ce_sign = cli_sign, ce_pkce = Inr [1], ce_token_now = 0, ce_token_jti = Inr [1],
     ce_api_now = 0, ce_api_jti = Inr [2], ce_url_ok = (\<lambda>_. True)\<rparr>"

definition cli_idp :: idp_env where
  "cli_idp = sample_idp\<lparr>ie_jwt := cli_lib typed_claims (\<lambda>_ _. True), ie_sign := gw_idp_sign, ie_key := (2, 9, 0)\<rparr>"

definition cli_gateway :: gateway_env where
  "cli_gateway = gw_env\<lparr>ge_jwt := cli_lib id expiry\<rparr>"

lemma cli_lib_facts: "jwt_lawful (cli_lib typed fresh)" "checks_expiry (cli_lib id expiry)"
  "signs_for cli_sign (cli_lib id fresh')" "signs_for_idp cli_sign (cli_lib typed_claims fresh'')" "signs_for gw_idp_sign (cli_lib id fresh')"
proof -
  show "jwt_lawful (cli_lib typed fresh)" by (simp add: cli_lib_def simple_jwt_lawful)
  show "checks_expiry (cli_lib id expiry)" by (simp add: checks_expiry_def cli_lib_def simple_jwt_def expiry_def)
qed (auto simp: signs_for_def signs_for_idp_def cli_sign_def gw_idp_sign_def cli_lib_def simple_jwt_def public_key_def proof_header_def
    token_header_def member_def alice_token_def issued_token_of_def split: if_splits)

lemma cli_client: "client_ready cli_inputs (1, 7, 0) [1] [1]"
  by (simp add: client_ready_def cli_inputs_def gw_keys)

lemma cli_proofs:
  "GenerateDPoPProof cli_sign 0 (Inr [1]) (1, 7, 0) ''POST'' ''http://localhost:8081/token'' [] = Inr ''p''"
  "GenerateDPoPProof cli_sign 0 (Inr [2]) (1, 7, 0) ''GET'' ''http://gateway.ziti/api/balance'' ''tok'' = Inr ''q''"
  "GenerateDPoPProof cli_sign 0 (Inr [2]) (1, 7, 0) ''POST'' ''http://gateway.ziti/api/transfer'' ''tok'' = Inr ''t''"
proof -
  have "cli_get \<noteq> cli_post" "cli_transfer \<noteq> cli_post" "cli_transfer \<noteq> cli_get"
    by (simp_all add: cli_get_def cli_post_def cli_transfer_def proof_claims_def)
  then show "GenerateDPoPProof cli_sign 0 (Inr [2]) (1, 7, 0) ''GET'' ''http://gateway.ziti/api/balance'' ''tok'' = Inr ''q''"
    "GenerateDPoPProof cli_sign 0 (Inr [2]) (1, 7, 0) ''POST'' ''http://gateway.ziti/api/transfer'' ''tok'' = Inr ''t''"
    by (simp_all add: GenerateDPoPProof_def cli_sign_def public_key_def cli_get_def [symmetric] cli_transfer_def [symmetric])
qed (simp add: GenerateDPoPProof_def cli_sign_def public_key_def cli_post_def [symmetric])

lemma cli_provider: "provider_ready cli_inputs cli_idp (1, 7, 0) [1] empty_store"
  by (simp add: provider_ready_def cli_inputs_def cli_idp_def cli_lib_facts sample_idp_def idp_address_def cli_proofs honest_clock_def
      unix_def second_def empty_store_def) (simp add: cli_lib_def simple_jwt_def)

lemma cli_gateway_ready:
  "gateway_ready cli_inputs cli_idp cli_gateway gw_config ''GET'' ''/api/balance'' (1, 7, 0) [2] ''tok'' gw_start"
  "gateway_ready cli_inputs cli_idp cli_gateway gw_config ''POST'' ''/api/transfer'' (1, 7, 0) [2] ''tok'' gw_start"
  using gw_keys gw_permits
  by (simp_all add: gateway_ready_def cli_inputs_def cli_idp_def cli_gateway_def cli_lib_facts sample_idp_def cli_proofs gw_jtis_start
      unix_def second_def)

lemma cli_policy: "policy_ok cli_gateway gw_config r c"
  by (auto simp: policy_ok_def cli_gateway_def gw_env_def gw_config_def)

lemma cli_known: "client_known cli_gateway ''client-alice'' (fst (tenant_of_client ''client-alice''))"
  by (simp add: client_known_def cli_gateway_def gw_uuids)

lemma cli_secret: "RegisteredClients ''client-alice'' = Some ''alice-secure-secret-2026''"
  by (simp add: RegisteredClients_def)

lemma cli_token: "ie_sign cli_idp token_header (token_claims (ie_issue_now cli_idp) ''client-alice'' (client_thumbprint (public_key (1, 7, 0)))) (ie_key cli_idp) = Inr ''tok''"
  using gw_token by (simp add: cli_idp_def sample_idp_def)

lemma cli_ledger: "tenant_tx u (gw_db gw_start) = []"
  by (simp add: gw_start_def tenant_tx_def empty_db_def)

definition cli_overlay :: "(string \<Rightarrow> string + json) \<Rightarrow> string \<Rightarrow> string + (RAMStore \<times> gateway) fetcher" where
  "cli_overlay decode path = Inr (over (gateway_host cli_gateway gw_config (ziti_conn ''client-alice'') decode (\<lambda>_. [])))"

definition nobody :: "gateway fetcher" where
  "nobody rq g = (Inl ''connection refused'', g)"



end
