(* ===== verification/Deployment.thy ===== *)
theory Deployment
  imports Startup PolicyFile ClientRun
begin

text \<open>
  Properties of the deployed system that need several of its parts: what a permission to read is
  worth at the transfer route, what becomes of small amounts, and examples of servers that have
  started.
\<close>

section \<open>A permission to read\<close>

text \<open>A policy service that allows reading and nothing else.\<close>

definition reads_only :: "gateway_env \<Rightarrow> bool" where
  "reads_only env \<longleftrightarrow> (\<forall>q m. ge_pdp env q = Inr (ALLOW, m) \<longrightarrow> pr_Action q = ''READ'')"

text \<open>C22: a permission to read is a permission to transfer.  The middleware takes every verb but POST,
  PUT and DELETE for reading and the transfer handler ignores the verb: a client that the policy
  service allows to read only, and refuses to create, adds a transaction to its tenant's ledger by
  sending its transfer with another verb.\<close>

theorem read_permission_transfers:
  assumes "jwt_lawful (ge_jwt env)" "checks_expiry (ge_jwt env)" "signs_for sign (ge_jwt env)" "signs_for idp_sign (ge_jwt env)"
    and "key_ok key" "key_ok idp_key" "jtiBytes \<noteq> []"
    and "idp_sign token_header (token_claims issued client (client_thumbprint (public_key key))) idp_key = Inr tok"
    and "client_request sign key t0 jtiBytes tok r" "rq_path r = ''/api/transfer''"
    and "unix (t0 div second) \<le> ge_proof_now env" "ge_proof_now env \<le> unix (t0 div second) + 60 * second"
    and "ge_token_now env < unix ((issued + 60 * second) div second)"
    and "\<forall>e. gw_jtis g (hex_encode jtiBytes) = Some e \<longrightarrow> e \<le> ge_jti_now env"
    and "rs_body (JWKSHandler (public_key idp_key)) = Json v" "ge_fetch env = Inr (StatusOK, Inr v)" "jc_keys (gw_jwks g) = Map.empty"
    and "identity_ok cfg r client" "gc_pdpClient cfg = Some False" "reads_only env"
    and "\<forall>q. pr_Action q = ''READ'' \<longrightarrow> ge_pdp env q = Inr (ALLOW, m)"
    and "rq_method r \<notin> {''POST'', ''PUT'', ''DELETE''}"
    and "decode_transfer (rq_body r) = Inr (amount, desc)" "0 < amount" "\<bar>to_cents amount\<bar> < 10 ^ 15"
    and "\<forall>c. de_fault (ge_db env) c = None" "gc_auditSecret cfg \<noteq> []"
    and "uuid_in (ge_pg env) (fst (tenant_of_client client)) = Some u" "uuid_in (ge_pg env) (GetUserUUID client) \<noteq> None"
  shows "rs_status (fst (gateway_serve env cfg r g)) = StatusCreated
    \<and> (\<exists>row. tenant_tx u (gw_db (snd (gateway_serve env cfg r g))) = tenant_tx u (gw_db g) @ [row] \<and> tr_cents row = to_cents amount)
    \<and> (\<forall>verb \<in> {''POST'', ''PUT'', ''DELETE''}. \<forall>claims. \<not> policy_ok env cfg (r\<lparr>rq_method := verb\<rparr>) claims)"
proof -
  let ?claims = "client_claims client (client_thumbprint (public_key key))"
  have act: "pr_Action (policy_request env claims r') = action_of (rq_method r')" for claims r'
    by (simp add: policy_request_def Let_def)
  have policy: "policy_ok env cfg r claims" for claims
    using assms(19,21,22) by (auto simp: policy_ok_def act action_of_def)
  have "\<not> policy_ok env cfg (r\<lparr>rq_method := verb\<rparr>) claims" if "verb \<in> {''POST'', ''PUT'', ''DELETE''}" for verb claims
    using that assms(19,20) by (auto simp: policy_ok_def reads_only_def) (auto simp: act action_of_def dest!: spec)
  moreover have h: "api_handler env cfg (rq_path r) = Some (CreateTransferHandler env cfg)" using assms(10) by (simp add: api_handler_def)
  from honest_served [OF assms(1-9) h assms(11-18) policy] obtain hs g1 where served:
    "gateway_serve env cfg r g = CreateTransferHandler env cfg (Some ?claims) hs r g1" "gw_db g1 = gw_db g" by blast
  have "uuid_in (ge_pg env) (TenantID ?claims) = Some u" "uuid_in (ge_pg env) (GetUserUUID (Sub ?claims)) \<noteq> None" "TenantID ?claims \<noteq> []"
    using assms(28,29) tenant_nonempty by (simp_all add: client_claims_def)
  from transfer_answers [OF assms(26) this assms(27,23-25), where hs = hs and g = g1]
  have "rs_status (fst (gateway_serve env cfg r g)) = StatusCreated"
    "\<exists>row. tenant_tx u (gw_db (snd (gateway_serve env cfg r g))) = tenant_tx u (gw_db g) @ [row] \<and> tr_cents row = to_cents amount"
    by (simp_all only: served)
  ultimately show ?thesis by blast
qed

section \<open>Examples\<close>

definition patch_claims :: members where
  "patch_claims = proof_claims 0 [1] ''PATCH'' ''http://h/api/transfer'' ''tok''"

definition patch_lib :: "members jwt_lib" where
  "patch_lib = simple_jwt
     (\<lambda>s. if s = ''p'' then Some \<lparr>tk_alg = ''ES256'', tk_header = proof_header (7, 0), tk_claims = patch_claims\<rparr>
          else if s = ''tok'' then Some alice_token else None)
     (\<lambda>s k. s = ''p'' \<and> k = (7, 0) \<or> s = ''tok'' \<and> k = (9, 0)) expiry"

definition patch_sign :: jwt_signer where
  "patch_sign h c k = (if h = proof_header (7, 0) \<and> c = patch_claims \<and> k = (1, 7, 0) then Inr ''p'' else Inl ''no key'')"

definition patch_env :: gateway_env where
  "patch_env = gw_env\<lparr>ge_jwt := patch_lib, ge_pdp := (\<lambda>q. Inr (if pr_Action q = ''READ'' then ALLOW else 0, ''readers''))\<rparr>"

definition patch_request :: request where
  "patch_request = (gw_request ''p'')\<lparr>rq_method := ''PATCH'', rq_path := ''/api/transfer'',
     rq_body := Inr (JObj [(''amount'', JNum (1 / 250)), (''description'', JStr ''rent'')])\<rparr>"

lemma patch_lib_facts: "jwt_lawful (ge_jwt patch_env)" "checks_expiry (ge_jwt patch_env)" "signs_for patch_sign (ge_jwt patch_env)"
  "signs_for gw_idp_sign (ge_jwt patch_env)"
  by (simp add: patch_env_def patch_lib_def simple_jwt_lawful)
    (auto simp: patch_env_def patch_lib_def checks_expiry_def expiry_def simple_jwt_def signs_for_def patch_sign_def gw_idp_sign_def
      public_key_def proof_header_def token_header_def member_def alice_token_def issued_token_of_def split: if_splits)

lemma patch_env_simps: "ge_pg patch_env = sample_pg" "ge_proof_now patch_env = 0" "ge_jti_now patch_env = 0" "ge_token_now patch_env = 0"
  "ge_db patch_env = sample_env" "ge_fetch patch_env = Inr (StatusOK, Inr gw_jwks_json)"
  by (simp_all add: patch_env_def)

lemma patch_client_request: "client_request patch_sign (1, 7, 0) 0 [1] ''tok'' patch_request"
  by (simp add: client_request_def patch_request_def gw_request_def GenerateDPoPProof_def patch_sign_def public_key_def
      patch_claims_def full_uri_gw_def)

lemma patch_decodes: "decode_transfer (rq_body patch_request) = Inr (1 / 250, ''rent'')"
proof -
  have "equal_fold ''amount'' ''amount''" "\<not> equal_fold ''description'' ''amount''" "equal_fold ''description'' ''description''"
    by code_simp+
  then show ?thesis by (simp add: decode_transfer_def patch_request_def set_transfer_field_def)
qed

lemma patch_reads: "reads_only patch_env" "\<forall>q. pr_Action q = ''READ'' \<longrightarrow> ge_pdp patch_env q = Inr (ALLOW, ''readers'')"
  by (auto simp: reads_only_def patch_env_def ALLOW_def split: if_splits)

lemma patch_permits: "identity_ok gw_config patch_request ''client-alice''" "rq_path patch_request = ''/api/transfer''"
  "rq_method patch_request \<notin> {''POST'', ''PUT'', ''DELETE''}" "gc_pdpClient gw_config = Some False" "gc_auditSecret gw_config \<noteq> []"
  by (simp_all add: identity_ok_def patch_request_def gw_request_def GetZitiIdentity_def gw_config_def)

text \<open>With 0.004 as amount, the answer is 201 and the row says 0.00.\<close>

theorem read_permission_transfers_witness:
  "rs_status (fst (gateway_serve patch_env gw_config patch_request gw_start)) = StatusCreated
    \<and> (\<exists>row. tenant_tx (fst (tenant_of_client ''client-alice'')) (gw_db (snd (gateway_serve patch_env gw_config patch_request gw_start))) = [row]
        \<and> tr_cents row = 0)"
proof -
  have "tenant_tx u (gw_db gw_start) = []" for u by (simp add: gw_start_def tenant_tx_def empty_db_def)
  with read_permission_transfers [OF patch_lib_facts gw_keys _ gw_token patch_client_request patch_permits(2), where g = gw_start and cfg = gw_config
      and u = "fst (tenant_of_client ''client-alice'')", unfolded patch_env_simps, OF _ gw_clock gw_jtis_start gw_permits(6) refl gw_permits(7)
      patch_permits(1,4) patch_reads patch_permits(3) patch_decodes _ _ gw_permits(4) patch_permits(5) gw_uuids]
    tiny_amount [of "1 / 250"]
  show ?thesis by (simp add: gw_uuids)
qed

definition healthy :: outside where
  "healthy = \<lparr>out_missing = (\<lambda>_. False), out_config = (\<lambda>_. None), out_context = (\<lambda>_. None), out_authenticate = (\<lambda>_. None),
     out_key_pair = (\<lambda>_ _. None), out_read = (\<lambda>_. None), out_pem_ok = (\<lambda>_. True), out_dial = (\<lambda>_. None), out_database = (\<lambda>_. None),
     out_listen_service = (\<lambda>_. None), out_listen_tcp = (\<lambda>_. None)\<rparr>"

definition default_config :: gateway_config where
  "default_config = load_config (\<lambda>_. [])"

lemma default_start: "gateway_main healthy (\<lambda>_. []) = Inr (default_config, On_Service ''financial-ledger-service'')"
proof -
  have "equal_fold (trim []) ''false'' = False" "equal_fold (trim []) ''true'' = False" by code_simp+
  then show ?thesis
    by (simp add: gateway_main_def pdp_New_def pdp_settings_of_def env_true_def pdp_credentials_def pdp_dial_def open_listener_def
        use_ziti_def NewZitiContext_def healthy_def or_else_def default_config_def load_config_def Let_def)
qed

theorem started_gateway_enforces_witness:
  "gc_enforceZiti default_config \<and> gc_pdpClient default_config = Some False
    \<and> (\<exists>jti claims. authenticated gw_env default_config (gw_request ''p'') gw_start jti claims \<and> Sub claims = ''client-alice'')"
proof -
  have "equal_fold (trim []) ''false'' = False" by code_simp
  then have cfg: "gc_enforceZiti default_config" "gc_auditSecret default_config \<noteq> []" "gc_pdpClient default_config \<noteq> None"
    by (simp_all add: default_config_def load_config_def)
  then have permits: "identity_ok default_config (gw_request ''p'') ''client-alice''" "policy_ok gw_env default_config r c" for r c
    by (auto simp: identity_ok_def gw_request_def GetZitiIdentity_def policy_ok_def gw_env_def)
  have "rs_status (fst (gateway_serve gw_env default_config (gw_request ''p'') gw_start)) = StatusOK"
    using honest_balance [of gw_env gw_sign gw_idp_sign "(1, 7, 0)" "(2, 9, 0)" "[1]" 0 "''client-alice''" "''tok''" 0 "gw_request ''p''"
      gw_start gw_jwks_json default_config "fst (tenant_of_client ''client-alice'')"]
      gw_lib_facts gw_token gw_client_request gw_keys gw_clock gw_permits(4-7) gw_uuids gw_jtis_start permits cfg(2)
    by simp
  then have "\<not> refused (fst (gateway_serve gw_env default_config (gw_request ''p'') gw_start))" by (simp add: refused_def)
  moreover have "jwt_lawful (ge_jwt gw_env)" by (simp add: gw_lib_facts)
  moreover have "api_handler gw_env default_config (rq_path (gw_request ''p'')) = Some (GetBalanceHandler gw_env default_config)"
    by (simp add: api_handler_def gw_request_def)
  ultimately show ?thesis
    using started_gateway_enforces [OF default_start, where env = gw_env and r = "gw_request ''p''" and g = gw_start]
    by (auto simp: gw_request_def GetZitiIdentity_def)
qed

end
