(* ===== verification/Router.thy ===== *)
theory Router
  imports GatewayFacts Idp Js
begin

text \<open>
  The routers of the two servers (\<^verbatim>\<open>gateway/main.go\<close>, \<^verbatim>\<open>idp/main.go\<close>): \<open>http.ServeMux\<close> redirects a
  request whose path is not clean before any handler sees it.  A path is the path as sent, and
  has no percent-encoded bytes.
\<close>

section \<open>Clean paths\<close>

definition push_segment :: "string \<Rightarrow> string list \<Rightarrow> string list" where
  "push_segment w ws = (if w = [] \<or> w = ''.'' then ws else if w = ''..'' then tl ws else w # ws)"

definition clean_segments :: "string list \<Rightarrow> string list" where
  "clean_segments ws = rev (fold push_segment ws [])"

text \<open>\<open>path.Clean\<close> of a rooted path.\<close>

definition path_Clean :: "string \<Rightarrow> string" where
  "path_Clean p = CHR ''/'' # join_with ''/'' (clean_segments (split_on CHR ''/'' p))"

definition cleanPath :: "string \<Rightarrow> string" where
  "cleanPath p =
     (if p = [] then ''/''
      else (let q = (if hd p = CHR ''/'' then p else CHR ''/'' # p); np = path_Clean q
            in if last q = CHR ''/'' \<and> np \<noteq> ''/'' then np @ ''/'' else np))"

definition proper :: "string \<Rightarrow> bool" where
  "proper w \<longleftrightarrow> w \<noteq> [] \<and> w \<noteq> ''.'' \<and> w \<noteq> ''..'' \<and> CHR ''/'' \<notin> set w"

lemma split_on_pieces: "w \<in> set (split_on d s) \<Longrightarrow> d \<notin> set w"
proof (induction s arbitrary: w)
  case (Cons c s)
  then show ?case by (cases "split_on d s") (auto split: if_splits)
qed simp

lemma in_tl: "x \<in> set (tl xs) \<Longrightarrow> x \<in> set xs"
  by (cases xs) auto

lemma pushed_proper:
  "\<forall>w \<in> set ws. CHR ''/'' \<notin> set w \<Longrightarrow> \<forall>w \<in> set st. proper w \<Longrightarrow> \<forall>w \<in> set (fold push_segment ws st). proper w"
proof (induction ws arbitrary: st)
  case (Cons w ws)
  have "\<forall>v \<in> set (push_segment w st). proper v"
    using Cons.prems by (auto simp: push_segment_def proper_def dest: in_tl)
  with Cons show ?case by simp
qed simp

lemma clean_proper: "w \<in> set (clean_segments (split_on CHR ''/'' p)) \<Longrightarrow> proper w"
  using pushed_proper [of "split_on CHR ''/'' p" "[]"] split_on_pieces by (auto simp: clean_segments_def)

lemma push_proper: "\<forall>w \<in> set ws. proper w \<Longrightarrow> fold push_segment ws st = rev ws @ st"
  by (induction ws arbitrary: st) (auto simp: push_segment_def proper_def)

lemma clean_again: "\<forall>w \<in> set ws. proper w \<Longrightarrow> clean_segments ([] # ws) = ws" "\<forall>w \<in> set ws. proper w \<Longrightarrow> clean_segments ([] # ws @ [[]]) = ws"
  by (simp_all add: clean_segments_def push_segment_def push_proper)

lemma join_slash_Cons: "join_with ''/'' (w # v # vs) = w @ CHR ''/'' # join_with ''/'' (v # vs)"
  by (simp add: join_with_def)

lemma split_join:
  "ws \<noteq> [] \<Longrightarrow> \<forall>w \<in> set ws. CHR ''/'' \<notin> set w \<Longrightarrow> split_on CHR ''/'' (join_with ''/'' ws) = ws"
  "ws \<noteq> [] \<Longrightarrow> \<forall>w \<in> set ws. CHR ''/'' \<notin> set w \<Longrightarrow> split_on CHR ''/'' (join_with ''/'' ws @ ''/'') = ws @ [[]]"
proof (induction ws)
  case (Cons w ws)
  { case 1 with Cons.IH show ?case by (cases ws) (auto simp: join_slash_Cons split_on_line split_on_absent, simp add: join_with_def split_on_absent) }
  { case 2 with Cons.IH show ?case by (cases ws) (auto simp: join_slash_Cons split_on_line, simp add: join_with_def split_on_line) }
qed simp_all

lemma join_ends: "ws \<noteq> [] \<Longrightarrow> \<forall>w \<in> set ws. proper w \<Longrightarrow> join_with ''/'' ws \<noteq> [] \<and> last (join_with ''/'' ws) \<noteq> CHR ''/''"
proof (induction ws)
  case (Cons w ws)
  show ?case
  proof (cases ws)
    case Nil
    with Cons.prems show ?thesis by (auto simp: join_with_def proper_def dest: last_in_set)
  next
    case (Cons v vs)
    with Cons.IH Cons.prems show ?thesis by (simp add: join_slash_Cons)
  qed
qed simp

text \<open>Cleaning is idempotent, so a redirect leads to a path that is not redirected again.\<close>

lemma cleanPath_clean: "cleanPath (cleanPath p) = cleanPath p"
proof -
  have keep: "path_Clean (CHR ''/'' # join_with ''/'' ws) = CHR ''/'' # join_with ''/'' ws"
    "path_Clean (CHR ''/'' # join_with ''/'' ws @ ''/'') = CHR ''/'' # join_with ''/'' ws"
    if "\<forall>w \<in> set ws. proper w" for ws
  proof -
    have "CHR ''/'' \<notin> set w" if "w \<in> set ws" for w using that \<open>\<forall>w \<in> set ws. proper w\<close> by (simp add: proper_def)
    then have "ws \<noteq> [] \<Longrightarrow> split_on CHR ''/'' (CHR ''/'' # join_with ''/'' ws) = [] # ws"
      "ws \<noteq> [] \<Longrightarrow> split_on CHR ''/'' (CHR ''/'' # join_with ''/'' ws @ ''/'') = [] # ws @ [[]]"
      by (simp_all add: split_join)
    with clean_again [OF that] show "path_Clean (CHR ''/'' # join_with ''/'' ws) = CHR ''/'' # join_with ''/'' ws"
      "path_Clean (CHR ''/'' # join_with ''/'' ws @ ''/'') = CHR ''/'' # join_with ''/'' ws"
      by (cases "ws = []"; simp add: path_Clean_def clean_segments_def push_segment_def join_with_def)+
  qed
  define ws where "ws = clean_segments (split_on CHR ''/'' (if hd p = CHR ''/'' then p else CHR ''/'' # p))"
  have proper: "\<forall>w \<in> set ws. proper w" unfolding ws_def using clean_proper by blast
  have root: "cleanPath ''/'' = ''/''" by code_simp
  have "cleanPath p \<in> {''/'', CHR ''/'' # join_with ''/'' ws, CHR ''/'' # join_with ''/'' ws @ ''/''} \<and> (ws = [] \<longrightarrow> cleanPath p = ''/'')"
    unfolding cleanPath_def path_Clean_def Let_def ws_def [symmetric] by (auto simp: join_with_def)
  then consider "cleanPath p = ''/''" | "ws \<noteq> []" "cleanPath p = CHR ''/'' # join_with ''/'' ws"
    | "ws \<noteq> []" "cleanPath p = CHR ''/'' # join_with ''/'' ws @ ''/''"
    by blast
  then show ?thesis
  proof cases
    case 2
    with join_ends [OF 2(1) proper] keep(1) [OF proper] show ?thesis by (simp add: cleanPath_def)
  next
    case 3
    with join_ends [OF 3(1) proper] keep(2) [OF proper] show ?thesis by (simp add: cleanPath_def)
  qed (simp add: root)
qed

section \<open>The routers\<close>

text \<open>\<open>Inl\<close> is the redirect, with status 301, to this path.\<close>

definition mux :: "(request \<Rightarrow> 's \<Rightarrow> response \<times> 's) \<Rightarrow> request \<Rightarrow> 's \<Rightarrow> (string + response) \<times> 's" where
  "mux serve r s =
     (if rq_method r \<noteq> ''CONNECT'' \<and> cleanPath (rq_path r) \<noteq> rq_path r then (Inl (cleanPath (rq_path r)), s)
      else (let (a, s') = serve r s in (Inr a, s')))"

lemma mux_cases:
  obtains (redirected) "mux serve r s = (Inl (cleanPath (rq_path r)), s)" "cleanPath (rq_path r) \<noteq> rq_path r" "rq_method r \<noteq> ''CONNECT''"
  | (served) "mux serve r s = (Inr (fst (serve r s)), snd (serve r s))"
  by (cases "rq_method r \<noteq> ''CONNECT'' \<and> cleanPath (rq_path r) \<noteq> rq_path r") (auto simp: mux_def split: prod.splits)

text \<open>All routes are clean: the handlers of both servers are reached as before.\<close>

lemma routes_clean:
  "cleanPath ''/api/transfer'' = ''/api/transfer''"
  "cleanPath ''/api/balance'' = ''/api/balance''"
  "cleanPath ''/api/audit-logs'' = ''/api/audit-logs''"
  "cleanPath ''/metrics'' = ''/metrics''"
  "cleanPath ''/.well-known/openid-configuration'' = ''/.well-known/openid-configuration''"
  "cleanPath ''/.well-known/jwks.json'' = ''/.well-known/jwks.json''"
  "cleanPath ''/jwks'' = ''/jwks''"
  "cleanPath ''/authorize'' = ''/authorize''"
  "cleanPath ''/token'' = ''/token''"
  by code_simp+

lemma mux_api: "api_handler env cfg (rq_path r) = Some h \<Longrightarrow> mux serve r s = (Inr (fst (serve r s)), snd (serve r s))"
  using routes_clean by (cases rule: mux_cases [where serve = serve and r = r and s = s]) (auto simp: api_handler_def split: if_splits)

text \<open>The middleware finds the resource by a prefix of the path, so on an unclean path it would ask about
  one resource and the handler would serve another; the router does not let that happen.\<close>

lemma prefix_alone_confuses:
  "resource_of ''/api/balance/../transfer'' = ''resource:balance''" "cleanPath ''/api/balance/../transfer'' = ''/api/transfer''"
  by code_simp+

text \<open>C27: no request is judged as another.  A path that is not clean is answered by a redirect to a clean
  one, which is not redirected again, and changes nothing; and a request that changes the
  gateway's state came under the exact path of a handler, and the resource the policy service is
  asked about is the one this handler serves.\<close>

theorem no_path_confusion:
  "case mux (gateway_serve env cfg) r g of
     (Inl q, g') \<Rightarrow> g' = g \<and> q \<noteq> rq_path r \<and> (\<exists>a. fst (mux (gateway_serve env cfg) (r\<lparr>rq_path := q\<rparr>) g) = Inr a)
   | (Inr a, g') \<Rightarrow> (a, g') = gateway_serve env cfg r g \<and>
       (g' = g \<or> (\<exists>n. n \<in> {''transfer'', ''balance'', ''audit-logs''} \<and> rq_path r = ''/api/'' @ n
          \<and> (\<forall>claims. pr_Resource (policy_request env claims r) = ''resource:'' @ n)))"
proof (cases rule: mux_cases [where serve = "gateway_serve env cfg" and r = r and s = g])
  case redirected
  then show ?thesis
    by (auto simp: mux_def cleanPath_clean split: prod.splits)
next
  case served
  have resources: "resource_of ''/api/transfer'' = ''resource:transfer''" "resource_of ''/api/balance'' = ''resource:balance''"
    "resource_of ''/api/audit-logs'' = ''resource:audit-logs''" by code_simp+
  have asked: "pr_Resource (policy_request env claims r) = resource_of (rq_path r)" for claims by (simp add: policy_request_def Let_def)
  have "\<exists>n. n \<in> {''transfer'', ''balance'', ''audit-logs''} \<and> rq_path r = ''/api/'' @ n
      \<and> (\<forall>claims. pr_Resource (policy_request env claims r) = ''resource:'' @ n)" if "snd (gateway_serve env cfg r g) \<noteq> g"
  proof -
    have "api_handler env cfg (rq_path r) \<noteq> None" using serve_other that by blast
    then consider "rq_path r = ''/api/transfer''" | "rq_path r = ''/api/balance''" | "rq_path r = ''/api/audit-logs''"
      unfolding api_handler_def by (metis option.distinct(1))
    then show ?thesis
    proof cases
      case 1 then show ?thesis by (intro exI [of _ "''transfer''"]) (simp add: asked resources)
    next
      case 2 then show ?thesis by (intro exI [of _ "''balance''"]) (simp add: asked resources)
    next
      case 3 then show ?thesis by (intro exI [of _ "''audit-logs''"]) (simp add: asked resources)
    qed
  qed
  then have "snd (gateway_serve env cfg r g) = g \<or> (\<exists>n. n \<in> {''transfer'', ''balance'', ''audit-logs''} \<and> rq_path r = ''/api/'' @ n
      \<and> (\<forall>claims. pr_Resource (policy_request env claims r) = ''resource:'' @ n))" by blast
  then show ?thesis unfolding served prod.case sum.case by (intro conjI) simp_all
qed

text \<open>The same router in front of the provider: only two paths reach its store.\<close>

lemma provider_paths:
  "snd (mux (idp_serve env) r s) \<noteq> s \<Longrightarrow> rq_path r = ''/authorize'' \<or> rq_path r = ''/token''"
  by (cases rule: mux_cases [where serve = "idp_serve env" and r = r and s = s]) (auto simp: idp_serve_def split: if_splits)

end
