(* ===== verification/PolicyWire.thy ===== *)
theory PolicyWire
  imports PolicyFile GatewayRuns "HOL-Library.AList" "HOL-Library.List_Lexorder" "HOL-Library.Char_ord"
begin

text \<open>
  The messages between the gateway and the policy service
  (\<^verbatim>\<open>gateway/internal/pdpclient/pb\<close>): Go structures sent as JSON over gRPC.  Encoding follows the
  structures' tags with \<open>omitempty\<close>, decoding is \<open>json.Unmarshal\<close>, and the client stubs call a
  connection, which is an input.  Members of a message are not repeated, and a number is the
  value of its literal.
\<close>

section \<open>Requests\<close>

definition omit_text :: "string \<Rightarrow> string \<Rightarrow> members" where
  "omit_text name s = (if s = [] then [] else [(name, JStr s)])"

text \<open>A Go map is written in the order of its keys.\<close>

definition context_json :: "(string \<times> string) list \<Rightarrow> members" where
  "context_json ps = (if ps = [] then [] else [(''context'', JObj (map (\<lambda>(k, v). (k, JStr v)) (sort_key fst ps)))])"

definition encode_check :: "pdp_request \<Rightarrow> json" where
  "encode_check q = JObj (omit_text ''tenant_id'' (pr_TenantId q) @ omit_text ''subject'' (pr_Subject q)
     @ omit_text ''action'' (pr_Action q) @ omit_text ''resource'' (pr_Resource q) @ context_json (pr_Context q))"

definition text_field :: "json \<Rightarrow> 'a \<Rightarrow> (string \<Rightarrow> 'a) \<Rightarrow> string + 'a" where
  "text_field v old put = (case v of JNull \<Rightarrow> Inr old | JStr s \<Rightarrow> Inr (put s) | _ \<Rightarrow> Inl unmarshal_error)"

definition put_entry :: "string \<times> json \<Rightarrow> (string \<times> string) list \<Rightarrow> string + (string \<times> string) list" where
  "put_entry e ps = map_sum id (\<lambda>s. AList.update (fst e) s ps) (string_item (snd e))"

definition set_check_field :: "string \<times> json \<Rightarrow> pdp_request \<Rightarrow> string + pdp_request" where
  "set_check_field e q =
     (if equal_fold (fst e) ''tenant_id'' then text_field (snd e) q (\<lambda>s. q\<lparr>pr_TenantId := s\<rparr>)
      else if equal_fold (fst e) ''subject'' then text_field (snd e) q (\<lambda>s. q\<lparr>pr_Subject := s\<rparr>)
      else if equal_fold (fst e) ''action'' then text_field (snd e) q (\<lambda>s. q\<lparr>pr_Action := s\<rparr>)
      else if equal_fold (fst e) ''resource'' then text_field (snd e) q (\<lambda>s. q\<lparr>pr_Resource := s\<rparr>)
      else if equal_fold (fst e) ''context'' then
        (case snd e of JNull \<Rightarrow> Inr (q\<lparr>pr_Context := []\<rparr>)
         | JObj ms \<Rightarrow> map_sum id (\<lambda>ps. q\<lparr>pr_Context := ps\<rparr>) (fold_result put_entry ms (pr_Context q))
         | _ \<Rightarrow> Inl unmarshal_error)
      else Inr q)"

text \<open>\<open>Reset\<close> gives this value too.\<close>

definition empty_check :: pdp_request where
  "empty_check = \<lparr>pr_TenantId = [], pr_Subject = [], pr_Action = [], pr_Resource = [], pr_Context = []\<rparr>"

definition decode_object :: "(string \<times> json \<Rightarrow> 'a \<Rightarrow> string + 'a) \<Rightarrow> 'a \<Rightarrow> json \<Rightarrow> string + 'a" where
  "decode_object put zero v = (case v of JNull \<Rightarrow> Inr zero | JObj ms \<Rightarrow> fold_result put ms zero | _ \<Rightarrow> Inl unmarshal_error)"

definition decode_check :: "json \<Rightarrow> string + pdp_request" where
  "decode_check = decode_object set_check_field empty_check"

section \<open>Responses\<close>

record CheckAccessResponse =
  ar_Decision :: int
  ar_MatchedPolicyId :: string

definition empty_answer :: CheckAccessResponse where
  "empty_answer = \<lparr>ar_Decision = 0, ar_MatchedPolicyId = []\<rparr>"

text \<open>The decision is written even when it is zero, which is DENY.\<close>

definition encode_answer :: "CheckAccessResponse \<Rightarrow> json" where
  "encode_answer a = JObj ((''decision'', JNum (of_int (ar_Decision a))) # omit_text ''matched_policy_id'' (ar_MatchedPolicyId a))"

definition int32_field :: "json \<Rightarrow> 'a \<Rightarrow> (int \<Rightarrow> 'a) \<Rightarrow> string + 'a" where
  "int32_field v old put = (case v of JNull \<Rightarrow> Inr old
     | JNum q \<Rightarrow> if q = of_int \<lfloor>q\<rfloor> \<and> - (2 ^ 31) \<le> \<lfloor>q\<rfloor> \<and> \<lfloor>q\<rfloor> < 2 ^ 31 then Inr (put \<lfloor>q\<rfloor>) else Inl unmarshal_error
     | _ \<Rightarrow> Inl unmarshal_error)"

definition set_answer_field :: "string \<times> json \<Rightarrow> CheckAccessResponse \<Rightarrow> string + CheckAccessResponse" where
  "set_answer_field e a =
     (if equal_fold (fst e) ''decision'' then int32_field (snd e) a (\<lambda>n. a\<lparr>ar_Decision := n\<rparr>)
      else if equal_fold (fst e) ''matched_policy_id'' then text_field (snd e) a (\<lambda>s. a\<lparr>ar_MatchedPolicyId := s\<rparr>)
      else Inr a)"

definition decode_answer :: "json \<Rightarrow> string + CheckAccessResponse" where
  "decode_answer = decode_object set_answer_field empty_answer"

section \<open>Explanations\<close>

text \<open>The second call of the service, which the gateway does not make.\<close>

record PolicyMetadata =
  pm_PolicyId :: string
  pm_Effect :: string
  pm_PolicyText :: string

record ExplainResponse =
  xr_Decision :: int
  xr_FinalReason :: string
  xr_Matched :: "PolicyMetadata option list"      \<comment> \<open>pointers; null is \<open>None\<close>\<close>

definition set_metadata_field :: "string \<times> json \<Rightarrow> PolicyMetadata \<Rightarrow> string + PolicyMetadata" where
  "set_metadata_field e p =
     (if equal_fold (fst e) ''policy_id'' then text_field (snd e) p (\<lambda>s. p\<lparr>pm_PolicyId := s\<rparr>)
      else if equal_fold (fst e) ''effect'' then text_field (snd e) p (\<lambda>s. p\<lparr>pm_Effect := s\<rparr>)
      else if equal_fold (fst e) ''policy_text'' then text_field (snd e) p (\<lambda>s. p\<lparr>pm_PolicyText := s\<rparr>)
      else Inr p)"

fun decode_metadata :: "json list \<Rightarrow> string + PolicyMetadata option list" where
  "decode_metadata [] = Inr []"
| "decode_metadata (v # vs) =
     (case decode_object set_metadata_field \<lparr>pm_PolicyId = [], pm_Effect = [], pm_PolicyText = []\<rparr> v of
        Inl e \<Rightarrow> Inl e
      | Inr p \<Rightarrow> map_sum id (Cons (if v = JNull then None else Some p)) (decode_metadata vs))"

definition set_explain_field :: "string \<times> json \<Rightarrow> ExplainResponse \<Rightarrow> string + ExplainResponse" where
  "set_explain_field e x =
     (if equal_fold (fst e) ''decision'' then int32_field (snd e) x (\<lambda>n. x\<lparr>xr_Decision := n\<rparr>)
      else if equal_fold (fst e) ''final_reason'' then text_field (snd e) x (\<lambda>s. x\<lparr>xr_FinalReason := s\<rparr>)
      else if equal_fold (fst e) ''matched'' then
        (case snd e of JNull \<Rightarrow> Inr (x\<lparr>xr_Matched := []\<rparr>)
         | JArr vs \<Rightarrow> map_sum id (\<lambda>ps. x\<lparr>xr_Matched := ps\<rparr>) (decode_metadata vs)
         | _ \<Rightarrow> Inl unmarshal_error)
      else Inr x)"

definition decode_explain :: "json \<Rightarrow> string + ExplainResponse" where
  "decode_explain = decode_object set_explain_field \<lparr>xr_Decision = 0, xr_FinalReason = [], xr_Matched = []\<rparr>"

section \<open>Stubs\<close>

text \<open>\<open>Invoke\<close> of the gRPC library: the error, or the body of the answer; and its wrapping of a
  decoder's error.\<close>

record grpc_conn =
  gn_invoke :: "string \<Rightarrow> json \<Rightarrow> string + json"
  gn_bad_answer :: "string \<Rightarrow> string"

definition grpc_call :: "grpc_conn \<Rightarrow> string \<Rightarrow> (json \<Rightarrow> string + 'a) \<Rightarrow> json \<Rightarrow> string + 'a" where
  "grpc_call cn path decode req =
     (case gn_invoke cn path req of Inl e \<Rightarrow> Inl e | Inr body \<Rightarrow> map_sum (gn_bad_answer cn) id (decode body))"

definition stub_CheckAccess :: "grpc_conn \<Rightarrow> pdp_request \<Rightarrow> string + CheckAccessResponse" where
  "stub_CheckAccess cn q = grpc_call cn ''/policy.v1.PolicyDecisionPoint/CheckAccess'' decode_answer (encode_check q)"

text \<open>An \<open>ExplainRequest\<close> has the members of a \<open>CheckAccessRequest\<close>.\<close>

definition stub_ExplainDecision :: "grpc_conn \<Rightarrow> pdp_request \<Rightarrow> string + ExplainResponse" where
  "stub_ExplainDecision cn q = grpc_call cn ''/policy.v1.PolicyDecisionPoint/ExplainDecision'' decode_explain (encode_check q)"

definition Unimplemented_CheckAccess :: "pdp_request \<Rightarrow> string + CheckAccessResponse" where
  "Unimplemented_CheckAccess q = Inl ''rpc error: code = Unimplemented desc = method CheckAccess not implemented''"

text \<open>The policy service as \<open>CheckAccess\<close> of the gateway's client sees it.\<close>

definition pdp_over :: "grpc_conn \<Rightarrow> pdp_service" where
  "pdp_over cn q = map_sum id (\<lambda>a. (ar_Decision a, ar_MatchedPolicyId a)) (stub_CheckAccess cn q)"

text \<open>A service on the other end that uses the same codec.\<close>

definition serve_check :: "(pdp_request \<Rightarrow> string + CheckAccessResponse) \<Rightarrow> json \<Rightarrow> string + json" where
  "serve_check service body = (case decode_check body of Inl e \<Rightarrow> Inl e | Inr q \<Rightarrow> map_sum id encode_answer (service q))"

definition conn_to :: "(pdp_request \<Rightarrow> string + CheckAccessResponse) \<Rightarrow> grpc_conn" where
  "conn_to service = \<lparr>gn_invoke = (\<lambda>path body.
       if path = ''/policy.v1.PolicyDecisionPoint/CheckAccess'' then serve_check service body
       else Inl ''rpc error: code = Unimplemented desc = unknown method''),
     gn_bad_answer = (\<lambda>e. ''rpc error: code = Internal desc = '' @ e)\<rparr>"

section \<open>Round trips\<close>

lemma wire_names:
  "\<not> equal_fold ''subject'' ''tenant_id''" "\<not> equal_fold ''action'' ''tenant_id''" "\<not> equal_fold ''action'' ''subject''"
  "\<not> equal_fold ''resource'' ''tenant_id''" "\<not> equal_fold ''resource'' ''subject''" "\<not> equal_fold ''resource'' ''action''"
  "\<not> equal_fold ''context'' ''tenant_id''" "\<not> equal_fold ''context'' ''subject''" "\<not> equal_fold ''context'' ''action''"
  "\<not> equal_fold ''context'' ''resource''" "\<not> equal_fold ''matched_policy_id'' ''decision''"
  by code_simp+

lemma fold_result_append:
  "fold_result f (xs @ ys) b = (case fold_result f xs b of Inl e \<Rightarrow> Inl e | Inr b' \<Rightarrow> fold_result f ys b')"
  by (induction xs arbitrary: b) (auto split: sum.splits)

lemma update_new: "k \<notin> fst ` set ps \<Longrightarrow> AList.update k v ps = ps @ [(k, v)]"
  by (induction ps) auto

lemma entries_back:
  "distinct (map fst (qs @ ps)) \<Longrightarrow> fold_result put_entry (map (\<lambda>(k, v). (k, JStr v)) ps) qs = Inr (qs @ ps)"
proof (induction ps arbitrary: qs)
  case (Cons p ps)
  obtain k v where p: "p = (k, v)" by force
  have "put_entry (k, JStr v) qs = Inr (qs @ [(k, v)])"
    using Cons.prems by (auto simp: put_entry_def string_item_def p update_new)
  moreover have "fold_result put_entry (map (\<lambda>(k, v). (k, JStr v)) ps) (qs @ [(k, v)]) = Inr (qs @ p # ps)"
    using Cons.IH [of "qs @ [(k, v)]"] Cons.prems by (simp add: p)
  ultimately show ?case by (simp add: p)
qed simp

lemma check_back:
  assumes "distinct (map fst (pr_Context q))"
  shows "decode_check (encode_check q) = Inr (q\<lparr>pr_Context := sort_key fst (pr_Context q)\<rparr>)"
proof -
  have "distinct (map fst ([] @ sort_key fst (pr_Context q)))"
    using assms by (simp add: distinct_map)
  from entries_back [OF this] have "fold_result put_entry (map (\<lambda>(k, v). (k, JStr v)) (sort_key fst (pr_Context q))) [] = Inr (sort_key fst (pr_Context q))"
    by simp
  then show ?thesis
    by (cases q) (auto simp: decode_check_def decode_object_def encode_check_def fold_result_append omit_text_def context_json_def
        set_check_field_def text_field_def wire_names empty_check_def)
qed

lemma answer_back:
  assumes "- (2 ^ 31) \<le> ar_Decision a" "ar_Decision a < 2 ^ 31"
  shows "decode_answer (encode_answer a) = Inr a"
  using assms by (cases a) (auto simp: decode_answer_def decode_object_def encode_answer_def omit_text_def set_answer_field_def
      int32_field_def text_field_def wire_names empty_answer_def)

lemma policy_context_distinct: "distinct (map fst (pr_Context (policy_request env claims r)))"
  by (simp add: policy_request_def Let_def)

definition answers_int32 :: "(pdp_request \<Rightarrow> string + CheckAccessResponse) \<Rightarrow> bool" where
  "answers_int32 service \<longleftrightarrow> (\<forall>q a. service q = Inr a \<longrightarrow> - (2 ^ 31) \<le> ar_Decision a \<and> ar_Decision a < 2 ^ 31)"


section \<open>What counts as consent\<close>

text \<open>Silence is a denial: an empty message, null and an answer without a decision decode to DENY.\<close>

lemma silence_denies:
  "decode_answer (JObj []) = Inr empty_answer" "decode_answer JNull = Inr empty_answer"
  "decode_answer (JObj [(''matched_policy_id'', JStr m)]) = Inr (empty_answer\<lparr>ar_MatchedPolicyId := m\<rparr>)"
  "ar_Decision empty_answer \<noteq> ALLOW"
  by (simp_all add: decode_answer_def decode_object_def set_answer_field_def text_field_def wire_names empty_answer_def ALLOW_def)

lemma wire_policy_ok:
  assumes "policy_ok env cfg r claims" "ge_pdp env = pdp_over cn" "gc_pdpClient cfg = Some failOpen"
  shows "(\<exists>v a. gn_invoke cn ''/policy.v1.PolicyDecisionPoint/CheckAccess'' (encode_check (policy_request env claims r)) = Inr v
      \<and> decode_answer v = Inr a \<and> ar_Decision a = ALLOW)
    \<or> failOpen \<and> (\<exists>e. stub_CheckAccess cn (policy_request env claims r) = Inl e)"
  using assms by (auto simp: policy_ok_def pdp_over_def stub_CheckAccess_def grpc_call_def map_sum_def split: sum.splits)

text \<open>C25: the gateway obeys the policy service.  A request that is not refused was authenticated, and the
  service was asked about it under the service's path, with this role as subject and this tenant,
  verb and resource, and its answer decodes to ALLOW; only with the fail-open setting also an
  error counts.  An answer that is missing, empty, malformed or any other number is a refusal.\<close>

theorem gateway_obeys_policy_service:
  assumes "jwt_lawful (ge_jwt env)" "api_handler env cfg (rq_path r) = Some h"
    and "ge_pdp env = pdp_over cn" "gc_pdpClient cfg = Some failOpen"
    and "\<not> refused (fst (gateway_serve env cfg r g))"
  shows "\<exists>jti claims. authenticated env cfg r g jti claims
    \<and> ((\<exists>v a. gn_invoke cn ''/policy.v1.PolicyDecisionPoint/CheckAccess'' (encode_check (policy_request env claims r)) = Inr v
          \<and> decode_answer v = Inr a \<and> ar_Decision a = ALLOW)
       \<or> failOpen \<and> (\<exists>e. stub_CheckAccess cn (policy_request env claims r) = Inl e))"
proof (cases rule: serve_cases [OF assms(1,2), where g = g])
  case (2 jti claims hs1 g1)
  with wire_policy_ok [OF 2(3) assms(3,4)] show ?thesis by blast
qed (use assms(5) in simp)

end
