(* ===== verification/ConcurrentRequests.thy ===== *)
theory ConcurrentRequests
  imports GatewayRuns
begin

text \<open>
  Requests that overlap inside the gateway.  A request is cut at its access to the replay cache:
  what \<open>SecureAPI\<close> does before it depends on no shared state, the cache is the concurrent one of
  \<open>ReplayCache\<close>, step by step, with its sweep, and what follows, from the token to the
  handler's database operation, is one step of an admitted request.  (Transactions of different
  requests that overlap are the subject of \<open>LedgerInterleaving\<close>.)
\<close>

section \<open>A request in two parts\<close>

text \<open>The access token, the thumbprint and the identifier of the proof, or the refusal.\<close>

definition before_cache :: "gateway_env \<Rightarrow> headers \<Rightarrow> request \<Rightarrow> response + string \<times> string \<times> string" where
  "before_cache env hs r =
     (let authHeader = rq_header r ''Authorization''; dpopHeader = rq_header r ''DPoP''
      in if authHeader = [] then Inl (http_error hs ''invalid_token: missing Authorization header'' StatusUnauthorized)
         else (case split_authorization authHeader of
           None \<Rightarrow> Inl (http_error hs ''invalid_token: Authorization type must be DPoP'' StatusUnauthorized)
         | Some (scheme, accessToken) \<Rightarrow>
             if \<not> equal_fold scheme ''DPoP'' then Inl (http_error hs ''invalid_token: Authorization type must be DPoP'' StatusUnauthorized)
             else if dpopHeader = [] then Inl (http_error hs ''invalid_dpop_proof: missing DPoP header proof'' StatusUnauthorized)
             else (case VerifyDPoPProof (ge_format env) (ge_jwt env) (ge_proof_now env) dpopHeader (rq_method r) (full_uri_gw r) accessToken of
               Inl e \<Rightarrow> Inl (http_error hs (''invalid_dpop_proof: '' @ e) StatusUnauthorized)
             | Inr (jkt, jti) \<Rightarrow> Inr (accessToken, jkt, jti))))"

lemma SecureAPI_parts:
  "SecureAPI env cfg nxt ctx hs r g =
     (case before_cache env hs r of
        Inl a \<Rightarrow> (a, g)
      | Inr (accessToken, jkt, jti) \<Rightarrow>
          (case IsJTIUsedAndSave (ge_jti_now env) jti (2 * minute) (gw_jtis g) of
             (True, c) \<Rightarrow> (http_error hs ''invalid_dpop_proof: replay attack detected (jti already used)'' StatusUnauthorized, g\<lparr>gw_jtis := c\<rparr>)
           | (False, c) \<Rightarrow> verify_token env cfg nxt accessToken jkt hs r (g\<lparr>gw_jtis := c\<rparr>)))"
  by (simp add: SecureAPI_def before_cache_def Let_def split: option.split prod.split sum.split)

lemma verify_token_db:
  assumes "api_handler env cfg (rq_path r) = Some h" "verify_token env cfg (EnforcePolicy env cfg h) tok jkt hs r g = (a, g')"
  shows "gw_db g' = gw_db g \<or> (\<exists>claims. policy_ok env cfg r claims \<and> tenant_op env cfg claims (gw_db g) (gw_db g'))"
proof -
  obtain p g2 where parsed: "parse_access_token env tok g = (p, g2)" by force
  have g2: "gw_db g2 = gw_db g" using parse_access_token_state(1) [of env tok g] parsed by simp
  show ?thesis
  proof (cases "\<exists>t. p = Inr t \<and> check_binding cfg (tk_claims t) jkt (GetZitiIdentity (rq_conn r)) = None")
    case True
    then obtain t where t: "p = Inr t" "check_binding cfg (tk_claims t) jkt (GetZitiIdentity (rq_conn r)) = None" by blast
    define claims where "claims = claims_of_token (tk_claims t)"
    define g3 where "g3 = g2\<lparr>gw_metrics := RecordSecurityOverhead (ge_dpop_us env) (ge_token_us env) (ge_ziti_us env) (gw_metrics g2)\<rparr>"
    have g3: "gw_db g3 = gw_db g" by (simp add: g3_def g2)
    have "EnforcePolicy env cfg h (Some claims) (perf_headers env hs) r g3 = (a, g')"
      using assms(2) by (simp add: verify_token_def parsed t claims_def g3_def)
    then show ?thesis
      using handler_db [OF assms(1)] g3
      by (cases rule: EnforcePolicy_cases [where env = env and cfg = cfg and nxt = h and claims = claims
            and hs = "perf_headers env hs" and r = r and g = g3]) (auto, metis snd_conv)
  next
    case False
    then have "g' = g2" using assms(2) by (auto simp: verify_token_def parsed split: sum.splits option.splits)
    with g2 show ?thesis by simp
  qed
qed

section \<open>The steps\<close>

record job =
  jb_env :: gateway_env
  jb_req :: request
  jb_tok :: string
  jb_jkt :: string
  jb_jti :: string

type_synonym effect = "job \<times> db \<times> db"      \<comment> \<open>a request served, the database before and after\<close>

record gw_world =
  cv_cache :: cache_world
  cv_waiting :: "nat \<rightharpoonup> job"
  cv_admitted :: "job list"
  cv_gateway :: gateway
  cv_effects :: "effect list"

inductive conc_step :: "gateway_config \<Rightarrow> gw_world \<Rightarrow> gw_world \<Rightarrow> bool" for cfg where
  arrive: "cw_calls (cv_cache w) i = None \<Longrightarrow> api_handler env cfg (rq_path r) \<noteq> None \<Longrightarrow> ge_jti_now env = cw_now (cv_cache w) \<Longrightarrow>
    before_cache env [] r = Inr (tok, jkt, jti) \<Longrightarrow>
    conc_step cfg w (w\<lparr>cv_cache := (cv_cache w)\<lparr>cw_calls := (cw_calls (cv_cache w))(i \<mapsto> Started jti (cw_now (cv_cache w)))\<rparr>,
      cv_waiting := (cv_waiting w)(i \<mapsto> \<lparr>jb_env = env, jb_req = r, jb_tok = tok, jb_jkt = jkt, jb_jti = jti\<rparr>)\<rparr>)"
| cache: "cache_step (2 * minute) (cv_cache w) c \<Longrightarrow> cw_accepted c = cw_accepted (cv_cache w) \<Longrightarrow>
    dom (cw_calls c) \<subseteq> dom (cw_calls (cv_cache w)) \<Longrightarrow> conc_step cfg w (w\<lparr>cv_cache := c\<rparr>)"
| admit: "cache_step (2 * minute) (cv_cache w) c \<Longrightarrow> cw_accepted c \<noteq> cw_accepted (cv_cache w) \<Longrightarrow>
    cw_calls (cv_cache w) i \<noteq> None \<Longrightarrow> cw_calls c i = None \<Longrightarrow> cv_waiting w i = Some b \<Longrightarrow>
    conc_step cfg w (w\<lparr>cv_cache := c, cv_admitted := b # cv_admitted w\<rparr>)"
| serve: "cv_admitted w = bs @ b # bs' \<Longrightarrow> api_handler (jb_env b) cfg (rq_path (jb_req b)) = Some h \<Longrightarrow>
    verify_token (jb_env b) cfg (EnforcePolicy (jb_env b) cfg h) (jb_tok b) (jb_jkt b) [] (jb_req b) (cv_gateway w) = (a, g) \<Longrightarrow>
    conc_step cfg w (w\<lparr>cv_admitted := bs @ bs', cv_gateway := g, cv_effects := (b, gw_db (cv_gateway w), gw_db g) # cv_effects w\<rparr>)"

definition conc_start :: "jti_map \<Rightarrow> instant \<Rightarrow> gateway \<Rightarrow> gw_world" where
  "conc_start m t0 g = \<lparr>cv_cache = cache_at m t0, cv_waiting = Map.empty, cv_admitted = [], cv_gateway = g, cv_effects = []\<rparr>"

section \<open>What every interleaving keeps\<close>

fun caller_jti :: "caller \<Rightarrow> string" where
  "caller_jti (Started j t) = j"
| "caller_jti (Stale j t) = j"

lemma cache_step_calls:
  assumes "cache_step ttl c c'"
  shows "cw_accepted c' = cw_accepted c \<Longrightarrow> dom (cw_calls c') \<subseteq> dom (cw_calls c) \<Longrightarrow> cw_calls c' i = Some x \<Longrightarrow>
      \<exists>y. cw_calls c i = Some y \<and> caller_jti x = caller_jti y"
    and "cw_accepted c' \<noteq> cw_accepted c \<Longrightarrow> cw_calls c i = Some y \<Longrightarrow> cw_calls c' i = None \<Longrightarrow>
      cw_accepted c' = caller_jti y # cw_accepted c \<and> cw_calls c' = (cw_calls c)(i := None)"
  using assms by (induction rule: cache_step.induct) (auto split: if_splits)

definition conc_inv :: "gw_world \<Rightarrow> bool" where
  "conc_inv w \<longleftrightarrow> (\<forall>i x. cw_calls (cv_cache w) i = Some x \<longrightarrow> (\<exists>b. cv_waiting w i = Some b \<and> jb_jti b = caller_jti x))
     \<and> (\<forall>j. count_list (cw_accepted (cv_cache w)) j =
          length (filter (\<lambda>b. jb_jti b = j) (cv_admitted w)) + length (filter (\<lambda>e. jb_jti (fst e) = j) (cv_effects w)))"

lemma conc_inv_step: "conc_step cfg w w' \<Longrightarrow> conc_inv w \<Longrightarrow> conc_inv w'"
proof (induction rule: conc_step.induct)
  case (cache w c)
  then show ?case using cache_step_calls(1) [OF cache(1,2,3)] by (fastforce simp: conc_inv_def)
next
  case (admit w c i b)
  then obtain y where y: "cw_calls (cv_cache w) i = Some y" by blast
  with admit(5,6) have "jb_jti b = caller_jti y" unfolding conc_inv_def by (metis option.inject)
  with cache_step_calls(2) [OF admit(1,2) y admit(4)] admit y show ?case by (auto simp: conc_inv_def)
qed (auto simp: conc_inv_def)

lemma conc_cache_step: "conc_step cfg w w' \<Longrightarrow> (cache_step (2 * minute))\<^sup>*\<^sup>* (cv_cache w) (cv_cache w')"
  by (induction rule: conc_step.induct) (auto intro: cache_step.start)

lemma conc_cache_run: "(conc_step cfg)\<^sup>*\<^sup>* w w' \<Longrightarrow> (cache_step (2 * minute))\<^sup>*\<^sup>* (cv_cache w) (cv_cache w')"
  by (induction rule: rtranclp_induct) (auto dest: conc_cache_step)

text \<open>The effects, oldest first, lead from one database to the other.\<close>

fun history :: "db \<Rightarrow> effect list \<Rightarrow> db \<Rightarrow> bool" where
  "history d [] d' = (d' = d)"
| "history d ((b, x, y) # es) d' = (x = d \<and> history y es d')"

lemma history_append: "history d (es @ [(b, x, y)]) d' \<longleftrightarrow> history d es x \<and> d' = y"
  by (induction d es x rule: history.induct) auto

text \<open>A job carries what its request's proof says.  An effect is nothing, or one operation of the tenant
  of claims the policy service allowed.\<close>

definition job_ok :: "job \<Rightarrow> bool" where
  "job_ok b \<longleftrightarrow> before_cache (jb_env b) [] (jb_req b) = Inr (jb_tok b, jb_jkt b, jb_jti b)"

definition effect_ok :: "gateway_config \<Rightarrow> effect \<Rightarrow> bool" where
  "effect_ok cfg e = (case e of (b, d, d') \<Rightarrow> job_ok b \<and> (d' = d \<or> (\<exists>claims. policy_ok (jb_env b) cfg (jb_req b) claims \<and> tenant_op (jb_env b) cfg claims d d')))"

definition traced :: "gateway_config \<Rightarrow> db \<Rightarrow> gw_world \<Rightarrow> bool" where
  "traced cfg d0 w \<longleftrightarrow> history d0 (rev (cv_effects w)) (gw_db (cv_gateway w)) \<and> list_all (effect_ok cfg) (cv_effects w)
     \<and> list_all job_ok (cv_admitted w) \<and> (\<forall>i b. cv_waiting w i = Some b \<longrightarrow> job_ok b)"

lemma traced_step: "conc_step cfg w w' \<Longrightarrow> traced cfg d0 w \<Longrightarrow> traced cfg d0 w'"
proof (induction rule: conc_step.induct)
  case (serve w bs b bs' h a g)
  from verify_token_db [OF serve(2,3)] serve(1,4) show ?case by (simp add: traced_def history_append effect_ok_def)
qed (auto simp: traced_def job_ok_def)

lemma conc_run_inv:
  assumes "(conc_step cfg)\<^sup>*\<^sup>* w w'" "conc_inv w" "traced cfg d0 w"
  shows "conc_inv w' \<and> traced cfg d0 w'"
  using assms by (induction rule: rtranclp_induct) (auto intro: conc_inv_step traced_step)


end
