(* ===== verification/Restart.thy ===== *)
theory Restart
  imports Deployment Router PolicyWire ConcurrentRequests
begin

text \<open>
  What a restart keeps and what it loses.  The provider's key is on disk, the database is
  PostgreSQL's; authorization codes, both replay caches, the key cache and the metrics are in
  memory.
\<close>

section \<open>The provider\<close>

definition config_failure :: string where
  "config_failure = cps [76, 0x1ED6, 73, 58, 32, 75, 104, 0xF4, 110, 103, 32, 116, 104, 0x1EC3, 32, 99, 0x1EA5, 117, 32,
     104, 0xEC, 110, 104, 32, 107, 104, 0xF3, 97, 32, 107, 0xFD, 58, 32]"

text \<open>\<open>main\<close>: the key and the fresh store it serves with, or the message it dies with.\<close>

definition idp_main :: "key_world \<Rightarrow> files \<Rightarrow> (string + private_key \<times> RAMStore) \<times> files" where
  "idp_main kw fs = (case LoadOrGenerateKeys kw ''.'' fs of
     (Inl e, fs') \<Rightarrow> (Inl (config_failure @ e), fs') | (Inr k, fs') \<Rightarrow> (Inr (k, empty_store), fs'))"

lemma unknown_code: "held s (form ''code'') = None \<Longrightarrow> rq_form r = Inr form \<Longrightarrow> rs_status (fst (TokenHandler env r s)) \<noteq> StatusOK"
  by (auto simp: TokenHandler_def GetAndRemoveAuthCode_def held_def Let_def split: option.splits)

text \<open>C29: a restart of the provider keeps its key and forgets its codes.  After a start that succeeded, a
  later start on the same disk serves with the same key and so the same key set, and leaves the
  file as it is; every token request it gets before it has issued a code is refused, also with
  a code from before.\<close>

theorem provider_restart:
  assumes "key_codecs kw" "idp_main kw fs = (Inr (k, s), fs')"
    and "kw_read kw' (key_file ''.'') = None" "kw_unpem kw' = kw_unpem kw" "kw_parse kw' = kw_parse kw"
  shows "\<exists>s'. idp_main kw' fs' = (Inr (k, s'), fs') \<and> rs_status (fst (TokenHandler env r s')) \<noteq> StatusOK"
proof -
  from assms(2) have "LoadOrGenerateKeys kw ''.'' fs = (Inr k, fs')"
    by (auto simp: idp_main_def split: prod.splits sum.splits)
  from keys_survive [OF assms(1) this assms(3-5)] have "idp_main kw' fs' = (Inr (k, empty_store), fs')"
    by (simp add: idp_main_def)
  moreover have "rs_status (fst (TokenHandler env r empty_store)) \<noteq> StatusOK"
  proof (cases "rq_form r")
    case (Inr form)
    moreover have "held empty_store (form ''code'') = None" by (simp add: held_def empty_store_def)
    ultimately show ?thesis by (intro unknown_code)
  qed (simp add: TokenHandler_def)
  ultimately show ?thesis by blast
qed

section \<open>The gateway\<close>

text \<open>\<open>time.Time\<close>'s zero is the first of January of the year 1.\<close>

definition zero_time :: instant where "zero_time = unix (- 62135596800)"

definition NewJWKSCache :: "duration \<Rightarrow> jwks_cache" where
  "NewJWKSCache ttl = \<lparr>jc_keys = Map.empty, jc_lastUpdate = zero_time, jc_ttl = ttl\<rparr>"

text \<open>The state a gateway starts with, on a database that is there already.\<close>

definition boot :: "db \<Rightarrow> gateway" where
  "boot d = \<lparr>gw_jtis = Map.empty, gw_jwks = NewJWKSCache (5 * minute), gw_metrics = empty_metrics, gw_db = d\<rparr>"

text \<open>A request of an honest client that a gateway without its proof in the cache serves.\<close>

definition honest_call :: "gateway_env \<Rightarrow> gateway_config \<Rightarrow> string \<Rightarrow> private_key \<Rightarrow> bytes \<Rightarrow> request \<Rightarrow> bool" where
  "honest_call env cfg client key jtiBytes r \<longleftrightarrow> (\<exists>sign idp_sign idp_key issued tok t0 v.
     jwt_lawful (ge_jwt env) \<and> checks_expiry (ge_jwt env) \<and> signs_for sign (ge_jwt env) \<and> signs_for idp_sign (ge_jwt env)
     \<and> key_ok key \<and> key_ok idp_key \<and> jtiBytes \<noteq> []
     \<and> idp_sign token_header (token_claims issued client (client_thumbprint (public_key key))) idp_key = Inr tok
     \<and> client_request sign key t0 jtiBytes tok r
     \<and> unix (t0 div second) \<le> ge_proof_now env \<and> ge_proof_now env \<le> unix (t0 div second) + 60 * second
     \<and> ge_token_now env < unix ((issued + 60 * second) div second)
     \<and> rs_body (JWKSHandler (public_key idp_key)) = Json v \<and> ge_fetch env = Inr (StatusOK, Inr v)
     \<and> identity_ok cfg r client \<and> policy_ok env cfg r (client_claims client (client_thumbprint (public_key key)))
     \<and> (\<forall>c. de_fault (ge_db env) c = None) \<and> gc_auditSecret cfg \<noteq> [])"

lemma honest_transfer:
  assumes "honest_call env cfg client key jtiBytes r" "rq_path r = ''/api/transfer''" "client_known env client u"
    and "decode_transfer (rq_body r) = Inr (amount, desc)" "0 < amount" "\<bar>to_cents amount\<bar> < 10 ^ 15"
    and "\<forall>e. gw_jtis g (hex_encode jtiBytes) = Some e \<longrightarrow> e \<le> ge_jti_now env" "jc_keys (gw_jwks g) = Map.empty"
  shows "rs_status (fst (gateway_serve env cfg r g)) = StatusCreated"
    and "\<exists>row. tenant_tx u (gw_db (snd (gateway_serve env cfg r g))) = tenant_tx u (gw_db g) @ [row] \<and> tr_cents row = to_cents amount"
proof -
  let ?claims = "client_claims client (client_thumbprint (public_key key))"
  obtain sign idp_sign idp_key issued tok t0 v where call:
    "jwt_lawful (ge_jwt env)" "checks_expiry (ge_jwt env)" "signs_for sign (ge_jwt env)" "signs_for idp_sign (ge_jwt env)"
    "key_ok key" "key_ok idp_key" "jtiBytes \<noteq> []"
    "idp_sign token_header (token_claims issued client (client_thumbprint (public_key key))) idp_key = Inr tok"
    "client_request sign key t0 jtiBytes tok r"
    and clock: "unix (t0 div second) \<le> ge_proof_now env" "ge_proof_now env \<le> unix (t0 div second) + 60 * second"
    "ge_token_now env < unix ((issued + 60 * second) div second)"
    and keys: "rs_body (JWKSHandler (public_key idp_key)) = Json v" "ge_fetch env = Inr (StatusOK, Inr v)"
    and allowed: "identity_ok cfg r client" "policy_ok env cfg r ?claims"
    and db: "\<forall>c. de_fault (ge_db env) c = None" "gc_auditSecret cfg \<noteq> []"
    using assms(1) unfolding honest_call_def by blast
  have h: "api_handler env cfg (rq_path r) = Some (CreateTransferHandler env cfg)" using assms(2) by (simp add: api_handler_def)
  from honest_served [OF call h clock assms(7) keys assms(8) allowed] obtain hs g1 where
    served: "gateway_serve env cfg r g = CreateTransferHandler env cfg (Some ?claims) hs r g1" "gw_db g1 = gw_db g" by blast
  have "uuid_in (ge_pg env) (TenantID ?claims) = Some u" "uuid_in (ge_pg env) (GetUserUUID (Sub ?claims)) \<noteq> None" "TenantID ?claims \<noteq> []"
    using assms(3) tenant_nonempty by (simp_all add: client_known_def client_claims_def)
  from transfer_answers [OF db(1) this db(2) assms(4-6), where hs = hs and g = g1]
  show "rs_status (fst (gateway_serve env cfg r g)) = StatusCreated"
    "\<exists>row. tenant_tx u (gw_db (snd (gateway_serve env cfg r g))) = tenant_tx u (gw_db g) @ [row] \<and> tr_cents row = to_cents amount"
    by (simp_all only: served)
qed

text \<open>C28: a restart makes a replay possible.  The same transfer request sent again within the lifetime of
  its proof and token is refused by the running gateway and leaves the database alone; after a
  restart of the gateway it is served a second time, and the tenant pays twice.  (The README
  lists the loss of the cache among the known limitations.)\<close>

theorem restart_doubles_transfer:
  assumes "honest_call env1 cfg client key jtiBytes r" "honest_call env2 cfg client key jtiBytes r"
    and "ge_jwt env2 = ge_jwt env1" "rq_path r = ''/api/transfer''" "client_known env1 client u" "client_known env2 client u"
    and "decode_transfer (rq_body r) = Inr (amount, desc)" "0 < amount" "\<bar>to_cents amount\<bar> < 10 ^ 15"
    and "\<forall>e. gw_jtis g (hex_encode jtiBytes) = Some e \<longrightarrow> e \<le> ge_jti_now env1" "jc_keys (gw_jwks g) = Map.empty"
    and "ge_jti_now env2 < ge_jti_now env1 + 2 * minute"
    and g1: "g1 = snd (gateway_serve env1 cfg r g)"
  shows "refused (fst (gateway_serve env2 cfg r g1)) \<and> gw_db (snd (gateway_serve env2 cfg r g1)) = gw_db g1
    \<and> rs_status (fst (gateway_serve env2 cfg r (boot (gw_db g1)))) = StatusCreated
    \<and> (\<exists>row1 row2. tenant_tx u (gw_db (snd (gateway_serve env2 cfg r (boot (gw_db g1))))) = tenant_tx u (gw_db g) @ [row1, row2]
        \<and> tr_cents row1 = to_cents amount \<and> tr_cents row2 = to_cents amount)"
proof -
  have lib: "jwt_lawful (ge_jwt env1)" using assms(1) by (auto simp: honest_call_def)
  have h: "api_handler env cfg (rq_path r) = Some (CreateTransferHandler env cfg)" for env using assms(4) by (simp add: api_handler_def)
  note first = honest_transfer [OF assms(1,4,5,7-11), folded g1]
  then have "\<not> refused (fst (gateway_serve env1 cfg r g))" by (simp add: refused_def)
  from served_proof_refused [OF lib assms(3) refl h h this, where es = "[]" and g' = g1] assms(12) g1
  have again: "refused (fst (gateway_serve env2 cfg r g1))" "gw_db (snd (gateway_serve env2 cfg r g1)) = gw_db g1" by simp_all
  have "\<forall>e. gw_jtis (boot (gw_db g1)) (hex_encode jtiBytes) = Some e \<longrightarrow> e \<le> ge_jti_now env2" "jc_keys (gw_jwks (boot (gw_db g1))) = Map.empty"
    "gw_db (boot (gw_db g1)) = gw_db g1"
    by (simp_all add: boot_def NewJWKSCache_def)
  with honest_transfer [OF assms(2,4,6,7-9), of "boot (gw_db g1)"] first(2) again show ?thesis by auto
qed

section \<open>Examples\<close>

text \<open>A disk without a key, and a PEM format: the type with its length in front, then the contents.\<close>

definition paper_pem :: "string \<Rightarrow> bytes \<Rightarrow> bytes" where
  "paper_pem t b = replicate (length t) 1 @ 0 # str_bytes t @ b"

definition paper_unpem :: "bytes \<Rightarrow> (string \<times> bytes) option" where
  "paper_unpem bs = (let n = length (takeWhile (\<lambda>x. x = 1) bs) in Some (bytes_str (take n (drop (Suc n) bs)), drop (n + Suc n) bs))"

lemma paper_inverse: "paper_unpem (paper_pem t b) = Some (t, b)"
proof -
  have "takeWhile (\<lambda>x. x = 1) (replicate (length t) 1 @ 0 # rest) = replicate (length t) (1 :: byte)" for rest
    by (subst takeWhile_append2) auto
  then show ?thesis
    by (simp add: paper_unpem_def paper_pem_def Let_def)
qed

definition paper_keys :: "private_key \<Rightarrow> key_world" where
  "paper_keys k = \<lparr>kw_stat = (\<lambda>_. None), kw_read = (\<lambda>_. None), kw_mkdir = None, kw_generate = Inr k,
     kw_marshal = (\<lambda>k. if k = (2, 9, 0) then Inr [2] else Inl ''unknown elliptic curve''), kw_open = None, kw_write = None, kw_partial = [],
     kw_pem = paper_pem, kw_unpem = paper_unpem, kw_parse = (\<lambda>b. if b = [2] then Inr (2, 9, 0) else Inl ''x509'')\<rparr>"

text \<open>The second start could generate another key; it serves with the first one's.\<close>

theorem provider_restart_witness:
  "\<exists>fs s. idp_main (paper_keys (2, 9, 0)) Map.empty = (Inr ((2, 9, 0), empty_store), fs)
    \<and> idp_main (paper_keys (1, 7, 0)) fs = (Inr ((2, 9, 0), s), fs)
    \<and> rs_status (fst (TokenHandler sample_idp (sample_request ''/token'' sample_secret) s)) \<noteq> StatusOK"
proof -
  have "key_codecs (paper_keys (2, 9, 0))" by (simp add: key_codecs_def paper_keys_def paper_inverse)
  moreover have "\<exists>fs. idp_main (paper_keys (2, 9, 0)) Map.empty = (Inr ((2, 9, 0), empty_store), fs)"
    by (simp add: idp_main_def LoadOrGenerateKeys_def create_key_def paper_keys_def Let_def)
  ultimately show ?thesis
    using provider_restart [where kw = "paper_keys (2, 9, 0)" and kw' = "paper_keys (1, 7, 0)" and env = sample_idp
        and r = "sample_request ''/token'' sample_secret"] by (fastforce simp: paper_keys_def)
qed

lemma patch_call: "honest_call patch_env gw_config ''client-alice'' (1, 7, 0) [1] patch_request"
proof -
  have "policy_ok patch_env gw_config patch_request c" for c
    using patch_reads(2) patch_permits(3) by (auto simp: policy_ok_def gw_config_def policy_request_def action_of_def Let_def)
  with patch_lib_facts gw_keys gw_token patch_client_request gw_clock gw_permits(4,6) patch_permits(1,5) show ?thesis
    unfolding honest_call_def patch_env_simps by blast
qed

theorem restart_doubles_transfer_witness:
  "refused (fst (gateway_serve patch_env gw_config patch_request (snd (gateway_serve patch_env gw_config patch_request gw_start))))
    \<and> rs_status (fst (gateway_serve patch_env gw_config patch_request
        (boot (gw_db (snd (gateway_serve patch_env gw_config patch_request gw_start)))))) = StatusCreated"
proof -
  have "client_known patch_env ''client-alice'' (fst (tenant_of_client ''client-alice''))"
    by (simp add: client_known_def patch_env_simps gw_uuids)
  from restart_doubles_transfer [OF patch_call patch_call refl patch_permits(2) this this patch_decodes _ _ _ gw_permits(7) _ refl]
  show ?thesis using tiny_amount [of "1 / 250"] by (simp add: gw_jtis_start minute_def second_def patch_env_simps)
qed

text \<open>A policy service that allows, behind the router and the wire.\<close>

definition wire_env :: gateway_env where
  "wire_env = gw_env\<lparr>ge_pdp := pdp_over (conn_to (\<lambda>q. Inr \<lparr>ar_Decision = 1, ar_MatchedPolicyId = ''allow-1''\<rparr>))\<rparr>"

lemma wire_allows: "policy_ok wire_env gw_config r c"
  by (auto simp: policy_ok_def wire_env_def gw_config_def pdp_over_def stub_CheckAccess_def grpc_call_def conn_to_def serve_check_def
      check_back [OF policy_context_distinct] answer_back ALLOW_def)


theorem gateway_obeys_policy_service_witness:
  "\<exists>jti claims v. authenticated wire_env gw_config (gw_request ''p'') gw_start jti claims
    \<and> gn_invoke (conn_to (\<lambda>q. Inr \<lparr>ar_Decision = 1, ar_MatchedPolicyId = ''allow-1''\<rparr>)) ''/policy.v1.PolicyDecisionPoint/CheckAccess''
        (encode_check (policy_request wire_env claims (gw_request ''p''))) = Inr v"
proof -
  have env: "ge_jwt wire_env = gw_lib" "ge_pg wire_env = sample_pg" "ge_proof_now wire_env = 0" "ge_jti_now wire_env = 0"
    "ge_token_now wire_env = 0" "ge_db wire_env = sample_env" "ge_fetch wire_env = Inr (200, Inr gw_jwks_json)"
    by (simp_all add: wire_env_def)
  have "rs_status (fst (gateway_serve wire_env gw_config (gw_request ''p'') gw_start)) = StatusOK"
    using honest_balance [of wire_env gw_sign gw_idp_sign "(1, 7, 0)" "(2, 9, 0)" "[1]" 0 "''client-alice''" "''tok''" 0 "gw_request ''p''"
      gw_start gw_jwks_json gw_config "fst (tenant_of_client ''client-alice'')"]
      gw_lib_facts gw_token gw_client_request gw_keys gw_clock gw_permits gw_uuids gw_jtis_start wire_allows
    by (simp add: env)
  then have "\<not> refused (fst (gateway_serve wire_env gw_config (gw_request ''p'') gw_start))" by (simp add: refused_def)
  moreover have "jwt_lawful (ge_jwt wire_env)" by (simp add: env gw_lib_facts)
  moreover have "api_handler wire_env gw_config (rq_path (gw_request ''p'')) = Some (GetBalanceHandler wire_env gw_config)"
    by (simp add: api_handler_def gw_request_def)
  moreover have "ge_pdp wire_env = pdp_over (conn_to (\<lambda>q. Inr \<lparr>ar_Decision = 1, ar_MatchedPolicyId = ''allow-1''\<rparr>))"
    "gc_pdpClient gw_config = Some False" by (simp_all add: wire_env_def gw_config_def)
  ultimately show ?thesis
    using gateway_obeys_policy_service [of wire_env gw_config "gw_request ''p''" _ _ False gw_start] by blast
qed

text \<open>A request alone in the concurrent gateway: it arrives, its identifier is stored, it is served.\<close>

lemma gw_before_cache: "before_cache gw_env [] (gw_request ''p'') = Inr (''tok'', client_thumbprint (7, 0), hex_encode [1])"
proof -
  have "VerifyDPoPProof (ge_format gw_env) gw_lib 0 ''p'' ''GET'' ''http://h/api/balance'' ''tok'' = Inr (client_thumbprint (public_key (1, 7, 0)), hex_encode [1])"
  proof (rule honest_proof_gateway [OF gw_lib_facts(1,3)])
    show "GenerateDPoPProof gw_sign 0 (Inr [1]) (1, 7, 0) ''GET'' ''http://h/api/balance'' ''tok'' = Inr ''p''"
      using gw_client_request by (simp add: client_request_def gw_request_def full_uri_gw_def)
  qed (use gw_keys(1) gw_clock proof_claims_fresh [OF gw_lib_facts(2)] in \<open>simp_all add: key_ok_def\<close>)
  moreover have "rq_header (gw_request ''p'') ''Authorization'' \<noteq> []" "rq_header (gw_request ''p'') ''DPoP'' = ''p''"
    "rq_method (gw_request ''p'') = ''GET''" "full_uri_gw (gw_request ''p'') = ''http://h/api/balance''"
    by (simp_all add: gw_request_def full_uri_gw_def)
  ultimately show ?thesis by (simp add: before_cache_def gw_split Let_def public_key_def)
qed


end
