(* ===== verification/MetricsRoute.thy ===== *)
theory MetricsRoute
  imports Telemetry VerifyChain "HOL-Library.Multiset"
begin

text \<open>
  The dashboard's reader of the gateway's metrics (\<^verbatim>\<open>dashboard/src/app/api/metrics/route.ts\<close>):
  the three regular expressions as matchers, the loop over the lines, and the proof that it
  reads back what \<open>ServeMetrics\<close> wrote.
\<close>

section \<open>The three patterns\<close>

definition after :: "string \<Rightarrow> string \<Rightarrow> string option" where
  "after p s = (if starts_with s p then Some (drop (length p) s) else None)"

text \<open>The groups \<open>([^"]+)\<close>, read up to the next quote, and \<open>(\d+)\<close>.\<close>

definition quoted_group :: "string \<Rightarrow> (string \<times> string) option" where
  "quoted_group s = (let g = takeWhile (\<lambda>c. c \<noteq> CHR 0x22) s in if g = [] then None else Some (g, drop (length g) s))"

definition digits_group :: "string \<Rightarrow> nat option" where
  "digits_group s = (let g = takeWhile is_digit s in if g = [] then None else Some (read_nat g))"

text \<open>\<open>name{label="group"} digits\<close>, matched at the start of a text.\<close>

definition match_gauge :: "string \<Rightarrow> string \<Rightarrow> (string \<times> nat) option" where
  "match_gauge p s =
     (case after p s of None \<Rightarrow> None | Some s1 \<Rightarrow>
     (case quoted_group s1 of None \<Rightarrow> None | Some (g, s2) \<Rightarrow>
     (case after ''\"} '' s2 of None \<Rightarrow> None | Some s3 \<Rightarrow>
      map_option (Pair g) (digits_group s3))))"

definition match_request :: "string \<Rightarrow> (string \<times> string \<times> nat) option" where
  "match_request s =
     (case after ''gateway_requests_total{handler=\"'' s of None \<Rightarrow> None | Some s1 \<Rightarrow>
     (case quoted_group s1 of None \<Rightarrow> None | Some (h, s2) \<Rightarrow>
      map_option (Pair h) (match_gauge ''\",status=\"'' s2)))"

text \<open>\<open>match\<close> finds the leftmost position at which the pattern matches.\<close>

fun leftmost :: "(string \<Rightarrow> 'a option) \<Rightarrow> string \<Rightarrow> 'a option" where
  "leftmost f [] = f []"
| "leftmost f (c # s) = (case f (c # s) of Some x \<Rightarrow> Some x | None \<Rightarrow> leftmost f s)"

section \<open>The route\<close>

record request_metric =
  rm_handler :: string
  rm_status :: string
  rm_count :: nat

record parsed_metrics =
  pm_requests :: "request_metric list"
  pm_securityOverhead :: "(string \<times> nat) list"    \<comment> \<open>an object, its properties in order of creation\<close>
  pm_dbLatency :: "(string \<times> nat) list"

definition initial_metrics :: parsed_metrics where
  "initial_metrics = \<lparr>pm_requests = [], pm_securityOverhead = [(''dpop'', 0), (''token'', 0), (''ziti'', 0)],
     pm_dbLatency = [(''rls_context'', 0), (''worm_exec'', 0)]\<rparr>"

fun set_property :: "string \<Rightarrow> 'a \<Rightarrow> (string \<times> 'a) list \<Rightarrow> (string \<times> 'a) list" where
  "set_property k v [] = [(k, v)]"
| "set_property k v ((k', w) # ps) = (if k' = k then (k, v) # ps else (k', w) # set_property k v ps)"

definition parse_line :: "string \<Rightarrow> parsed_metrics \<Rightarrow> parsed_metrics" where
  "parse_line l m =
     (if l = [] \<or> starts_with l ''#'' then m
      else if starts_with l ''gateway_requests_total'' then
        (case leftmost match_request l of
           Some (h, st, n) \<Rightarrow> m\<lparr>pm_requests := pm_requests m @ [\<lparr>rm_handler = h, rm_status = st, rm_count = n\<rparr>]\<rparr>
         | None \<Rightarrow> m)
      else if starts_with l ''gateway_security_overhead_microseconds'' then
        (case leftmost (match_gauge ''gateway_security_overhead_microseconds{stage=\"'') l of
           Some (k, n) \<Rightarrow> m\<lparr>pm_securityOverhead := set_property k n (pm_securityOverhead m)\<rparr>
         | None \<Rightarrow> m)
      else if starts_with l ''gateway_db_latency_microseconds'' then
        (case leftmost (match_gauge ''gateway_db_latency_microseconds{operation=\"'') l of
           Some (k, n) \<Rightarrow> m\<lparr>pm_dbLatency := set_property k n (pm_dbLatency m)\<rparr>
         | None \<Rightarrow> m)
      else m)"

definition parse_metrics :: "string \<Rightarrow> parsed_metrics" where
  "parse_metrics text = fold parse_line (split_on CHR 0x0A text) initial_metrics"

text \<open>The fetched response: the error thrown, or the status and the body.\<close>

definition metrics_GET :: "string + (nat \<times> string) \<Rightarrow> parsed_metrics api_response" where
  "metrics_GET fetched = respond
     (case fetched of
        Inl e \<Rightarrow> Inl e
      | Inr (status, text) \<Rightarrow>
          if 200 \<le> status \<and> status \<le> 299 then Inr (parse_metrics text)
          else Inl (''Gateway returned status '' @ show_nat status))"

section \<open>Reading back what the gateway writes\<close>

lemma after_append [simp]: "after p (p @ s) = Some s"
  by (simp add: after_def)

lemma quoted_group_name: "plain_name h \<Longrightarrow> quoted_group (h @ (CHR 0x22 # q) @ s) = Some (h, (CHR 0x22 # q) @ s)"
proof -
  assume h: "plain_name h"
  then have "takeWhile (\<lambda>c. c \<noteq> CHR 0x22) (h @ (CHR 0x22 # q) @ s) = h"
    by (subst takeWhile_append2) (auto simp: plain_name_def)
  with h show ?thesis by (simp add: quoted_group_def plain_name_def)
qed

lemma digits_group_show: "digits_group (show_nat n) = Some n"
  using show_nat_digits [of n] by (simp add: digits_group_def takeWhile_eq_all_conv [THEN iffD2])

lemma show_int_nat: "0 \<le> i \<Longrightarrow> show_int i = show_nat (nat i)"
  by (simp add: show_int_def)

lemma match_gauge_line:
  "plain_name h \<Longrightarrow> match_gauge p (p @ h @ ''\"} '' @ show_nat n) = Some (h, n)"
  by (simp only: match_gauge_def after_append option.case quoted_group_name prod.case digits_group_show option.map)

lemma plain_show_nat: "plain_name (show_nat n)"
  using show_nat_no [of "CHR 0x22" n] show_nat_no [of "CHR 0x0A" n] by (simp add: plain_name_def)

lemma match_request_line:
  assumes "plain_name h"
  shows "match_request (''gateway_requests_total{handler=\"'' @ h @ ''\",status=\"'' @ show_nat st @ ''\"} '' @ show_nat n)
    = Some (h, show_nat st, n)"
  using assms by (simp only: match_request_def after_append option.case quoted_group_name prod.case
      match_gauge_line plain_show_nat option.map)

lemma leftmost_first: "f s = Some x \<Longrightarrow> leftmost f s = Some x"
  by (cases s) auto

definition request_entry :: "string \<times> int \<Rightarrow> request_metric" where
  "request_entry e = (case split_last_colon (fst e) of
     Some (h, st) \<Rightarrow> \<lparr>rm_handler = h, rm_status = st, rm_count = nat (snd e)\<rparr>
   | None \<Rightarrow> \<lparr>rm_handler = fst e, rm_status = ''0'', rm_count = nat (snd e)\<rparr>)"

lemma parse_request_line:
  assumes "plain_name h" "0 \<le> n"
  shows "parse_line (request_line (request_key h st, n)) m
    = m\<lparr>pm_requests := pm_requests m @ [request_entry (request_key h st, n)]\<rparr>"
proof -
  have "leftmost match_request (request_line (request_key h st, n)) = Some (h, show_nat st, nat n)"
    using assms by (simp only: request_line_key show_int_nat leftmost_first match_request_line)
  then show ?thesis
    by (simp add: parse_line_def request_line_key request_entry_def split_request_key)
qed

lemma parse_overhead_line:
  assumes "plain_name k" "0 \<le> n"
  shows "parse_line (overhead_line k n) m = m\<lparr>pm_securityOverhead := set_property k (nat n) (pm_securityOverhead m)\<rparr>"
proof -
  have "match_gauge ''gateway_security_overhead_microseconds{stage=\"'' (overhead_line k n) = Some (k, nat n)"
    using match_gauge_line [OF assms(1), of "''gateway_security_overhead_microseconds{stage=\"''" "nat n"]
    by (simp only: overhead_line_def show_int_nat [OF assms(2)])
  from leftmost_first [of "match_gauge ''gateway_security_overhead_microseconds{stage=\"''", OF this]
  show ?thesis by (simp add: parse_line_def overhead_line_def)
qed

lemma parse_db_line:
  assumes "plain_name k" "0 \<le> n"
  shows "parse_line (db_line k n) m = m\<lparr>pm_dbLatency := set_property k (nat n) (pm_dbLatency m)\<rparr>"
proof -
  have "match_gauge ''gateway_db_latency_microseconds{operation=\"'' (db_line k n) = Some (k, nat n)"
    using match_gauge_line [OF assms(1), of "''gateway_db_latency_microseconds{operation=\"''" "nat n"]
    by (simp only: db_line_def show_int_nat [OF assms(2)])
  from leftmost_first [of "match_gauge ''gateway_db_latency_microseconds{operation=\"''", OF this]
  show ?thesis by (simp add: parse_line_def db_line_def)
qed

lemma split_lines: "\<forall>l \<in> set ls. CHR 0x0A \<notin> set l \<Longrightarrow> split_on CHR 0x0A (concat (map line ls)) = ls @ [[]]"
  by (induction ls) (auto simp: line_def split_on_line)

lemma parse_comment: "parse_line (CHR ''#'' # l) m = m" "parse_line [] m = m"
  by (simp_all add: parse_line_def)

lemma fold_request_lines:
  "\<forall>(k, n) \<in> set es. 0 < n \<and> (\<exists>h st. plain_name h \<and> k = request_key h st) \<Longrightarrow>
     fold parse_line (map request_line es) m = m\<lparr>pm_requests := pm_requests m @ map request_entry es\<rparr>"
proof (induction es arbitrary: m)
  case (Cons e es)
  then obtain h st n where "e = (request_key h st, n)" "plain_name h" "0 < n" by (cases e) auto
  with Cons show ?case by (simp add: parse_request_line)
qed simp

lemma show_int_no_newline: "CHR 0x0A \<notin> set (show_int i)"
  using show_nat_no [of "CHR 0x0A"] by (auto simp: show_int_def)

lemma metrics_lines_no_newline:
  assumes "\<forall>(k, n) \<in> set es. \<exists>h st. plain_name h \<and> k = request_key h st"
  shows "\<forall>l \<in> set (metrics_lines es m). CHR 0x0A \<notin> set l"
proof -
  have "CHR 0x0A \<notin> set (request_line e)" if "e \<in> set es" for e
  proof -
    from assms that obtain h st n where "e = (request_key h st, n)" "plain_name h" by (cases e) auto
    then show ?thesis
      using show_int_no_newline show_nat_no [of "CHR 0x0A" st] by (simp add: request_line_key plain_name_def)
  qed
  then show ?thesis
    using show_int_no_newline by (auto simp: metrics_lines_def overhead_line_def db_line_def)
qed

lemma parse_served:
  assumes "metrics_ok m" "set order = set (requestsTotal m)"
  shows "parse_metrics (ServeMetrics order m) = \<lparr>pm_requests = map request_entry order,
     pm_securityOverhead = [(''dpop'', nat (dpopVerifyUs m)), (''token'', nat (tokenVerifyUs m)),
        (''ziti'', nat (zitiVerifyUs m)), (''pdp_grpc'', nat (pdpVerifyUs m))],
     pm_dbLatency = [(''rls_context'', nat (dbRlsContextUs m)), (''worm_exec'', nat (dbWormExecUs m))]\<rparr>"
proof -
  have entries: "\<forall>(k, n) \<in> set order. 0 < n \<and> (\<exists>h st. plain_name h \<and> k = request_key h st)"
    using assms by (simp add: metrics_ok_def)
  then have "split_on CHR 0x0A (ServeMetrics order m) = metrics_lines order m @ [[]]"
    unfolding ServeMetrics_def by (intro split_lines metrics_lines_no_newline) auto
  moreover have "plain_name ''dpop''" "plain_name ''token''" "plain_name ''ziti''" "plain_name ''pdp_grpc''"
    "plain_name ''rls_context''" "plain_name ''worm_exec''" by (simp_all add: plain_name_def)
  ultimately show ?thesis
    using assms(1)
    by (simp add: parse_metrics_def metrics_lines_def parse_comment fold_request_lines [OF entries]
        parse_overhead_line parse_db_line initial_metrics_def metrics_ok_def)
qed



end
