(* ===== verification/CertsRoute.thy ===== *)
theory CertsRoute
  imports Js VerifyChain
begin

text \<open>
  The certificate listing of the dashboard (\<^verbatim>\<open>dashboard/src/app/api/certs/route.ts\<close>).
  Instants are milliseconds.  The files and the X.509 parser are inputs: a path is missing,
  makes the parser throw, or holds a certificate.
\<close>

record x509 =
  x_subject :: string
  x_issuer :: string
  x_validFrom :: int
  x_validTo :: int
  x_fingerprint :: string

datatype cert_file = Missing | Unreadable string | Certificate x509

record cert_info =
  ci_name :: string
  ci_subject :: string
  ci_issuer :: string
  ci_validFrom :: string
  ci_validTo :: string
  ci_daysRemaining :: int
  ci_fingerprint :: string

record certs_data =
  cd_certificates :: "cert_info list"
  cd_expiringCount :: nat

definition certFiles :: "(string \<times> string) list" where
  "certFiles = [(''Root CA'', ''ca/root-ca.crt''), (''Intermediate CA'', ''ca/intermediate-ca.crt''),
     (''Client Alice'', ''clients/client-alice.crt'')]"

definition day_ms :: int where "day_ms = 1000 * 60 * 60 * 24"

definition daysRemaining :: "int \<Rightarrow> x509 \<Rightarrow> int" where
  "daysRemaining now c = \<lceil>of_int (x_validTo c - now) / of_int day_ms :: rat\<rceil>"

definition cert_entry :: "(int \<Rightarrow> string) \<Rightarrow> int \<Rightarrow> string \<Rightarrow> x509 \<Rightarrow> cert_info" where
  "cert_entry fmt_iso now name c = \<lparr>ci_name = name, ci_subject = x_subject c, ci_issuer = x_issuer c,
     ci_validFrom = fmt_iso (x_validFrom c), ci_validTo = fmt_iso (x_validTo c),
     ci_daysRemaining = daysRemaining now c, ci_fingerprint = x_fingerprint c\<rparr>"

fun certs_loop :: "(int \<Rightarrow> string) \<Rightarrow> int \<Rightarrow> (string \<Rightarrow> cert_file) \<Rightarrow> (string \<times> string) list
    \<Rightarrow> cert_info list \<Rightarrow> nat \<Rightarrow> string + certs_data" where
  "certs_loop fmt_iso now fs [] results expiringCount =
     Inr \<lparr>cd_certificates = results, cd_expiringCount = expiringCount\<rparr>"
| "certs_loop fmt_iso now fs ((name, path) # files) results expiringCount =
     (case fs path of
        Missing \<Rightarrow> certs_loop fmt_iso now fs files results expiringCount
      | Unreadable e \<Rightarrow> Inl e
      | Certificate c \<Rightarrow>
          certs_loop fmt_iso now fs files (results @ [cert_entry fmt_iso now name c])
            (if daysRemaining now c < 30 then expiringCount + 1 else expiringCount))"

definition certs_GET :: "(int \<Rightarrow> string) \<Rightarrow> int \<Rightarrow> (string \<Rightarrow> cert_file) \<Rightarrow> certs_data api_response" where
  "certs_GET fmt_iso now fs = respond (certs_loop fmt_iso now fs certFiles [] 0)"

section \<open>What the report says\<close>

fun present :: "(string \<Rightarrow> cert_file) \<Rightarrow> (string \<times> string) list \<Rightarrow> (string \<times> x509) list" where
  "present fs [] = []"
| "present fs ((name, path) # files) =
     (case fs path of Certificate c \<Rightarrow> (name, c) # present fs files | _ \<Rightarrow> present fs files)"

lemma daysRemaining_less: "daysRemaining now c < n \<longleftrightarrow> x_validTo c - now \<le> (n - 1) * day_ms"
proof -
  have "daysRemaining now c < n \<longleftrightarrow> daysRemaining now c \<le> n - 1" by simp
  also have "\<dots> \<longleftrightarrow> (of_int (x_validTo c - now) / of_int day_ms :: rat) \<le> of_int (n - 1)"
    unfolding daysRemaining_def by (rule ceiling_le_iff)
  also have "\<dots> \<longleftrightarrow> (of_int (x_validTo c - now) :: rat) \<le> of_int ((n - 1) * day_ms)"
    by (simp add: day_ms_def divide_le_eq)
  finally show ?thesis by (simp only: of_int_le_iff)
qed

fun readable :: "cert_file \<Rightarrow> bool" where
  "readable (Unreadable e) = False"
| "readable f = True"

lemma certs_loop_readable:
  "list_all (\<lambda>(name, path). readable (fs path)) files \<Longrightarrow>
     certs_loop fmt_iso now fs files rs n = Inr
       \<lparr>cd_certificates = rs @ map (\<lambda>(name, c). cert_entry fmt_iso now name c) (present fs files),
        cd_expiringCount = n + length (filter (\<lambda>(name, c). x_validTo c - now \<le> 29 * day_ms) (present fs files))\<rparr>"
  by (induction files arbitrary: rs n) (auto simp: daysRemaining_less split: cert_file.splits)

lemma certs_loop_unreadable:
  "\<not> list_all (\<lambda>(name, path). readable (fs path)) files \<Longrightarrow>
     \<exists>e. certs_loop fmt_iso now fs files rs n = Inl e \<and> list_ex (\<lambda>(name, path). fs path = Unreadable e) files"
  by (induction files arbitrary: rs n) (fastforce split: cert_file.splits)+

text \<open>C33: the report lists the certificates that are there, in order, and counts as expiring those
  with at most 29 days left, expired ones included; one unreadable file fails the whole
  report, a missing one is skipped.\<close>

theorem certs_report:
  "case certs_GET fmt_iso now fs of
     Api_Success d \<Rightarrow> list_all (\<lambda>(name, path). readable (fs path)) certFiles
       \<and> cd_certificates d = map (\<lambda>(name, c). cert_entry fmt_iso now name c) (present fs certFiles)
       \<and> cd_expiringCount d = length (filter (\<lambda>(name, c). x_validTo c - now \<le> 29 * day_ms) (present fs certFiles))
   | Api_Error code message \<Rightarrow> code = 500 \<and> list_ex (\<lambda>(name, path). fs path = Unreadable message) certFiles"
proof (cases "list_all (\<lambda>(name, path). readable (fs path)) certFiles")
  case True
  then show ?thesis
    by (simp add: certs_GET_def respond_def certs_loop_readable)
next
  case False
  then obtain e where "certs_loop fmt_iso now fs certFiles [] 0 = Inl e" "list_ex (\<lambda>(name, path). fs path = Unreadable e) certFiles"
    using certs_loop_unreadable by blast
  then show ?thesis by (simp add: certs_GET_def respond_def)
qed

end
