(* ===== verification/AttackRoute.thy ===== *)
theory AttackRoute
  imports Benchmark Fetch VerifyChain IdpFacts
begin

text \<open>
  The attack simulator of the dashboard (\<^verbatim>\<open>dashboard/src/app/api/attack/route.ts\<close>): its four
  scenarios, and what they report when they are run against this repository's identity
  provider and ledger.  The log lines are the route's own, with letters outside ASCII given
  by their code points.
\<close>

section \<open>Configuration and proofs\<close>

record attack_config =
  gatewayURL :: string
  idpURL :: string
  aliceSecret :: string
  bobSecret :: string

definition default_attack_config :: attack_config where
  "default_attack_config = \<lparr>gatewayURL = ''http://localhost:8080/api/balance'', idpURL = ''http://localhost:8081'',
     aliceSecret = ''alice-secure-secret-2026'', bobSecret = ''bob-secure-secret-2026''\<rparr>"

record attack_env =
  ae_sign :: "private_key \<Rightarrow> bytes \<Rightarrow> bytes"
  ae_privateKey :: private_key
  ae_random :: bytes
  ae_nowMs :: int

definition placeholder_jwk :: json where
  "placeholder_jwk = JObj [(''kty'', JStr ''EC''), (''crv'', JStr ''P-256''),
     (''x'', JStr ''1vYdKshV-Y7G62Yj4T7zV8-2t2Z8U5_8yVw4_2Vw4_0''),
     (''y'', JStr ''2vYdKshV-Y7G62Yj4T7zV8-2t2Z8U5_8yVw4_2Vw4_0'')]"

definition attack_header :: json where
  "attack_header = JObj [(''alg'', JStr ''ES256''), (''typ'', JStr ''dpop+jwt''), (''jwk'', placeholder_jwk)]"

definition attack_payload :: "int \<Rightarrow> string \<Rightarrow> string \<Rightarrow> string \<Rightarrow> string \<Rightarrow> json" where
  "attack_payload nowMs htm htu jti ath =
     JObj ([(''jti'', JStr jti), (''htm'', JStr htm), (''htu'', JStr htu), (''iat'', JNum (of_int (nowMs div 1000)))]
        @ (if ath \<noteq> [] then [(''ath'', JStr ath)] else []))"

definition attack_generateDPoPProof ::
  "(private_key \<Rightarrow> bytes \<Rightarrow> bytes) \<Rightarrow> private_key \<Rightarrow> int \<Rightarrow> string \<Rightarrow> string \<Rightarrow> string \<Rightarrow> string \<Rightarrow> string" where
  "attack_generateDPoPProof sign privateKey nowMs htm htu jti ath =
     (let tokenString = b64_text (stringify attack_header) @ ''.'' @ b64_text (stringify (attack_payload nowMs htm htu jti ath));
          signature = sign privateKey (str_bytes tokenString)
      in tokenString @ ''.'' @ attack_joseSig signature)"

definition attack_auth_request :: "string \<Rightarrow> string \<Rightarrow> string \<Rightarrow> string \<Rightarrow> http_request" where
  "attack_auth_request idp client secret challenge =
     \<lparr>hr_url = idp @ ''/authorize?response_type=code&client_id='' @ client @ ''&client_secret='' @ secret
        @ ''&code_challenge='' @ challenge
        @ ''&code_challenge_method=S256&redirect_uri=http://localhost:8080/callback'',
      hr_method = ''GET'', hr_headers = [(''Accept'', ''application/json'')], hr_body = []\<rparr>"

definition attack_api_request :: "string \<Rightarrow> json option \<Rightarrow> string \<Rightarrow> http_request" where
  "attack_api_request url token dpopProof = \<lparr>hr_url = url, hr_method = ''GET'',
     hr_headers = [(''Authorization'', ''DPoP '' @ js_text token), (''DPoP'', dpopProof)], hr_body = []\<rparr>"

section \<open>The log lines\<close>

definition replay_1 :: string where
  "replay_1 =
     ''[INFO] Kh'' @ cps [7903] @ ''i t'' @ cps [7841] @ ''o t'' @ cps [7845] @ ''n c'' @ cps [244] @
     ''ng DPoP Replay...''"
definition replay_2 :: string where
  "replay_2 =
     ''[INFO] L'' @ cps [7845] @ ''y Access Token h'' @ cps [7907] @ ''p l'' @ cps [7879] @ '' t'' @
     cps [7915] @ '' IdP...''"
definition replay_no_token :: string where
  "replay_no_token =
     ''Kh'' @ cps [244] @ ''ng th'' @ cps [7875] @ '' l'' @ cps [7845] @ ''y token '' @ cps [273, 7875] @
     '' ch'' @ cps [7841] @ ''y test replay''"
definition replay_3 :: string where
  "replay_3 =
     ''[INFO] Sinh DPoP Proof ch'' @ cps [7913] @ ''a JTI '' @ cps [273, 7897] @ ''c b'' @ cps [7843] @
     ''n: ''"
definition replay_4 :: string where
  "replay_4 =
     ''[ATTACK] G'' @ cps [7917] @ ''i Request l'' @ cps [7847] @ ''n 1 '' @ cps [273, 7871] @
     ''n API Gateway...''"
definition replay_5 :: string where
  "replay_5 =
     ''[GATEWAY RESPONSE] L'' @ cps [7847] @ ''n 1: HTTP ''"
definition replay_6 :: string where
  "replay_6 =
     ''[ATTACK] Ph'' @ cps [225] @ ''t l'' @ cps [7841] @ ''i (Replay) '' @ cps [273, 250] @
     ''ng DPoP Proof '' @ cps [273, 243] @ '' l'' @ cps [7847] @ ''n 2 song song...''"
definition replay_7 :: string where
  "replay_7 =
     ''[GATEWAY RESPONSE] L'' @ cps [7847] @ ''n 2: HTTP ''"
definition replay_blocked :: string where
  "replay_blocked =
     ''[SUCCESS] '' @ cps [272, 193] @ ''NH CH'' @ cps [7862] @ ''N TH'' @ cps [192] @ ''NH C'' @
     cps [212] @ ''NG: L'' @ cps [7899] @ ''p b'' @ cps [7843] @ ''o v'' @ cps [7879] @ '' DPoP '' @
     cps [273, 227] @ '' ch'' @ cps [7863] @ ''n '' @ cps [273, 7913] @ ''ng replay attack. Gateway b'' @
     cps [225] @ ''o: '' @ [CHR 0x22]"
definition replay_passed :: string where
  "replay_passed =
     ''[FAILED] T'' @ cps [7845] @ ''n c'' @ cps [244] @ ''ng l'' @ cps [7885] @ ''t qua! C'' @
     cps [7847] @ ''n ki'' @ cps [7875] @ ''m tra l'' @ cps [7841] @ ''i c'' @ cps [7845] @ ''u h'' @
     cps [236] @ ''nh JTI Cache c'' @ cps [7911] @ ''a Gateway.''"
definition spoof_1 :: string where
  "spoof_1 =
     ''[INFO] Kh'' @ cps [7903] @ ''i t'' @ cps [7841] @ ''o t'' @ cps [7845] @ ''n c'' @ cps [244] @
     ''ng M'' @ cps [7841] @ ''o danh Client (Spoofing)...''"
definition spoof_2 :: string where
  "spoof_2 =
     ''[ATTACK] G'' @ cps [7917] @ ''i y'' @ cps [234] @ ''u c'' @ cps [7847] @ ''u c'' @ cps [7845] @
     ''p Token '' @ cps [273, 7871] @ ''n IdP b'' @ cps [7857] @ ''ng Client Secret sai...''"
definition spoof_3 :: string where
  "spoof_3 =
     ''[IdP RESPONSE] HTTP ''"
definition spoof_blocked :: string where
  "spoof_blocked =
     ''[SUCCESS] '' @ cps [272, 193] @ ''NH CH'' @ cps [7862] @ ''N TH'' @ cps [192] @ ''NH C'' @
     cps [212] @ ''NG: IdP t'' @ cps [7915] @ '' ch'' @ cps [7889] @ ''i x'' @ cps [225] @ ''c th'' @
     cps [7921] @ ''c m'' @ cps [7841] @ ''o danh.''"
definition spoof_passed :: string where
  "spoof_passed =
     ''[FAILED] bypass th'' @ cps [224] @ ''nh c'' @ cps [244] @ ''ng! Thi'' @ cps [7871] @ ''t b'' @
     cps [7883] @ '' kh'' @ cps [244] @ ''ng h'' @ cps [7907] @ ''p l'' @ cps [7879] @ '' '' @
     cps [273, 432, 7907] @ ''c c'' @ cps [7845] @ ''p token.''"
definition escape_1 :: string where
  "escape_1 =
     ''[INFO] Kh'' @ cps [7903] @ ''i t'' @ cps [7841] @ ''o t'' @ cps [7845] @ ''n c'' @ cps [244] @
     ''ng V'' @ cps [432, 7907] @ ''t ranh gi'' @ cps [7899] @ ''i Tenant (Tenant Escape)...''"
definition escape_2 :: string where
  "escape_2 =
     ''[INFO] L'' @ cps [7845] @ ''y Access Token c'' @ cps [7911] @ ''a Bob (Tenant B)...''"
definition escape_3 :: string where
  "escape_3 =
     ''[ATTACK] Bob g'' @ cps [7917] @ ''i request balance nh'' @ cps [432] @ ''ng g'' @ cps [225] @
     ''n c'' @ cps [7913] @ ''ng context '' @ cps [273, 242] @ ''i '' @ cps [273, 7885] @ ''c t'' @
     cps [224] @ ''i kho'' @ cps [7843] @ ''n c'' @ cps [7911] @ ''a Alice...''"
definition escape_4 :: string where
  "escape_4 =
     ''[GATEWAY RESPONSE] HTTP ''"
definition escape_5 :: string where
  "escape_5 =
     ''[INFO] Tenant ID ghi nh'' @ cps [7853] @ ''n th'' @ cps [7921] @ ''c t'' @ cps [7871] @ '' t'' @
     cps [7915] @ '' token: ''"
definition escape_blocked :: string where
  "escape_blocked =
     ''[SUCCESS] '' @ cps [272, 193] @ ''NH CH'' @ cps [7862] @ ''N TH'' @ cps [192] @ ''NH C'' @
     cps [212] @ ''NG: C'' @ cps [417] @ '' ch'' @ cps [7871] @ '' RLS c'' @ cps [244] @ '' l'' @
     cps [7853] @ ''p 100%. Bob tuy'' @ cps [7879] @ ''t '' @ cps [273, 7889] @ ''i kh'' @ cps [244] @
     ''ng th'' @ cps [7875] @ '' '' @ cps [273, 7885] @ ''c d'' @ cps [7919] @ '' li'' @ cps [7879] @
     ''u c'' @ cps [7911] @ ''a Alice.''"
definition escape_passed :: string where
  "escape_passed =
     ''[FAILED] Tenant Escape th'' @ cps [224] @ ''nh c'' @ cps [244] @ ''ng! R'' @ cps [242] @ '' r'' @
     cps [7881] @ '' d'' @ cps [7919] @ '' li'' @ cps [7879] @ ''u ch'' @ cps [233] @ ''o.''"
definition tamper_1 :: string where
  "tamper_1 =
     ''[INFO] Kh'' @ cps [7903] @ ''i t'' @ cps [7841] @ ''o t'' @ cps [7845] @ ''n c'' @ cps [244] @
     ''ng S'' @ cps [7917] @ ''a '' @ cps [273, 7893] @ ''i nh'' @ cps [7853] @ ''t k'' @ cps [253] @
     '' WORM...''"
definition tamper_2 :: string where
  "tamper_2 =
     ''[ATTACK] Th'' @ cps [7921] @ ''c thi l'' @ cps [7879] @ ''nh SQL UPDATE tr'' @ cps [7921] @
     ''c ti'' @ cps [7871] @ ''p v'' @ cps [224] @ ''o PostgreSQL '' @ cps [273, 7875] @ '' s'' @
     cps [7917] @ ''a log giao d'' @ cps [7883] @ ''ch...''"
definition tamper_passed :: string where
  "tamper_passed =
     ''[FAILED] T'' @ cps [7845] @ ''n c'' @ cps [244] @ ''ng s'' @ cps [7917] @ ''a log th'' @ cps [224] @
     ''nh c'' @ cps [244] @ ''ng! Database WORM trigger b'' @ cps [7883] @ '' v'' @ cps [244] @ '' hi'' @
     cps [7879] @ ''u h'' @ cps [243] @ ''a.''"
definition tamper_response :: string where
  "tamper_response =
     ''[DATABASE RESPONSE] L'' @ cps [7895] @ ''i: ''"
definition tamper_blocked :: string where
  "tamper_blocked =
     ''[SUCCESS] '' @ cps [272, 193] @ ''NH CH'' @ cps [7862] @ ''N TH'' @ cps [192] @ ''NH C'' @
     cps [212] @ ''NG: Database WORM trigger ch'' @ cps [7863] @ ''n '' @ cps [273, 7913] @ ''ng l'' @
     cps [7879] @ ''nh UPDATE/DELETE.''"
definition tamper_unknown :: string where
  "tamper_unknown =
     ''[ERROR] L'' @ cps [7895] @ ''i kh'' @ cps [244] @ ''ng x'' @ cps [225] @ ''c '' @ cps [273, 7883] @
     ''nh: ''"
definition bad_type :: string where
  "bad_type =
     ''Lo'' @ cps [7841] @ ''i t'' @ cps [7845] @ ''n c'' @ cps [244] @ ''ng kh'' @ cps [244] @ ''ng h'' @
     cps [7907] @ ''p l'' @ cps [7879]"

definition status_line :: "string \<Rightarrow> http_response \<Rightarrow> string" where
  "status_line prefix res = prefix @ show_nat (hp_status res) @ '' '' @ hp_statusText res"

section \<open>The scenarios\<close>

text \<open>The sequencing of asynchronous calls: an exception ends the scenario.\<close>

definition and_then :: "(string + 'a) \<times> 'w \<Rightarrow> ('a \<Rightarrow> 'w \<Rightarrow> (string + 'b) \<times> 'w) \<Rightarrow> (string + 'b) \<times> 'w" where
  "and_then r k = (case r of (Inl e, w) \<Rightarrow> (Inl e, w) | (Inr x, w) \<Rightarrow> k x w)"

text \<open>\<open>(await res.json()).access_token\<close>, hashed for the proof.\<close>

definition answered_token :: "http_response \<Rightarrow> string + json option" where
  "answered_token res = (case hp_json res of Inl e \<Rightarrow> Inl e | Inr v \<Rightarrow> get_prop v ''access_token'')"

definition attack_proof :: "attack_config \<Rightarrow> attack_env \<Rightarrow> json option \<Rightarrow> string + string" where
  "attack_proof cfg env token = (case token_hash token of
     Inl e \<Rightarrow> Inl e
   | Inr ath \<Rightarrow> Inr (attack_generateDPoPProof (ae_sign env) (ae_privateKey env) (ae_nowMs env) ''GET'' (gatewayURL cfg)
       (hex_encode (ae_random env)) ath))"

definition attack_replay :: "attack_config \<Rightarrow> attack_env \<Rightarrow> 'w fetcher \<Rightarrow> 'w \<Rightarrow> (string + string list) \<times> 'w" where
  "attack_replay cfg env fetch w =
     and_then (fetch (attack_auth_request (idpURL cfg) ''client-alice'' (aliceSecret cfg) ''XqpGML'') w) (\<lambda>authRes w.
     if \<not> res_ok authRes then (Inl replay_no_token, w)
     else and_then (answered_token authRes, w) (\<lambda>token w.
       and_then (attack_proof cfg env token, w) (\<lambda>dpopProof w.
       and_then (fetch (attack_api_request (gatewayURL cfg) token dpopProof) w) (\<lambda>res1 w.
       and_then (fetch (attack_api_request (gatewayURL cfg) token dpopProof) w) (\<lambda>res2 w.
         (Inr ([replay_1, replay_2, replay_3 @ hex_encode (ae_random env), replay_4, status_line replay_5 res1,
                replay_6, status_line replay_7 res2]
             @ (if hp_status res2 = 401 then [replay_blocked @ trim (hp_text res2) @ [CHR 0x22]] else [replay_passed])), w))))))"

definition attack_spoof :: "attack_config \<Rightarrow> 'w fetcher \<Rightarrow> 'w \<Rightarrow> (string + string list) \<times> 'w" where
  "attack_spoof cfg fetch w =
     and_then (fetch (attack_auth_request (idpURL cfg) ''client-alice'' ''HACKED_SECRET'' ''xyz'') w) (\<lambda>res w.
       (Inr ([spoof_1, spoof_2, spoof_3 @ show_nat (hp_status res) @ '': '' @ trim (hp_text res)]
           @ (if hp_status res = 401 \<or> hp_status res = 400 then [spoof_blocked] else [spoof_passed])), w))"

definition bob_tenant :: string where
  "bob_tenant = ''22222222-2222-2222-2222-222222222222''"

definition attack_escape :: "attack_config \<Rightarrow> attack_env \<Rightarrow> 'w fetcher \<Rightarrow> 'w \<Rightarrow> (string + string list) \<times> 'w" where
  "attack_escape cfg env fetch w =
     and_then (fetch (attack_auth_request (idpURL cfg) ''client-bob'' (bobSecret cfg) ''XqpGML'') w) (\<lambda>authRes w.
     and_then (answered_token authRes, w) (\<lambda>bobToken w.
     and_then (attack_proof cfg env bobToken, w) (\<lambda>dpopProof w.
     and_then (fetch (attack_api_request (gatewayURL cfg) bobToken dpopProof) w) (\<lambda>res w.
     and_then (hp_json res, w) (\<lambda>data w.
     and_then (get_prop data ''balance'', w) (\<lambda>balance w.
     and_then (get_prop data ''tenant_id'', w) (\<lambda>tenant_id w.
       (Inr ([escape_1, escape_2, escape_3,
              escape_4 @ show_nat (hp_status res) @ '': Balance retrieved is '' @ js_text balance,
              escape_5 @ js_text tenant_id]
           @ (if tenant_id = Some (JStr bob_tenant) \<and> balance = Some (JNum 0) then [escape_blocked]
              else [escape_passed])), w))))))))"

text \<open>\<open>UPDATE audit_logs SET action = 'HACKED' WHERE id = 1\<close> as superuser; \<open>fault\<close> is an error of
  the connection.\<close>

definition tamper_query :: "string option \<Rightarrow> db \<Rightarrow> string + db" where
  "tamper_query fault d = (case fault of
     Some e \<Rightarrow> Inl e
   | None \<Rightarrow> sql_update_audit (\<lambda>r. al_id r = 1) (\<lambda>r. r\<lparr>al_action := ''HACKED''\<rparr>) d)"

definition attack_tamper :: "string option \<Rightarrow> db \<Rightarrow> string list \<times> db" where
  "attack_tamper fault d = (case tamper_query fault d of
     Inr d' \<Rightarrow> ([tamper_1, tamper_2, tamper_passed], d')
   | Inl message \<Rightarrow> ([tamper_1, tamper_2, tamper_response @ message,
       if str_includes message ''immutable'' then tamper_blocked else tamper_unknown @ message], d))"

definition attack_answer :: "(string + string list) \<times> 'w \<Rightarrow> string list api_response \<times> 'w" where
  "attack_answer r = (respond (fst r), snd r)"

definition attack_POST :: "attack_config \<Rightarrow> attack_env \<Rightarrow> 'w fetcher \<Rightarrow> string option \<Rightarrow> string + json
    \<Rightarrow> db \<Rightarrow> 'w \<Rightarrow> string list api_response \<times> db \<times> 'w" where
  "attack_POST cfg env fetch fault body d w =
     (case body of
        Inl e \<Rightarrow> (Api_Error 500 e, d, w)
      | Inr v \<Rightarrow> (case get_prop v ''type'' of
          Inl e \<Rightarrow> (Api_Error 500 e, d, w)
        | Inr type \<Rightarrow>
            if type = Some (JStr ''replay'') then (let (a, w') = attack_answer (attack_replay cfg env fetch w) in (a, d, w'))
            else if type = Some (JStr ''spoof'') then (let (a, w') = attack_answer (attack_spoof cfg fetch w) in (a, d, w'))
            else if type = Some (JStr ''escape'') then (let (a, w') = attack_answer (attack_escape cfg env fetch w) in (a, d, w'))
            else if type = Some (JStr ''tamper'') then (let (logs, d') = attack_tamper fault d in (Api_Success logs, d', w))
            else (Api_Error 400 bad_type, d, w)))"

section \<open>Against this identity provider\<close>

abbreviation attack_body :: "string \<Rightarrow> string + json" where
  "attack_body type \<equiv> Inr (JObj [(''type'', JStr type)])"

lemma and_then_simps [simp]:
  "and_then (Inl e, w) k = (Inl e, w)" "and_then (Inr x, w) k = k x w"
  by (simp_all add: and_then_def)

definition alice_auth :: http_request where
  "alice_auth = attack_auth_request ''http://localhost:8081'' ''client-alice'' ''alice-secure-secret-2026'' ''XqpGML''"
definition bob_auth :: http_request where
  "bob_auth = attack_auth_request ''http://localhost:8081'' ''client-bob'' ''bob-secure-secret-2026'' ''XqpGML''"
definition hacked_auth :: http_request where
  "hacked_auth = attack_auth_request ''http://localhost:8081'' ''client-alice'' ''HACKED_SECRET'' ''xyz''"

lemma auth_requests:
  "starts_with (hr_url alice_auth) idp_address" "rq_path (request_of alice_auth) = ''/authorize''"
  "starts_with (hr_url bob_auth) idp_address" "rq_path (request_of bob_auth) = ''/authorize''"
  "starts_with (hr_url hacked_auth) idp_address" "rq_path (request_of hacked_auth) = ''/authorize''"
  by code_simp+

lemma to_authorize:
  assumes "starts_with (hr_url rq) idp_address" "rq_path (request_of rq) = ''/authorize''"
  shows "two_hosts ienv st gw rq (s, g) =
    (Inr (go_answer st (fst (AuthorizeHandler ienv (request_of rq) s))), snd (AuthorizeHandler ienv (request_of rq) s), g)"
  using assms by (simp add: two_hosts_def idp_serve_def split: prod.splits)

lemma authorize_answers_no_token:
  "case hp_json (go_answer st (fst (AuthorizeHandler ienv r s))) of
     Inl e \<Rightarrow> True | Inr v \<Rightarrow> get_prop v ''access_token'' = Inr None"
  by (auto simp: AuthorizeHandler_def Let_def go_answer_def http_error_def write_json_def get_prop_def member_def
      split: option.splits sum.splits)

lemma cannot_run:
  "(\<exists>message. attack_POST default_attack_config env (two_hosts ienv st gw) fault (attack_body ''replay'') d (s, g)
       = (Api_Error 500 message, d, snd (AuthorizeHandler ienv (request_of alice_auth) s), g))
   \<and> (\<exists>message. attack_POST default_attack_config env (two_hosts ienv st gw) fault (attack_body ''escape'') d (s, g)
       = (Api_Error 500 message, d, snd (AuthorizeHandler ienv (request_of bob_auth) s), g))"
proof -
  have rq: "attack_auth_request (idpURL default_attack_config) ''client-alice'' (aliceSecret default_attack_config) ''XqpGML'' = alice_auth"
    "attack_auth_request (idpURL default_attack_config) ''client-bob'' (bobSecret default_attack_config) ''XqpGML'' = bob_auth"
    by (simp_all add: default_attack_config_def alice_auth_def bob_auth_def)
  have token: "\<exists>e. answered_token (go_answer st (fst (AuthorizeHandler ienv r s))) = Inl e
      \<or> answered_token (go_answer st (fst (AuthorizeHandler ienv r s))) = Inr None" for r
    using authorize_answers_no_token [of st ienv r s]
    by (cases "hp_json (go_answer st (fst (AuthorizeHandler ienv r s)))") (auto simp: answered_token_def)
  have undefined: "attack_proof default_attack_config env None = Inl (update_error None)"
    by (simp add: attack_proof_def token_hash_def)
  have "\<exists>message. attack_replay default_attack_config env (two_hosts ienv st gw) (s, g)
      = (Inl message, snd (AuthorizeHandler ienv (request_of alice_auth) s), g)"
    using token [of "request_of alice_auth"]
    by (auto simp: attack_replay_def rq to_authorize auth_requests undefined)
  moreover have "\<exists>message. attack_escape default_attack_config env (two_hosts ienv st gw) (s, g)
      = (Inl message, snd (AuthorizeHandler ienv (request_of bob_auth) s), g)"
    using token [of "request_of bob_auth"]
    by (auto simp: attack_escape_def rq to_authorize auth_requests undefined)
  ultimately show ?thesis
    by (auto simp: attack_POST_def attack_answer_def respond_def get_prop_def member_def)
qed

text \<open>C37: two of the four scenarios cannot run.  The identity provider's authorization endpoint
  answers with a code, never with an \<open>access_token\<close>; so whatever its state, its randomness and
  the gateway, the replay and the escape scenario end in an error 500 after their first
  request, and the gateway receives nothing.\<close>

theorem attack_scenarios_cannot_run:
  "(\<exists>message. attack_POST default_attack_config env (two_hosts ienv st gw) fault (attack_body ''replay'') d (s, g)
       = (Api_Error 500 message, d, snd (AuthorizeHandler ienv (request_of alice_auth) s), g))
   \<and> (\<exists>message. attack_POST default_attack_config env (two_hosts ienv st gw) fault (attack_body ''escape'') d (s, g)
       = (Api_Error 500 message, d, snd (AuthorizeHandler ienv (request_of bob_auth) s), g))"
  by (rule cannot_run)

lemma hacked_query:
  "rq_query (request_of hacked_auth) ''response_type'' = ''code''"
  "rq_query (request_of hacked_auth) ''client_id'' = ''client-alice''"
  "rq_query (request_of hacked_auth) ''redirect_uri'' = ''http://localhost:8080/callback''"
  "rq_query (request_of hacked_auth) ''code_challenge'' = ''xyz''"
  "rq_query (request_of hacked_auth) ''code_challenge_method'' = ''S256''"
  "rq_query (request_of hacked_auth) ''client_secret'' = ''HACKED_SECRET''"
  "rq_query (request_of hacked_auth) ''state'' = []"
  "rq_header (request_of hacked_auth) ''Accept'' = ''application/json''"
  by code_simp+

lemma hacked_unlucky: "ie_random ienv = Inl e \<Longrightarrow>
  AuthorizeHandler ienv (request_of hacked_auth) s = (http_error [] ''server_error: failed to generate code'' 500, s)"
  unfolding AuthorizeHandler_def Let_def hacked_query by (simp add: RegisteredClients_def)

lemma hacked_refused:
  assumes "ie_random ienv = Inr bytes"
  shows "rs_status (fst (AuthorizeHandler ienv (request_of hacked_auth) s)) \<in> {400, 401}
    \<and> held (snd (AuthorizeHandler ienv (request_of hacked_auth) s)) (hex_encode bytes) = Some (''xyz'', ''client-alice'')"
  unfolding AuthorizeHandler_def Let_def hacked_query
  by (cases "ie_with_query ienv ''http://localhost:8080/callback'' [(''code'', hex_encode bytes)]")
     (simp_all add: assms RegisteredClients_def held_def SaveAuthCode_def)

lemma spoof_lines: "spoof_blocked \<noteq> spoof_passed" by (simp add: spoof_blocked_def spoof_passed_def)

text \<open>What the spoofing scenario reports.  Against this identity provider the forged secret is
  never accepted; the report says so exactly if the provider could draw its random code, and
  claims a bypass if it failed to; in the first case the refused request has left a live
  code of Alice's in the store.\<close>

theorem attack_spoof_verdict:
  "\<exists>logs s'. attack_POST default_attack_config env (two_hosts ienv st gw) fault (attack_body ''spoof'') d (s, g)
       = (Api_Success logs, d, s', g)
     \<and> last logs = (case ie_random ienv of Inr _ \<Rightarrow> spoof_blocked | Inl _ \<Rightarrow> spoof_passed)
     \<and> rs_status (fst (AuthorizeHandler ienv (request_of hacked_auth) s)) \<in> {StatusBadRequest, StatusUnauthorized, StatusInternalServerError}
     \<and> (case ie_random ienv of Inr bytes \<Rightarrow> held s' (hex_encode bytes) = Some (''xyz'', ''client-alice'') | Inl _ \<Rightarrow> s' = s)"
proof -
  have rq: "attack_auth_request (idpURL default_attack_config) ''client-alice'' ''HACKED_SECRET'' ''xyz'' = hacked_auth"
    by (simp add: default_attack_config_def hacked_auth_def)
  have report: "attack_POST default_attack_config env (two_hosts ienv st gw) fault (attack_body ''spoof'') d (s, g) =
      (let (r, s') = AuthorizeHandler ienv (request_of hacked_auth) s; res = go_answer st r
       in (Api_Success ([spoof_1, spoof_2, spoof_3 @ show_nat (hp_status res) @ '': '' @ trim (hp_text res)]
             @ (if rs_status r = 401 \<or> rs_status r = 400 then [spoof_blocked] else [spoof_passed])), d, s', g))"
    by (simp add: attack_POST_def attack_spoof_def rq to_authorize auth_requests attack_answer_def respond_def
        get_prop_def member_def split: prod.splits)
  obtain r s' where h: "AuthorizeHandler ienv (request_of hacked_auth) s = (r, s')"
    by (cases "AuthorizeHandler ienv (request_of hacked_auth) s")
  let ?logs = "\<lambda>verdict. [spoof_1, spoof_2, spoof_3 @ show_nat (rs_status r) @ '': '' @ trim (hp_text (go_answer st r))] @ [verdict]"
  show ?thesis
  proof (cases "ie_random ienv")
    case (Inl e)
    from hacked_unlucky [OF Inl, of s] have "s' = s" "rs_status r = 500" by (auto simp: h)
    then show ?thesis
      by (intro exI [of _ "?logs spoof_passed"] exI [of _ s']) (simp add: report h Inl del: show_nat.simps)
  next
    case (Inr bytes)
    from hacked_refused [OF Inr, of s] have "rs_status r = 400 \<or> rs_status r = 401" "held s' (hex_encode bytes) = Some (''xyz'', ''client-alice'')"
      by (simp_all add: h)
    then show ?thesis
      by (intro exI [of _ "?logs spoof_blocked"] exI [of _ s']) (auto simp: report h Inr simp del: show_nat.simps)
  qed
qed

lemma tamper_immutable: "str_includes worm_message ''immutable''"
  by code_simp

text \<open>The tampering scenario never changes the ledger, but its verdict depends on the data: it
  reports that the trigger blocked the statement exactly if there is a row with id 1, and
  otherwise that the attack succeeded, although no row was touched.\<close>

theorem attack_tamper_verdict:
  "attack_POST cfg env fetch None (attack_body ''tamper'') d w =
     (Api_Success (if \<exists>r \<in> set (audit_logs d). al_id r = 1
        then [tamper_1, tamper_2, tamper_response @ worm_message, tamper_blocked]
        else [tamper_1, tamper_2, tamper_passed]), d, w)"
proof (cases "\<exists>r \<in> set (audit_logs d). al_id r = 1")
  case True
  then show ?thesis
    by (simp add: attack_POST_def attack_tamper_def tamper_query_def sql_update_audit_def get_prop_def member_def
        list_ex_iff tamper_immutable)
next
  case False
  then have "map (\<lambda>r. if al_id r = 1 then r\<lparr>al_action := ''HACKED''\<rparr> else r) (audit_logs d) = audit_logs d"
    by (intro map_idI) auto
  with False show ?thesis
    by (simp add: attack_POST_def attack_tamper_def tamper_query_def sql_update_audit_def get_prop_def member_def list_ex_iff)
qed

end
