(* ===== verification/Dashboard.thy ===== *)
theory Dashboard
  imports MetricsRoute CertsRoute AttackRoute
begin

text \<open>
  The dashboard's page (\<^verbatim>\<open>dashboard/src/app/page.tsx\<close>), its state and its handlers.  Every
  \<open>useState\<close> of the component is a field of a record; a click, a timer or an answer of a route
  is an event, and an asynchronous handler is split at its awaits, with what it still has to
  do kept in the state.  The page reads the routes' own records; how a date prints is an input.
\<close>

section \<open>Data\<close>

datatype log_level = INFO | WARNING | CRITICAL

record LogEvent =
  le_id :: string
  le_timestamp :: string
  le_level :: log_level
  le_source :: string
  le_message :: string

record LatencyData =
  ld_time :: string
  ld_dpopVerify :: nat
  ld_tokenVerify :: nat
  ld_rlsContext :: nat
  ld_wormExec :: nat

record NodeDetails =
  nd_name :: string
  nd_role :: string
  nd_cpu :: rat
  nd_ram :: string
  nd_rps :: nat
  nd_latency :: string
  nd_dpopSuccess :: string
  nd_mtlsSuccess :: string
  nd_description :: string

record DBIdentity =
  id_actorId :: string
  id_tenantId :: string

datatype health = HEALTHY | UNDER_ATTACK

text \<open>What a suspended handler has still to do: the simulator waits for its answer or prints
  log lines; the verification waits for its answer, is about to print the next step, or has
  printed one and is about to look at its verdict.\<close>

datatype attack_job = Attack_Waiting | Attack_Printing "string list"

datatype verify_job = Verify_Waiting | Verify_Found "chain_step list" bool
  | Verify_Printed chain_step "chain_step list" bool

record page =
  activeTab :: string
  isMounted :: bool
  healthStatus :: health
  throughput :: nat
  activeTunnels :: nat
  logs :: "LogEvent list"
  latencyHistory :: "LatencyData list"
  identities :: "DBIdentity list"
  certificates :: "cert_info list"
  expiringCertsCount :: nat
  isOffline :: bool
  errorMessage :: string
  selectedNode :: "NodeDetails option"
  isVerifying :: bool
  verificationSteps :: "string list"
  verificationSuccess :: "bool option"
  isBenchmarking :: bool
  benchmarkResult :: "bench_data option"
  benchmarkError :: string
  cooldown :: nat
  isAttacking :: "string option"
  attackSteps :: "string list"
  attackJob :: "attack_job option"
  verifyJob :: "verify_job option"

definition initial_page :: page where
  "initial_page = \<lparr>activeTab = ''overview'', isMounted = False, healthStatus = HEALTHY, throughput = 0,
     activeTunnels = 0, logs = [], latencyHistory = [], identities = [], certificates = [],
     expiringCertsCount = 0, isOffline = True, errorMessage = [], selectedNode = None,
     isVerifying = False, verificationSteps = [], verificationSuccess = None,
     isBenchmarking = False, benchmarkResult = None, benchmarkError = [], cooldown = 0,
     isAttacking = None, attackSteps = [], attackJob = None, verifyJob = None\<rparr>"

section \<open>Reading an answer\<close>

text \<open>\<open>fetch\<close> throws; or a reply that is not the route's JSON arrives, whose \<open>json()\<close> throws; or the
  route's reply.  Every handler rejects a status that is not ok, then an error, with the
  route's message or its own default.\<close>

datatype 'a answered = Threw string | Garbled nat string | Reply "'a api_response"

definition ok_status :: "nat \<Rightarrow> bool" where
  "ok_status st \<longleftrightarrow> 200 \<le> st \<and> st \<le> 299"

definition or_default :: "string \<Rightarrow> string \<Rightarrow> string" where
  "or_default s other = (if s \<noteq> [] then s else other)"

fun read_answer :: "(nat \<Rightarrow> string) \<Rightarrow> string \<Rightarrow> 'a answered \<Rightarrow> string + 'a" where
  "read_answer bad other (Threw e) = Inl e"
| "read_answer bad other (Garbled st e) = Inl (if ok_status st then e else bad st)"
| "read_answer bad other (Reply (Api_Success x)) = Inr x"
| "read_answer bad other (Reply (Api_Error st e)) = Inl (if ok_status st then or_default e other else bad st)"

definition with_status :: "string \<Rightarrow> nat \<Rightarrow> string" where
  "with_status what st = what @ '' (Status '' @ show_nat st @ '')''"

section \<open>The polling of the routes\<close>

definition number_property :: "string \<Rightarrow> (string \<times> nat) list \<Rightarrow> nat" where
  "number_property k ps = (case map_of ps k of Some n \<Rightarrow> n | None \<Rightarrow> 0)"

definition first_word :: "string \<Rightarrow> string" where
  "first_word s = hd (split_on CHR '' '' s)"

text \<open>\<open>now\<close> is \<open>new Date().toTimeString()\<close>.\<close>

definition latency_entry :: "string \<Rightarrow> parsed_metrics \<Rightarrow> LatencyData" where
  "latency_entry now data = \<lparr>ld_time = drop 3 (first_word now),
     ld_dpopVerify = number_property ''dpop'' (pm_securityOverhead data),
     ld_tokenVerify = number_property ''token'' (pm_securityOverhead data),
     ld_rlsContext = number_property ''rls_context'' (pm_dbLatency data),
     ld_wormExec = number_property ''worm_exec'' (pm_dbLatency data)\<rparr>"

definition last_entries :: "nat \<Rightarrow> 'a list \<Rightarrow> 'a list" where
  "last_entries n xs = drop (length xs - n) xs"

definition poll_metrics :: "string \<Rightarrow> parsed_metrics answered \<Rightarrow> page \<Rightarrow> page" where
  "poll_metrics now answer p =
     (case read_answer (with_status ''API Gateway offline'') [] answer of
        Inl e \<Rightarrow> p\<lparr>isOffline := True, errorMessage := or_default e ''Failed to connect to Gateway''\<rparr>
      | Inr data \<Rightarrow> p\<lparr>activeTunnels := (if 0 < number_property ''ziti'' (pm_securityOverhead data) then 1 else 0),
          throughput := sum_list (map rm_count (pm_requests data)),
          latencyHistory := last_entries 9 (latencyHistory p) @ [latency_entry now data],
          isOffline := False, errorMessage := []\<rparr>)"

definition level_of :: "string \<Rightarrow> log_level" where
  "level_of action =
     (let actionUpper = to_upper action;
          isCrit = str_includes actionUpper ''FAIL'' \<or> str_includes actionUpper ''BLOCK''
            \<or> str_includes actionUpper ''REJECT'' \<or> str_includes actionUpper ''TAMPER''
      in if isCrit then CRITICAL
         else if str_includes actionUpper ''UPDATE'' \<or> str_includes actionUpper ''DELETE'' then WARNING else INFO)"

definition details_text :: "json \<Rightarrow> string" where
  "details_text v = (if truthy (Some v) then (case v of JStr s \<Rightarrow> s | _ \<Rightarrow> stringify v) else [])"

definition log_event :: "(instant \<Rightarrow> string) \<Rightarrow> audit_row \<Rightarrow> LogEvent" where
  "log_event time_string l = \<lparr>le_id = show_int (al_id l), le_timestamp = first_word (time_string (al_timestamp l)),
     le_level = level_of (al_action l), le_source = to_upper (al_resource l),
     le_message = al_action l @ '' on '' @ al_resource l @ '' - Details: '' @ details_text (al_details l)
       @ '' | prev_hash: '' @ take 8 (al_prev_hash l) @ ''... | block_hash: '' @ take 8 (al_block_hash l) @ ''...''\<rparr>"

text \<open>A JavaScript \<open>Map\<close> keeps the place of a key's first insertion and the value of its last.\<close>

definition identity_map :: "audit_row list \<Rightarrow> (string \<times> string) list" where
  "identity_map rows = fold (\<lambda>l m. if al_actor l \<noteq> [] \<and> al_tenant l \<noteq> [] then set_property (al_actor l) (al_tenant l) m else m) rows []"

definition poll_logs :: "(instant \<Rightarrow> string) \<Rightarrow> audit_row list answered \<Rightarrow> page \<Rightarrow> page" where
  "poll_logs time_string answer p =
     (case read_answer (\<lambda>_. []) [] answer of
        Inl _ \<Rightarrow> p
      | Inr rows \<Rightarrow>
          (let dbLogs = rev (map (log_event time_string) rows)
           in p\<lparr>logs := dbLogs,
                identities := map (\<lambda>(actor, tenant). \<lparr>id_actorId = actor, id_tenantId = tenant\<rparr>) (identity_map rows),
                healthStatus := (if list_ex (\<lambda>l. le_level l = CRITICAL) dbLogs then UNDER_ATTACK else HEALTHY)\<rparr>))"

definition poll_certs :: "certs_data answered \<Rightarrow> page \<Rightarrow> page" where
  "poll_certs answer p =
     (case read_answer (\<lambda>_. []) [] answer of
        Inl _ \<Rightarrow> p
      | Inr d \<Rightarrow> p\<lparr>certificates := cd_certificates d, expiringCertsCount := cd_expiringCount d\<rparr>)"

definition calculateSecurityScore :: "page \<Rightarrow> int" where
  "calculateSecurityScore p =
     (if isOffline p then 0
      else max 10 (100 - int (length (filter (\<lambda>l. le_level l = CRITICAL) (logs p))) * 10))"

section \<open>The attack simulator\<close>

definition attack_started :: string where
  "attack_started =
     ''[INFO] K'' @ cps [237] @ ''ch ho'' @ cps [7841] @ ''t k'' @ cps [7883] @ ''ch b'' @ cps [7843] @
     ''n t'' @ cps [7845] @ ''n c'' @ cps [244] @ ''ng gi'' @ cps [7843] @ '' l'' @ cps [7853] @ ''p: ''"

definition attack_failed_line :: string where
  "attack_failed_line = ''[ERROR] T'' @ cps [7845] @ ''n c'' @ cps [244] @ ''ng th'' @ cps [7845] @ ''t b'' @ cps [7841] @
     ''i: ''"

text \<open>The button is disabled while an attack runs; it also raises the alarm, which a timer resets.\<close>

definition click_attack :: "string \<Rightarrow> page \<Rightarrow> page" where
  "click_attack type p =
     (if isAttacking p \<noteq> None then p
      else p\<lparr>isAttacking := Some type, attackSteps := [attack_started @ to_upper type @ ''...''],
             healthStatus := UNDER_ATTACK, attackJob := Some Attack_Waiting\<rparr>)"

definition reset_health :: "page \<Rightarrow> page" where
  "reset_health p = p\<lparr>healthStatus := HEALTHY\<rparr>"

definition attack_over :: "page \<Rightarrow> page" where
  "attack_over p = p\<lparr>isAttacking := None, attackJob := None\<rparr>"

definition attack_answered :: "string list answered \<Rightarrow> page \<Rightarrow> page" where
  "attack_answered answer p =
     (if attackJob p \<noteq> Some Attack_Waiting then p
      else case read_answer (with_status ''Attack execution failed'') ''Simulation failed'' answer of
        Inl e \<Rightarrow> attack_over (p\<lparr>attackSteps := attackSteps p @ [attack_failed_line @ e]\<rparr>)
      | Inr ls \<Rightarrow> if ls = [] then attack_over p else p\<lparr>attackJob := Some (Attack_Printing ls)\<rparr>)"

text \<open>Half a second later the next line is printed.\<close>

definition attack_tick :: "page \<Rightarrow> page" where
  "attack_tick p = (case attackJob p of
     Some (Attack_Printing (l # ls)) \<Rightarrow>
       (let p' = p\<lparr>attackSteps := attackSteps p @ [l]\<rparr>
        in if ls = [] then attack_over p' else p'\<lparr>attackJob := Some (Attack_Printing ls)\<rparr>)
   | _ \<Rightarrow> p)"

section \<open>The benchmark\<close>

definition click_benchmark :: "page \<Rightarrow> page" where
  "click_benchmark p =
     (if 0 < cooldown p \<or> isBenchmarking p then p
      else p\<lparr>isBenchmarking := True, benchmarkError := [], benchmarkResult := None\<rparr>)"

definition benchmark_answered :: "bench_data answered \<Rightarrow> page \<Rightarrow> page" where
  "benchmark_answered answer p =
     (if \<not> isBenchmarking p then p
      else case read_answer (\<lambda>st. ''Benchmark failed: Status '' @ show_nat st) ''Benchmark failed'' answer of
        Inl e \<Rightarrow> p\<lparr>benchmarkError := or_default e ''Error running benchmark'', isBenchmarking := False\<rparr>
      | Inr d \<Rightarrow> p\<lparr>benchmarkResult := Some d, cooldown := 30, isBenchmarking := False\<rparr>)"

definition cooldown_tick :: "page \<Rightarrow> page" where
  "cooldown_tick p = (if cooldown p = 0 then p else p\<lparr>cooldown := cooldown p - 1\<rparr>)"

section \<open>The verification of the chain\<close>

definition say :: "string list \<Rightarrow> page \<Rightarrow> page" where
  "say ls p = p\<lparr>verificationSteps := verificationSteps p @ ls\<rparr>"

definition verify_over :: "bool \<Rightarrow> page \<Rightarrow> page" where
  "verify_over ok p = p\<lparr>verificationSuccess := Some ok, isVerifying := False, verifyJob := None\<rparr>"

definition click_verify :: "page \<Rightarrow> page" where
  "click_verify p =
     (if isVerifying p then p
      else p\<lparr>isVerifying := True, verificationSuccess := None,
             verificationSteps := [''Initializing connection to PostgreSQL fapi_db...'',
               ''Accessing immutable table audit_logs...''], verifyJob := Some Verify_Waiting\<rparr>)"

definition found_line :: "chain_step list \<Rightarrow> string" where
  "found_line steps = ''Found '' @ show_nat (length steps) @ '' ledger blocks. Starting cryptographic validation...''"

definition step_line :: "chain_step \<Rightarrow> string" where
  "step_line s = ''[Block #'' @ cs_blockId s @ ''] action='' @ quoted (cs_action s) @ '' resource='' @ quoted (cs_resource s)
     @ '' -> verifying SHA-256 links...''"

definition fail_line :: "chain_step \<Rightarrow> string" where
  "fail_line s = ''[FAIL] Block #'' @ cs_blockId s @ '' failed validation: '' @ cs_error s"

definition interrupted :: "string \<Rightarrow> page \<Rightarrow> page" where
  "interrupted e p = verify_over False (say [''[ERROR] Verification interrupted: '' @ e] p)"

declare interrupted_def [simp]

definition verify_answered :: "chain_report answered \<Rightarrow> page \<Rightarrow> page" where
  "verify_answered answer p =
     (if verifyJob p \<noteq> Some Verify_Waiting then p
      else case read_answer (with_status ''Database connection failed'') ''Invalid verification response'' answer of
        Inl e \<Rightarrow> interrupted e p
      | Inr d \<Rightarrow> (say [found_line (cr_steps d)] p)\<lparr>verifyJob := Some (Verify_Found (cr_steps d) (cr_isValid d))\<rparr>)"

definition next_step :: "chain_step list \<Rightarrow> bool \<Rightarrow> page \<Rightarrow> page" where
  "next_step steps isValid p = (case steps of
     [] \<Rightarrow> verify_over isValid (say [''All block linkages verified successfully.'', ''LEDGER INTEGRITY VERIFIED.''] p)
   | s # rest \<Rightarrow> (say [step_line s] p)\<lparr>verifyJob := Some (Verify_Printed s rest isValid)\<rparr>)"

definition verify_tick :: "page \<Rightarrow> page" where
  "verify_tick p = (case verifyJob p of
     Some (Verify_Found steps isValid) \<Rightarrow> next_step steps isValid p
   | Some (Verify_Printed s rest isValid) \<Rightarrow>
       if \<not> cs_valid s then verify_over False (say [fail_line s] p) else next_step rest isValid p
   | _ \<Rightarrow> p)"

section \<open>Events\<close>

datatype page_event = Mount | Metrics_Poll string "parsed_metrics answered" | Logs_Poll "audit_row list answered"
  | Certs_Poll "certs_data answered" | Click_Attack string | Attack_Answer "string list answered" | Attack_Timer
  | Reset_Timer | Click_Benchmark | Benchmark_Answer "bench_data answered" | Cooldown_Timer | Click_Verify
  | Verify_Answer "chain_report answered" | Verify_Timer | Select_Tab string | Select_Node "NodeDetails option"

text \<open>The polling starts when the component is mounted; the benchmark's button is also disabled
  while the gateway is offline.\<close>

fun page_step :: "(instant \<Rightarrow> string) \<Rightarrow> page_event \<Rightarrow> page \<Rightarrow> page" where
  "page_step ts Mount p = p\<lparr>isMounted := True\<rparr>"
| "page_step ts (Metrics_Poll now a) p = (if isMounted p then poll_metrics now a p else p)"
| "page_step ts (Logs_Poll a) p = (if isMounted p then poll_logs ts a p else p)"
| "page_step ts (Certs_Poll a) p = (if isMounted p then poll_certs a p else p)"
| "page_step ts (Click_Attack type) p = click_attack type p"
| "page_step ts (Attack_Answer a) p = attack_answered a p"
| "page_step ts Attack_Timer p = attack_tick p"
| "page_step ts Reset_Timer p = reset_health p"
| "page_step ts Click_Benchmark p = (if isOffline p then p else click_benchmark p)"
| "page_step ts (Benchmark_Answer a) p = benchmark_answered a p"
| "page_step ts Cooldown_Timer p = cooldown_tick p"
| "page_step ts Click_Verify p = click_verify p"
| "page_step ts (Verify_Answer a) p = verify_answered a p"
| "page_step ts Verify_Timer p = verify_tick p"
| "page_step ts (Select_Tab t) p = p\<lparr>activeTab := t\<rparr>"
| "page_step ts (Select_Node n) p = p\<lparr>selectedNode := n\<rparr>"

text \<open>One run of \<open>fetchData\<close>, started at once and then every 1.5 seconds; runs may overlap, so the
  theorems take its parts in any order.\<close>

definition fetchData :: "string \<Rightarrow> parsed_metrics answered \<Rightarrow> audit_row list answered \<Rightarrow> certs_data answered \<Rightarrow> page_event list" where
  "fetchData now m l c = [Metrics_Poll now m, Logs_Poll l, Certs_Poll c]"

end
