(* ===== verification/DashboardViews.thy ===== *)
theory DashboardViews
  imports Dashboard
begin

text \<open>
  What the page renders from its state: the fields of its panels as pairs of a label and a text,
  the colours its consoles give a line, and the state of its buttons.  The styling, the icons
  and the charts are not modelled.
\<close>

section \<open>Numbers and colours\<close>

text \<open>\<open>x.toFixed(k)\<close> for \<open>x \<ge> 0\<close> and \<open>k > 0\<close>.\<close>

definition zero_padded :: "nat \<Rightarrow> string \<Rightarrow> string" where
  "zero_padded k s = replicate (k - length s) CHR ''0'' @ s"

definition fixed_text :: "nat \<Rightarrow> rat \<Rightarrow> string" where
  "fixed_text k q = (let n = nat \<lfloor>q * 10 ^ k + 1 / 2\<rfloor>
     in show_nat (n div 10 ^ k) @ ''.'' @ zero_padded k (show_nat (n mod 10 ^ k)))"

datatype tone = Cyan | Green | Yellow | Red | Plain

section \<open>Header, navigation and cards\<close>

definition header_title :: "string list" where
  "header_title = [''SECURE FAPI-ZTA SOC'', ''Zero-Trust Telemetry Center v2.0'']"

definition header_fields :: "page \<Rightarrow> (string \<times> string) list" where
  "header_fields p = [(''LIVE FEED:'', if isOffline p then ''DISCONNECTED'' else ''CONNECTED TO GO GATEWAY''),
     (''STATUS:'', case healthStatus p of HEALTHY \<Rightarrow> ''HEALTHY'' | UNDER_ATTACK \<Rightarrow> ''UNDER ATTACK''),
     (''ZITI TUNNELS:'', show_nat (activeTunnels p) @ '' ACTIVE''),
     (''THROUGHPUT:'', show_nat (throughput p) @ '' REQS'')]"

definition nav_identity :: "(string \<times> string) list" where
  "nav_identity = [(''users'', ''Users & Sessions''), (''clients'', ''OAuth Clients & Tokens'')]"
definition nav_zero_trust :: "(string \<times> string) list" where
  "nav_zero_trust = [(''topology'', ''OpenZiti Fabric Map''), (''ziti_policies'', ''Stealth Service Policies'')]"
definition nav_gateway :: "(string \<times> string) list" where
  "nav_gateway = [(''gateway_status'', ''DPoP & mTLS Matrix''), (''crypto'', ''Cryptography Radar''),
     (''performance'', ''Performance & Benchmark'')]"
definition nav_database :: "(string \<times> string) list" where
  "nav_database = [(''ledger'', ''WORM Chain Explorer'')]"
definition nav_security :: "(string \<times> string) list" where
  "nav_security = [(''threats'', ''Live Threat Feed''), (''attacks'', ''Attack Simulator (Cyber Range)'')]"

definition stack_health :: "page \<Rightarrow> (string \<times> string) list" where
  "stack_health p = [(''PostgreSQL (RLS):'', ''Online''),
     (''OpenZiti Network:'', if isOffline p then ''Offline'' else ''Stealth''), (''WORM Ledger:'', ''Locked'')]"

definition offline_banner :: "page \<Rightarrow> string option" where
  "offline_banner p = (if isOffline p then Some (or_default (errorMessage p)
     ''Go API Gateway has stopped or port is blocked. Run idp and gateway modules to populate live metrics.'') else None)"

definition threats_blocked :: "page \<Rightarrow> nat" where
  "threats_blocked p = length (filter (\<lambda>l. le_level l = CRITICAL) (logs p))"

definition failed_dpop :: "page \<Rightarrow> nat" where
  "failed_dpop p = length (filter (\<lambda>l. str_includes (le_message l) ''FAIL'' \<or> str_includes (le_message l) ''REPLAY'') (logs p))"

definition kpi_cards :: "page \<Rightarrow> (string \<times> string) list" where
  "kpi_cards p = [(''Security Score'', show_int (calculateSecurityScore p)), (''Threats Blocked'', show_nat (threats_blocked p)),
     (''Failed DPoP Verify'', show_nat (failed_dpop p)), (''Active Identities'', show_nat (length (identities p))),
     (''Cert Expirations'', show_nat (expiringCertsCount p))]"

section \<open>Overview and performance\<close>

definition overview_fields :: "page \<Rightarrow> (string \<times> string) list" where
  "overview_fields p = [(''mTLS Handshake Profiles'', if isOffline p then ''Disconnected'' else ''Strict TLS 1.3''),
     (''Cross-Layer Match Ratio'', if isOffline p then ''0%'' else ''100% Bound''),
     (''Gateway Status:'', if isOffline p then ''OFFLINE'' else ''ONLINE''),
     (''Database Connection:'', ''ONLINE''), (''DB Execution SLO:'', ''Passed''),
     (''Platform Health Level'', if isOffline p then ''AWAITING GATEWAY RESPONSE'' else ''NO ACTIVE VULNERABILITIES'')]"

definition log_preview :: "page \<Rightarrow> LogEvent list" where
  "log_preview p = last_entries 6 (logs p)"

text \<open>A field of the last entry of the history, microseconds shown in milliseconds.\<close>

definition last_latency :: "nat \<Rightarrow> (LatencyData \<Rightarrow> nat) \<Rightarrow> page \<Rightarrow> string" where
  "last_latency k f p = (if latencyHistory p \<noteq> [] \<and> \<not> isOffline p
     then fixed_text k (of_nat (f (last (latencyHistory p))) / 1000) else ''0.'' @ replicate k CHR ''0'')"

definition performance_cards :: "page \<Rightarrow> (string \<times> string) list" where
  "performance_cards p = [(''Realtime Throughput'', if isOffline p then ''0'' else show_nat (throughput p)),
     (''Cryptographic Overhead'', last_latency 1 (\<lambda>e. ld_dpopVerify e + ld_tokenVerify e) p),
     (''Database Latency'', last_latency 1 (\<lambda>e. ld_rlsContext e + ld_wormExec e) p),
     (''API Status SLO'', if isOffline p then ''UNKNOWN'' else ''99.99%'')]"

definition lower_stats :: "page \<Rightarrow> (string \<times> string) list" where
  "lower_stats p = [(''Gateway Latency'', last_latency 2 (\<lambda>e. ld_dpopVerify e + ld_tokenVerify e) p @ '' ms''),
     (''Crypto overhead'', last_latency 2 ld_dpopVerify p @ '' ms''),
     (''DB RLS Context'', last_latency 2 ld_rlsContext p @ '' ms''),
     (''WORM Hash-Chain'', last_latency 2 ld_wormExec p @ '' ms'')]"

definition benchmark_fields :: "page \<Rightarrow> (string \<times> string) list" where
  "benchmark_fields p = (case benchmarkResult p of None \<Rightarrow> [] | Some d \<Rightarrow>
     [(''Throughput:'', num_text (bd_rps d) @ '' RPS''), (''Avg Latency:'', num_text (bd_avgLatencyMs d) @ '' ms''),
      (''P95 Latency:'', num_text (bd_p95LatencyMs d) @ '' ms''), (''Success Rate:'', num_text (bd_successRate d) @ ''%''),
      (''Requests:'', show_nat (bd_successRequests d) @ ''/'' @ show_nat (bd_totalRequests d)),
      (''Time:'', num_text (bd_durationMs d) @ ''ms'')])
     @ (if benchmarkError p \<noteq> [] then [(''Error:'', benchmarkError p)] else [])"

definition benchmark_disabled :: "page \<Rightarrow> bool" where
  "benchmark_disabled p \<longleftrightarrow> isBenchmarking p \<or> 0 < cooldown p \<or> isOffline p"

definition benchmark_label :: "page \<Rightarrow> string" where
  "benchmark_label p = (if isBenchmarking p then ''RUNNING BENCHMARK...''
     else if 0 < cooldown p then ''COOLDOWN ('' @ show_nat (cooldown p) @ ''s)'' else ''START LIVE BENCHMARK'')"

section \<open>Identities, topology and certificates\<close>

definition identity_rows :: "page \<Rightarrow> string list list" where
  "identity_rows p = map (\<lambda>i. [id_actorId i, id_tenantId i, ''mTLS + DPoP'', ''RECORDED ACTIVE'']) (identities p)"

datatype flow = Calm | Alarm | No_Flow

definition topology_flow :: "page \<Rightarrow> flow" where
  "topology_flow p = (if \<not> isOffline p \<and> healthStatus p = HEALTHY then Calm else if \<not> isOffline p then Alarm else No_Flow)"

text \<open>The links of the map, by the coordinates of their ends in percent.\<close>

definition topology_lines :: "((nat \<times> nat) \<times> nat \<times> nat) list" where
  "topology_lines = [((15, 50), (35, 35)), ((15, 50), (35, 65)), ((35, 35), (60, 50)), ((35, 65), (60, 50)),
     ((60, 50), (85, 30)), ((60, 50), (85, 70))]"

definition node_client :: "page \<Rightarrow> NodeDetails" where
  "node_client p = \<lparr>nd_name = ''Client Endpoint'', nd_role = ''Device/User client-alice'', nd_cpu = 42 / 10,
     nd_ram = ''450 MB'', nd_rps = (if isOffline p then 0 else 15), nd_latency = ''3.88 ms'',
     nd_dpopSuccess = ''ES256 ECDSA Signed'', nd_mtlsSuccess = ''Ziti bound mTLS'',
     nd_description = ''Performs client-side DPoP validation token request and initiates the stealth OpenZiti tunnel.''\<rparr>"

definition node_router1 :: "page \<Rightarrow> NodeDetails" where
  "node_router1 p = \<lparr>nd_name = ''Ziti Edge Router 1'', nd_role = ''Stealth Overlay Router'', nd_cpu = (if isOffline p then 0 else 185 / 10),
     nd_ram = ''1.2 GB'', nd_rps = (if isOffline p then 0 else 240), nd_latency = ''0.12 ms'',
     nd_dpopSuccess = ''N/A (Network Layer)'', nd_mtlsSuccess = (if isOffline p then ''Offline'' else ''100% Handshakes''),
     nd_description = ''Provides inbound firewall block. Only accepts connections using correct OpenZiti client credentials.''\<rparr>"

definition node_router2 :: "page \<Rightarrow> NodeDetails" where
  "node_router2 p = \<lparr>nd_name = ''Ziti Edge Router 2'', nd_role = ''Stealth Overlay Router'', nd_cpu = (if isOffline p then 0 else 152 / 10),
     nd_ram = ''1.1 GB'', nd_rps = (if isOffline p then 0 else 210), nd_latency = ''0.15 ms'',
     nd_dpopSuccess = ''N/A (Network Layer)'', nd_mtlsSuccess = (if isOffline p then ''Offline'' else ''100% Handshakes''),
     nd_description = ''Backup router providing high availability routing paths inside the Ziti dark network.''\<rparr>"

definition node_gateway :: "page \<Rightarrow> NodeDetails" where
  "node_gateway p = \<lparr>nd_name = ''API Gateway (PEP)'', nd_role = ''Policy Enforcement Point'', nd_cpu = (if isOffline p then 0 else 284 / 10),
     nd_ram = ''2.4 GB'', nd_rps = throughput p, nd_latency = ''7.48 ms'',
     nd_dpopSuccess = ''ES256 signature verified'', nd_mtlsSuccess = ''SourceIdentifier matched'',
     nd_description = ''Acts as PEP by intercepting all requests, evaluating token bindings, and checking the policy engine (PDP) before allowing access.''\<rparr>"

definition node_policy :: "page \<Rightarrow> NodeDetails" where
  "node_policy p = \<lparr>nd_name = ''OPA Engine (PDP)'', nd_role = ''Policy Decision Point'', nd_cpu = (if isOffline p then 0 else 104 / 10),
     nd_ram = ''620 MB'', nd_rps = throughput p, nd_latency = ''0.22 ms'',
     nd_dpopSuccess = ''N/A'', nd_mtlsSuccess = ''N/A'',
     nd_description = ''Evaluates request parameters (role, path, HTTP method) against policies.json dynamically.''\<rparr>"

definition node_database :: "page \<Rightarrow> NodeDetails" where
  "node_database p = \<lparr>nd_name = ''PostgreSQL Database'', nd_role = ''Secure Storage & RLS Engine'', nd_cpu = 121 / 10,
     nd_ram = ''4.8 GB'', nd_rps = throughput p, nd_latency = ''12.82 ms'',
     nd_dpopSuccess = ''N/A'', nd_mtlsSuccess = ''N/A'',
     nd_description = ''Implements Postgres Row-Level Security (RLS) policies and triggers WORM ledger constraints with SHA-256 hash chaining.''\<rparr>"

definition node_panel :: "page \<Rightarrow> (string \<times> string) list" where
  "node_panel p = (case selectedNode p of None \<Rightarrow> [] | Some n \<Rightarrow>
     [(nd_name n, nd_role n), (''CPU Usage:'', num_text (nd_cpu n) @ ''%''), (''Memory:'', nd_ram n),
      ([], show_nat (nd_rps n) @ '' RPS''), (''Internal Latency:'', nd_latency n), (''DPoP State:'', nd_dpopSuccess n),
      (''mTLS State:'', nd_mtlsSuccess n), (''Node Description'', nd_description n),
      ([], ''Node Healthy & Verified'')])"

definition cert_rows :: "page \<Rightarrow> (string \<times> string \<times> tone) list" where
  "cert_rows p = map (\<lambda>c. (ci_name c, show_int (ci_daysRemaining c) @ '' days left'',
     if ci_daysRemaining c < 30 then Red else Green)) (certificates p)"

section \<open>Consoles\<close>

definition verify_tone :: "string \<Rightarrow> tone" where
  "verify_tone step =
     (if str_includes step ''VALID'' \<or> str_includes step ''VERIFIED'' then Green
      else if str_includes step ''FAIL'' \<or> str_includes step ''broken'' \<or> str_includes step ''ERROR'' then Red
      else Plain)"

definition integrity_card :: "page \<Rightarrow> string" where
  "integrity_card p = (case verificationSuccess p of None \<Rightarrow> ''Waiting for check...''
     | Some ok \<Rightarrow> if ok then ''INTEGRITY SECURE'' else ''INTEGRITY COMPROMISED'')"

definition threat_row :: "LogEvent \<Rightarrow> string \<times> tone \<times> string \<times> string \<times> tone" where
  "threat_row l = (le_timestamp l,
     (case le_level l of CRITICAL \<Rightarrow> Red | WARNING \<Rightarrow> Yellow | INFO \<Rightarrow> Cyan),
     (case le_level l of CRITICAL \<Rightarrow> ''CRITICAL'' | WARNING \<Rightarrow> ''WARNING'' | INFO \<Rightarrow> ''INFO''),
     le_message l, if le_level l = CRITICAL then Red else Plain)"

record attack_card =
  ac_id :: string
  ac_title :: string
  ac_desc :: string

definition attack_cards :: "attack_card list" where
  "attack_cards =
     [\<lparr>ac_id = ''replay'', ac_title = ''DPoP Replay Attack'',
        ac_desc = ''G'' @ cps [7917] @ ''i hai request tr'' @ cps [249] @ ''ng JTI m'' @ cps [7853] @ ''t m'' @
          cps [227] @ '' h'' @ cps [7885] @ ''c li'' @ cps [234] @ ''n ti'' @ cps [7871] @ ''p l'' @ cps [234] @
          ''n Gateway.''\<rparr>,
      \<lparr>ac_id = ''spoof'', ac_title = ''Client Spoofing'',
        ac_desc = ''S'' @ cps [7917] @ '' d'' @ cps [7909] @ ''ng ID & Secret kh'' @ cps [244] @ ''ng t'' @ cps [7891] @
          ''n t'' @ cps [7841] @ ''i '' @ cps [273, 7875] @ '' xin c'' @ cps [7845] @ ''p Access Token t'' @
          cps [7915] @ '' IdP.''\<rparr>,
      \<lparr>ac_id = ''escape'', ac_title = ''Tenant Isolation Escape'',
        ac_desc = ''Bob c'' @ cps [7889] @ '' t'' @ cps [236] @ ''nh '' @ cps [273, 7885] @ ''c tr'' @ cps [7897] @
          ''m s'' @ cps [7889] @ '' d'' @ cps [432] @ '' t'' @ cps [224] @ ''i kho'' @ cps [7843] @ ''n c'' @
          cps [7911] @ ''a Alice th'' @ cps [244] @ ''ng qua RLS.''\<rparr>,
      \<lparr>ac_id = ''tamper'', ac_title = ''WORM Log Tampering'',
        ac_desc = ''Th'' @ cps [7921] @ ''c hi'' @ cps [7879] @ ''n l'' @ cps [7879] @ ''nh UPDATE tr'' @ cps [7921] @
          ''c ti'' @ cps [7871] @ ''p v'' @ cps [224] @ ''o DB '' @ cps [273, 7875] @ '' s'' @ cps [7917] @
          ''a log giao d'' @ cps [7883] @ ''ch.''\<rparr>]"

definition attack_button :: "page \<Rightarrow> attack_card \<Rightarrow> bool \<times> string" where
  "attack_button p c = (isAttacking p \<noteq> None, if isAttacking p = Some (ac_id c) then ''Simulating...'' else ''Execute Attack'')"

definition blocked_mark :: string where
  "blocked_mark =
     cps [272, 193] @ ''NH CH'' @ cps [7862] @ ''N TH'' @ cps [192] @ ''NH C'' @ cps [212] @ ''NG''"

definition attack_mark :: string where
  "attack_mark = ''T'' @ cps [7845] @ ''n c'' @ cps [244] @ ''ng''"

definition attack_tone :: "string \<Rightarrow> tone" where
  "attack_tone step =
     (if str_includes step ''SUCCESS'' \<or> str_includes step blocked_mark then Green
      else if str_includes step ''ATTACK'' \<or> str_includes step attack_mark then Yellow
      else if str_includes step ''FAILED'' \<or> str_includes step ''ERROR'' then Red
      else Plain)"

section \<open>What the views say\<close>

text \<open>A disabled button's handler would do nothing: the guards agree.\<close>

lemma disabled_buttons:
  "benchmark_disabled p \<Longrightarrow> page_step ts Click_Benchmark p = p"
  "fst (attack_button p c) \<Longrightarrow> page_step ts (Click_Attack (ac_id c)) p = p"
  by (auto simp: benchmark_disabled_def click_benchmark_def attack_button_def click_attack_def)

lemma str_includes_middle: "str_includes (s @ p @ t) p"
  using includes_iff by blast

lemmas console_lines = cps_def utf8_char_def char_of_def attack_tone_def blocked_mark_def attack_mark_def

lemma verdict_tones:
  "attack_tone spoof_blocked = Green" "attack_tone escape_blocked = Green" "attack_tone tamper_blocked = Green"
  "attack_tone spoof_passed = Red" "attack_tone escape_passed = Red"
  "attack_tone replay_passed = Yellow" "attack_tone tamper_passed = Yellow"
  by (simp_all add: console_lines spoof_blocked_def escape_blocked_def tamper_blocked_def spoof_passed_def
      escape_passed_def replay_passed_def tamper_passed_def)

end
