(* ===== verification/DashboardPanels.thy ===== *)
theory DashboardPanels
  imports DashboardViews
begin

text \<open>
  The panels of the page: the sidebar, and for every tab the texts its panel shows, in their
  order, with the curves of its charts; and what some of the static texts say about the
  other components.
\<close>

section \<open>Contents\<close>

text \<open>A text, a label with its text, a text with a colour, a row of a table, the columns of a table,
  a button (whether it is disabled, its label), a curve of a chart (its name and its points).\<close>

datatype shown = Say string | Field string string | Toned tone string | Row "string list" | Columns "string list"
  | Button bool string | Curve string "(string \<times> nat) list"

definition fields :: "(string \<times> string) list \<Rightarrow> shown list" where
  "fields fs = map (\<lambda>(l, t). Field l t) fs"

definition unless_empty :: "'a list \<Rightarrow> string \<Rightarrow> ('a \<Rightarrow> shown) \<Rightarrow> shown list" where
  "unless_empty xs none f = (if xs = [] then [Say none] else map f xs)"

definition curve :: "string \<Rightarrow> (LatencyData \<Rightarrow> nat) \<Rightarrow> page \<Rightarrow> shown" where
  "curve name f p = Curve name (map (\<lambda>e. (ld_time e, f e)) (latencyHistory p))"

section \<open>The sidebar\<close>

definition nav_overview :: "(string \<times> string) list" where
  "nav_overview = [(''overview'', ''Platform Monitor'')]"

definition nav_groups :: "(string \<times> (string \<times> string) list) list" where
  "nav_groups = [(''Overview'', nav_overview), (''Identity (OIDC/OAUTH)'', nav_identity), (''Zero Trust'', nav_zero_trust),
     (''Gateway'', nav_gateway), (''Database'', nav_database), (''Security SIEM'', nav_security)]"

text \<open>The buttons of a group: the event of a click, the label, and whether it is highlighted.\<close>

definition nav_buttons :: "page \<Rightarrow> (string \<times> string) list \<Rightarrow> (page_event \<times> string \<times> bool) list" where
  "nav_buttons p items = map (\<lambda>(tab, label). (Select_Tab tab, label, activeTab p = tab)) items"

definition sidebar :: "page \<Rightarrow> (string \<times> (page_event \<times> string \<times> bool) list) list" where
  "sidebar p = map (\<lambda>(title, items). (title, nav_buttons p items)) nav_groups"

section \<open>Overview and performance\<close>

definition preview_line :: "LogEvent \<Rightarrow> shown" where
  "preview_line l = Row [''['' @ le_timestamp l @ '']'', ''['' @ le_source l @ '']'', le_message l]"

definition overview_panel :: "page \<Rightarrow> shown list" where
  "overview_panel p =
     [Say ''Security Operations Summary'',
      Say ''The Zero-Trust Policy Engine (PDP) evaluates client roles dynamically using OPA configurations. mTLS identities bound to DPoP assertions prevent network spoofing attempts.'']
     @ fields (take 2 (overview_fields p)) @ [Say ''Uptime & Service Level Objectives (SLO)''] @ fields (drop 2 (overview_fields p))
     @ [Say ''Gateway Live Event Log Stream'']
     @ (if logs p = [] then [Say ''No logs found in PostgreSQL database. Run tests to execute transactions.'']
        else map preview_line (log_preview p))"

definition latency_chart :: "page \<Rightarrow> shown list" where
  "latency_chart p = (if latencyHistory p = [] then [Say ''Awaiting gateway activity metrics stream...'']
     else [curve ''DPoP Verify'' ld_dpopVerify p, curve ''Token JWKS'' ld_tokenVerify p,
           curve ''Postgres RLS'' ld_rlsContext p, curve ''WORM Hash/Write'' ld_wormExec p])"

definition performance_panel :: "page \<Rightarrow> shown list" where
  "performance_panel p =
     fields (performance_cards p) @ [Say (''Realtime Cryptographic & DB Latency Stack ('' @ cps [181] @ ''s)'')] @ latency_chart p
     @ [Say ''Live Load Benchmark Console'',
        Say ''Trigger a safe cryptographic stress test of 50 concurrent transactions through FAPI 2.0 & DPoP Gateway logic to measure throughput capacity.'']
     @ fields (benchmark_fields p) @ [Button (benchmark_disabled p) (benchmark_label p)]"

section \<open>Identities and topology\<close>

definition users_panel :: "page \<Rightarrow> shown list" where
  "users_panel p =
     [Say ''Authenticated Users & Active Sessions'', Columns [''User / Actor ID'', ''Tenant ID'', ''Auth Method'', ''Session State'']]
     @ unless_empty (identity_rows p) ''No active identity sessions found in PostgreSQL audit ledger.'' Row"

definition client_rows :: "string list list" where
  "client_rows = [[''client-alice'', ''read write'', ''ES256 (DPoP bound)''], [''client-bob'', ''read'', ''ES256 (DPoP bound)''],
     [''client-evil'', ''none'', ''Blocked at network boundary'']]"

definition clients_panel :: "shown list" where
  "clients_panel = [Say ''Registered Client Credentials'', Columns [''Client ID'', ''Scope'', ''Binding Profile'']] @ map Row client_rows"

text \<open>The nodes of the map: what a click selects, the two lines under the node, and its light: calm or
  alarmed, or out while the gateway is offline.\<close>

definition lit :: "page \<Rightarrow> flow" where
  "lit p = (if isOffline p then No_Flow else Calm)"

definition client_light :: "page \<Rightarrow> flow" where
  "client_light p = (if isOffline p then No_Flow else if healthStatus p = HEALTHY then Calm else Alarm)"

definition topology_nodes :: "page \<Rightarrow> (NodeDetails \<times> string \<times> string \<times> flow) list" where
  "topology_nodes p =
     [(node_client p, ''Client Endpoint'', ''client-alice'', client_light p), (node_router1 p, ''Edge Router'', ''ziti-edge-1'', lit p),
      (node_router2 p, ''Edge Router'', ''ziti-edge-2'', lit p), (node_gateway p, ''API Gateway (PEP)'', ''listening :8080'', lit p),
      (node_policy p, ''Policy Engine (PDP)'', ''policies.json'', lit p), (node_database p, ''PostgreSQL (WORM)'', ''RLS Active'', Calm)]"

definition map_stats :: "page \<Rightarrow> (string \<times> string) list" where
  "map_stats p = [(''NIST 800-207 State'', ''Continuous Diagnostics Active''),
     (''Ziti Identity Bound'', if isOffline p then ''Awaiting Network'' else ''SourceIdentifier Match (mTLS)''),
     (''LEDGER CHAIN STATE'', ''SHA-256 Hash-chain Verified'')]"

definition topology_panel :: "page \<Rightarrow> shown list" where
  "topology_panel p =
     [Say ''Zero Trust Topology Map (NIST PEP/PDP Enforcement)'', Say ''Click on nodes to explore live metrics'']
     @ map (\<lambda>(d, label, sub, light). Field label sub) (topology_nodes p) @ fields (map_stats p)"

section \<open>Policies, tokens and certificates\<close>

definition stealth_panel :: "shown list" where
  "stealth_panel =
     [Say ''OpenZiti Stealth Service Policies'', Say ''Service Policy: Dial API Gateway'',
      Say ''Identity Alice is allowed to dial Service Gateway-Service through the overlay.'', Toned Green ''Status: ALLOWED'',
      Say ''Service Policy: Dial Administrative Database'',
      Say ''Identity Evil tried to dial DB-Service. Blocked at the Edge.'', Toned Red ''Status: BLOCKED'']"

definition dpop_properties :: "(string \<times> string) list" where
  "dpop_properties = [(''Algorithm:'', ''ES256 (ECDSA P-256)''), (''Replay Protection:'', ''JTI Cache Checked (TTL 60s)''),
     (''HTM/HTU Binding:'', ''Strict Match Enforced''), (''Token Binding claim (cnf):'', ''SHA-256 Thumbprint Bound'')]"

definition mtls_properties :: "page \<Rightarrow> (string \<times> string) list" where
  "mtls_properties p = [(''Active CA:'', ''OpenZiti Edge Root CA''), (''Client Certs Registered:'', show_nat (length (certificates p))),
     (''Handshake Profile:'', ''TLS 1.3 ALPN Enforced''), (''Binding Cross-check:'', ''SourceZitiID == ClaimsSub'')]"

definition gateway_panel :: "page \<Rightarrow> shown list" where
  "gateway_panel p =
     [Say ''Cryptographic Assertions & Tokens Matrix (FAPI 2.0)'', Say ''DPoP Assertion Properties''] @ fields dpop_properties
     @ [Field ''Header:'' (''{ '' @ cps [34] @ ''typ'' @ cps [34] @ '': '' @ cps [34] @ ''dpop+jwt'' @ cps [34] @ '', '' @ cps [34] @ ''alg'' @ cps [34] @ '': '' @ cps [34] @ ''ES256'' @ cps [34] @ '', '' @ cps [34] @ ''jwk'' @ cps [34] @ '': {...} }''),
        Field ''Payload:'' (''{ '' @ cps [34] @ ''jti'' @ cps [34] @ '': '' @ cps [34] @ ''a8f...'' @ cps [34] @ '', '' @ cps [34] @ ''htm'' @ cps [34] @ '': '' @ cps [34] @ ''GET'' @ cps [34] @ '', '' @ cps [34] @ ''htu'' @ cps [34] @ '': '' @ cps [34] @ ''http://...'' @ cps [34] @ '', '' @ cps [34] @ ''iat'' @ cps [34] @ '': 1719... }''),
        Say ''mTLS Overlay Credentials''] @ fields (mtls_properties p)
     @ concat (map (\<lambda>(name, days, t). [Say (name @ '':''), Toned t days]) (cert_rows p))"

definition crypto_panel :: "page \<Rightarrow> shown list" where
  "crypto_panel p = Say ''Cryptographic Performance Metrics (Prometheus Scraped)'' #
     (if isOffline p then [Say ''Charts unavailable: Go Gateway is offline.'']
      else if isMounted p then [curve (''DPoP Verify ('' @ cps [181] @ ''s)'') ld_dpopVerify p, curve (''WORM Chain Hash ('' @ cps [181] @ ''s)'') ld_wormExec p]
      else [])"

section \<open>Ledger, threats and attacks\<close>

definition integrity_text :: "page \<Rightarrow> shown list" where
  "integrity_text p = (case verificationSuccess p of None \<Rightarrow> []
     | Some True \<Rightarrow> [Say ''No modifications, updates, or deletions were detected. Every audit log matches the SHA-256 chain and previous linkage parameters.'']
     | Some False \<Rightarrow> [Say ''A modification attempt or broken hash-link was detected inside the audit logs table. Please review syslog and database access triggers immediately.''])"

definition ledger_panel :: "page \<Rightarrow> shown list" where
  "ledger_panel p =
     [Say ''WORM Ledger Immutable Chain Explorer'',
      Button (isVerifying p) (if isVerifying p then ''Verifying Ledger...'' else ''Verify Ledger Integrity''), Say ''Verification Logs'']
     @ unless_empty (verificationSteps p)
         (''Click the '' @ cps [34] @ ''Verify Ledger Integrity'' @ cps [34] @ '' button above to run cryptographic chain checks.'') (\<lambda>s. Toned (verify_tone s) s)
     @ [Field ''Ledger Integrity State'' (integrity_card p)] @ integrity_text p @
       [Say ''DB Host: localhost:5432'', Say ''Table: audit_logs'', Say ''Trigger: prevent_audit_tampering'']"

definition threat_shown :: "LogEvent \<Rightarrow> shown list" where
  "threat_shown l = (case threat_row l of (time, t, level, message, mt) \<Rightarrow>
     [Say (''['' @ time @ '']''), Toned t level, Say (''['' @ le_source l @ '']''), Toned mt message])"

definition threats_panel :: "page \<Rightarrow> shown list" where
  "threats_panel p = [Say ''Live Threat & Security Feed (SIEM Audit Logs)'', Say ''STREAMS ONLINE'']
     @ (if logs p = [] then [Say ''No logs parsed from PostgreSQL audit ledger. Run tests or make API calls to populate ledger data.'']
        else concat (map threat_shown (logs p)))"

definition card_shown :: "page \<Rightarrow> attack_card \<Rightarrow> shown list" where
  "card_shown p c = (case attack_button p c of (disabled, label) \<Rightarrow> [Field (ac_title c) (ac_desc c), Button disabled label])"

definition attacks_panel :: "page \<Rightarrow> shown list" where
  "attacks_panel p =
     [Say ''Cyber Range & Security Attack Simulator'',
      Say (''K'' @ cps [237] @ ''ch ho'' @ cps [7841] @ ''t c'' @ cps [225] @ ''c k'' @ cps [7883] @ ''ch b'' @ cps [7843] @ ''n t'' @ cps [7845] @ ''n c'' @ cps [244] @ ''ng gi'' @ cps [7843] @ '' l'' @ cps [7853] @ ''p v'' @ cps [7853] @ ''t l'' @ cps [253] @ '' th'' @ cps [7921] @ ''c t'' @ cps [7871] @ '' l'' @ cps [234] @ ''n API Gateway v'' @ cps [224] @ '' Database '' @ cps [273, 7875] @ '' x'' @ cps [225] @ ''c minh v'' @ cps [224] @ '' ki'' @ cps [7875] @ ''m ch'' @ cps [7913] @ ''ng c'' @ cps [417] @ '' ch'' @ cps [7871] @ '' t'' @ cps [7921] @ '' '' @ cps [273, 7897] @ ''ng ph'' @ cps [242] @ ''ng th'' @ cps [7911] @ '' Zero-Trust.'')]
     @ concat (map (card_shown p) attack_cards) @ [Say ''Simulator Console Output'']
     @ unless_empty (attackSteps p) (''Ch'' @ cps [7885] @ ''n m'' @ cps [7897] @ ''t k'' @ cps [7883] @ ''ch b'' @ cps [7843] @ ''n t'' @ cps [7845] @ ''n c'' @ cps [244] @ ''ng gi'' @ cps [7843] @ '' l'' @ cps [7853] @ ''p t'' @ cps [7915] @ '' danh s'' @ cps [225] @ ''ch b'' @ cps [234] @ ''n tr'' @ cps [225] @ ''i '' @ cps [273, 7875] @ '' ki'' @ cps [7875] @ ''m th'' @ cps [7917] @ ''.'')
         (\<lambda>s. Toned (attack_tone s) s)"

section \<open>The tabs\<close>

definition panels :: "(string \<times> (page \<Rightarrow> shown list)) list" where
  "panels = [(''overview'', overview_panel), (''performance'', performance_panel), (''users'', users_panel),
     (''clients'', \<lambda>_. clients_panel), (''topology'', topology_panel), (''ziti_policies'', \<lambda>_. stealth_panel),
     (''gateway_status'', gateway_panel), (''crypto'', crypto_panel), (''ledger'', ledger_panel), (''threats'', threats_panel),
     (''attacks'', attacks_panel)]"

definition tab_content :: "page \<Rightarrow> shown list" where
  "tab_content p = concat (map (\<lambda>(tab, content). if activeTab p = tab then content p else []) panels)"

section \<open>Navigation\<close>

definition tabs :: "string list" where
  "tabs = map fst (concat (map snd nav_groups))"

lemmas nav_defs = nav_groups_def nav_overview_def nav_identity_def nav_zero_trust_def nav_gateway_def nav_database_def nav_security_def

lemma tabs_eq: "tabs = [''overview'', ''users'', ''clients'', ''topology'', ''ziti_policies'', ''gateway_status'', ''crypto'',
    ''performance'', ''ledger'', ''threats'', ''attacks'']"
  by (simp add: tabs_def nav_defs)

text \<open>Events the sidebar can cause, among all others.\<close>

definition navigates :: "page_event \<Rightarrow> bool" where
  "navigates e = (case e of Select_Tab t \<Rightarrow> t \<in> set tabs | _ \<Rightarrow> True)"

lemma tab_kept:
  assumes "activeTab p \<in> set tabs" "navigates e"
  shows "activeTab (page_step ts e p) \<in> set tabs"
  using assms
  by (cases e) (simp_all add: navigates_def poll_metrics_def poll_logs_def poll_certs_def click_attack_def attack_answered_def
      attack_tick_def attack_over_def reset_health_def click_benchmark_def benchmark_answered_def cooldown_tick_def
      click_verify_def verify_answered_def verify_tick_def next_step_def verify_over_def say_def Let_def
      split: sum.splits option.splits list.splits attack_job.splits verify_job.splits)

interpretation navigation: machine "page_step ts" "\<lambda>p. activeTab p \<in> set tabs" navigates for ts
  by unfold_locales (rule tab_kept)

lemma one_panel: "map_of panels (activeTab p) = Some content \<Longrightarrow> tab_content p = content p"
  by (auto simp: tab_content_def panels_def split: if_splits)

lemma panel_of_tab: "t \<in> set tabs \<Longrightarrow> \<exists>content. map_of panels t = Some content \<and> content p \<noteq> []"
  by (auto simp: tabs_eq panels_def overview_panel_def performance_panel_def users_panel_def clients_panel_def topology_panel_def
      stealth_panel_def gateway_panel_def crypto_panel_def ledger_panel_def threats_panel_def attacks_panel_def)

lemma highlighted: "t \<in> set tabs \<Longrightarrow> activeTab p = t \<Longrightarrow>
    length (filter (\<lambda>(e, label, on). on) (concat (map snd (sidebar p)))) = 1"
  by (auto simp: tabs_eq sidebar_def nav_buttons_def nav_defs)

text \<open>Every click on the sidebar shows something: whatever else happens, exactly one button is
  highlighted and the panel of its tab, and no other, is shown.\<close>

theorem navigation_shows_a_panel:
  assumes "list_all navigates es" "p = fold (page_step ts) es initial_page"
  shows "length (filter (\<lambda>(e, label, on). on) (concat (map snd (sidebar p)))) = 1
    \<and> (\<exists>content. map_of panels (activeTab p) = Some content \<and> tab_content p = content p \<and> tab_content p \<noteq> [])"
proof -
  have "activeTab initial_page \<in> set tabs" by (simp add: initial_page_def tabs_eq)
  with assms have t: "activeTab p \<in> set tabs" by (simp add: navigation.run_inv)
  from panel_of_tab [OF this] one_panel obtain content where
    "map_of panels (activeTab p) = Some content" "tab_content p = content p" "tab_content p \<noteq> []" by metis
  with highlighted [OF t refl] show ?thesis by blast
qed

section \<open>What the static texts say\<close>

text \<open>The table of clients lists the provider's clients, but for none of them the scope the provider
  issues.\<close>

lemma scopes_shown_not_issued:
  "set (map hd client_rows) = dom RegisteredClients
   \<and> (\<forall>row \<in> set client_rows. member (token_claims now (hd row) jkt) ''scope'' \<noteq> Some (JStr (row ! 1)))"
proof
  show "set (map hd client_rows) = dom RegisteredClients"
    by (auto simp: client_rows_def RegisteredClients_def)
qed (simp add: client_rows_def token_claims_def member_def)

text \<open>The client's node and the animated flows agree.\<close>

lemma client_light_flow: "client_light p = topology_flow p"
  by (simp add: client_light_def topology_flow_def)

text \<open>The client is linked to the routers only, and the routers to the gateway.\<close>

lemma client_behind_routers:
  "((15, 50), q) \<in> set topology_lines \<Longrightarrow> q \<noteq> (60, 50) \<and> (q, (60, 50)) \<in> set topology_lines"
  by (auto simp: topology_lines_def)

text \<open>Some reassurances do not depend on anything: offline, under attack and after a verification that
  failed, the page says that the chain is verified, the database online, the ledger locked and
  the selected node healthy.\<close>

lemma static_reassurance:
  "(''LEDGER CHAIN STATE'', ''SHA-256 Hash-chain Verified'') \<in> set (map_stats p)"
  "selectedNode p \<noteq> None \<Longrightarrow> ([], ''Node Healthy & Verified'') \<in> set (node_panel p)"
  by (auto simp: map_stats_def node_panel_def)

end
