(* ===== verification/DashboardFacts.thy ===== *)
theory DashboardFacts
  imports DashboardViews EndToEnd
begin

text \<open>
  What the page guarantees in every interleaving of clicks, timers and answers; that a
  verification shows the route's verdict whatever else happens meanwhile; and what the page
  shows of a ledger written by the gateway.
\<close>

section \<open>The state of the page\<close>

definition page_ok :: "page \<Rightarrow> bool" where
  "page_ok p \<longleftrightarrow> length (latencyHistory p) \<le> 10 \<and> cooldown p \<le> 30
     \<and> (errorMessage p = [] \<or> isOffline p)
     \<and> (isVerifying p \<longleftrightarrow> verifyJob p \<noteq> None) \<and> \<not> (isVerifying p \<and> verificationSuccess p \<noteq> None)
     \<and> (isAttacking p \<noteq> None \<longleftrightarrow> attackJob p \<noteq> None) \<and> attackJob p \<noteq> Some (Attack_Printing [])
     \<and> \<not> (benchmarkResult p \<noteq> None \<and> benchmarkError p \<noteq> [])
     \<and> \<not> (isBenchmarking p \<and> (benchmarkResult p \<noteq> None \<or> benchmarkError p \<noteq> [] \<or> cooldown p \<noteq> 0))"

lemmas handler_defs = poll_metrics_def poll_logs_def poll_certs_def click_attack_def attack_answered_def
  attack_tick_def attack_over_def reset_health_def click_benchmark_def benchmark_answered_def cooldown_tick_def
  click_verify_def verify_answered_def verify_tick_def next_step_def verify_over_def say_def Let_def

lemma length_last_entries: "length (last_entries n xs) \<le> n"
  by (simp add: last_entries_def)

lemma polls_ok:
  assumes "page_ok p"
  shows "page_ok (poll_metrics now a p)" "page_ok (poll_logs ts b p)" "page_ok (poll_certs c p)"
  using assms
  by (simp_all add: page_ok_def poll_metrics_def poll_logs_def poll_certs_def Let_def length_last_entries split: sum.split)

lemma attack_ok:
  assumes "page_ok p"
  shows "page_ok (click_attack type p)" "page_ok (attack_answered a p)" "page_ok (attack_tick p)" "page_ok (reset_health p)"
  using assms
  by (auto simp: page_ok_def click_attack_def attack_answered_def attack_tick_def attack_over_def reset_health_def Let_def
      split: sum.split option.split list.split attack_job.split)

lemma benchmark_ok:
  assumes "page_ok p"
  shows "page_ok (click_benchmark p)" "page_ok (benchmark_answered a p)" "page_ok (cooldown_tick p)"
  using assms
  by (auto simp: page_ok_def click_benchmark_def benchmark_answered_def cooldown_tick_def split: sum.split)

lemma next_step_ok: "page_ok p \<Longrightarrow> isVerifying p \<Longrightarrow> page_ok (next_step steps v p)"
  by (cases steps) (auto simp: page_ok_def next_step_def verify_over_def say_def)

lemma verify_over_ok: "page_ok p \<Longrightarrow> page_ok (verify_over v (say ls p))"
  by (auto simp: page_ok_def verify_over_def say_def)

lemma verify_ok:
  assumes "page_ok p"
  shows "page_ok (click_verify p)" "page_ok (verify_answered a p)" "page_ok (verify_tick p)"
proof -
  have busy: "verifyJob p \<noteq> None \<Longrightarrow> isVerifying p" using assms by (simp add: page_ok_def)
  show "page_ok (click_verify p)" using assms by (simp add: page_ok_def click_verify_def)
  show "page_ok (verify_answered a p)"
    using assms verify_over_ok [OF assms] by (cases "verifyJob p = Some Verify_Waiting") (auto simp: verify_answered_def page_ok_def say_def verify_over_def split: sum.split)
  show "page_ok (verify_tick p)"
    using assms busy verify_over_ok [OF assms] next_step_ok [OF assms]
    by (auto simp: verify_tick_def split: option.split verify_job.split)
qed

lemma other_ok:
  "page_ok p \<Longrightarrow> page_ok (p\<lparr>isMounted := True\<rparr>)" "page_ok p \<Longrightarrow> page_ok (p\<lparr>activeTab := t\<rparr>)"
  "page_ok p \<Longrightarrow> page_ok (p\<lparr>selectedNode := n\<rparr>)"
  by (auto simp: page_ok_def)

lemmas handlers_ok = polls_ok attack_ok benchmark_ok verify_ok other_ok

lemma page_step_ok: "page_ok p \<Longrightarrow> page_ok (page_step ts e p)"
  by (cases e) (simp_all add: handlers_ok)

interpretation dashboard: machine "page_step ts" page_ok "\<lambda>_. True" for ts
  by unfold_locales (rule page_step_ok)

lemma run_page_ok: "page_ok (fold (page_step ts) es initial_page)"
  by (rule dashboard.run_inv) (simp_all add: page_ok_def initial_page_def list_all_iff)

text \<open>C38: in every order of clicks, timers and answers the page is consistent: at most ten points of
  history, a countdown within its 30 seconds, an error only while offline, a busy flag exactly
  while its handler is running, no verdict while verifying, never a result together with an
  error; and the score is 0 exactly while offline, between 10 and 100 otherwise.\<close>

theorem dashboard_consistent:
  "page_ok (fold (page_step ts) es initial_page)
   \<and> (let p = fold (page_step ts) es initial_page; score = calculateSecurityScore p
      in if isOffline p then score = 0 else 10 \<le> score \<and> score \<le> 100)"
  using run_page_ok by (simp add: calculateSecurityScore_def Let_def)

section \<open>The verification\<close>

fun verify_event :: "page_event \<Rightarrow> bool" where
  "verify_event Click_Verify = True"
| "verify_event (Verify_Answer a) = True"
| "verify_event Verify_Timer = True"
| "verify_event _ = False"

definition verify_view :: "page \<Rightarrow> bool \<times> string list \<times> bool option \<times> verify_job option" where
  "verify_view p = (isVerifying p, verificationSteps p, verificationSuccess p, verifyJob p)"

fun attack_event :: "page_event \<Rightarrow> bool" where
  "attack_event (Click_Attack t) = True"
| "attack_event (Attack_Answer a) = True"
| "attack_event Attack_Timer = True"
| "attack_event _ = False"

definition attack_view :: "page \<Rightarrow> string option \<times> string list \<times> attack_job option" where
  "attack_view p = (isAttacking p, attackSteps p, attackJob p)"

interpretation verification: concern "page_step ts" verify_view verify_event for ts
proof
  fix e p q
  show "\<not> verify_event e \<Longrightarrow> verify_view (page_step ts e p) = verify_view p"
    by (cases e) (auto simp: verify_view_def handler_defs split: sum.splits option.splits list.splits attack_job.splits)
  show "verify_event e \<Longrightarrow> verify_view p = verify_view q \<Longrightarrow> verify_view (page_step ts e p) = verify_view (page_step ts e q)"
    by (cases e) (auto simp: verify_view_def handler_defs split: sum.splits option.splits list.splits verify_job.splits)
qed

interpretation simulator: concern "page_step ts" attack_view attack_event for ts
proof
  fix e p q
  show "\<not> attack_event e \<Longrightarrow> attack_view (page_step ts e p) = attack_view p"
    by (cases e) (auto simp: attack_view_def handler_defs split: sum.splits option.splits list.splits verify_job.splits)
  show "attack_event e \<Longrightarrow> attack_view p = attack_view q \<Longrightarrow> attack_view (page_step ts e p) = attack_view (page_step ts e q)"
    by (cases e) (auto simp: attack_view_def handler_defs split: sum.splits option.splits list.splits attack_job.splits)
qed

text \<open>What a verification prints after the opening lines, and its verdict.\<close>

fun printed :: "chain_step list \<Rightarrow> string list" where
  "printed [] = [''All block linkages verified successfully.'', ''LEDGER INTEGRITY VERIFIED.'']"
| "printed (s # steps) = step_line s # (if cs_valid s then printed steps else [fail_line s])"

lemma ticks_idle: "verifyJob p = None \<Longrightarrow> fold (page_step ts) (replicate n Verify_Timer) p = p"
  by (induction n) (simp_all add: verify_tick_def)

lemma next_step_idle: "verifyJob (next_step [] v p) = None"
  by (simp add: next_step_def verify_over_def)

lemma ticks_from_next:
  "verify_view (fold (page_step ts) (replicate (length steps + n) Verify_Timer) (next_step steps v p))
     = (False, verificationSteps p @ printed steps, Some (list_all cs_valid steps \<and> v), None)"
proof (induction steps arbitrary: p)
  case Nil
  show ?case
    by (simp only: list.size add_0 ticks_idle [OF next_step_idle])
       (simp add: verify_view_def next_step_def verify_over_def say_def)
next
  case (Cons s steps)
  let ?p = "(say [step_line s] p)\<lparr>verifyJob := Some (Verify_Printed s steps v)\<rparr>"
  have tick: "fold (page_step ts) (replicate (length (s # steps) + n) Verify_Timer) (next_step (s # steps) v p)
      = fold (page_step ts) (replicate (length steps + n) Verify_Timer) (verify_tick ?p)"
    by (simp add: next_step_def)
  show ?case
  proof (cases "cs_valid s")
    case True
    then have "verify_tick ?p = next_step steps v ?p" by (simp add: verify_tick_def)
    with Cons.IH [of ?p] True show ?thesis unfolding tick by (simp add: say_def del: fold_replicate)
  next
    case False
    then have "verify_tick ?p = verify_over False (say [fail_line s] ?p)" by (simp add: verify_tick_def)
    moreover have "verifyJob (verify_over False (say [fail_line s] ?p)) = None" by (simp add: verify_over_def)
    ultimately show ?thesis
      using False unfolding tick by (simp only: ticks_idle) (simp add: verify_view_def verify_over_def say_def)
  qed
qed

lemma verification_run:
  assumes "\<not> isVerifying p" "length (cr_steps d) < n"
  shows "verify_view (fold (page_step ts) (Click_Verify # Verify_Answer (Reply (Api_Success d)) # replicate n Verify_Timer) p)
    = (False, [''Initializing connection to PostgreSQL fapi_db...'', ''Accessing immutable table audit_logs...'',
         found_line (cr_steps d)] @ printed (cr_steps d), Some (list_all cs_valid (cr_steps d) \<and> cr_isValid d), None)"
proof -
  obtain k where n: "n = Suc (length (cr_steps d) + k)" using assms(2) less_iff_Suc_add by auto
  let ?p = "(say [found_line (cr_steps d)] (click_verify p))\<lparr>verifyJob := Some (Verify_Found (cr_steps d) (cr_isValid d))\<rparr>"
  have "fold (page_step ts) (Click_Verify # Verify_Answer (Reply (Api_Success d)) # replicate n Verify_Timer) p
      = fold (page_step ts) (replicate (length (cr_steps d) + k) Verify_Timer) (next_step (cr_steps d) (cr_isValid d) ?p)"
    using assms(1) by (simp add: n verify_answered_def verify_tick_def click_verify_def say_def del: fold_replicate)
  then show ?thesis
    using assms(1) by (simp only: ticks_from_next) (simp add: click_verify_def say_def)
qed



section \<open>The attack simulator\<close>

lemma show_500: "show_nat 500 = ''500''" by code_simp

lemma failed_line_tone: "attack_tone (attack_failed_line @ with_status ''Attack execution failed'' 500) = Yellow"
  unfolding with_status_def show_500 by (simp add: console_lines attack_failed_line_def)

lemma upper_types: "to_upper ''replay'' = ''REPLAY''" "to_upper ''escape'' = ''ESCAPE''" by code_simp+

lemma started_tone: "attack_tone (attack_started @ ''REPLAY...'') = Plain" "attack_tone (attack_started @ ''ESCAPE...'') = Plain"
  by (simp_all add: console_lines attack_started_def)

lemma simulation_error:
  assumes "isAttacking p = None"
  shows "attack_view (fold (page_step ts) [Click_Attack type, Attack_Answer (Reply (Api_Error 500 m))] p)
    = (None, [attack_started @ to_upper type @ ''...'',
         attack_failed_line @ with_status ''Attack execution failed'' 500], None)"
  using assms by (simp add: click_attack_def attack_answered_def attack_over_def attack_view_def ok_status_def)

text \<open>The simulator's console does not show its own failures as failures.  Against this identity
  provider the replay and the escape scenario end, whatever else happens on the page, with the
  message of a status 500, in the colour of an attack in progress; and of the four verdicts
  that an attack got through, two have that colour too and only two are red.\<close>

theorem simulator_console:
  assumes "isAttacking p = None" "type = ''replay'' \<or> type = ''escape''"
    and "filter attack_event es = [Click_Attack type, Attack_Answer (Reply (fst
           (attack_POST default_attack_config env (two_hosts ienv st gw) fault (attack_body type) d (s, g))))]"
    and q: "q = fold (page_step ts) es p"
  shows "isAttacking q = None \<and> map attack_tone (attackSteps q) = [Plain, Yellow]
    \<and> map attack_tone [replay_passed, spoof_passed, escape_passed, tamper_passed] = [Yellow, Red, Red, Yellow]"
proof -
  obtain m where "fst (attack_POST default_attack_config env (two_hosts ienv st gw) fault (attack_body type) d (s, g)) = Api_Error 500 m"
    using assms(2) cannot_run [of env ienv st gw fault d s g] by auto
  then have "attack_view q = attack_view (fold (page_step ts) [Click_Attack type, Attack_Answer (Reply (Api_Error 500 m))] p)"
    unfolding q by (subst simulator.run_view) (simp only: assms(3))
  then have "isAttacking q = None" "attackSteps q = [attack_started @ to_upper type @ ''...'',
         attack_failed_line @ with_status ''Attack execution failed'' 500]"
    unfolding simulation_error [OF assms(1)] by (simp_all add: attack_view_def)
  moreover have "attack_tone (attack_started @ to_upper type @ ''...'') = Plain"
    using assms(2) started_tone by (auto simp: upper_types)
  ultimately show ?thesis
    by (simp add: failed_line_tone verdict_tones)
qed

theorem simulator_console_witness:
  "map attack_tone (attackSteps (fold (page_step show_int)
      [Click_Attack ''replay'', Attack_Answer (Reply (fst (attack_POST default_attack_config
          \<lparr>ae_sign = (\<lambda>k m. []), ae_privateKey = (1, 7, 0), ae_random = [1], ae_nowMs = 0\<rparr>
          (two_hosts sample_idp show_nat (\<lambda>rq u. (Inl [], u))) None (attack_body ''replay'') empty_db (empty_store, ()))))]
      initial_page)) = [Plain, Yellow]"
  by (rule simulator_console [where type = "''replay''", THEN conjunct2, THEN conjunct1, OF _ _ _ refl])
     (simp_all add: initial_page_def)

section \<open>A ledger written by the gateway\<close>

definition gateway_actions :: "string list" where
  "gateway_actions = [''CREATE_TRANSACTION'', ''GET_BALANCE'']"

definition usual :: "db \<Rightarrow> bool" where
  "usual d \<longleftrightarrow> list_all (\<lambda>r. al_action r \<in> set gateway_actions) (audit_logs d)"

lemma usual_level: "a \<in> set gateway_actions \<Longrightarrow> level_of a = INFO"
  by (auto simp: gateway_actions_def level_of_def to_upper_def upper_char_def)

lemma audit_and_commit_usual:
  assumes "audit_and_commit p env d t sub tenant action det = (x, d')" "pend_audit t = []" "app_tenant_id t = tenant"
    and "action \<in> set gateway_actions" "usual d"
  shows "usual d'"
  using audit_and_commit_outcome [OF assms(1-3)] assms(4,5) by (auto simp: usual_def split: sum.splits)

lemma db_step_usual:
  assumes "usual d"
  shows "usual (db_step p k e d)"
proof (cases e)
  case (Op_Create env tenant amount desc sub)
  have "usual (snd (CreateTransaction p env k tenant amount desc sub d))"
  proof (cases "open_context env k tenant")
    case (Inr t)
    show ?thesis
    proof (cases "faulty env Insert_Transaction (sql_insert_transaction p t (de_uuid env) tenant amount desc)")
      case row: (Inr rt)
      obtain row t1 where rt: "rt = (row, t1)" by (cases rt)
      have t1: "pend_audit t1 = []" "app_tenant_id t1 = tenant"
        using row open_context_ok [OF Inr] unfolding rt
        by (auto simp: faulty_def sql_insert_transaction_def Let_def split: option.splits sum.splits if_splits)
      show ?thesis
        using audit_and_commit_usual [OF _ t1 _ assms, where action = "''CREATE_TRANSACTION''"] row rt
        by (fastforce simp: CreateTransaction_def Inr gateway_actions_def split: prod.splits sum.splits)
    qed (use assms in \<open>simp add: CreateTransaction_def Inr\<close>)
  qed (use assms in \<open>simp add: CreateTransaction_def\<close>)
  then show ?thesis using Op_Create by simp
next
  case (Op_Balance env tenant sub)
  have "usual (snd (GetBalance p env k tenant sub d))"
  proof (cases "open_context env k tenant")
    case (Inr t)
    from open_context_ok [OF Inr] have t: "pend_audit t = []" "app_tenant_id t = tenant" by simp_all
    show ?thesis
      using audit_and_commit_usual [OF _ t _ assms, where action = "''GET_BALANCE''"] assms
      by (fastforce simp: GetBalance_def Inr gateway_actions_def split: prod.splits sum.splits)
  qed (use assms in \<open>simp add: GetBalance_def\<close>)
  then show ?thesis using Op_Balance by simp
next
  case (Op_Logs env tenant)
  then show ?thesis using GetAuditLogs_frame assms by simp
qed

interpretation usual_run: machine "gateway_step cfg" "\<lambda>g. usual (gw_db g)" "run_ok p lib" for cfg p lib
proof
  fix g :: gateway and e assume g: "usual (gw_db g)" and e: "run_ok p lib e"
  show "usual (gw_db (gateway_step cfg e g))"
  proof (cases e)
    case (Serve env r)
    with e have "jwt_lawful (ge_jwt env)" by (auto simp: run_ok_def)
    from serve_db [OF this, of cfg r g] Serve g show ?thesis by (auto simp: tenant_op_def intro: db_step_usual)
  qed (use g in simp)
qed

lemma all_logs_usual: "usual d \<Longrightarrow> list_all (\<lambda>r. al_action r \<in> set gateway_actions) (take 50 (rev (all_logs d)))"
  by (auto simp: usual_def all_logs_def list_all_iff dest!: in_set_takeD)

lemma usual_poll:
  assumes "usual d" "q = poll_logs ts (Reply (logs_GET (Inr d))) p"
  shows "list_all (\<lambda>l. le_level l = INFO) (logs q) \<and> healthStatus q = HEALTHY \<and> length (logs q) \<le> 50 \<and> isOffline q = isOffline p"
proof -
  let ?rows = "take 50 (rev (all_logs d))"
  have "list_all (\<lambda>l. le_level l = INFO) (rev (map (log_event ts) ?rows))"
    using all_logs_usual [OF assms(1)] usual_level by (auto simp: list_all_iff log_event_def)
  moreover from this have "\<not> list_ex (\<lambda>l. le_level l = CRITICAL) (rev (map (log_event ts) ?rows))"
    by (auto simp: list_all_iff list_ex_iff)
  ultimately show ?thesis
    by (simp add: assms(2) poll_logs_def logs_GET_def respond_def Let_def)
qed

lemma no_critical: "list_all (\<lambda>l. le_level l = INFO) ls \<Longrightarrow> filter (\<lambda>l. le_level l = CRITICAL) ls = []"
  by (auto simp: list_all_iff filter_empty_conv)

text \<open>C40: nothing that is done to the gateway shows on the dashboard as a threat.  After any requests,
  replayed, stolen or honest, to a gateway that began with an empty ledger, polling the log
  route shows at most 50 events, all of level INFO; the page reports no blocked threat, the
  status HEALTHY, and, when online, the full score.\<close>

theorem gateway_traffic_never_alarms:
  assumes "jwt_lawful lib" "list_all (event_ok pgs lib) es" "gw_db g = empty_db"
    and d: "d = gw_db (fold (gateway_step cfg) es g)"
    and q: "q = page_step ts (Logs_Poll (Reply (logs_GET (Inr d)))) p" and "isMounted p"
  shows "list_all (\<lambda>l. le_level l = INFO) (logs q) \<and> length (logs q) \<le> 50 \<and> healthStatus q = HEALTHY
    \<and> threats_blocked q = 0 \<and> calculateSecurityScore q = (if isOffline p then 0 else 100)"
proof -
  have "list_all (run_ok pgs lib) es" using assms(1,2) by (auto simp: run_ok_def list_all_iff)
  then have "usual d"
    unfolding d by (rule usual_run.run_inv [rotated]) (simp add: assms(3) usual_def empty_db_def)
  with assms(6) q have "list_all (\<lambda>l. le_level l = INFO) (logs q)" "healthStatus q = HEALTHY" "length (logs q) \<le> 50" "isOffline q = isOffline p"
    using usual_poll [of d q ts p] by simp_all
  then show ?thesis by (simp add: threats_blocked_def calculateSecurityScore_def no_critical)
qed

theorem gateway_traffic_never_alarms_witness:
  "threats_blocked (page_step show_int (Logs_Poll (Reply (logs_GET (Inr (gw_db (fold (gateway_step gw_config)
     [Serve gw_env (gw_request ''p''), Serve gw_env (gw_request ''p'')] gw_start))))))
     (page_step show_int Mount initial_page)) = 0"
proof -
  have "list_all (event_ok sample_pg gw_lib) [Serve gw_env (gw_request ''p''), Serve gw_env (gw_request ''p'')]"
    "gw_db gw_start = empty_db"
    by (simp_all add: gw_start_def)
  from gateway_traffic_never_alarms [OF gw_lib_facts(1) this refl refl, of "page_step show_int Mount initial_page"]
  show ?thesis by simp
qed

section \<open>Identities\<close>

lemma set_property_keys: "set (map fst (set_property k v m)) = insert k (set (map fst m))"
  by (induction k v m rule: set_property.induct) auto

lemma set_property_distinct: "distinct (map fst m) \<Longrightarrow> distinct (map fst (set_property k v m))"
proof (induction k v m rule: set_property.induct)
  case (2 k v k' w ps)
  then show ?case using set_property_keys [of k v ps] by auto
qed simp

lemma set_property_lookup: "map_of (set_property k v m) = (map_of m)(k \<mapsto> v)"
  by (induction k v m rule: set_property.induct) auto

text \<open>The page lists every actor of the rows it read once.  The rows come newest first, so the tenant
  shown is that of the actor's oldest row.\<close>

lemma identity_map_rows:
  "distinct (map fst (identity_map rows))
   \<and> map_of (identity_map rows) = map_of (rev (map (\<lambda>l. (al_actor l, al_tenant l)) (filter (\<lambda>l. al_actor l \<noteq> [] \<and> al_tenant l \<noteq> []) rows)))"
  unfolding identity_map_def
  by (induction rows rule: rev_induct) (auto simp: set_property_distinct set_property_lookup)

text \<open>The card of failed DPoP checks counts texts: a payment whose description contains \<open>FAIL\<close>
  raises it, although nothing was rejected.\<close>

lemma js_string_middle: "\<exists>a b. js_string (s @ ''FAIL'' @ t) = a @ ''FAIL'' @ b"
proof -
  have "js_string (s @ ''FAIL'' @ t)
      = (CHR 0x22 # concat (map js_char s)) @ ''FAIL'' @ (concat (map js_char t) @ [CHR 0x22])"
    by (simp add: js_string_def js_char_def)
  then show ?thesis by blast
qed

lemma description_counts_as_rejection:
  assumes "al_action r = ''CREATE_TRANSACTION''"
    and "al_details r = JObj [(''amount'', JNum q), (''description'', JStr (s @ ''FAIL'' @ t)), (''tx_id'', JStr u)]"
  shows "failed_dpop (poll_logs ts (Reply (Api_Success [r])) p) = 1 \<and> threats_blocked (poll_logs ts (Reply (Api_Success [r])) p) = 0"
proof -
  obtain a b where ab: "js_string (s @ ''FAIL'' @ t) = a @ ''FAIL'' @ b" using js_string_middle by blast
  have "details_text (al_details r) = (''{'' @ js_string ''amount'' @ '':'' @ stringify (JNum q) @ '','' @ js_string ''description'' @ '':'' @ a)
      @ ''FAIL'' @ (b @ '','' @ js_string ''tx_id'' @ '':'' @ js_string u @ ''}'')"
    using ab by (simp add: assms(2) details_text_def join_with_def)
  then have "\<exists>a b. le_message (log_event ts r) = a @ ''FAIL'' @ b"
    unfolding log_event_def LogEvent.select_convs by (metis append_assoc)
  then have "str_includes (le_message (log_event ts r)) ''FAIL''" using str_includes_middle by metis
  then show ?thesis
    using usual_level [of "al_action r"] assms(1)
    by (simp add: failed_dpop_def threats_blocked_def poll_logs_def Let_def log_event_def gateway_actions_def)
qed

section \<open>Polling\<close>

text \<open>The three answers of a round touch different parts of the page: in whatever order they come, the
  page is the one the code's own order makes.\<close>

lemma polls_commute:
  "e \<in> set (fetchData now m l c) \<Longrightarrow> e' \<in> set (fetchData now m l c) \<Longrightarrow> page_step ts e \<circ> page_step ts e' = page_step ts e' \<circ> page_step ts e"
  by (rule ext) (auto simp: fetchData_def poll_metrics_def poll_logs_def poll_certs_def Let_def split: sum.split)

lemma round_order_irrelevant:
  assumes "mset es = mset (fetchData now m l c)"
  shows "fold (page_step ts) es p = fold (page_step ts) (fetchData now m l c) p"
proof -
  have "set es = set (fetchData now m l c)" using assms by (rule mset_eq_setD)
  then have "fold (page_step ts) es = fold (page_step ts) (fetchData now m l c)"
    using assms polls_commute [of _ now m l c] by (intro fold_multiset_equiv) auto
  then show ?thesis by simp
qed

end
