(* ===== verification/Spec2Isabelle.thy ===== *)
theory Spec2Isabelle
  imports Sha256_Test BenchmarkRun Restart DashboardPanels DashboardFacts
begin

text \<open>
  A verification development for the zero-trust FAPI demonstrator: an identity provider, an API
  gateway, a ledger in PostgreSQL and a monitoring dashboard.

  \<^bold>\<open>The program.\<close>  A client obtains an authorization code and then a DPoP-bound access token from
  the identity provider (\<^verbatim>\<open>idp/\<close>), and calls the gateway (\<^verbatim>\<open>gateway/\<close>) with the token and a
  fresh proof.  The gateway checks the proof, its replay cache, the token against the
  provider's keys, the binding of token, key and network identity, and asks a policy service;
  its handlers read and write the ledger through row-level security, and every operation
  appends a hash-chained audit row (\<^verbatim>\<open>gateway/internal/audit/db.go\<close>, \<^verbatim>\<open>docker/postgres/init.sql\<close>).
  The dashboard (\<^verbatim>\<open>dashboard/src/app\<close>) reads the ledger as superuser and the gateway's metrics,
  re-checks the chain, runs a load test and simulates attacks; its page polls these routes.

  \<^bold>\<open>The theories.\<close>
  \<^item> \<open>Prelude\<close> (texts, numbers, JSON, instants), \<open>Machine\<close> (the locales \<open>machine\<close>, \<open>logged_machine\<close>
    and \<open>concern\<close>: invariants of runs, append-only logs, parts of a state that other events do
    not touch), \<open>Encoding\<close> (hexadecimal, base64url, the locale \<open>codec\<close>), \<open>Sha256\<close> with its
    test vectors in \<open>Sha256_Test\<close>, \<open>Web\<close> (requests, responses, the JWT library as a
    parameter), \<open>Js\<close> (\<open>JSON.stringify\<close>, \<open>fetch\<close>, \<open>toFixed\<close>),
    \<open>UrlCode\<close> (forms and queries, percent-encoded), \<open>Fetch\<close> (the provider behind \<open>fetch\<close>).
  \<^item> \<open>Ledger\<close>, \<open>LedgerFacts\<close>, \<open>LedgerInterleaving\<close>: the tables, the policies, the triggers and the
    operations of \<open>DBClient\<close>; chains, atomicity and isolation of operations one after the
    other, and what overlapping transactions can do.
  \<^item> \<open>ReplayCache\<close> (\<^verbatim>\<open>auth/jti.go\<close>), with the locale \<open>replay_cache\<close>: the cache refines the full
    history of accepted identifiers; concurrent callers by a step relation.
    \<open>ConcurrentRequests\<close>: whole requests to the gateway that overlap at that cache.
  \<^item> \<open>Dpop\<close>, \<open>DpopFacts\<close>: thumbprints, the two verifiers, the client's generator.
  \<^item> \<open>IdpStore\<close>, \<open>Idp\<close>, \<open>IdpFacts\<close>: the in-memory store (locale \<open>code_store\<close>) and the endpoints.
  \<^item> \<open>Telemetry\<close>, \<open>MetricsRoute\<close>: the gateway's metrics and the route that reads them back.
  \<^item> \<open>Gateway\<close>, \<open>GatewayFacts\<close>, \<open>GatewayRuns\<close>, \<open>EndToEnd\<close>: middleware, key cache, handlers and
    routes; one request, runs of requests, and client, provider and gateway together.
    \<open>Router\<close>: unclean paths at both servers.  \<open>PolicyWire\<close>: the messages to the policy service
    (\<^verbatim>\<open>pdpclient/pb\<close>).
  \<^item> \<open>DerJose\<close>, \<open>Benchmark\<close>, \<open>AttackRoute\<close>, \<open>CertsRoute\<close>, \<open>VerifyChain\<close>: the dashboard's routes;
    \<open>Exchange\<close>: a code and then a token from this provider, for any client; \<open>BenchmarkRun\<close>: the
    load test's exchange.
  \<^item> \<open>CommandLine\<close>, \<open>ClientRun\<close>: the command-line client (\<^verbatim>\<open>client/main.go\<close>) and whole runs of it
    against the provider and the gateway.
  \<^item> \<open>Startup\<close>, \<open>PolicyFile\<close>, \<open>Deployment\<close>: the provider's key file, OpenZiti contexts, the
    connection to the policy service, the gateway's \<open>main\<close>; \<^verbatim>\<open>policies.json\<close> and its engine; what
    a permission to read is worth, and servers that have started.  \<open>Restart\<close>: what survives a
    restart of the provider or of the gateway.
  \<^item> \<open>Dashboard\<close>, \<open>DashboardViews\<close>, \<open>DashboardPanels\<close>, \<open>DashboardFacts\<close>: the page as an event
    machine, what it renders, tab by tab, and what it shows of the other components.

  \<^bold>\<open>How the model follows the code.\<close>  Go structs and the page's state are records; handlers take
  the request and the state and return the response and the new state, early returns as
  branches, errors as values; JSON members keep their order.  Clocks, random bytes, key
  generation, signatures, the policy service, PostgreSQL's own functions and X.509 parsing
  are arguments.  The JWT library is a record of functions; theorems about it assume
  \<open>jwt_lawful\<close>, its documented contract, which \<open>simple_jwt\<close> satisfies.  SHA-256 is executable
  and tested; no theorem assumes that it has no collisions: where that matters the conclusion
  is the property or an explicit collision.  Bytes and SHA-256 words have their width; times
  are nanoseconds (milliseconds in the dashboard) as integers; durations and amounts that
  are floating-point numbers in the code are exact rationals.  Texts are byte strings in
  UTF-8, and case conversion is that of ASCII.  All loops are structural recursions, so no
  fuel is used.

  \<^bold>\<open>What the theorems show.\<close>  The ledger stays chained per tenant, append-only and isolated under
  any requests, and forks only when transactions overlap; a proof or a token is accepted
  only if it is authentic, fresh, bound and not replayed, and honest clients get through; a
  code is redeemed at most once unless redemptions overlap; encodings, metrics and verdicts
  read back what was written; the page stays consistent in every interleaving and shows the
  routes' verdicts.  The command-line client, started with its default flags against servers
  that work, prints its tenant's balance, and its transfers arrive.  Of requests that overlap and carry the
  same proof, at most one reaches a handler; the answer of the policy service arrives as it was
  sent, and everything else denies; an unclean path is only redirected, and a handler that
  changes state runs under its exact path.
  A restart of the provider keeps its key and forgets its codes; a restart of the gateway forgets
  the proofs it has seen.  Several theorems state where the program does less than it says: the
  chain check of several tenants, the simulator's scenarios, the alarms of the dashboard, a
  permission to read that lets a client transfer, the shipped policy file.

  \<^bold>\<open>Not modelled.\<close>  Behind parameters: the OpenZiti SDK, the gRPC library (its connection is a
  function from messages to messages), the database driver, PEM and X.509.  Without logic of their own: log lines, the
  indentation of printed JSON, Docker files and scripts, the layout and build files of the
  dashboard (\<^verbatim>\<open>layout.tsx\<close>, \<^verbatim>\<open>next.config.ts\<close>).  Of the page: markup, styling and the drawing of
  charts.  Percent-encoded paths.  Not-a-number and infinite amounts, since
  floating-point numbers are rationals here.  Requests to the gateway overlap at the replay
  cache (\<open>ConcurrentRequests\<close>) and in the database (\<open>LedgerInterleaving\<close>); the rest of a request,
  from its token to its answer, is one step.
\<close>

end
